(* ===== verification/Prelude.thy ===== *)
theory Prelude
  imports Main "HOL-Library.Word"
begin

text \<open>
  Shared vocabulary of the development: the machine integer types of the C++ sources, the
  exceptions they throw, little-endian serialisation with the readers that undo it, and the
  facts about words and lists that several components use.
\<close>

unbundle bit_operations_syntax

type_synonym u8 = "8 word"
type_synonym u16 = "16 word"
type_synonym u32 = "32 word"
type_synonym u64 = "64 word"

named_theorems codec_simps \<open>how a reader consumes what the matching writer appended\<close>
named_theorems field_defs \<open>definitions unfolded to look at one field of a state\<close>

section \<open>Exceptions\<close>

text \<open>The two exception classes the cores throw, with the message of the \<open>throw\<close>.\<close>

datatype exn = Invalid_argument string | Runtime_error string

type_synonym 'a result = "exn + 'a"

section \<open>Masks\<close>

text \<open>A conjunction with a low mask keeps the low bits.\<close>

lemma and_low_mask:
  fixes w :: "'a::len word"
  assumes "m = 2 ^ n - 1"
  shows "w AND m = take_bit n w"
  using assms by (simp add: take_bit_eq_mask mask_eq_exp_minus_1)

lemma and_3: "(w :: 'a::len word) AND 3 = take_bit 2 w"
  by (rule and_low_mask) simp

lemma and_7: "(w :: 'a::len word) AND 7 = take_bit 3 w"
  by (rule and_low_mask) simp

lemma and_15: "(w :: 'a::len word) AND 15 = take_bit 4 w"
  by (rule and_low_mask) simp

lemma and_31: "(w :: 'a::len word) AND 31 = take_bit 5 w"
  by (rule and_low_mask) simp

lemma and_63: "(w :: 'a::len word) AND 63 = take_bit 6 w"
  by (rule and_low_mask) simp

lemma and_127: "(w :: 'a::len word) AND 127 = take_bit 7 w"
  by (rule and_low_mask) simp

lemma and_255: "(w :: 'a::len word) AND 255 = take_bit 8 w"
  by (rule and_low_mask) simp

lemma and_4095: "(w :: 'a::len word) AND 0xFFF = take_bit 12 w"
  by (rule and_low_mask) simp

lemma and_8191: "(w :: 'a::len word) AND 0x1FFF = take_bit 13 w"
  by (rule and_low_mask) simp

lemma and_16383: "(w :: 'a::len word) AND 0x3FFF = take_bit 14 w"
  by (rule and_low_mask) simp

lemma and_32767: "(w :: 'a::len word) AND 0x7FFF = take_bit 15 w"
  by (rule and_low_mask) simp

lemma unat_take_bit: "unat (take_bit n w) = unat w mod 2 ^ n"
  by (simp only: unsigned_take_bit_eq) (simp add: take_bit_eq_mod)

lemma unat_u8_less: "unat (w :: u8) < 256"
proof -
  have "unat w < 2 ^ LENGTH(8)" by (rule unsigned_less)
  then show ?thesis by simp
qed

lemma unat_u16_less: "unat (w :: u16) < 65536"
proof -
  have "unat w < 2 ^ LENGTH(16)" by (rule unsigned_less)
  then show ?thesis by simp
qed

lemma unat_u32_less: "unat (w :: u32) < 2 ^ 32"
proof -
  have "unat w < 2 ^ LENGTH(32)" by (rule unsigned_less)
  then show ?thesis by simp
qed

lemma unat_ucast_u64:
  "unat (ucast (w :: u32) :: u64) = unat w" "unat (ucast (h :: u16) :: u64) = unat h"
  "unat (ucast (b :: u8) :: u64) = unat b"
  using unat_u32_less [of w] unat_u16_less [of h] unat_u8_less [of b]
  by (simp_all add: unsigned_ucast_eq take_bit_nat_eq_self)

section \<open>Bytes of a word\<close>

definition hi :: "u16 \<Rightarrow> u8" where
  "hi w = ucast (drop_bit 8 w)"

definition lo :: "u16 \<Rightarrow> u8" where
  "lo w = ucast (w AND 0x00FF)"

definition mk16 :: "u8 \<Rightarrow> u8 \<Rightarrow> u16" where
  "mk16 low high = ucast low OR push_bit 8 (ucast high)"

lemma lo_eq_ucast: "lo w = ucast w"
  by (rule bit_word_eqI) (auto simp: lo_def and_255 bit_simps)

lemma hi_mk16 [simp]: "hi (mk16 l h) = h"
  by (rule bit_word_eqI) (auto simp: hi_def mk16_def bit_simps dest: bit_imp_le_length)

lemma lo_mk16 [simp]: "lo (mk16 l h) = l"
  by (rule bit_word_eqI) (auto simp: lo_eq_ucast mk16_def bit_simps)

lemma mk16_lo_hi [simp]: "mk16 (lo w) (hi w) = w"
  by (rule bit_word_eqI) (auto simp: hi_def lo_eq_ucast mk16_def bit_simps not_less)

lemma mk16_eq_iff [simp]: "mk16 a b = mk16 c d \<longleftrightarrow> a = c \<and> b = d"
  by (metis hi_mk16 lo_mk16)

lemma word16_eq_iff_bytes: "v = w \<longleftrightarrow> lo v = lo w \<and> hi v = hi w"
  by (metis mk16_lo_hi)

section \<open>Readers\<close>

text \<open>
  The \<open>importState\<close> functions walk a byte vector with a position and throw when it runs
  out. A reader is that walk on the bytes that are left; a throw is the \<open>Inl\<close> branch.
\<close>

type_synonym 'a reader = "u8 list \<Rightarrow> exn + 'a \<times> u8 list"

definition rd_return :: "'a \<Rightarrow> 'a reader" where
  "rd_return a bs = Inr (a, bs)"

definition rd_bind :: "'a reader \<Rightarrow> ('a \<Rightarrow> 'b reader) \<Rightarrow> 'b reader" where
  "rd_bind p f bs = (case p bs of Inl e \<Rightarrow> Inl e | Inr (a, rest) \<Rightarrow> f a rest)"

definition rd_guard :: "bool \<Rightarrow> exn \<Rightarrow> unit reader" where
  "rd_guard ok e bs = (if ok then Inr ((), bs) else Inl e)"

fun rd_u8 :: "exn \<Rightarrow> u8 reader" where
  "rd_u8 e [] = Inl e"
| "rd_u8 e (b # bs) = Inr (b, bs)"

definition rd_bool :: "exn \<Rightarrow> exn \<Rightarrow> bool reader" where
  "rd_bool e e_bool = rd_bind (rd_u8 e) (\<lambda>v. if v > 1 then (\<lambda>_. Inl e_bool) else rd_return (v \<noteq> 0))"

definition rd_u16 :: "exn \<Rightarrow> u16 reader" where
  "rd_u16 e = rd_bind (rd_u8 e) (\<lambda>l. rd_bind (rd_u8 e) (\<lambda>h. rd_return (mk16 l h)))"

definition mk32 :: "u8 \<Rightarrow> u8 \<Rightarrow> u8 \<Rightarrow> u8 \<Rightarrow> u32" where
  "mk32 b0 b1 b2 b3 =
     ucast b0 OR push_bit 8 (ucast b1) OR push_bit 16 (ucast b2) OR push_bit 24 (ucast b3)"

definition rd_u32 :: "exn \<Rightarrow> u32 reader" where
  "rd_u32 e =
     rd_bind (rd_u8 e) (\<lambda>b0. rd_bind (rd_u8 e) (\<lambda>b1.
     rd_bind (rd_u8 e) (\<lambda>b2. rd_bind (rd_u8 e) (\<lambda>b3. rd_return (mk32 b0 b1 b2 b3)))))"

definition mk64 :: "u32 \<Rightarrow> u32 \<Rightarrow> u64" where
  "mk64 low high = ucast low OR push_bit 32 (ucast high)"

definition rd_u64 :: "exn \<Rightarrow> u64 reader" where
  "rd_u64 e = rd_bind (rd_u32 e) (\<lambda>l. rd_bind (rd_u32 e) (\<lambda>h. rd_return (mk64 l h)))"

definition rd_take :: "exn \<Rightarrow> nat \<Rightarrow> u8 list reader" where
  "rd_take e n bs = (if length bs < n then Inl e else Inr (take n bs, drop n bs))"

definition rd_at_end :: "bool reader" where
  "rd_at_end bs = Inr (bs = [], bs)"

definition rd_remaining :: "nat reader" where
  "rd_remaining bs = Inr (length bs, bs)"

fun rd_list :: "nat \<Rightarrow> 'a reader \<Rightarrow> 'a list reader" where
  "rd_list 0 p = rd_return []"
| "rd_list (Suc n) p = rd_bind p (\<lambda>a. rd_bind (rd_list n p) (\<lambda>as. rd_return (a # as)))"

definition rd_lift :: "'a result \<Rightarrow> 'a reader" where
  "rd_lift r bs = (case r of Inl e \<Rightarrow> Inl e | Inr a \<Rightarrow> Inr (a, bs))"

definition rd_run :: "'a reader \<Rightarrow> u8 list \<Rightarrow> 'a result" where
  "rd_run p bs = (case p bs of Inl e \<Rightarrow> Inl e | Inr (a, rest) \<Rightarrow> Inr a)"

text \<open>The writers, low byte first.\<close>

definition put_bool :: "bool \<Rightarrow> u8 list" where
  "put_bool b = [if b then 1 else 0]"

definition le16 :: "u16 \<Rightarrow> u8 list" where
  "le16 w = [ucast (w AND 0xFF), ucast (drop_bit 8 w AND 0xFF)]"

definition le32 :: "u32 \<Rightarrow> u8 list" where
  "le32 w = [ucast (w AND 0xFF), ucast (drop_bit 8 w AND 0xFF),
             ucast (drop_bit 16 w AND 0xFF), ucast (drop_bit 24 w AND 0xFF)]"

definition le64 :: "u64 \<Rightarrow> u8 list" where
  "le64 w = le32 (ucast (w AND 0xFFFFFFFF)) @ le32 (ucast (drop_bit 32 w AND 0xFFFFFFFF))"

lemma length_le [simp]:
  "length (put_bool b) = 1" "length (le16 h) = 2" "length (le32 w) = 4" "length (le64 d) = 8"
  by (simp_all add: put_bool_def le16_def le32_def le64_def)

lemma rd_bind_Inr: "p bs = Inr (a, rest) \<Longrightarrow> rd_bind p f bs = f a rest"
  by (simp add: rd_bind_def)

lemma rd_bind_Inl: "p bs = Inl e \<Longrightarrow> rd_bind p f bs = Inl e"
  by (simp add: rd_bind_def)

lemma rd_return_app [simp]: "rd_return a bs = Inr (a, bs)"
  by (simp add: rd_return_def)

lemma rd_guard_app [simp]: "rd_guard ok e bs = (if ok then Inr ((), bs) else Inl e)"
  by (simp add: rd_guard_def)

lemma rd_at_end_app [simp]: "rd_at_end bs = Inr (bs = [], bs)"
  by (simp add: rd_at_end_def)

lemma rd_remaining_app [simp]: "rd_remaining bs = Inr (length bs, bs)"
  by (simp add: rd_remaining_def)

lemma rd_run_Inr: "p bs = Inr (a, rest) \<Longrightarrow> rd_run p bs = Inr a"
  by (simp add: rd_run_def)

lemma rd_run_Inl: "p bs = Inl e \<Longrightarrow> rd_run p bs = Inl e"
  by (simp add: rd_run_def)

lemma rd_bind_Inr_E:
  assumes "rd_bind p f bs = Inr r"
  obtains a rest where "p bs = Inr (a, rest)" and "f a rest = Inr r"
  using assms by (auto simp: rd_bind_def split: sum.splits)

section \<open>Codecs\<close>

text \<open>
  The contract between a writer and its reader: reading consumes exactly what was written.
  Everything a state format needs (prefix freedom, unique decoding) follows from it.
\<close>

locale codec =
  fixes put :: "'a \<Rightarrow> u8 list" and get :: "'a reader" and ok :: "'a \<Rightarrow> bool"
  assumes get_put: "ok a \<Longrightarrow> get (put a @ bs) = Inr (a, bs)"
begin

lemma get_put_nil: "ok a \<Longrightarrow> get (put a) = Inr (a, [])"
  using get_put [of a "[]"] by simp

lemma get_put_bind: "ok a \<Longrightarrow> rd_bind get f (put a @ bs) = f a bs"
  by (simp add: get_put rd_bind_Inr)

lemma get_put_bind_nil: "ok a \<Longrightarrow> rd_bind get f (put a) = f a []"
  by (simp add: get_put_nil rd_bind_Inr)

lemma get_list:
  "\<forall>a \<in> set as. ok a \<Longrightarrow> rd_list (length as) get (concat (map put as) @ bs) = Inr (as, bs)"
  by (induction as) (simp_all add: get_put_bind rd_bind_Inr)

lemma prefix_free: "ok a \<Longrightarrow> ok b \<Longrightarrow> put a @ xs = put b @ ys \<Longrightarrow> a = b \<and> xs = ys"
  by (metis get_put sum.inject(2) prod.inject)

lemma put_inject: "ok a \<Longrightarrow> ok b \<Longrightarrow> put a = put b \<Longrightarrow> a = b"
  using prefix_free [of a b "[]" "[]"] by simp

end

lemma rd_u8_Cons [simp]: "rd_u8 e (b # bs) = Inr (b, bs)"
  by simp

interpretation bool_codec: codec put_bool "rd_bool e1 e2" "\<lambda>_. True" for e1 e2
  by unfold_locales (simp add: put_bool_def rd_bool_def rd_bind_Inr)

interpretation u8_codec: codec "\<lambda>b. [b]" "rd_u8 e" "\<lambda>_. True" for e
  by unfold_locales simp

lemma mk16_bytes: "mk16 (ucast (w AND 0xFF)) (ucast (drop_bit 8 w AND 0xFF)) = w"
  by (rule bit_word_eqI) (auto simp: mk16_def and_255 bit_simps not_less)

interpretation u16_codec: codec le16 "rd_u16 e" "\<lambda>_. True" for e
  by unfold_locales (simp add: le16_def rd_u16_def mk16_bytes rd_bind_Inr)

lemma bit_mk32:
  "bit (mk32 b0 b1 b2 b3) n \<longleftrightarrow>
     (if n < 8 then bit b0 n else if n < 16 then bit b1 (n - 8)
      else if n < 24 then bit b2 (n - 16) else n < 32 \<and> bit b3 (n - 24))"
  by (auto simp: mk32_def bit_simps not_less dest: bit_imp_le_length)

lemma mk32_bytes:
  "mk32 (ucast (w AND 0xFF)) (ucast (drop_bit 8 w AND 0xFF))
        (ucast (drop_bit 16 w AND 0xFF)) (ucast (drop_bit 24 w AND 0xFF)) = w"
  by (rule bit_word_eqI) (auto simp: bit_mk32 and_255 bit_simps not_less)

interpretation u32_codec: codec le32 "rd_u32 e" "\<lambda>_. True" for e
  by unfold_locales (simp add: le32_def rd_u32_def mk32_bytes rd_bind_Inr)

lemma and_32_ones: "(w :: 'a::len word) AND 0xFFFFFFFF = take_bit 32 w"
  by (rule and_low_mask) simp

lemma mk64_halves: "mk64 (ucast (w AND 0xFFFFFFFF)) (ucast (drop_bit 32 w AND 0xFFFFFFFF)) = w"
  by (rule bit_word_eqI) (auto simp: mk64_def and_32_ones bit_simps not_less)

interpretation u64_codec: codec le64 "rd_u64 e" "\<lambda>_. True" for e
  by unfold_locales (simp add: le64_def rd_u64_def u32_codec.get_put_bind mk64_halves)

interpretation take_codec: codec "\<lambda>xs. xs" "rd_take e n" "\<lambda>xs. length xs = n" for e n
  by unfold_locales (simp add: rd_take_def)

lemmas [codec_simps] =
  bool_codec.get_put bool_codec.get_put_nil u8_codec.get_put u8_codec.get_put_nil
  u16_codec.get_put u16_codec.get_put_nil u32_codec.get_put u32_codec.get_put_nil
  u64_codec.get_put u64_codec.get_put_nil take_codec.get_put take_codec.get_put_nil

text \<open>One step of a reader that is a chain of binds, on the bytes of a writer.\<close>

lemma rd_bind_guard: "rd_bind (rd_guard ok e) f bs = (if ok then f () bs else Inl e)"
  by (simp add: rd_bind_def)

lemma rd_bind_remaining: "rd_bind rd_remaining f bs = f (length bs) bs"
  by (simp add: rd_bind_def)

lemma rd_bind_at_end: "rd_bind rd_at_end f bs = f (bs = []) bs"
  by (simp add: rd_bind_def)

lemma rd_bind_u8_Cons: "rd_bind (rd_u8 e) f (b # bs) = f b bs"
  by (simp add: rd_bind_def)

lemma rd_bind_assoc: "rd_bind (rd_bind p f) g = rd_bind p (\<lambda>a. rd_bind (f a) g)"
  by (simp add: fun_eq_iff rd_bind_def split: sum.splits prod.splits)

lemma rd_bind_return: "rd_bind (rd_return a) f bs = f a bs"
  by (simp add: rd_bind_def)

lemma rd_bind_lift_Inr: "rd_bind (rd_lift (Inr a)) f bs = f a bs"
  by (simp add: rd_bind_def rd_lift_def)

lemmas reader_steps =
  rd_bind_lift_Inr
  rd_bind_guard rd_bind_remaining rd_bind_at_end rd_bind_u8_Cons rd_bind_return rd_bind_assoc
  bool_codec.get_put_bind bool_codec.get_put_bind_nil
  u16_codec.get_put_bind u16_codec.get_put_bind_nil
  u32_codec.get_put_bind u32_codec.get_put_bind_nil
  u64_codec.get_put_bind u64_codec.get_put_bind_nil
  take_codec.get_put_bind take_codec.get_put_bind_nil
  rd_run_def

lemma unat_of_nat_u32: "n < 2 ^ 32 \<Longrightarrow> unat (of_nat n :: u32) = n"
  by (simp add: unat_of_nat take_bit_nat_eq_self)

lemma unat_of_nat_u16: "n < 2 ^ 16 \<Longrightarrow> unat (of_nat n :: u16) = n"
  by (simp add: unat_of_nat take_bit_nat_eq_self)

text \<open>An exact codec also accepts nothing but what its writer produces.\<close>

locale exact_codec = codec put get ok
  for put :: "'a \<Rightarrow> u8 list" and get :: "'a reader" and ok :: "'a \<Rightarrow> bool" +
  assumes get_exact: "get bs = Inr (a, rest) \<Longrightarrow> ok a \<and> bs = put a @ rest"
begin

lemma get_iff: "get bs = Inr (a, rest) \<longleftrightarrow> ok a \<and> bs = put a @ rest"
  using get_put get_exact by blast

lemma bind_exact:
  assumes "rd_bind get f bs = Inr r"
  obtains a rest where "ok a" and "bs = put a @ rest" and "f a rest = Inr r"
  using assms get_exact by (elim rd_bind_Inr_E) blast

end

interpretation u8_exact: exact_codec "\<lambda>b. [b]" "rd_u8 e" "\<lambda>_. True" for e
  by unfold_locales (auto elim: rd_u8.elims)

lemma mk32_byte:
  "ucast (mk32 a b c d AND 0xFF) = a" "ucast (drop_bit 8 (mk32 a b c d) AND 0xFF) = b"
  "ucast (drop_bit 16 (mk32 a b c d) AND 0xFF) = c" "ucast (drop_bit 24 (mk32 a b c d) AND 0xFF) = d"
  by (rule bit_word_eqI; simp add: and_255 bit_simps bit_mk32)+

lemma mk32_le32: "le32 (mk32 a b c d) = [a, b, c, d]"
  by (simp add: le32_def mk32_byte)

interpretation u32_exact: exact_codec le32 "rd_u32 e" "\<lambda>_. True" for e
proof
  fix bs rest a
  assume "rd_u32 e bs = Inr (a, rest)"
  then show "True \<and> bs = le32 a @ rest"
    unfolding rd_u32_def by (auto elim!: u8_exact.bind_exact simp: mk32_le32)
qed

interpretation take_exact: exact_codec "\<lambda>xs. xs" "rd_take e n" "\<lambda>xs. length xs = n" for e n
  by unfold_locales (auto simp: rd_take_def split: if_splits)

section \<open>State codecs\<close>

text \<open>
  The contract of a component's \<open>exportState\<close> and \<open>importState\<close>. Importing is a method
  of a receiving object \<open>t\<close>, which keeps what the state does not carry (a loaded ROM, say):
  \<open>fits t s\<close> says that \<open>t\<close> accepts a state exported by \<open>s\<close>, and \<open>restored t s\<close> is
  what it becomes. A failed import is a throw before the first assignment, so it is an
  \<open>Inl\<close> with no successor state.
\<close>

locale state_codec =
  fixes export :: "'s \<Rightarrow> u8 list"
    and import_of :: "'s \<Rightarrow> u8 list \<Rightarrow> 's result"
    and ok :: "'s \<Rightarrow> bool"
    and fits :: "'s \<Rightarrow> 's \<Rightarrow> bool"
    and restored :: "'s \<Rightarrow> 's \<Rightarrow> 's"
  assumes import_export: "ok s \<Longrightarrow> fits t s \<Longrightarrow> import_of t (export s) = Inr (restored t s)"
    and export_restored: "ok s \<Longrightarrow> fits t s \<Longrightarrow> export (restored t s) = export s"
begin

lemma import_accepts: "ok s \<Longrightarrow> fits t s \<Longrightarrow> \<exists>u. import_of t (export s) = Inr u"
  by (simp add: import_export)

lemma reexport_same:
  "ok s \<Longrightarrow> fits t s \<Longrightarrow> import_of t (export s) = Inr u \<Longrightarrow> export u = export s"
  by (auto simp: import_export export_restored)

lemma equal_bytes_equal_restore:
  assumes "ok s" and "fits t s" and "ok s'" and "fits t s'" and "export s = export s'"
  shows "restored t s = restored t s'"
  using assms import_export [of s t] import_export [of s' t] by simp

end

end
