(* ===== verification/SpscQueue.thy ===== *)
theory SpscQueue
  imports Prelude
begin

text \<open>
  The lock-free queue of \<open>machine/FixedSpscQueue.hpp\<close>, by which the machine lane hands
  records to a consumer lane. \<open>push\<close> and \<open>pop\<close> are modelled twice: as one operation each,
  and as the three actions that the two lanes interleave. The counters are 64-bit and wrap; the
  release and acquire accesses make the actions of one lane visible to the other in order, so the
  interleavings are sequentially consistent.
\<close>

section \<open>The queue and its two operations\<close>

record 'a spsc =
  slots :: "'a list"
  head :: u64
  tail :: u64

text \<open>The capacity is a template argument; \<open>spsc_capacity\<close> is its \<open>static_assert\<close>, with the
  range of \<open>std::size_t\<close>.\<close>

definition spsc_capacity :: "nat \<Rightarrow> bool" where
  "spsc_capacity cap \<longleftrightarrow> 1 < cap \<and> cap dvd 2 ^ 64 \<and> cap < 2 ^ 64"

definition spsc_push :: "nat \<Rightarrow> 'a \<Rightarrow> 'a spsc \<Rightarrow> bool \<times> 'a spsc" where
  "spsc_push cap v q =
     (if head q - tail q = of_nat cap then (False, q)
      else (True, q\<lparr>slots := (slots q)[unat (head q) mod cap := v], head := head q + 1\<rparr>))"

definition spsc_pop :: "nat \<Rightarrow> 'a spsc \<Rightarrow> 'a option \<times> 'a spsc" where
  "spsc_pop cap q =
     (if tail q = head q then (None, q)
      else (Some (slots q ! (unat (tail q) mod cap)), q\<lparr>tail := tail q + 1\<rparr>))"

definition resetQuiescent :: "'a spsc \<Rightarrow> 'a spsc" where
  "resetQuiescent q = q\<lparr>head := 0, tail := 0\<rparr>"

section \<open>Interleaving\<close>

datatype 'a producer = PIdle | PChecked 'a | PStored 'a
datatype 'a consumer = CIdle | CChecked | CLoaded 'a

text \<open>A run also records what has been published and what has been returned to the consumer.\<close>

record 'a run =
  queue :: "'a spsc"
  prod :: "'a producer"
  cons :: "'a consumer"
  pushed :: "'a list"
  popped :: "'a list"

inductive spsc_step :: "nat \<Rightarrow> 'a run \<Rightarrow> 'a run \<Rightarrow> bool" for cap where
  push_full: "prod r = PIdle \<Longrightarrow> head (queue r) - tail (queue r) = of_nat cap \<Longrightarrow> spsc_step cap r r"
| push_check: "prod r = PIdle \<Longrightarrow> head (queue r) - tail (queue r) \<noteq> of_nat cap \<Longrightarrow>
    spsc_step cap r (r\<lparr>prod := PChecked v\<rparr>)"
| push_store: "prod r = PChecked v \<Longrightarrow>
    spsc_step cap r (r\<lparr>prod := PStored v,
      queue := (queue r)\<lparr>slots := (slots (queue r))[unat (head (queue r)) mod cap := v]\<rparr>\<rparr>)"
| push_publish: "prod r = PStored v \<Longrightarrow>
    spsc_step cap r (r\<lparr>prod := PIdle, queue := (queue r)\<lparr>head := head (queue r) + 1\<rparr>,
      pushed := pushed r @ [v]\<rparr>)"
| pop_empty: "cons r = CIdle \<Longrightarrow> tail (queue r) = head (queue r) \<Longrightarrow> spsc_step cap r r"
| pop_check: "cons r = CIdle \<Longrightarrow> tail (queue r) \<noteq> head (queue r) \<Longrightarrow>
    spsc_step cap r (r\<lparr>cons := CChecked\<rparr>)"
| pop_load: "cons r = CChecked \<Longrightarrow>
    spsc_step cap r (r\<lparr>cons := CLoaded (slots (queue r) ! (unat (tail (queue r)) mod cap))\<rparr>)"
| pop_release: "cons r = CLoaded v \<Longrightarrow>
    spsc_step cap r (r\<lparr>cons := CIdle, queue := (queue r)\<lparr>tail := tail (queue r) + 1\<rparr>,
      popped := popped r @ [v]\<rparr>)"

definition spsc_start :: "nat \<Rightarrow> 'a \<Rightarrow> 'a run" where
  "spsc_start cap x = \<lparr>queue = \<lparr>slots = replicate cap x, head = 0, tail = 0\<rparr>, prod = PIdle,
     cons = CIdle, pushed = [], popped = []\<rparr>"

section \<open>Invariant\<close>

definition spsc_inv :: "nat \<Rightarrow> 'a run \<Rightarrow> bool" where
  "spsc_inv cap r \<longleftrightarrow>
     (let q = queue r; h = length (pushed r); t = length (popped r) in
      length (slots q) = cap \<and> head q = of_nat h \<and> tail q = of_nat t \<and> t \<le> h \<and> h - t \<le> cap \<and>
      take t (pushed r) = popped r \<and>
      (\<forall>i. t \<le> i \<and> i < h \<longrightarrow> slots q ! (i mod cap) = pushed r ! i) \<and>
      (prod r \<noteq> PIdle \<longrightarrow> h - t < cap) \<and>
      (\<forall>v. prod r = PStored v \<longrightarrow> slots q ! (h mod cap) = v) \<and>
      (cons r \<noteq> CIdle \<longrightarrow> t < h) \<and>
      (\<forall>v. cons r = CLoaded v \<longrightarrow> pushed r ! t = v))"

lemma unat_of_nat_mod_cap:
  assumes "spsc_capacity cap"
  shows "unat (of_nat n :: u64) mod cap = n mod cap"
proof -
  have "unat (of_nat n :: u64) = n mod 2 ^ 64"
    by (simp add: unat_of_nat take_bit_eq_mod)
  then show ?thesis
    using assms by (simp add: spsc_capacity_def mod_mod_cancel)
qed

lemma of_nat_diff_u64: "t \<le> h \<Longrightarrow> (of_nat h :: u64) - of_nat t = of_nat (h - t)"
  by (simp add: of_nat_diff)

lemma of_nat_u64_eq:
  assumes "m < 2 ^ 64" and "n < 2 ^ 64"
  shows "(of_nat m :: u64) = of_nat n \<longleftrightarrow> m = n"
  using assms by (simp add: word_of_nat_eq_iff take_bit_nat_eq_self)

lemma mod_window_inj:
  assumes "t \<le> i" and "i < j" and "j - t < (cap :: nat)"
  shows "i mod cap \<noteq> j mod cap"
proof
  assume "i mod cap = j mod cap"
  then have "cap dvd j - i" using assms by (metis mod_eq_dvd_iff_nat less_imp_le)
  then have "cap \<le> j - i" using assms by (simp add: dvd_imp_le)
  then show False using assms by linarith
qed

lemma spsc_inv_start: "spsc_inv cap (spsc_start cap x)"
  by (simp add: spsc_inv_def spsc_start_def)

lemma spsc_inv_counts:
  assumes "spsc_inv cap r"
  shows "head (queue r) = of_nat (length (pushed r))" and "tail (queue r) = of_nat (length (popped r))"
    and "length (popped r) \<le> length (pushed r)" and "length (pushed r) - length (popped r) \<le> cap"
    and "length (slots (queue r)) = cap"
  using assms unfolding spsc_inv_def Let_def by blast+

lemma spsc_full_iff:
  assumes "spsc_capacity cap" and "spsc_inv cap r"
  shows "head (queue r) - tail (queue r) = of_nat cap \<longleftrightarrow> length (pushed r) - length (popped r) = cap"
proof -
  have "cap < 2 ^ 64" using assms(1) by (simp add: spsc_capacity_def)
  moreover note spsc_inv_counts [OF assms(2)]
  ultimately show ?thesis
    by (metis of_nat_diff_u64 of_nat_u64_eq le_less_trans)
qed

lemma spsc_empty_iff:
  assumes "spsc_capacity cap" and "spsc_inv cap r"
  shows "tail (queue r) = head (queue r) \<longleftrightarrow> length (pushed r) = length (popped r)"
proof -
  let ?n = "length (pushed r) - length (popped r)"
  note c = spsc_inv_counts [OF assms(2)]
  have "?n < 2 ^ 64" using c(4) assms(1) by (simp add: spsc_capacity_def)
  then have "(of_nat ?n :: u64) = of_nat 0 \<longleftrightarrow> ?n = 0"
    by (intro of_nat_u64_eq) simp_all
  moreover have "head (queue r) - tail (queue r) = of_nat ?n"
    using c(1-3) by (simp only: of_nat_diff_u64)
  ultimately have "head (queue r) - tail (queue r) = 0 \<longleftrightarrow> ?n = 0" by simp
  then show ?thesis using c(3) by auto
qed

lemma spsc_inv_step:
  assumes cap: "spsc_capacity cap" and inv: "spsc_inv cap r" and step: "spsc_step cap r r'"
  shows "spsc_inv cap r'"
proof -
  have idx: "unat (of_nat n :: u64) mod cap = n mod cap" for n
    using cap by (rule unat_of_nat_mod_cap)
  have pos: "0 < cap" using cap by (simp add: spsc_capacity_def)
  from step show ?thesis
  proof cases
    case (push_check v)
    then show ?thesis
      using inv spsc_full_iff [OF cap inv] by (simp add: spsc_inv_def Let_def)
  next
    case (push_store v)
    have "length (pushed r) mod cap \<noteq> i mod cap"
      if "length (popped r) \<le> i" "i < length (pushed r)" for i
      using mod_window_inj [OF that, of cap] inv push_store
      by (auto simp: spsc_inv_def Let_def)
    then show ?thesis
      using inv push_store pos by (auto simp: spsc_inv_def Let_def idx nth_list_update)
  next
    case (push_publish v)
    then show ?thesis
      using inv pos by (auto simp: spsc_inv_def Let_def nth_append less_Suc_eq Suc_diff_le)
  next
    case pop_check
    then show ?thesis
      using inv spsc_empty_iff [OF cap inv] by (auto simp: spsc_inv_def Let_def)
  next
    case pop_load
    then show ?thesis
      using inv by (auto simp: spsc_inv_def Let_def idx)
  next
    case (pop_release v)
    then show ?thesis
      using inv by (auto simp: spsc_inv_def Let_def take_Suc_conv_app_nth)
  qed (use inv in simp_all)
qed

lemma spsc_reachable_inv:
  assumes "spsc_capacity cap" and "(spsc_step cap)\<^sup>*\<^sup>* (spsc_start cap x) r"
  shows "spsc_inv cap r"
  using assms(2)
  by (induction rule: rtranclp_induct) (auto simp: spsc_inv_start intro: spsc_inv_step [OF assms(1)])

section \<open>The bounded queue it implements\<close>

datatype 'a qop = Push 'a | Pop

datatype 'a qres = Pushed bool | Popped "'a option"

fun run_ops :: "('a \<Rightarrow> 'q \<Rightarrow> bool \<times> 'q) \<Rightarrow> ('q \<Rightarrow> 'a option \<times> 'q) \<Rightarrow> 'a qop list \<Rightarrow> 'q \<Rightarrow> 'a qres list" where
  "run_ops enq deq [] q = []"
| "run_ops enq deq (Push v # ops) q = (case enq v q of (b, q') \<Rightarrow> Pushed b # run_ops enq deq ops q')"
| "run_ops enq deq (Pop # ops) q = (case deq q of (r, q') \<Rightarrow> Popped r # run_ops enq deq ops q')"

definition list_enq :: "nat \<Rightarrow> 'a \<Rightarrow> 'a list \<Rightarrow> bool \<times> 'a list" where
  "list_enq cap v xs = (if length xs = cap then (False, xs) else (True, xs @ [v]))"

definition list_deq :: "'a list \<Rightarrow> 'a option \<times> 'a list" where
  "list_deq xs = (case xs of [] \<Rightarrow> (None, []) | x # xs' \<Rightarrow> (Some x, xs'))"

text \<open>What a client of a bounded FIFO queue relies on: the operations simulate those on lists.\<close>

locale bounded_queue =
  fixes enq :: "'a \<Rightarrow> 'q \<Rightarrow> bool \<times> 'q"
    and deq :: "'q \<Rightarrow> 'a option \<times> 'q"
    and items :: "'q \<Rightarrow> 'a list"
    and ok :: "'q \<Rightarrow> bool"
    and cap :: nat
  assumes enq_sim: "ok q \<Longrightarrow> enq v q = (b, q') \<Longrightarrow> ok q' \<and> list_enq cap v (items q) = (b, items q')"
    and deq_sim: "ok q \<Longrightarrow> deq q = (r, q') \<Longrightarrow> ok q' \<and> list_deq (items q) = (r, items q')"
begin

lemma run_sim: "ok q \<Longrightarrow> run_ops enq deq ops q = run_ops (list_enq cap) list_deq ops (items q)"
proof (induction ops arbitrary: q)
  case (Cons op ops)
  show ?case
  proof (cases op)
    case (Push v)
    obtain b q' where e: "enq v q = (b, q')" by fastforce
    then show ?thesis using Push enq_sim [OF Cons.prems e] Cons.IH [of q'] by simp
  next
    case Pop
    obtain r q' where d: "deq q = (r, q')" by fastforce
    then show ?thesis using Pop deq_sim [OF Cons.prems d] Cons.IH [of q'] by simp
  qed
qed simp

end

definition spsc_ok :: "nat \<Rightarrow> 'a spsc \<Rightarrow> bool" where
  "spsc_ok cap q \<longleftrightarrow> spsc_capacity cap \<and> length (slots q) = cap \<and> unat (head q - tail q) \<le> cap"

definition spsc_items :: "nat \<Rightarrow> 'a spsc \<Rightarrow> 'a list" where
  "spsc_items cap q =
     map (\<lambda>i. slots q ! ((unat (tail q) + i) mod cap)) [0..<unat (head q - tail q)]"

lemma unat_add_mod_cap:
  assumes "spsc_capacity cap"
  shows "unat (t + of_nat i :: u64) mod cap = (unat t + i) mod cap"
proof -
  have "unat (t + of_nat i) = (unat t + i) mod 2 ^ 64"
    by (simp add: unat_word_ariths unat_of_nat take_bit_eq_mod mod_add_right_eq)
  then show ?thesis
    using assms by (simp add: spsc_capacity_def mod_mod_cancel)
qed

lemma word_eq_of_nat_iff:
  assumes "c < 2 ^ 64"
  shows "(x :: u64) = of_nat c \<longleftrightarrow> unat x = c"
proof
  assume "unat x = c"
  then have "of_nat (unat x) = (of_nat c :: u64)" by simp
  then show "x = of_nat c" by simp
qed (use assms in \<open>simp add: unat_of_nat take_bit_nat_eq_self\<close>)

lemma unat_plus_1_u64: "unat (w :: u64) < 2 ^ 64 - 1 \<Longrightarrow> unat (w + 1) = Suc (unat w)"
  by (simp add: unat_word_ariths)

lemma unat_minus_1_u64: "w \<noteq> 0 \<Longrightarrow> unat (w - 1 :: u64) = unat w - 1"
  by (simp add: unat_minus_one)

lemma spsc_push_sim:
  assumes ok: "spsc_ok cap q" and push: "spsc_push cap v q = (b, q')"
  shows "spsc_ok cap q' \<and> list_enq cap v (spsc_items cap q) = (b, spsc_items cap q')"
proof -
  let ?n = "unat (head q - tail q)"
  have cap: "spsc_capacity cap" "cap < 2 ^ 64" "0 < cap" "?n \<le> cap" "length (slots q) = cap"
    using ok by (auto simp: spsc_ok_def spsc_capacity_def)
  have full: "head q - tail q = of_nat cap \<longleftrightarrow> ?n = cap"
    using cap(2) by (rule word_eq_of_nat_iff)
  show ?thesis
  proof (cases "?n = cap")
    case True
    then show ?thesis
      using push ok full by (auto simp: spsc_push_def list_enq_def spsc_items_def)
  next
    case False
    then have n: "?n < cap" using cap(4) by simp
    have q': "b" "q' = q\<lparr>slots := (slots q)[unat (head q) mod cap := v], head := head q + 1\<rparr>"
      using push full False by (auto simp: spsc_push_def)
    have e: "head q + 1 - tail q = (head q - tail q) + 1" by simp
    have "?n < 2 ^ 64 - 1" using n cap(2) by simp
    then have n': "unat (head q + 1 - tail q) = Suc ?n"
      unfolding e by (rule unat_plus_1_u64)
    have hd: "unat (head q) mod cap = (unat (tail q) + ?n) mod cap"
      using unat_add_mod_cap [OF cap(1), of "tail q" ?n] by simp
    have other: "(unat (tail q) + i) mod cap \<noteq> unat (head q) mod cap" if "i < ?n" for i
      unfolding hd using n that by (intro mod_window_inj [of "unat (tail q)"]) auto
    have "spsc_items cap q' = spsc_items cap q @ [v]"
      using other [THEN not_sym] cap(3,5) hd by (auto simp: spsc_items_def q'(2) n')
    then show ?thesis
      using q' n n' cap by (simp add: spsc_ok_def list_enq_def spsc_items_def)
  qed
qed

lemma spsc_pop_sim:
  assumes ok: "spsc_ok cap q" and pop: "spsc_pop cap q = (r, q')"
  shows "spsc_ok cap q' \<and> list_deq (spsc_items cap q) = (r, spsc_items cap q')"
proof (cases "tail q = head q")
  case True
  then show ?thesis
    using ok pop by (auto simp: spsc_pop_def list_deq_def spsc_items_def)
next
  case False
  let ?n = "unat (head q - tail q)"
  have q': "r = Some (slots q ! (unat (tail q) mod cap))" "q' = q\<lparr>tail := tail q + 1\<rparr>"
    using pop False by (auto simp: spsc_pop_def)
  have cap: "spsc_capacity cap" using ok by (simp add: spsc_ok_def)
  have d: "head q - tail q \<noteq> 0" using False by auto
  have "head q - (tail q + 1) = head q - tail q - 1" by simp
  then have n': "unat (head q - (tail q + 1)) = ?n - 1"
    using unat_minus_1_u64 [OF d] by (simp only:)
  have pos: "?n = Suc (?n - 1)" using d by (simp add: unat_gt_0)
  have idx: "(unat (tail q + 1) + i) mod cap = (unat (tail q) + Suc i) mod cap" for i
    using unat_add_mod_cap [OF cap, of "tail q" 1] by (simp add: mod_add_cong)
  have "spsc_items cap q = map (\<lambda>i. slots q ! ((unat (tail q) + i) mod cap)) [0..<Suc (?n - 1)]"
    using pos by (simp add: spsc_items_def)
  also have "\<dots> = slots q ! (unat (tail q) mod cap) # spsc_items cap q'"
    by (simp add: spsc_items_def q'(2) n' idx map_upt_Suc del: upt_Suc)
  finally show ?thesis
    using ok q' n' by (auto simp: spsc_ok_def list_deq_def)
qed

interpretation spsc: bounded_queue "spsc_push cap" "spsc_pop cap" "spsc_items cap" "spsc_ok cap" cap for cap
  by unfold_locales (erule (1) spsc_push_sim spsc_pop_sim)+

lemma rtranclp_three: "R a b \<Longrightarrow> R b c \<Longrightarrow> R c d \<Longrightarrow> R\<^sup>*\<^sup>* a d"
  by (meson rtranclp.rtrancl_into_rtrancl rtranclp.rtrancl_refl)

section \<open>Properties\<close>

text \<open>C8: Safety of the lock-free queue under every interleaving of its producer and consumer
  actions: what the consumer has received is always a prefix of what the producer has published,
  nothing is lost, duplicated, reordered or overwritten, and at most the capacity is in flight,
  also after the 64-bit counters have wrapped.\<close>

theorem spsc_fifo_under_interleaving:
  assumes "spsc_capacity cap" and "(spsc_step cap)\<^sup>*\<^sup>* (spsc_start cap x) r"
  shows "popped r = take (length (popped r)) (pushed r) \<and>
    length (popped r) \<le> length (pushed r) \<and> length (pushed r) - length (popped r) \<le> cap \<and>
    (\<forall>i. length (popped r) \<le> i \<and> i < length (pushed r) \<longrightarrow>
       slots (queue r) ! (i mod cap) = pushed r ! i)"
  using spsc_reachable_inv [OF assms] unfolding spsc_inv_def Let_def by metis

theorem spsc_fifo_under_interleaving_witness:
  "\<exists>r. (spsc_step 2)\<^sup>*\<^sup>* (spsc_start 2 (0 :: nat)) r \<and> pushed r = [7] \<and> slots (queue r) ! 0 = 7"
proof -
  let ?r1 = "(spsc_start 2 (0 :: nat))\<lparr>prod := PChecked 7\<rparr>"
  let ?r2 = "?r1\<lparr>prod := PStored 7,
      queue := (queue ?r1)\<lparr>slots := (slots (queue ?r1))[unat (head (queue ?r1)) mod 2 := 7]\<rparr>\<rparr>"
  let ?r3 = "?r2\<lparr>prod := PIdle, queue := (queue ?r2)\<lparr>head := head (queue ?r2) + 1\<rparr>,
      pushed := pushed ?r2 @ [7]\<rparr>"
  have "spsc_step 2 (spsc_start 2 0) ?r1"
    by (rule push_check) (simp_all add: spsc_start_def)
  moreover have "spsc_step 2 ?r1 ?r2" by (rule push_store) simp
  moreover have "spsc_step 2 ?r2 ?r3" by (rule push_publish) simp
  ultimately have "(spsc_step 2)\<^sup>*\<^sup>* (spsc_start 2 0) ?r3" by (rule rtranclp_three)
  moreover have "spsc_capacity 2" by (simp add: spsc_capacity_def)
  ultimately show ?thesis
    using spsc_fifo_under_interleaving [of 2 0 ?r3] by (intro exI [of _ ?r3]) (simp add: spsc_start_def)
qed

text \<open>C9: Functional refinement: any sequence of pushes and pops returns exactly what a FIFO list of
  the same capacity returns (refusals when full, \<open>nullopt\<close> when empty), for every position of the
  64-bit counters including their wrap-around.\<close>

theorem spsc_refines_list_queue:
  assumes "spsc_ok cap q"
  shows "run_ops (spsc_push cap) (spsc_pop cap) ops q = run_ops (list_enq cap) list_deq ops (spsc_items cap q)"
  using assms by (rule spsc.run_sim)

theorem spsc_refines_list_queue_witness:
  "run_ops (spsc_push 2) (spsc_pop 2) [Push 1, Push 2, Push 3, Pop, Push 4, Pop]
     \<lparr>slots = [0, 0 :: nat], head = -1, tail = -1\<rparr> =
   [Pushed True, Pushed True, Pushed False, Popped (Some 1), Pushed True, Popped (Some 2)]"
  using spsc_refines_list_queue [of 2 "\<lparr>slots = [0, 0 :: nat], head = -1, tail = -1\<rparr>"
      "[Push 1, Push 2, Push 3, Pop, Push 4, Pop]"]
  by (simp add: spsc_ok_def spsc_capacity_def spsc_items_def list_enq_def list_deq_def)

end
