(* ===== verification/SaveState.thy ===== *)
theory SaveState
  imports Prelude
begin

text \<open>
  The save-state container of \<open>machine/SaveState.{hpp,cpp}\<close>: a header, named chunks and an
  optional CRC-32 trailer. A file is its list of bytes, a \<open>std::string\<close> of bytes is a byte
  list, and the write protocol (temporary file, then rename) runs on a map from paths to
  contents with the faults of the file system as an argument.
\<close>

section \<open>Format\<close>

definition bytes_of :: "string \<Rightarrow> u8 list" where
  "bytes_of s = map of_char s"

definition kSaveStateMagic :: "u8 list" where "kSaveStateMagic = bytes_of ''PTIME''"
definition kSaveStateVersion :: u32 where "kSaveStateVersion = 1"
definition kCoreId_GameBoy :: u32 where "kCoreId_GameBoy = 0x01"
definition kCoreId_GameGear :: u32 where "kCoreId_GameGear = 0x02"

text \<open>\<open>SaveStateChecksum\<close> is an enum over \<open>uint32_t\<close>; a cast can give it any value.\<close>

definition checksum_None :: u32 where "checksum_None = 0"
definition checksum_Crc32 :: u32 where "checksum_Crc32 = 1"

record SaveStateHeader =
  magic :: "u8 list"
  version :: u32
  core_id :: u32
  rom_hash :: u32
  checksum_mode :: u32
  chunk_count :: u32

record SaveStateChunk =
  chunk_name :: "u8 list"
  chunk_size :: u32
  chunk_data :: "u8 list"

record SaveStateFile =
  header :: SaveStateHeader
  chunks :: "SaveStateChunk list"
  file_checksum :: u32

definition kChunkNameSize :: nat where "kChunkNameSize = 32"
definition kMaxChunkSize :: nat where "kMaxChunkSize = 64 * 1024 * 1024"
definition kSerializedHeaderSize :: nat where "kSerializedHeaderSize = 25"
definition kSerializedChunkHeaderSize :: nat where "kSerializedChunkHeaderSize = 36"
definition kMaxChunkCount :: nat where "kMaxChunkCount = 4096"

section \<open>Checksum\<close>

definition crc_bit :: "u32 \<Rightarrow> u32" where
  "crc_bit crc = (if crc AND 1 \<noteq> 0 then drop_bit 1 crc XOR 0xEDB88320 else drop_bit 1 crc)"

definition crc_byte :: "u32 \<Rightarrow> u8 \<Rightarrow> u32" where
  "crc_byte crc b = (crc_bit ^^ 8) (crc XOR ucast b)"

definition crc32 :: "u8 list \<Rightarrow> u32" where
  "crc32 data = foldl crc_byte 0xFFFFFFFF data XOR 0xFFFFFFFF"

section \<open>Writing\<close>

definition writeHeaderBytes :: "SaveStateHeader \<Rightarrow> u8 list" where
  "writeHeaderBytes h = magic h @ le32 (version h) @ le32 (core_id h) @ le32 (rom_hash h) @
     le32 (checksum_mode h) @ le32 (chunk_count h)"

definition writeChunkBytes :: "SaveStateChunk \<Rightarrow> u8 list result" where
  "writeChunkBytes c =
     (if unat (chunk_size c) \<noteq> length (chunk_data c)
        then Inl (Runtime_error ''Chunk size does not match payload length'')
      else if length (chunk_name c) > kChunkNameSize
        then Inl (Runtime_error ''Chunk name exceeds 32 bytes'')
      else Inr (le32 (chunk_size c) @
        (chunk_name c @ replicate (kChunkNameSize - length (chunk_name c)) 0) @ chunk_data c))"

fun writeChunks :: "SaveStateChunk list \<Rightarrow> u8 list \<Rightarrow> u8 list result" where
  "writeChunks [] payload = Inr payload"
| "writeChunks (c # cs) payload =
     (case writeChunkBytes c of Inl e \<Rightarrow> Inl e | Inr bs \<Rightarrow> writeChunks cs (payload @ bs))"

text \<open>The bytes that \<open>write\<close> puts into the file.\<close>

definition ss_encode :: "SaveStateFile \<Rightarrow> u8 list result" where
  "ss_encode st =
     (let h = (header st)\<lparr>magic := kSaveStateMagic, version := kSaveStateVersion\<rparr> in
      if length (chunks st) > 0xFFFFFFFF then Inl (Runtime_error ''Too many save state chunks'')
      else
        (let h = h\<lparr>chunk_count := of_nat (length (chunks st))\<rparr> in
         (case writeChunks (chunks st) (writeHeaderBytes h) of
            Inl e \<Rightarrow> Inl e
          | Inr payload \<Rightarrow>
              Inr (payload @ (if checksum_mode h = checksum_Crc32 then le32 (crc32 payload) else [])))))"

type_synonym filesystem = "string \<rightharpoonup> u8 list"

text \<open>What the file system does: which calls fail, and what a failed write leaves behind.\<close>

record io_faults =
  open_fails :: bool
  write_fails :: bool
  close_fails :: bool
  rename_fails :: bool
  remove_fails :: bool
  left_behind :: "u8 list"
  rename_message :: string

definition ss_write :: "io_faults \<Rightarrow> SaveStateFile \<Rightarrow> string \<Rightarrow> filesystem \<Rightarrow> unit result \<times> filesystem" where
  "ss_write io st path fs =
     (case ss_encode st of
        Inl e \<Rightarrow> (Inl e, fs)
      | Inr bs \<Rightarrow>
          (let tempPath = path @ ''.tmp'' in
           if open_fails io then
             (Inl (Runtime_error (''Failed to open temp save state file: '' @ tempPath)), fs)
           else if write_fails io then
             (Inl (Runtime_error (''Failed to write save state file: '' @ tempPath)),
              fs(tempPath \<mapsto> left_behind io))
           else if close_fails io then
             (Inl (Runtime_error (''Failed to close temp save state file: '' @ tempPath)),
              fs(tempPath \<mapsto> left_behind io))
           else if rename_fails io then
             (Inl (Runtime_error (''Failed to rename save state into place: '' @ rename_message io)),
              if remove_fails io then fs(tempPath \<mapsto> bs) else fs(tempPath := None))
           else (Inr (), fs(tempPath := None, path \<mapsto> bs))))"

section \<open>Reading\<close>

definition ss_fail :: "string \<Rightarrow> exn" where
  "ss_fail fieldName = Runtime_error (''Failed to read save state '' @ fieldName)"

fun decimal :: "nat \<Rightarrow> string" where
  "decimal n = (if n < 10 then [char_of (48 + n)] else decimal (n div 10) @ [char_of (48 + n mod 10)])"

declare decimal.simps [simp del]

definition ss_read_header :: "SaveStateHeader reader" where
  "ss_read_header =
     rd_bind (rd_take (ss_fail ''magic'') 5) (\<lambda>m.
     rd_bind (rd_guard (m = kSaveStateMagic) (Runtime_error ''Invalid save state magic'')) (\<lambda>_.
     rd_bind (rd_u32 (ss_fail ''version'')) (\<lambda>v.
     rd_bind (rd_u32 (ss_fail ''core id'')) (\<lambda>c.
     rd_bind (rd_u32 (ss_fail ''ROM hash'')) (\<lambda>r.
     rd_bind (rd_u32 (ss_fail ''checksum mode'')) (\<lambda>k.
     rd_bind (rd_u32 (ss_fail ''chunk count'')) (\<lambda>n.
     rd_return \<lparr>magic = m, version = v, core_id = c, rom_hash = r, checksum_mode = k,
                chunk_count = n\<rparr>)))))))"

definition trailerSize :: "SaveStateHeader \<Rightarrow> nat" where
  "trailerSize h = (if checksum_mode h = checksum_Crc32 then 4 else 0)"

definition ss_check_header :: "nat \<Rightarrow> SaveStateHeader \<Rightarrow> unit reader" where
  "ss_check_header fileSize h =
     rd_bind (rd_guard (version h = kSaveStateVersion)
       (Runtime_error (''Unsupported save state version: '' @ decimal (unat (version h))))) (\<lambda>_.
     rd_bind (rd_guard (checksum_mode h = checksum_None \<or> checksum_mode h = checksum_Crc32)
       (Runtime_error ''Unsupported save state checksum mode'')) (\<lambda>_.
     rd_bind (rd_guard (unat (chunk_count h) \<le> kMaxChunkCount)
       (Runtime_error ''Save state chunk count is too large'')) (\<lambda>_.
     rd_bind (rd_guard (fileSize \<ge> kSerializedHeaderSize + trailerSize h)
       (Runtime_error ''Save state file is too short'')) (\<lambda>_.
     rd_guard (unat (chunk_count h) \<le>
         (fileSize - kSerializedHeaderSize - trailerSize h) div kSerializedChunkHeaderSize)
       (Runtime_error ''Save state chunk count exceeds file size'')))))"

definition ss_read_chunk :: "SaveStateChunk reader" where
  "ss_read_chunk =
     rd_bind (rd_u32 (ss_fail ''chunk size'')) (\<lambda>n.
     rd_bind (rd_guard (unat n \<le> kMaxChunkSize) (Runtime_error ''Save state chunk is too large'')) (\<lambda>_.
     rd_bind (rd_take (ss_fail ''chunk name'') kChunkNameSize) (\<lambda>encodedName.
     rd_bind (rd_take (ss_fail ''chunk data'') (unat n)) (\<lambda>d.
     rd_return \<lparr>chunk_name = takeWhile (\<lambda>b. b \<noteq> 0) encodedName, chunk_size = n, chunk_data = d\<rparr>))))"

text \<open>The loop over the chunks re-encodes each one into the payload that the checksum covers.\<close>

fun ss_read_chunks :: "nat \<Rightarrow> u8 list \<Rightarrow> (SaveStateChunk list \<times> u8 list) reader" where
  "ss_read_chunks 0 payload = rd_return ([], payload)"
| "ss_read_chunks (Suc n) payload =
     rd_bind ss_read_chunk (\<lambda>c.
     rd_bind (rd_lift (writeChunkBytes c)) (\<lambda>bs.
     rd_bind (ss_read_chunks n (payload @ bs)) (\<lambda>(cs, payload').
     rd_return (c # cs, payload'))))"

definition ss_read_tail :: "SaveStateHeader \<Rightarrow> SaveStateChunk list \<Rightarrow> u8 list \<Rightarrow> SaveStateFile reader" where
  "ss_read_tail h cs payload =
     rd_bind (if checksum_mode h = checksum_Crc32
              then rd_bind (rd_u32 (ss_fail ''checksum'')) (\<lambda>k.
                   rd_bind (rd_guard (crc32 payload = k)
                     (Runtime_error ''Save state checksum mismatch'')) (\<lambda>_. rd_return k))
              else rd_return 0) (\<lambda>k.
     rd_bind rd_at_end (\<lambda>end_reached.
     rd_bind (rd_guard end_reached (Runtime_error ''Save state contains trailing data'')) (\<lambda>_.
     rd_return \<lparr>header = h, chunks = cs, file_checksum = k\<rparr>)))"

definition ss_read_bytes :: "nat \<Rightarrow> SaveStateFile reader" where
  "ss_read_bytes fileSize =
     rd_bind ss_read_header (\<lambda>h.
     rd_bind (ss_check_header fileSize h) (\<lambda>_.
     rd_bind (ss_read_chunks (unat (chunk_count h)) (writeHeaderBytes h)) (\<lambda>(cs, payload).
     ss_read_tail h cs payload)))"

definition ss_decode :: "u8 list \<Rightarrow> SaveStateFile result" where
  "ss_decode bs = rd_run (ss_read_bytes (length bs)) bs"

definition ss_read :: "filesystem \<Rightarrow> string \<Rightarrow> SaveStateFile result" where
  "ss_read fs path =
     (case fs path of
        None \<Rightarrow> Inl (Runtime_error (''Failed to open save state file: '' @ path))
      | Some bs \<Rightarrow> ss_decode bs)"

definition ss_readForCore :: "filesystem \<Rightarrow> string \<Rightarrow> u32 \<Rightarrow> u8 list \<Rightarrow> SaveStateFile result" where
  "ss_readForCore fs path expectedCoreId expectedRomBytes =
     (if expectedCoreId = 0 then Inl (Invalid_argument ''expected core id must be set'')
      else
        (case ss_read fs path of
           Inl e \<Rightarrow> Inl e
         | Inr st \<Rightarrow>
             if core_id (header st) \<noteq> expectedCoreId
               then Inl (Invalid_argument ''save state is not compatible with this machine'')
             else if rom_hash (header st) \<noteq> 0 \<and> crc32 expectedRomBytes \<noteq> rom_hash (header st)
               then Inl (Invalid_argument ''save state ROM identity does not match the loaded ROM'')
             else Inr st))"

section \<open>The checksum is a linear feedback register\<close>

lemma bit_crc_bit: "bit (crc_bit x) n \<longleftrightarrow> bit x (Suc n) \<noteq> (bit x 0 \<and> bit (0xEDB88320 :: u32) n)"
proof -
  have "x AND 1 \<noteq> 0 \<longleftrightarrow> bit x 0"
    by (simp add: and_one_eq odd_iff_mod_2_eq_one bit_0)
  then show ?thesis
    by (auto simp: crc_bit_def bit_simps)
qed

lemma crc_bit_xor: "crc_bit (x XOR y) = crc_bit x XOR crc_bit y"
  by (rule bit_word_eqI) (auto simp: bit_crc_bit bit_simps)

lemma crc_bit_inject: "crc_bit x = crc_bit y \<longleftrightarrow> x = y"
proof
  assume e: "crc_bit x = crc_bit y"
  have top: "bit (crc_bit z) 31 = bit z 0" for z
    by (auto simp: bit_crc_bit dest: bit_imp_le_length)
  have z: "bit x 0 = bit y 0" using e top by metis
  have "bit x (Suc n) = bit y (Suc n)" for n
    using z arg_cong [OF e, of "\<lambda>w. bit w n"] by (auto simp: bit_crc_bit)
  then show "x = y" using z by (metis bit_eqI not0_implies_Suc)
qed simp

lemma crc_pow_xor: "(crc_bit ^^ n) (x XOR y) = (crc_bit ^^ n) x XOR (crc_bit ^^ n) y"
  by (induction n) (simp_all add: crc_bit_xor)

lemma crc_pow_inject: "(crc_bit ^^ n) x = (crc_bit ^^ n) y \<longleftrightarrow> x = y"
  by (induction n) (simp_all add: crc_bit_inject)

lemma xor_right_cancel: "x XOR z = y XOR z \<longleftrightarrow> x = (y :: 'a::len word)"
  by (metis xor.assoc xor.right_neutral xor_self_eq)

lemma crc_byte_inject: "crc_byte c b = crc_byte c' b \<longleftrightarrow> c = c'"
  by (simp add: crc_byte_def crc_pow_inject xor_right_cancel)

lemma crc_foldl_inject: "foldl crc_byte c xs = foldl crc_byte c' xs \<longleftrightarrow> c = c'"
  by (induction xs arbitrary: c c') (simp_all add: crc_byte_inject)


lemma crc_bit_push:
  assumes "k < 24"
  shows "crc_bit (push_bit (Suc k) (ucast (b :: u8))) = push_bit k (ucast b)"
proof (rule bit_word_eqI)
  fix n :: nat
  assume "n < LENGTH(32)"
  then show "bit (crc_bit (push_bit (Suc k) (ucast b))) n = bit (push_bit k (ucast b :: u32)) n"
    using assms
    by (auto simp: bit_crc_bit bit_simps Suc_diff_le simp del: push_bit_Suc dest: bit_imp_le_length)
qed

lemma crc_pow_push: "k \<le> 24 \<Longrightarrow> (crc_bit ^^ k) (push_bit k (ucast (b :: u8))) = ucast b"
proof (induction k)
  case (Suc k)
  then show ?case
    by (simp only: funpow_Suc_right o_apply) (simp only: crc_bit_push Suc_le_lessD less_imp_le_nat)
qed simp

lemma crc_next_byte:
  "k \<le> 24 \<Longrightarrow> crc_byte ((crc_bit ^^ k) x) b = (crc_bit ^^ (8 + k)) (x XOR push_bit k (ucast b))"
  by (simp only: crc_byte_def funpow_add o_apply crc_pow_xor crc_pow_push)

lemma mk32_xor:
  "mk32 a b d e = ucast a XOR push_bit 8 (ucast b) XOR push_bit 16 (ucast d) XOR push_bit 24 (ucast e)"
  by (rule bit_word_eqI) (auto simp: bit_mk32 bit_simps not_less dest: bit_imp_le_length)

lemma crc_four_bytes:
  "foldl crc_byte c [a, b, d, e] = (crc_bit ^^ 32) (c XOR mk32 a b d e)"
proof -
  have "crc_byte c a = (crc_bit ^^ 8) (c XOR ucast a)"
    by (simp add: crc_byte_def)
  then show ?thesis
    by (simp add: crc_next_byte mk32_xor xor.assoc del: funpow.simps)
qed

lemma mk32_inject: "mk32 a b c d = mk32 a' b' c' d' \<longleftrightarrow> a = a' \<and> b = b' \<and> c = c' \<and> d = d'"
  by (metis mk32_byte)

lemma ucast_u8_u32_inject: "(ucast (b :: u8) :: u32) = ucast b' \<longleftrightarrow> b = b'"
proof -
  have "ucast (ucast x :: u32) = x" for x :: u8
    by (rule bit_word_eqI) (simp add: bit_simps)
  then show ?thesis by metis
qed

lemma crc32_detects_byte:
  assumes "b \<noteq> b'"
  shows "crc32 (p @ b # q) \<noteq> crc32 (p @ b' # q)"
proof -
  have "crc_byte c b \<noteq> crc_byte c b'" for c
    using assms by (simp add: crc_byte_def crc_pow_inject xor.commute [of c] xor_right_cancel
        ucast_u8_u32_inject)
  then show ?thesis
    by (simp add: crc32_def crc_foldl_inject xor_right_cancel)
qed


section \<open>Chunks\<close>

definition chunk_ok :: "SaveStateChunk \<Rightarrow> bool" where
  "chunk_ok c \<longleftrightarrow> unat (chunk_size c) = length (chunk_data c) \<and> length (chunk_data c) \<le> kMaxChunkSize
     \<and> length (chunk_name c) \<le> kChunkNameSize \<and> 0 \<notin> set (chunk_name c)"

definition chunk_bytes :: "SaveStateChunk \<Rightarrow> u8 list" where
  "chunk_bytes c = le32 (chunk_size c) @
     (chunk_name c @ replicate (kChunkNameSize - length (chunk_name c)) 0) @ chunk_data c"

lemma writeChunkBytes_ok: "chunk_ok c \<Longrightarrow> writeChunkBytes c = Inr (chunk_bytes c)"
  by (simp add: writeChunkBytes_def chunk_ok_def chunk_bytes_def)

lemma writeChunks_ok:
  "\<forall>c \<in> set cs. chunk_ok c \<Longrightarrow> writeChunks cs p = Inr (p @ concat (map chunk_bytes cs))"
  by (induction cs arbitrary: p) (simp_all add: writeChunkBytes_ok)

lemma length_chunk_bytes: "chunk_ok c \<Longrightarrow> length (chunk_bytes c) = 36 + length (chunk_data c)"
  by (simp add: chunk_bytes_def chunk_ok_def kChunkNameSize_def)

lemma takeWhile_pad:
  "0 \<notin> set xs \<Longrightarrow> takeWhile (\<lambda>b. b \<noteq> (0 :: u8)) (xs @ replicate n 0) = xs"
  by (induction xs) (auto simp: takeWhile_replicate)

interpretation chunk_codec: codec chunk_bytes ss_read_chunk chunk_ok
proof
  fix c :: SaveStateChunk and bs
  assume c: "chunk_ok c"
  then have "takeWhile (\<lambda>b. b \<noteq> 0) (chunk_name c @ replicate (kChunkNameSize - length (chunk_name c)) 0)
      = chunk_name c"
    by (simp add: takeWhile_pad chunk_ok_def)
  then show "ss_read_chunk (chunk_bytes c @ bs) = Inr (c, bs)"
    using c
    by (simp add: ss_read_chunk_def chunk_bytes_def chunk_ok_def reader_steps
        take_codec.get_put_bind [of "chunk_name c @ replicate (kChunkNameSize - length (chunk_name c)) 0"
          kChunkNameSize "ss_fail ''chunk name''", simplified])
qed

lemma ss_read_chunks_put:
  assumes "\<forall>c \<in> set cs. chunk_ok c"
  shows "ss_read_chunks (length cs) p (concat (map chunk_bytes cs) @ rest) =
    Inr ((cs, p @ concat (map chunk_bytes cs)), rest)"
  using assms
proof (induction cs arbitrary: p)
  case (Cons c cs)
  then show ?case
    by (simp add: chunk_codec.get_put_bind writeChunkBytes_ok rd_bind_lift_Inr rd_bind_Inr)
qed simp

text \<open>Whatever the reader accepts as a chunk can be written again.\<close>

lemma ss_read_chunk_ok:
  assumes "ss_read_chunk bs = Inr (c, rest)"
  shows "chunk_ok c \<and> length bs = length (chunk_bytes c) + length rest"
proof -
  have "0 \<notin> set (takeWhile (\<lambda>b. b \<noteq> 0) xs)" for xs :: "u8 list"
    by (metis set_takeWhileD)
  moreover have "length (takeWhile P xs) \<le> n" if "length xs = n" for P and xs :: "u8 list" and n
    using that length_takeWhile_le by auto
  ultimately have "chunk_ok c \<and> length bs = 36 + length (chunk_data c) + length rest"
    using assms unfolding ss_read_chunk_def
    by (auto elim!: u32_exact.bind_exact take_exact.bind_exact
        simp: rd_bind_guard chunk_ok_def kChunkNameSize_def split: if_splits)
  then show ?thesis by (simp add: length_chunk_bytes)
qed

lemma ss_read_chunks_ok:
  assumes "ss_read_chunks n p bs = Inr ((cs, p'), rest)"
  shows "length cs = n \<and> (\<forall>c \<in> set cs. chunk_ok c) \<and> p' = p @ concat (map chunk_bytes cs) \<and>
    length bs = length (concat (map chunk_bytes cs)) + length rest"
  using assms
proof (induction n arbitrary: p bs cs)
  case (Suc n)
  obtain c r1 where c: "ss_read_chunk bs = Inr (c, r1)"
    "rd_bind (rd_lift (writeChunkBytes c)) (\<lambda>bs. rd_bind (ss_read_chunks n (p @ bs)) (\<lambda>(cs, p').
        rd_return (c # cs, p'))) r1 = Inr ((cs, p'), rest)"
    using Suc.prems by (auto elim: rd_bind_Inr_E)
  have ok: "chunk_ok c" "length bs = length (chunk_bytes c) + length r1"
    using ss_read_chunk_ok [OF c(1)] by auto
  obtain ds r2 where d: "ss_read_chunks n (p @ chunk_bytes c) r1 = Inr ((ds, p'), rest)" "cs = c # ds"
    using c(2) ok(1) by (auto simp: writeChunkBytes_ok rd_bind_lift_Inr elim!: rd_bind_Inr_E)
  then show ?case
    using Suc.IH [OF d(1)] ok by simp
qed simp


section \<open>Files\<close>

definition ss_ok :: "SaveStateFile \<Rightarrow> bool" where
  "ss_ok st \<longleftrightarrow> length (chunks st) \<le> kMaxChunkCount \<and> (\<forall>c \<in> set (chunks st). chunk_ok c) \<and>
     (checksum_mode (header st) = checksum_None \<or> checksum_mode (header st) = checksum_Crc32)"

definition ss_payload :: "SaveStateFile \<Rightarrow> u8 list" where
  "ss_payload st = writeHeaderBytes (header st) @ concat (map chunk_bytes (chunks st))"

text \<open>The state a written file stands for: magic, version, chunk count and checksum are set.\<close>

definition ss_written :: "SaveStateFile \<Rightarrow> SaveStateFile" where
  "ss_written st =
     (let st = st\<lparr>header := (header st)\<lparr>magic := kSaveStateMagic, version := kSaveStateVersion,
                 chunk_count := of_nat (length (chunks st))\<rparr>\<rparr> in
      st\<lparr>file_checksum := (if checksum_mode (header st) = checksum_Crc32 then crc32 (ss_payload st) else 0)\<rparr>)"

definition ss_trailer :: "SaveStateFile \<Rightarrow> u8 list" where
  "ss_trailer st = (if checksum_mode (header st) = checksum_Crc32 then le32 (file_checksum st) else [])"

lemma chunks_written [simp]: "chunks (ss_written st) = chunks st"
  by (simp add: ss_written_def Let_def)

lemma ss_payload_checksum [simp]: "ss_payload (st\<lparr>file_checksum := k\<rparr>) = ss_payload st"
  by (simp add: ss_payload_def)

lemma ss_encode_ok:
  assumes "ss_ok st"
  shows "ss_encode st = Inr (ss_payload (ss_written st) @ ss_trailer (ss_written st))"
  using assms
  by (simp add: ss_encode_def ss_ok_def kMaxChunkCount_def writeChunks_ok ss_payload_def ss_trailer_def
      ss_written_def Let_def)

lemma ss_read_header_put:
  assumes "magic h = kSaveStateMagic"
  shows "ss_read_header (writeHeaderBytes h @ rest) = Inr (h, rest)"
proof -
  have "length (magic h) = 5" using assms by (simp add: kSaveStateMagic_def bytes_of_def)
  then show ?thesis
    using assms by (simp add: ss_read_header_def writeHeaderBytes_def reader_steps)
qed

lemma length_chunks:
  "\<forall>c \<in> set cs. chunk_ok c \<Longrightarrow> 36 * length cs \<le> length (concat (map chunk_bytes cs))"
  by (induction cs) (simp_all add: length_chunk_bytes)

lemma length_header: "length (magic h) = 5 \<Longrightarrow> length (writeHeaderBytes h) = 25"
  by (simp add: writeHeaderBytes_def)

lemma length_magic [simp]: "length kSaveStateMagic = 5"
  by (simp add: kSaveStateMagic_def bytes_of_def)

text \<open>Decoding a payload followed by any four bytes in checksum mode.\<close>

definition ss_canonical :: "SaveStateFile \<Rightarrow> bool" where
  "ss_canonical st \<longleftrightarrow> ss_ok st \<and> magic (header st) = kSaveStateMagic \<and>
     version (header st) = kSaveStateVersion \<and> chunk_count (header st) = of_nat (length (chunks st))"

lemma ss_canonical_written: "ss_ok st \<Longrightarrow> ss_canonical (ss_written st)"
  by (simp add: ss_canonical_def ss_ok_def ss_written_def Let_def)

lemma ss_check_header_ok:
  assumes "ss_canonical st" and "n = length (ss_payload st) + trailerSize (header st)"
  shows "ss_check_header n (header st) rest = Inr ((), rest)"
proof -
  have n: "unat (of_nat (length (chunks st)) :: u32) = length (chunks st)"
    using assms(1) by (simp add: ss_canonical_def ss_ok_def kMaxChunkCount_def unat_of_nat_u32)
  have "36 * length (chunks st) \<le> length (concat (map chunk_bytes (chunks st)))"
    using assms(1) by (simp add: length_chunks ss_canonical_def ss_ok_def)
  then have "length (chunks st) \<le> (n - 25 - trailerSize (header st)) div 36"
    using assms by (simp add: ss_payload_def length_header ss_canonical_def less_eq_div_iff_mult_less_eq)
  moreover have "25 + trailerSize (header st) \<le> n"
    using assms by (simp add: ss_payload_def length_header ss_canonical_def)
  ultimately show ?thesis
    using assms(1) n
    by (simp add: ss_check_header_def ss_canonical_def ss_ok_def reader_steps
        kSerializedHeaderSize_def kSerializedChunkHeaderSize_def)
qed

lemma ss_decode_body:
  assumes "ss_canonical st" and "length t = trailerSize (header st)"
  shows "ss_decode (ss_payload st @ t) = rd_run (ss_read_tail (header st) (chunks st) (ss_payload st)) t"
proof -
  have n: "unat (of_nat (length (chunks st)) :: u32) = length (chunks st)"
    using assms(1) by (simp add: ss_canonical_def ss_ok_def kMaxChunkCount_def unat_of_nat_u32)
  have h: "ss_read_header (ss_payload st @ t) = Inr (header st, concat (map chunk_bytes (chunks st)) @ t)"
    using assms(1) by (simp add: ss_payload_def ss_read_header_put ss_canonical_def)
  have c: "ss_read_chunks (unat (chunk_count (header st))) (writeHeaderBytes (header st))
      (concat (map chunk_bytes (chunks st)) @ t) = Inr ((chunks st, ss_payload st), t)"
    using assms(1) n by (simp add: ss_read_chunks_put ss_payload_def ss_canonical_def ss_ok_def)
  have k: "ss_check_header (length (ss_payload st @ t)) (header st) r = Inr ((), r)" for r
    using assms by (simp add: ss_check_header_ok)
  show ?thesis
    unfolding ss_decode_def ss_read_bytes_def rd_run_def
    by (simp only: rd_bind_Inr [where p = ss_read_header, OF h]
        rd_bind_Inr [where p = "ss_check_header n (header st)" for n, OF k]
        rd_bind_Inr [where p = "ss_read_chunks n p" for n p, OF c] prod.case)
qed

lemma ss_decode_crc:
  assumes "ss_canonical st" and "checksum_mode (header st) = checksum_Crc32"
  shows "ss_decode (ss_payload st @ le32 k) =
    (if crc32 (ss_payload st) = k then Inr (st\<lparr>file_checksum := k\<rparr>)
     else Inl (Runtime_error ''Save state checksum mismatch''))"
proof -
  have "length (le32 k) = trailerSize (header st)"
    using assms(2) by (simp add: trailerSize_def)
  then show ?thesis
    using assms by (simp add: ss_decode_body ss_read_tail_def reader_steps)
qed

lemma ss_decode_none:
  assumes "ss_canonical st" and "checksum_mode (header st) = checksum_None"
  shows "ss_decode (ss_payload st) = Inr (st\<lparr>file_checksum := 0\<rparr>)"
  using assms ss_decode_body [OF assms(1), of "[]"]
  by (simp add: trailerSize_def ss_read_tail_def reader_steps checksum_None_def checksum_Crc32_def)

lemma ss_decode_encode:
  assumes "ss_ok st"
  shows "ss_decode (ss_payload (ss_written st) @ ss_trailer (ss_written st)) = Inr (ss_written st)"
proof (cases "checksum_mode (header st) = checksum_Crc32")
  case True
  then have "checksum_mode (header (ss_written st)) = checksum_Crc32"
    "file_checksum (ss_written st) = crc32 (ss_payload (ss_written st))"
    by (simp_all add: ss_written_def Let_def)
  then show ?thesis
    using ss_canonical_written [OF assms] by (simp add: ss_decode_crc ss_trailer_def)
next
  case False
  then have "checksum_mode (header (ss_written st)) = checksum_None" "file_checksum (ss_written st) = 0"
    using assms by (simp_all add: ss_written_def ss_ok_def Let_def)
  then show ?thesis
    using ss_canonical_written [OF assms] 
    by (simp add: ss_decode_none ss_trailer_def checksum_None_def checksum_Crc32_def)
qed


lemma ss_read_header_ok:
  assumes "ss_read_header bs = Inr (h, rest)"
  shows "magic h = kSaveStateMagic \<and> bs = writeHeaderBytes h @ rest"
  using assms unfolding ss_read_header_def
  by (auto elim!: u32_exact.bind_exact take_exact.bind_exact
      simp: rd_bind_guard writeHeaderBytes_def split: if_splits)

lemma ss_check_header_E:
  assumes "ss_check_header n h bs = Inr (u, rest)"
  shows "version h = kSaveStateVersion \<and> unat (chunk_count h) \<le> kMaxChunkCount \<and>
    (checksum_mode h = checksum_None \<or> checksum_mode h = checksum_Crc32) \<and> rest = bs"
  using assms unfolding ss_check_header_def
  by (simp add: rd_bind_guard split: if_splits)

lemma ss_read_tail_E:
  assumes "ss_read_tail h cs p bs = Inr (st, r)"
  shows "length bs = trailerSize h \<and> st = \<lparr>header = h, chunks = cs,
    file_checksum = (if checksum_mode h = checksum_Crc32 then crc32 p else 0)\<rparr>"
proof (cases "checksum_mode h = checksum_Crc32")
  case True
  have "rd_bind (rd_u32 (ss_fail ''checksum'')) (\<lambda>k. rd_bind (rd_guard (crc32 p = k)
      (Runtime_error ''Save state checksum mismatch'')) (\<lambda>_. rd_bind (rd_return k) (\<lambda>k.
        rd_bind rd_at_end (\<lambda>end_reached.
        rd_bind (rd_guard end_reached (Runtime_error ''Save state contains trailing data'')) (\<lambda>_.
        rd_return \<lparr>header = h, chunks = cs, file_checksum = k\<rparr>))))) bs = Inr (st, r)"
    using assms True by (simp add: ss_read_tail_def rd_bind_assoc)
  then obtain k rest where "bs = le32 k @ rest" and "rd_bind (rd_guard (crc32 p = k)
      (Runtime_error ''Save state checksum mismatch'')) (\<lambda>_. rd_bind (rd_return k) (\<lambda>k.
        rd_bind rd_at_end (\<lambda>end_reached.
        rd_bind (rd_guard end_reached (Runtime_error ''Save state contains trailing data'')) (\<lambda>_.
        rd_return \<lparr>header = h, chunks = cs, file_checksum = k\<rparr>)))) rest = Inr (st, r)"
    by (rule u32_exact.bind_exact)
  then show ?thesis
    by (simp add: True trailerSize_def rd_bind_guard rd_bind_return rd_bind_at_end split: if_splits)
next
  case False
  then show ?thesis
    using assms
    by (simp add: ss_read_tail_def trailerSize_def rd_bind_guard rd_bind_return rd_bind_at_end
        split: if_splits)
qed

text \<open>Everything the reader accepts is canonical, and writing it back gives a file of the same
  length that reads as the same state.\<close>

lemma ss_decode_sound:
  assumes "ss_decode bs = Inr st"
  shows "ss_canonical st \<and> ss_written st = st \<and> length bs = length (ss_payload st) + trailerSize (header st)"
proof -
  obtain r where r: "ss_read_bytes (length bs) bs = Inr (st, r)"
    using assms by (auto simp: ss_decode_def rd_run_def split: sum.splits prod.splits)
  then obtain h r1 u r2 cs payload r3 where h: "ss_read_header bs = Inr (h, r1)"
    and k: "ss_check_header (length bs) h r1 = Inr (u, r2)"
    and c: "ss_read_chunks (unat (chunk_count h)) (writeHeaderBytes h) r2 = Inr ((cs, payload), r3)"
    and t: "ss_read_tail h cs payload r3 = Inr (st, r)"
    unfolding ss_read_bytes_def by (elim rd_bind_Inr_E) auto
  note H = ss_read_header_ok [OF h]
  note K = ss_check_header_E [OF k]
  have C: "length cs = unat (chunk_count h)"
    "(\<forall>c \<in> set cs. chunk_ok c) \<and> payload = writeHeaderBytes h @ concat (map chunk_bytes cs)"
    "length r2 = length (concat (map chunk_bytes cs)) + length r3"
    using ss_read_chunks_ok [OF c] by blast+
  have len: "length bs = length payload + length r3"
    using H K C(2,3) by simp
  have bound: "length cs \<le> kMaxChunkCount" using C(1) K by simp
  have "of_nat (unat (chunk_count h)) = chunk_count h" by simp
  then have cnt: "chunk_count h = of_nat (length cs)"
    using C(1) by (simp only:)
  have hh: "h\<lparr>magic := kSaveStateMagic, version := kSaveStateVersion,
      chunk_count := of_nat (length cs)\<rparr> = h"
    using H K cnt by simp
  have "header st = h" "chunks st = cs" "file_checksum st = (if checksum_mode h = checksum_Crc32 then crc32 payload else 0)"
    "length r3 = trailerSize h"
    using ss_read_tail_E [OF t] by auto
  then show ?thesis
    using H K cnt len C(2) bound
    by (simp add: ss_canonical_def ss_ok_def ss_payload_def ss_written_def hh Let_def)
qed

section \<open>Properties\<close>

text \<open>The CRC-32 of two byte strings that differ only inside some window of four consecutive
  bytes is different, whatever the bytes around it, so every error burst of at most 32 bits aligned
  to bytes is detected.\<close>

theorem crc32_detects_burst:
  assumes "length w = 4" and "length w' = 4" and "w \<noteq> w'"
  shows "crc32 (p @ w @ q) \<noteq> crc32 (p @ w' @ q)"
proof -
  obtain a b d e where w: "w = [a, b, d, e]"
    using assms(1) by (auto simp: length_Suc_conv eval_nat_numeral)
  obtain a' b' d' e' where w': "w' = [a', b', d', e']"
    using assms(2) by (auto simp: length_Suc_conv eval_nat_numeral)
  have "foldl crc_byte c w \<noteq> foldl crc_byte c w'" for c
    using assms(3) unfolding w w' crc_four_bytes
    by (simp add: crc_pow_inject mk32_inject xor.commute [of c] xor_right_cancel)
  then show ?thesis
    by (simp add: crc32_def crc_foldl_inject xor_right_cancel)
qed

theorem crc32_detects_burst_witness:
  "crc32 ([1, 2] @ [3, 4, 5, 6] @ [7]) \<noteq> crc32 ([1, 2] @ [3, 0, 5, 6] @ [7])"
  by (rule crc32_detects_burst) simp_all

text \<open>C2: Save states round-trip through a file: writing a state whose chunks have consistent
  sizes, names of at most 32 bytes without NUL and a supported checksum mode succeeds when the file
  system does, and reading the path back yields that state with the header fields and the checksum
  the writer fills in, chunk for chunk.\<close>

theorem save_state_roundtrip:
  assumes "ss_ok st" and "\<not> open_fails io" and "\<not> write_fails io" and "\<not> close_fails io"
    and "\<not> rename_fails io" and "ss_write io st path fs = (r, fs')"
  shows "r = Inr () \<and> ss_read fs' path = Inr (ss_written st) \<and> chunks (ss_written st) = chunks st"
  using assms ss_encode_ok [OF assms(1)] ss_decode_encode [OF assms(1)]
  by (auto simp: ss_write_def ss_read_def Let_def)

definition example_state :: SaveStateFile where
  "example_state = \<lparr>header = \<lparr>magic = [], version = 0, core_id = kCoreId_GameGear, rom_hash = 0,
     checksum_mode = checksum_Crc32, chunk_count = 0\<rparr>,
     chunks = [\<lparr>chunk_name = bytes_of ''CPU'', chunk_size = 2, chunk_data = [7, 9]\<rparr>], file_checksum = 0\<rparr>"

definition no_faults :: io_faults where
  "no_faults = \<lparr>open_fails = False, write_fails = False, close_fails = False, rename_fails = False,
     remove_fails = False, left_behind = [], rename_message = []\<rparr>"

lemma example_state_ok: "ss_ok example_state"
  by (simp add: ss_ok_def chunk_ok_def example_state_def kMaxChunkCount_def kMaxChunkSize_def
      kChunkNameSize_def bytes_of_def)

theorem save_state_roundtrip_witness:
  "ss_read (snd (ss_write no_faults example_state ''slot0'' Map.empty)) ''slot0'' =
     Inr (ss_written example_state)"
  using save_state_roundtrip [OF example_state_ok, of no_faults "''slot0''" Map.empty
      "fst (ss_write no_faults example_state ''slot0'' Map.empty)"
      "snd (ss_write no_faults example_state ''slot0'' Map.empty)"]
  by (simp add: no_faults_def)

text \<open>C4: Replacing a save is atomic: whichever call of the file system fails, and whatever a failed
  write leaves behind, the file at the destination is either the complete new state or exactly what
  it was, and it is the new state precisely when the call returns normally; no file other than the
  destination and the temporary one is touched.\<close>

theorem save_state_atomic:
  assumes "ss_write io st path fs = (r, fs')"
  shows "(r = Inr () \<longrightarrow> (\<exists>bs. ss_encode st = Inr bs \<and> fs' path = Some bs)) \<and>
    (r \<noteq> Inr () \<longrightarrow> fs' path = fs path) \<and>
    (\<forall>p. p \<noteq> path \<and> p \<noteq> path @ ''.tmp'' \<longrightarrow> fs' p = fs p)"
proof -
  have tmp: "path @ ''.tmp'' \<noteq> path" "path \<noteq> path @ ''.tmp''" by simp_all
  show ?thesis
    using assms tmp by (auto simp: ss_write_def Let_def split: sum.splits if_splits)
qed

theorem save_state_atomic_witness:
  "snd (ss_write (no_faults\<lparr>write_fails := True, left_behind := [1]\<rparr>) example_state ''a'' [''a'' \<mapsto> [42]]) ''a''
     = Some [42]"
proof -
  let ?w = "ss_write (no_faults\<lparr>write_fails := True, left_behind := [1]\<rparr>) example_state ''a'' [''a'' \<mapsto> [42]]"
  have "fst ?w \<noteq> Inr ()"
    by (simp add: ss_write_def ss_encode_ok [OF example_state_ok] no_faults_def Let_def)
  then show ?thesis
    using save_state_atomic [of "no_faults\<lparr>write_fails := True, left_behind := [1]\<rparr>" example_state
        "''a''" "[''a'' \<mapsto> [42]]" "fst ?w" "snd ?w"] by simp
qed

text \<open>C1: The reader is safe on arbitrary input: a byte string it accepts describes a state that
  satisfies every limit of the format (magic, version, at most 4096 chunks of at most 64 MiB, names
  of at most 32 bytes without NUL, declared sizes equal to the payloads, a valid checksum), accounts
  for every byte of the file, and can be written and read again with the same result.\<close>

theorem save_state_reader_sound:
  assumes "ss_decode bs = Inr st"
  shows "ss_ok st \<and> magic (header st) = kSaveStateMagic \<and> version (header st) = kSaveStateVersion \<and>
    unat (chunk_count (header st)) = length (chunks st) \<and>
    (checksum_mode (header st) = checksum_Crc32 \<longrightarrow> file_checksum st = crc32 (ss_payload st)) \<and>
    (\<exists>bs'. ss_encode st = Inr bs' \<and> length bs' = length bs \<and> ss_decode bs' = Inr st)"
proof -
  have s: "ss_canonical st" "ss_written st = st"
    "length bs = length (ss_payload st) + trailerSize (header st)"
    using ss_decode_sound [OF assms] by auto
  then have ok: "ss_ok st" by (simp add: ss_canonical_def)
  have "file_checksum st = crc32 (ss_payload st)" if "checksum_mode (header st) = checksum_Crc32"
  proof -
    have "file_checksum st = file_checksum (ss_written st)" using s(2) by simp
    also have "\<dots> = crc32 (ss_payload (ss_written st))"
      using that by (simp add: ss_written_def Let_def)
    finally show ?thesis using s(2) by simp
  qed
  moreover have "\<exists>bs'. ss_encode st = Inr bs' \<and> length bs' = length bs \<and> ss_decode bs' = Inr st"
    using ss_encode_ok [OF ok] ss_decode_encode [OF ok] s(2,3)
    by (auto simp: ss_trailer_def trailerSize_def split: if_splits)
  ultimately show ?thesis
    using s(1) ok by (simp add: ss_canonical_def ss_ok_def kMaxChunkCount_def unat_of_nat_u32)
qed

theorem save_state_reader_sound_witness:
  "unat (chunk_count (header (ss_written example_state))) = 1"
  using save_state_reader_sound [OF ss_decode_encode [OF example_state_ok]]
  by (simp add: example_state_def)



text \<open>A state is only handed to the core and the ROM it was saved for: \<open>readForCore\<close> returns a
  state exactly when the file decodes, the caller names a core, the stored core agrees with it, and
  the stored ROM hash is absent (zero) or the CRC-32 of the loaded ROM.\<close>

theorem save_state_for_core:
  "ss_readForCore fs path core romBytes = Inr st \<longleftrightarrow>
     core \<noteq> 0 \<and> (\<exists>bs. fs path = Some bs \<and> ss_decode bs = Inr st) \<and> core_id (header st) = core \<and>
     (rom_hash (header st) = 0 \<or> rom_hash (header st) = crc32 romBytes)"
  by (auto simp: ss_readForCore_def ss_read_def split: option.splits sum.splits if_splits)

end
