(* ===== verification/GG_Cartridge.thy ===== *)
theory GG_Cartridge
  imports Prelude
begin

text \<open>
  The Game Gear cartridge of \<open>cores/gamegear/GameGearCartridge.{hpp,cpp}\<close>: three ROM bank
  registers, a control register that maps the 32 KiB battery RAM over slot 2, and the state and
  save-data formats. A record models the class; the mapper subclasses of \<open>GG_Mappers\<close>
  extend it, and a virtual call a base method makes is a function argument here.
\<close>

section \<open>The object\<close>

record cartridge =
  rom :: "u8 list"
  sram :: "u8 list"
  bankRegisters :: "u8 list"
  controlRegister :: u8
  saveDirty :: bool

definition kPageSize :: nat where "kPageSize = 0x4000"
definition kSramWindowSize :: nat where "kSramWindowSize = 0x4000"
definition kSramSize :: nat where "kSramSize = kSramWindowSize * 2"

definition new_cartridge :: cartridge where
  "new_cartridge = \<lparr>rom = [], sram = [], bankRegisters = [0, 0, 0], controlRegister = 0,
     saveDirty = False\<rparr>"

definition numBanks :: "'a cartridge_scheme \<Rightarrow> nat" where
  "numBanks c = (if rom c = [] then 1 else (length (rom c) + (kPageSize - 1)) div kPageSize)"

definition pageBank :: "'a cartridge_scheme \<Rightarrow> nat \<Rightarrow> nat" where
  "pageBank c pageIndex =
     (if pageIndex \<ge> 3 then 0
      else (unat (bankRegisters c ! pageIndex) + unat (controlRegister c AND 0x03) * 8)
             mod numBanks c)"

definition sramEnabled :: "'a cartridge_scheme \<Rightarrow> bool" where
  "sramEnabled c \<longleftrightarrow> controlRegister c AND 0x08 \<noteq> 0"

definition sramOffset :: "'a cartridge_scheme \<Rightarrow> u16 \<Rightarrow> nat" where
  "sramOffset c addr =
     (if controlRegister c AND 0x04 \<noteq> 0 then kSramWindowSize else 0) + (unat addr - 0x8000)"

definition cart_loaded :: "'a cartridge_scheme \<Rightarrow> bool" where
  "cart_loaded c \<longleftrightarrow> rom c \<noteq> []"

section \<open>Operations\<close>

definition cart_reset :: "'a cartridge_scheme \<Rightarrow> 'a cartridge_scheme" where
  "cart_reset c =
     (let banks = numBanks c in
      c\<lparr>bankRegisters := [of_nat (0 mod banks), of_nat (1 mod banks), of_nat (2 mod banks)],
        controlRegister := 0, saveDirty := False\<rparr>)"

text \<open>\<open>load\<close> ends in a call of the virtual \<open>reset\<close>, which is the argument \<open>vreset\<close>.\<close>

definition cart_load ::
  "('a cartridge_scheme \<Rightarrow> 'a cartridge_scheme) \<Rightarrow> u8 list option \<Rightarrow> nat
     \<Rightarrow> 'a cartridge_scheme \<Rightarrow> bool \<times> 'a cartridge_scheme" where
  "cart_load vreset data sz c =
     (case data of
        None \<Rightarrow>
          (if sz > 0 then (False, c) else (True, vreset (c\<lparr>rom := [], sram := []\<rparr>)))
      | Some bytes \<Rightarrow>
          (if sz = 0 then (True, vreset (c\<lparr>rom := [], sram := []\<rparr>))
           else (True, vreset (c\<lparr>rom := take sz bytes, sram := replicate kSramSize 0\<rparr>))))"

definition handlesControlWrite :: "'a cartridge_scheme \<Rightarrow> u16 \<Rightarrow> bool" where
  "handlesControlWrite c addr \<longleftrightarrow> addr \<ge> 0xFFFC"

definition handlesMappedWrite :: "'a cartridge_scheme \<Rightarrow> u16 \<Rightarrow> bool" where
  "handlesMappedWrite c addr \<longleftrightarrow> addr \<ge> 0x8000 \<and> addr < 0xC000 \<and> sramEnabled c"

definition cart_read :: "'a cartridge_scheme \<Rightarrow> u16 \<Rightarrow> u8" where
  "cart_read c addr =
     (if \<not> cart_loaded c \<or> addr \<ge> 0xC000 then 0xFF
      else if addr \<ge> 0x8000 \<and> sramEnabled c then
        (let offset = sramOffset c addr in
         if offset < length (sram c) then sram c ! offset else 0xFF)
      else if addr < 0x0400 then rom c ! (unat addr mod length (rom c))
      else
        (let pageIndex = unat addr div kPageSize;
             bankNum = pageBank c pageIndex;
             romOffset = bankNum * kPageSize + unat addr mod kPageSize in
         if romOffset < length (rom c) then rom c ! romOffset else 0xFF))"

definition romBankForAddress :: "'a cartridge_scheme \<Rightarrow> u16 \<Rightarrow> nat option" where
  "romBankForAddress c addr =
     (if \<not> cart_loaded c \<or> addr \<ge> 0xC000 \<or> (addr \<ge> 0x8000 \<and> sramEnabled c) then None
      else if addr < 0x0400 then Some 0
      else Some (pageBank c (unat addr div kPageSize)))"

definition cart_write :: "u16 \<Rightarrow> u8 \<Rightarrow> 'a cartridge_scheme \<Rightarrow> 'a cartridge_scheme" where
  "cart_write addr v c =
     (if addr \<ge> 0xFFFC then
        (if addr = 0xFFFC then c\<lparr>controlRegister := v\<rparr>
         else c\<lparr>bankRegisters := (bankRegisters c)[unat (addr - 0xFFFD) := v]\<rparr>)
      else if addr \<ge> 0x8000 \<and> addr < 0xC000 \<and> sramEnabled c then
        (let offset = sramOffset c addr in
         if offset < length (sram c) \<and> sram c ! offset \<noteq> v
         then c\<lparr>sram := (sram c)[offset := v], saveDirty := True\<rparr>
         else c)
      else c)"

definition mappedRamOffsetV1 :: "'a cartridge_scheme \<Rightarrow> u16 \<Rightarrow> nat option" where
  "mappedRamOffsetV1 c addr =
     (if \<not> cart_loaded c \<or> \<not> handlesMappedWrite c addr \<or> \<not> sramEnabled c
         \<or> addr < 0x8000 \<or> addr \<ge> 0xC000 then None
      else if sramOffset c addr < length (sram c) then Some (sramOffset c addr) else None)"

definition physicalRamByteV1 :: "'a cartridge_scheme \<Rightarrow> nat \<Rightarrow> u8 option" where
  "physicalRamByteV1 c offset = (if offset \<ge> length (sram c) then None else Some (sram c ! offset))"

section \<open>Battery-backed save data\<close>

definition cart_supportsSaveData :: "'a cartridge_scheme \<Rightarrow> bool" where
  "cart_supportsSaveData c \<longleftrightarrow> sram c \<noteq> []"

definition cart_hasDirtySaveData :: "'a cartridge_scheme \<Rightarrow> bool" where
  "cart_hasDirtySaveData c = saveDirty c"

definition cart_markSaveClean :: "'a cartridge_scheme \<Rightarrow> 'a cartridge_scheme" where
  "cart_markSaveClean c = c\<lparr>saveDirty := False\<rparr>"

definition cart_exportSaveData :: "'a cartridge_scheme \<Rightarrow> u8 list" where
  "cart_exportSaveData c = sram c"

definition cart_importSaveData :: "u8 list \<Rightarrow> 'a cartridge_scheme \<Rightarrow> 'a cartridge_scheme" where
  "cart_importSaveData saveData c =
     (if sram c = [] then c\<lparr>saveDirty := False\<rparr>
      else
        (let count = min (length (sram c)) (length saveData) in
         c\<lparr>sram := take count saveData @ replicate (length (sram c) - count) 0,
           saveDirty := False\<rparr>))"

section \<open>State format\<close>

definition cart_truncated :: exn where
  "cart_truncated = Invalid_argument ''Game Gear cartridge state truncated''"

text \<open>The file's own \<open>readU32\<close> checks for four bytes at once.\<close>

definition cart_readU32 :: "u32 reader" where
  "cart_readU32 bytes =
     (if length bytes < 4 then Inl cart_truncated
      else Inr (mk32 (bytes ! 0) (bytes ! 1) (bytes ! 2) (bytes ! 3), drop 4 bytes))"

definition cart_readBytes :: "nat \<Rightarrow> u8 list reader" where
  "cart_readBytes maxSize =
     rd_bind cart_readU32 (\<lambda>n. rd_bind rd_remaining (\<lambda>left.
       if unat n > maxSize \<or> left < unat n
       then (\<lambda>_. Inl (Invalid_argument ''Game Gear cartridge state vector invalid''))
       else rd_take cart_truncated (unat n)))"

definition cart_exportState :: "'a cartridge_scheme \<Rightarrow> u8 list" where
  "cart_exportState c =
     le32 (of_nat (length (rom c))) @ le32 (of_nat (numBanks c)) @ [controlRegister c] @
     bankRegisters c @ put_bool (saveDirty c) @ le32 (of_nat (length (sram c))) @ sram c"

definition cart_importState :: "'a cartridge_scheme \<Rightarrow> u8 list \<Rightarrow> 'a cartridge_scheme result" where
  "cart_importState c = rd_run (
     rd_bind cart_readU32 (\<lambda>romSize. rd_bind cart_readU32 (\<lambda>bankCount.
     rd_bind (rd_guard (unat romSize = length (rom c) \<and> unat bankCount = numBanks c)
       (Invalid_argument ''Game Gear cartridge state does not match loaded ROM'')) (\<lambda>_.
     rd_bind rd_remaining (\<lambda>left.
     rd_bind (rd_guard (left \<ge> 5) cart_truncated) (\<lambda>_.
     rd_bind (rd_u8 cart_truncated) (\<lambda>control.
     rd_bind (rd_take cart_truncated 3) (\<lambda>banks.
     rd_bind (rd_u8 cart_truncated) (\<lambda>dirty.
     rd_bind (rd_guard (dirty \<le> 1)
       (Invalid_argument ''Game Gear cartridge state dirty flag invalid'')) (\<lambda>_.
     rd_bind (cart_readBytes kSramSize) (\<lambda>nextSram.
     rd_bind rd_at_end (\<lambda>end_reached.
     rd_bind (rd_guard (length nextSram = length (sram c) \<and> end_reached)
       (Invalid_argument ''Game Gear cartridge state SRAM size mismatch'')) (\<lambda>_.
     rd_return (c\<lparr>controlRegister := control, bankRegisters := banks,
                  saveDirty := (dirty \<noteq> 0), sram := nextSram\<rparr>))))))))))))))"

section \<open>Well-formedness\<close>

text \<open>
  What every reachable object satisfies: three bank registers, and a battery RAM of the full
  32 KiB exactly when a ROM is loaded. ROM images are shorter than \<open>2 ^ 32\<close> bytes
  (\<open>GameGearMachine\<close> refuses more than one MiB), so the 32-bit sizes of the state format
  do not wrap.
\<close>

definition cart_ok :: "'a cartridge_scheme \<Rightarrow> bool" where
  "cart_ok c \<longleftrightarrow> length (bankRegisters c) = 3 \<and> length (rom c) < 2 ^ 32 \<and>
     length (sram c) = (if rom c = [] then 0 else kSramSize)"

lemmas cart_consts = kPageSize_def kSramWindowSize_def kSramSize_def

lemma numBanks_pos [simp]: "0 < numBanks c"
  by (cases "rom c") (simp_all add: numBanks_def kPageSize_def div_greater_zero_iff)

lemma pageBank_less [simp]: "pageBank c i < numBanks c"
  by (simp add: pageBank_def)

lemma numBanks_less: "length (rom c) < 2 ^ 32 \<Longrightarrow> numBanks c < 2 ^ 32"
  by (auto simp: numBanks_def kPageSize_def div_less_iff_less_mult)

lemma cart_ok_new: "cart_ok new_cartridge"
  by (simp add: cart_ok_def new_cartridge_def)

lemma cart_ok_reset: "cart_ok c \<Longrightarrow> cart_ok (cart_reset c)"
  by (simp add: cart_ok_def cart_reset_def Let_def)

lemma cart_ok_write: "cart_ok c \<Longrightarrow> cart_ok (cart_write a v c)"
  by (auto simp: cart_ok_def cart_write_def Let_def)

lemma cart_ok_markSaveClean: "cart_ok c \<Longrightarrow> cart_ok (cart_markSaveClean c)"
  by (simp add: cart_ok_def cart_markSaveClean_def)

lemma cart_ok_importSaveData: "cart_ok c \<Longrightarrow> cart_ok (cart_importSaveData d c)"
  by (auto simp: cart_ok_def cart_importSaveData_def Let_def)

lemma cart_ok_load:
  assumes "cart_ok c" and "case data of None \<Rightarrow> True | Some d \<Rightarrow> length d < 2 ^ 32 \<and> (0 < sz \<longrightarrow> d \<noteq> [])"
  shows "cart_ok (snd (cart_load cart_reset data sz c))"
  using assms
  by (auto simp: cart_load_def cart_ok_def cart_reset_def Let_def split: option.splits)

lemma cart_write_rom [simp]: "rom (cart_write a v c) = rom c"
  by (simp add: cart_write_def Let_def)

lemma cart_reset_rom [simp]: "rom (cart_reset c) = rom c"
  by (simp add: cart_reset_def Let_def)

lemma cart_reset_sram [simp]: "sram (cart_reset c) = sram c"
  by (simp add: cart_reset_def Let_def)

section \<open>Battery RAM\<close>

lemma unat_window: "0x8000 \<le> (a :: u16) \<Longrightarrow> a < 0xC000 \<Longrightarrow> unat a - 0x8000 < 0x4000"
  by (simp add: word_le_nat_alt word_less_nat_alt)

lemma unat_window_inj:
  "0x8000 \<le> (a :: u16) \<Longrightarrow> 0x8000 \<le> b \<Longrightarrow> unat a - 0x8000 = unat b - 0x8000 \<longleftrightarrow> a = b"
  by (auto simp: word_le_nat_alt word_unat_eq_iff)

lemma sramOffset_less:
  "cart_ok c \<Longrightarrow> rom c \<noteq> [] \<Longrightarrow> 0x8000 \<le> a \<Longrightarrow> a < 0xC000 \<Longrightarrow> sramOffset c a < length (sram c)"
  using unat_window [of a] by (simp add: cart_ok_def sramOffset_def cart_consts)

lemma sramOffset_write [simp]:
  "a < 0xFFFC \<Longrightarrow> sramOffset (cart_write a v c) b = sramOffset c b"
  by (auto simp: sramOffset_def cart_write_def Let_def not_le[symmetric])

lemma sramEnabled_write [simp]: "a < 0xFFFC \<Longrightarrow> sramEnabled (cart_write a v c) = sramEnabled c"
  by (auto simp: sramEnabled_def cart_write_def Let_def not_le[symmetric])

lemma pageBank_write [simp]: "a < 0xFFFC \<Longrightarrow> pageBank (cart_write a v c) i = pageBank c i"
  by (auto simp: pageBank_def numBanks_def cart_write_def Let_def not_le[symmetric])

lemma cart_loaded_write [simp]: "cart_loaded (cart_write a v c) = cart_loaded c"
  by (simp add: cart_loaded_def)

lemma window_below_control: "(a :: u16) < 0xC000 \<Longrightarrow> a < 0xFFFC"
  by (simp add: word_less_nat_alt)

lemma mapped_write_sram:
  assumes "handlesMappedWrite c a"
  shows "sram (cart_write a v c) = (sram c)[sramOffset c a := v]"
proof -
  have "\<not> 0xFFFC \<le> a"
    using assms window_below_control [of a] by (simp add: handlesMappedWrite_def not_le)
  then show ?thesis
    using assms by (auto simp: cart_write_def handlesMappedWrite_def Let_def list_update_beyond)
qed

lemma cart_read_after_mapped_write:
  assumes ok: "cart_ok c" and ld: "cart_loaded c" and m: "handlesMappedWrite c a"
  shows "cart_read (cart_write a v c) b = (if b = a then v else cart_read c b)"
proof -
  have a: "0x8000 \<le> a" "a < 0xC000" "sramEnabled c" "a < 0xFFFC"
    using m window_below_control by (auto simp: handlesMappedWrite_def)
  have off: "sramOffset c a < length (sram c)"
    using ok ld a by (simp add: sramOffset_less cart_loaded_def)
  have inj: "sramOffset c b = sramOffset c a \<longleftrightarrow> b = a" if "0x8000 \<le> b"
    using that a unat_window_inj [of b a] by (simp add: sramOffset_def)
  have win: "cart_read d b = (if sramOffset d b < length (sram d) then sram d ! sramOffset d b else 0xFF)"
    if "0x8000 \<le> b" "b < 0xC000" "sramEnabled d" "cart_loaded d" for d :: "'a cartridge_scheme"
    using that by (simp add: cart_read_def Let_def not_le [symmetric])
  have other: "cart_read d b = cart_read c b"
    if "\<not> (0x8000 \<le> b \<and> b < 0xC000)" "rom d = rom c" "sramEnabled d = sramEnabled c"
      "\<And>i. pageBank d i = pageBank c i" for d
    using that a(3) unfolding cart_read_def cart_loaded_def
    by (cases "0xC000 \<le> b"; cases "0x8000 \<le> b") (simp_all add: Let_def not_le [symmetric])
  show ?thesis
  proof (cases "0x8000 \<le> b \<and> b < 0xC000")
    case True
    then show ?thesis
      using a off inj ld
      by (auto simp: win mapped_write_sram [OF m] nth_list_update)
  next
    case False
    then show ?thesis
      using a other [of "cart_write a v c"] by (auto simp: not_le [symmetric])
  qed
qed

section \<open>The dirty flag\<close>

fun cart_writes :: "(u16 \<times> u8) list \<Rightarrow> 'a cartridge_scheme \<Rightarrow> 'a cartridge_scheme" where
  "cart_writes [] c = c"
| "cart_writes ((a, v) # ws) c = cart_writes ws (cart_write a v c)"

lemma cart_write_dirty_mono: "saveDirty c \<Longrightarrow> saveDirty (cart_write a v c)"
  by (simp add: cart_write_def Let_def)

lemma cart_write_clean: "\<not> saveDirty (cart_write a v c) \<Longrightarrow> sram (cart_write a v c) = sram c"
  by (auto simp: cart_write_def Let_def split: if_splits)

lemma cart_writes_dirty_mono: "saveDirty c \<Longrightarrow> saveDirty (cart_writes ws c)"
  by (induction ws c rule: cart_writes.induct) (auto simp: cart_write_dirty_mono)

lemma cart_writes_clean: "\<not> saveDirty (cart_writes ws c) \<Longrightarrow> sram (cart_writes ws c) = sram c"
  by (induction ws c rule: cart_writes.induct)
     (use cart_write_clean cart_writes_dirty_mono in \<open>simp, metis cart_writes.simps(2)\<close>)

section \<open>State round trip\<close>

lemma cart_readU32_eq: "cart_readU32 = rd_u32 cart_truncated"
proof
  fix bs :: "u8 list"
  consider "bs = []" | a where "bs = [a]" | a b where "bs = [a, b]" | a b c where "bs = [a, b, c]"
    | a b c d r where "bs = a # b # c # d # r"
    by (metis list.exhaust)
  then show "cart_readU32 bs = rd_u32 cart_truncated bs"
    by cases (simp_all add: cart_readU32_def rd_u32_def rd_bind_def)
qed

lemma cart_readBytes_put:
  assumes "length xs \<le> m" and "length xs < 2 ^ 32"
  shows "cart_readBytes m (le32 (of_nat (length xs)) @ xs) = Inr (xs, [])"
  using assms
  by (simp add: cart_readBytes_def cart_readU32_eq reader_steps unat_of_nat_u32 rd_take_def)

lemma cart_import_export:
  assumes s: "cart_ok s" and t: "cart_ok t" and "rom t = rom s"
  shows "cart_importState t (cart_exportState s) =
     Inr (t\<lparr>controlRegister := controlRegister s, bankRegisters := bankRegisters s,
            saveDirty := saveDirty s, sram := sram s\<rparr>)"
proof -
  have nb: "numBanks t = numBanks s" using assms by (simp add: numBanks_def)
  have len: "length (sram s) \<le> kSramSize" "length (sram s) < 2 ^ 32" "length (sram t) = length (sram s)"
    "length (bankRegisters s) = 3"
    using assms by (auto simp: cart_ok_def cart_consts)
  have "length (rom s) < 2 ^ 32" using s by (simp add: cart_ok_def)
  then have "unat (of_nat (length (rom s)) :: u32) = length (rom s)"
    "unat (of_nat (numBanks s) :: u32) = numBanks s"
    by (simp_all only: unat_of_nat_u32 numBanks_less)
  then show ?thesis
    using len nb \<open>rom t = rom s\<close> cart_readBytes_put [of "sram s" kSramSize]
    by (simp add: cart_importState_def cart_exportState_def cart_readU32_eq put_bool_def
        reader_steps rd_bind_Inr)
qed

text \<open>The cartridge keeps the contract of a state codec; a target with the same ROM fits.\<close>

definition cart_fits :: "'a cartridge_scheme \<Rightarrow> 'a cartridge_scheme \<Rightarrow> bool" where
  "cart_fits t s \<longleftrightarrow> cart_ok t \<and> rom t = rom s"

definition cart_restored :: "'a cartridge_scheme \<Rightarrow> 'a cartridge_scheme \<Rightarrow> 'a cartridge_scheme" where
  "cart_restored t s = t\<lparr>controlRegister := controlRegister s, bankRegisters := bankRegisters s,
     saveDirty := saveDirty s, sram := sram s\<rparr>"

interpretation cart_state: state_codec cart_exportState cart_importState cart_ok cart_fits cart_restored
proof
  fix s t :: "'a cartridge_scheme"
  assume "cart_ok s" and f: "cart_fits t s"
  then show "cart_importState t (cart_exportState s) = Inr (cart_restored t s)"
    by (simp only: cart_fits_def cart_restored_def cart_import_export)
  show "cart_exportState (cart_restored t s) = cart_exportState s"
    using f by (simp add: cart_fits_def cart_restored_def cart_exportState_def numBanks_def)
qed

end
