(* ===== verification/GG_Mappers.thy ===== *)
theory GG_Mappers
  imports GG_Cartridge
begin

text \<open>
  The mapper classes of \<open>cores/gamegear/mappers/\<close>, all derived from the cartridge, and the
  abstract interface \<open>GameGearMapper\<close> they implement. A datatype has one constructor per
  class, a dispatching definition models each virtual call, and the locale \<open>mapper_interface\<close>
  states what the memory map relies on.
\<close>

section \<open>Sega mappers\<close>

text \<open>Only \<open>Sega3155235Mapper\<close> resets differently, only \<open>Sega3155365Mapper\<close> denies save data.\<close>

definition sega5208_reset :: "cartridge \<Rightarrow> cartridge" where
  "sega5208_reset = cart_reset"

definition sega5235_reset :: "cartridge \<Rightarrow> cartridge" where
  "sega5235_reset c =
     cart_write 0xFFFF 0x02 (cart_write 0xFFFE 0x01 (cart_write 0xFFFD 0x00
       (cart_write 0xFFFC 0x00 (cart_reset c))))"

definition sega5365_reset :: "cartridge \<Rightarrow> cartridge" where
  "sega5365_reset = cart_reset"

definition sega5365_supportsSaveData :: "cartridge \<Rightarrow> bool" where
  "sega5365_supportsSaveData c = False"

section \<open>Codemasters mapper\<close>

record codemasters = cartridge +
  extraRam :: "u8 list"
  extraRamMapped :: bool
  extraRamDirty :: bool

definition new_codemasters :: codemasters where
  "new_codemasters = cartridge.extend new_cartridge
     \<lparr>extraRam = [], extraRamMapped = False, extraRamDirty = False\<rparr>"

definition cm_reset :: "codemasters \<Rightarrow> codemasters" where
  "cm_reset c =
     (let c = cart_reset c;
          c = cart_write 0xFFFD 0 c;
          c = cart_write 0xFFFE 1 c;
          c = cart_write 0xFFFF 0 c in
      c\<lparr>extraRamMapped := False, extraRam := [], extraRamDirty := False\<rparr>)"

definition cm_handlesControlWrite :: "codemasters \<Rightarrow> u16 \<Rightarrow> bool" where
  "cm_handlesControlWrite c addr \<longleftrightarrow> addr < 0xC000 \<and> \<not> (extraRamMapped c \<and> addr \<ge> 0xA000)"

definition cm_handlesMappedWrite :: "codemasters \<Rightarrow> u16 \<Rightarrow> bool" where
  "cm_handlesMappedWrite c addr \<longleftrightarrow>
     (if extraRamMapped c \<and> addr \<ge> 0xA000 \<and> addr < 0xC000 then True else handlesMappedWrite c addr)"

definition cm_read :: "codemasters \<Rightarrow> u16 \<Rightarrow> u8" where
  "cm_read c addr =
     (if extraRamMapped c \<and> addr \<ge> 0xA000 \<and> addr < 0xC000 then
        (let idx = unat addr - 0xA000 in
         if idx < length (extraRam c) then extraRam c ! idx else 0xFF)
      else cart_read c addr)"

definition cm_romBankForAddress :: "codemasters \<Rightarrow> u16 \<Rightarrow> nat option" where
  "cm_romBankForAddress c addr =
     (if extraRamMapped c \<and> addr \<ge> 0xA000 \<and> addr < 0xC000 then None else romBankForAddress c addr)"

definition cm_write :: "u16 \<Rightarrow> u8 \<Rightarrow> codemasters \<Rightarrow> codemasters" where
  "cm_write addr v c =
     (if cm_handlesControlWrite c addr then
        (let slot = unat addr div 0x4000;
             bankVal = v AND 0x7F;
             c = cart_write (0xFFFD + of_nat slot) bankVal c in
         if slot = 1 then
           (if v AND 0x80 \<noteq> 0 then
              (let c = (if extraRam c = [] then c\<lparr>extraRam := replicate 0x2000 0\<rparr> else c) in
               c\<lparr>extraRamMapped := True\<rparr>)
            else c\<lparr>extraRamMapped := False\<rparr>)
         else c)
      else if extraRamMapped c \<and> addr \<ge> 0xA000 \<and> addr < 0xC000 then
        (let idx = unat addr - 0xA000 in
         if idx < length (extraRam c)
         then c\<lparr>extraRam := (extraRam c)[idx := v], extraRamDirty := True\<rparr>
         else c)
      else cart_write addr v c)"

definition cm_mappedRamOffsetV1 :: "codemasters \<Rightarrow> u16 \<Rightarrow> nat option" where
  "cm_mappedRamOffsetV1 c addr =
     (if extraRamMapped c \<and> addr \<ge> 0xA000 \<and> addr < 0xC000 then
        (if unat addr - 0xA000 < length (extraRam c) then Some (0x8000 + unat addr - 0xA000) else None)
      else mappedRamOffsetV1 c addr)"

definition cm_physicalRamByteV1 :: "codemasters \<Rightarrow> nat \<Rightarrow> u8 option" where
  "cm_physicalRamByteV1 c offset =
     (if offset < 0x8000 then physicalRamByteV1 c offset
      else if offset - 0x8000 \<ge> length (extraRam c) then None
      else Some (extraRam c ! (offset - 0x8000)))"

definition cm_supportsSaveData :: "codemasters \<Rightarrow> bool" where
  "cm_supportsSaveData c \<longleftrightarrow> extraRam c \<noteq> [] \<or> cart_supportsSaveData c"

definition cm_hasDirtySaveData :: "codemasters \<Rightarrow> bool" where
  "cm_hasDirtySaveData c \<longleftrightarrow> extraRamDirty c \<or> cart_hasDirtySaveData c"

definition cm_markSaveClean :: "codemasters \<Rightarrow> codemasters" where
  "cm_markSaveClean c = cart_markSaveClean (c\<lparr>extraRamDirty := False\<rparr>)"

definition cm_exportSaveData :: "codemasters \<Rightarrow> u8 list" where
  "cm_exportSaveData c = (if extraRam c \<noteq> [] then extraRam c else cart_exportSaveData c)"

definition cm_importSaveData :: "u8 list \<Rightarrow> codemasters \<Rightarrow> codemasters" where
  "cm_importSaveData saveData c =
     (if length saveData = 0x2000 then c\<lparr>extraRam := saveData, extraRamDirty := False\<rparr>
      else cart_importSaveData saveData c)"

definition cm_exportState :: "codemasters \<Rightarrow> u8 list" where
  "cm_exportState c =
     cart_exportState c @ le32 (of_nat (length (extraRam c))) @ extraRam c @
     put_bool (extraRamMapped c) @ put_bool (extraRamDirty c)"

text \<open>The tail is read and checked before the base part, which starts at position 0.\<close>

definition cm_truncated :: exn where
  "cm_truncated = Invalid_argument ''Codemasters mapper state truncated''"

definition cm_importTail :: "(u8 list \<times> bool \<times> bool) reader" where
  "cm_importTail =
     rd_bind (rd_u32 cm_truncated) (\<lambda>extraSize.
     rd_bind rd_remaining (\<lambda>left.
     rd_bind (rd_guard (unat extraSize \<le> 0x2000 \<and> left = unat extraSize + 2)
       (Invalid_argument ''Codemasters mapper state extra RAM invalid'')) (\<lambda>_.
     rd_bind (rd_take cm_truncated (unat extraSize)) (\<lambda>nextExtraRam.
     rd_bind (rd_u8 cm_truncated) (\<lambda>mapped.
     rd_bind (rd_u8 cm_truncated) (\<lambda>dirty.
     rd_bind (rd_guard (mapped \<le> 1 \<and> dirty \<le> 1)
       (Invalid_argument ''Codemasters mapper state flag invalid'')) (\<lambda>_.
     rd_return (nextExtraRam, mapped \<noteq> 0, dirty \<noteq> 0))))))))"

definition cm_importState :: "codemasters \<Rightarrow> u8 list \<Rightarrow> codemasters result" where
  "cm_importState c state =
     (let baseSize = length (cart_exportState c) in
      if length state < baseSize + 6 then Inl cm_truncated
      else
        (case rd_run cm_importTail (drop baseSize state) of
           Inl e \<Rightarrow> Inl e
         | Inr (nextExtraRam, mapped, dirty) \<Rightarrow>
             (case cart_importState c (take baseSize state) of
                Inl e \<Rightarrow> Inl e
              | Inr c' \<Rightarrow>
                  Inr (c'\<lparr>extraRam := nextExtraRam, extraRamMapped := mapped,
                         extraRamDirty := dirty\<rparr>))))"

section \<open>Dispatch\<close>

datatype mapper =
    BaseCartridge cartridge
  | Sega3155208Mapper cartridge
  | Sega3155235Mapper cartridge
  | Sega3155365Mapper cartridge
  | CodemastersMapper codemasters

fun m_reset :: "mapper \<Rightarrow> mapper" where
  "m_reset (BaseCartridge c) = BaseCartridge (cart_reset c)"
| "m_reset (Sega3155208Mapper c) = Sega3155208Mapper (sega5208_reset c)"
| "m_reset (Sega3155235Mapper c) = Sega3155235Mapper (sega5235_reset c)"
| "m_reset (Sega3155365Mapper c) = Sega3155365Mapper (sega5365_reset c)"
| "m_reset (CodemastersMapper c) = CodemastersMapper (cm_reset c)"

fun m_load :: "u8 list option \<Rightarrow> nat \<Rightarrow> mapper \<Rightarrow> bool \<times> mapper" where
  "m_load d n (BaseCartridge c) = map_prod id BaseCartridge (cart_load cart_reset d n c)"
| "m_load d n (Sega3155208Mapper c) = map_prod id Sega3155208Mapper (cart_load sega5208_reset d n c)"
| "m_load d n (Sega3155235Mapper c) = map_prod id Sega3155235Mapper (cart_load sega5235_reset d n c)"
| "m_load d n (Sega3155365Mapper c) = map_prod id Sega3155365Mapper (cart_load sega5365_reset d n c)"
| "m_load d n (CodemastersMapper c) = map_prod id CodemastersMapper (cart_load cm_reset d n c)"

text \<open>The base part of any mapper, and an update of it by an operation every class inherits.\<close>

fun m_base :: "mapper \<Rightarrow> cartridge" where
  "m_base (BaseCartridge c) = c"
| "m_base (Sega3155208Mapper c) = c"
| "m_base (Sega3155235Mapper c) = c"
| "m_base (Sega3155365Mapper c) = c"
| "m_base (CodemastersMapper c) = cartridge.truncate c"

definition m_loaded :: "mapper \<Rightarrow> bool" where
  "m_loaded m = cart_loaded (m_base m)"

definition m_romData :: "mapper \<Rightarrow> u8 list" where
  "m_romData m = rom (m_base m)"

fun m_handlesControlWrite :: "mapper \<Rightarrow> u16 \<Rightarrow> bool" where
  "m_handlesControlWrite (CodemastersMapper c) a = cm_handlesControlWrite c a"
| "m_handlesControlWrite m a = handlesControlWrite (m_base m) a"

fun m_handlesMappedWrite :: "mapper \<Rightarrow> u16 \<Rightarrow> bool" where
  "m_handlesMappedWrite (CodemastersMapper c) a = cm_handlesMappedWrite c a"
| "m_handlesMappedWrite m a = handlesMappedWrite (m_base m) a"

fun m_read :: "mapper \<Rightarrow> u16 \<Rightarrow> u8" where
  "m_read (CodemastersMapper c) a = cm_read c a"
| "m_read m a = cart_read (m_base m) a"

fun m_romBankForAddress :: "mapper \<Rightarrow> u16 \<Rightarrow> nat option" where
  "m_romBankForAddress (CodemastersMapper c) a = cm_romBankForAddress c a"
| "m_romBankForAddress m a = romBankForAddress (m_base m) a"

fun m_write :: "u16 \<Rightarrow> u8 \<Rightarrow> mapper \<Rightarrow> mapper" where
  "m_write a v (BaseCartridge c) = BaseCartridge (cart_write a v c)"
| "m_write a v (Sega3155208Mapper c) = Sega3155208Mapper (cart_write a v c)"
| "m_write a v (Sega3155235Mapper c) = Sega3155235Mapper (cart_write a v c)"
| "m_write a v (Sega3155365Mapper c) = Sega3155365Mapper (cart_write a v c)"
| "m_write a v (CodemastersMapper c) = CodemastersMapper (cm_write a v c)"

fun m_supportsSaveData :: "mapper \<Rightarrow> bool" where
  "m_supportsSaveData (Sega3155365Mapper c) = sega5365_supportsSaveData c"
| "m_supportsSaveData (CodemastersMapper c) = cm_supportsSaveData c"
| "m_supportsSaveData m = cart_supportsSaveData (m_base m)"

fun m_hasDirtySaveData :: "mapper \<Rightarrow> bool" where
  "m_hasDirtySaveData (CodemastersMapper c) = cm_hasDirtySaveData c"
| "m_hasDirtySaveData m = cart_hasDirtySaveData (m_base m)"

fun m_markSaveClean :: "mapper \<Rightarrow> mapper" where
  "m_markSaveClean (BaseCartridge c) = BaseCartridge (cart_markSaveClean c)"
| "m_markSaveClean (Sega3155208Mapper c) = Sega3155208Mapper (cart_markSaveClean c)"
| "m_markSaveClean (Sega3155235Mapper c) = Sega3155235Mapper (cart_markSaveClean c)"
| "m_markSaveClean (Sega3155365Mapper c) = Sega3155365Mapper (cart_markSaveClean c)"
| "m_markSaveClean (CodemastersMapper c) = CodemastersMapper (cm_markSaveClean c)"

fun m_exportSaveData :: "mapper \<Rightarrow> u8 list" where
  "m_exportSaveData (CodemastersMapper c) = cm_exportSaveData c"
| "m_exportSaveData m = cart_exportSaveData (m_base m)"

fun m_importSaveData :: "u8 list \<Rightarrow> mapper \<Rightarrow> mapper" where
  "m_importSaveData d (BaseCartridge c) = BaseCartridge (cart_importSaveData d c)"
| "m_importSaveData d (Sega3155208Mapper c) = Sega3155208Mapper (cart_importSaveData d c)"
| "m_importSaveData d (Sega3155235Mapper c) = Sega3155235Mapper (cart_importSaveData d c)"
| "m_importSaveData d (Sega3155365Mapper c) = Sega3155365Mapper (cart_importSaveData d c)"
| "m_importSaveData d (CodemastersMapper c) = CodemastersMapper (cm_importSaveData d c)"

fun m_exportState :: "mapper \<Rightarrow> u8 list" where
  "m_exportState (CodemastersMapper c) = cm_exportState c"
| "m_exportState m = cart_exportState (m_base m)"

fun m_importState :: "mapper \<Rightarrow> u8 list \<Rightarrow> mapper result" where
  "m_importState (BaseCartridge c) d = map_sum id BaseCartridge (cart_importState c d)"
| "m_importState (Sega3155208Mapper c) d = map_sum id Sega3155208Mapper (cart_importState c d)"
| "m_importState (Sega3155235Mapper c) d = map_sum id Sega3155235Mapper (cart_importState c d)"
| "m_importState (Sega3155365Mapper c) d = map_sum id Sega3155365Mapper (cart_importState c d)"
| "m_importState (CodemastersMapper c) d = map_sum id CodemastersMapper (cm_importState c d)"

fun m_mappedRamOffsetV1 :: "mapper \<Rightarrow> u16 \<Rightarrow> nat option" where
  "m_mappedRamOffsetV1 (CodemastersMapper c) a = cm_mappedRamOffsetV1 c a"
| "m_mappedRamOffsetV1 m a = mappedRamOffsetV1 (m_base m) a"

fun m_physicalRamByteV1 :: "mapper \<Rightarrow> nat \<Rightarrow> u8 option" where
  "m_physicalRamByteV1 (CodemastersMapper c) n = cm_physicalRamByteV1 c n"
| "m_physicalRamByteV1 m n = physicalRamByteV1 (m_base m) n"

fun m_physicalRamCapacityV1 :: "mapper \<Rightarrow> nat" where
  "m_physicalRamCapacityV1 (CodemastersMapper c) = 0xA000"
| "m_physicalRamCapacityV1 m = kSramSize"

section \<open>Well-formedness\<close>

text \<open>The Codemasters RAM is absent or of 8 KiB, and it is present when it is mapped.\<close>

definition cm_ok :: "codemasters \<Rightarrow> bool" where
  "cm_ok c \<longleftrightarrow> cart_ok c \<and> (extraRam c = [] \<or> length (extraRam c) = 0x2000) \<and>
     (extraRamMapped c \<longrightarrow> length (extraRam c) = 0x2000)"

fun m_ok :: "mapper \<Rightarrow> bool" where
  "m_ok (CodemastersMapper c) = cm_ok c"
| "m_ok m = cart_ok (m_base m)"

lemma cart_ok_more [simp]: "cart_ok (c\<lparr>extraRam := x\<rparr>) = cart_ok c"
  "cart_ok (c\<lparr>extraRamMapped := b\<rparr>) = cart_ok c" "cart_ok (c\<lparr>extraRamDirty := d\<rparr>) = cart_ok c"
  by (simp_all add: cart_ok_def)

lemma cart_write_more [simp]:
  "extraRam (cart_write a v c) = extraRam c"
  "extraRamMapped (cart_write a v c) = extraRamMapped c"
  "extraRamDirty (cart_write a v c) = extraRamDirty c"
  by (simp_all add: cart_write_def Let_def)

lemma cart_ok_truncate [simp]: "cart_ok (cartridge.truncate c) = cart_ok c"
  by (simp add: cart_ok_def cartridge.truncate_def)

lemma cart_loaded_truncate [simp]: "cart_loaded (cartridge.truncate c) = cart_loaded c"
  by (simp add: cart_loaded_def cartridge.truncate_def)

lemma cart_read_more [simp]: "cart_read (c\<lparr>extraRam := x\<rparr>) = cart_read c"
  "cart_read (c\<lparr>extraRamMapped := b\<rparr>) = cart_read c" "cart_read (c\<lparr>extraRamDirty := d\<rparr>) = cart_read c"
  by (simp_all add: fun_eq_iff cart_read_def cart_loaded_def sramEnabled_def sramOffset_def
      pageBank_def numBanks_def Let_def)

lemma handlesMappedWrite_more [simp]:
  "handlesMappedWrite (c\<lparr>extraRam := x\<rparr>) = handlesMappedWrite c"
  "handlesMappedWrite (c\<lparr>extraRamMapped := b\<rparr>) = handlesMappedWrite c"
  "handlesMappedWrite (c\<lparr>extraRamDirty := d\<rparr>) = handlesMappedWrite c"
  by (auto simp: fun_eq_iff handlesMappedWrite_def sramEnabled_def)

lemma cm_ok_write: "cm_ok c \<Longrightarrow> cm_ok (cm_write a v c)"
  by (auto simp: cm_ok_def cm_write_def Let_def cart_ok_write)

lemma cm_ok_reset: "cm_ok c \<Longrightarrow> cm_ok (cm_reset c)"
  by (simp add: cm_ok_def cm_reset_def Let_def cart_ok_write cart_ok_reset)

lemma sega5235_ok_reset: "cart_ok c \<Longrightarrow> cart_ok (sega5235_reset c)"
  by (simp add: sega5235_reset_def cart_ok_write cart_ok_reset)

lemma m_ok_reset: "m_ok m \<Longrightarrow> m_ok (m_reset m)"
  by (cases m) (simp_all add: cart_ok_reset cm_ok_reset sega5235_ok_reset sega5208_reset_def
      sega5365_reset_def)

lemma m_ok_write: "m_ok m \<Longrightarrow> m_ok (m_write a v m)"
  by (cases m) (simp_all add: cart_ok_write cm_ok_write)

lemma cart_importSaveData_more [simp]:
  "extraRam (cart_importSaveData d c) = extraRam c"
  "extraRamMapped (cart_importSaveData d c) = extraRamMapped c"
  by (simp_all add: cart_importSaveData_def Let_def)

lemma m_ok_importSaveData: "m_ok m \<Longrightarrow> m_ok (m_importSaveData d m)"
  by (cases m) (auto simp: cart_ok_importSaveData cm_ok_def cm_importSaveData_def)

section \<open>The interface the memory map relies on\<close>

text \<open>
  A mapper answers reads below \<open>0xC000\<close>. A write that it takes as a control write may change
  what is mapped; a write that it takes as a mapped write stores a byte, which only a read of the
  same address sees; any other write below the registers changes nothing.
\<close>

locale mapper_interface =
  fixes read_of :: "'m \<Rightarrow> u16 \<Rightarrow> u8"
    and write_of :: "u16 \<Rightarrow> u8 \<Rightarrow> 'm \<Rightarrow> 'm"
    and mapped :: "'m \<Rightarrow> u16 \<Rightarrow> bool"
    and control :: "'m \<Rightarrow> u16 \<Rightarrow> bool"
    and rom_of :: "'m \<Rightarrow> u8 list"
    and ok :: "'m \<Rightarrow> bool"
  assumes write_ok: "ok m \<Longrightarrow> ok (write_of a v m)"
    and write_rom: "rom_of (write_of a v m) = rom_of m"
    and mapped_read: "ok m \<Longrightarrow> rom_of m \<noteq> [] \<Longrightarrow> mapped m a \<Longrightarrow> \<not> control m a
      \<Longrightarrow> read_of (write_of a v m) b = (if b = a then v else read_of m b)"
    and mapped_stable: "mapped m a \<Longrightarrow> \<not> control m a
      \<Longrightarrow> mapped (write_of a v m) b = mapped m b \<and> control (write_of a v m) b = control m b"
    and ignored: "\<not> mapped m a \<Longrightarrow> \<not> control m a \<Longrightarrow> a < 0xFFFC \<Longrightarrow> write_of a v m = m"
    and open_bus: "0xC000 \<le> a \<Longrightarrow> read_of m a = 0xFF"
begin

lemma writes_ok: "ok m \<Longrightarrow> ok (fold (\<lambda>(a, v). write_of a v) ws m)"
  by (induction ws arbitrary: m) (auto simp: write_ok)

lemma writes_rom: "rom_of (fold (\<lambda>(a, v). write_of a v) ws m) = rom_of m"
  by (induction ws arbitrary: m) (auto simp: write_rom)

lemma writes_last_wins:
  assumes "ok m" and "rom_of m \<noteq> []" and "\<forall>(a, v) \<in> set ws. mapped m a \<and> \<not> control m a"
  shows "read_of (fold (\<lambda>(a, v). write_of a v) ws m) b =
    (case map_of (rev ws) b of Some v \<Rightarrow> v | None \<Rightarrow> read_of m b)"
  using assms
proof (induction ws arbitrary: m)
  case (Cons w ws)
  obtain a v where w: "w = (a, v)" by (cases w)
  then have a: "mapped m a" "\<not> control m a" using Cons.prems by auto
  have "read_of (fold (\<lambda>(a, v). write_of a v) ws (write_of a v m)) b =
      (case map_of (rev ws) b of Some v \<Rightarrow> v | None \<Rightarrow> read_of (write_of a v m) b)"
    by (rule Cons.IH)
      (use Cons.prems w a mapped_stable [of m a v] in \<open>auto simp: write_ok write_rom\<close>)
  then show ?case
    using mapped_read [OF Cons.prems(1,2) a] w by (auto simp: map_add_def split: option.splits)
qed simp

end

lemma cm_rom [simp]: "rom (cm_write a v c) = rom c"
  by (simp add: cm_write_def Let_def)

lemma m_write_rom [simp]: "m_romData (m_write a v m) = m_romData m"
  by (cases m) (simp_all add: m_romData_def cartridge.truncate_def)

lemma handlesMappedWrite_write [simp]:
  "a < 0xFFFC \<Longrightarrow> handlesMappedWrite (cart_write a v c) = handlesMappedWrite c"
  by (simp add: fun_eq_iff handlesMappedWrite_def)

lemma handlesControlWrite_const [simp]: "handlesControlWrite (cart_write a v c) = handlesControlWrite c"
  by (simp add: fun_eq_iff handlesControlWrite_def)

lemma extra_window_inj:
  "0xA000 \<le> (a :: u16) \<Longrightarrow> 0xA000 \<le> b \<Longrightarrow> unat a - 0xA000 = unat b - 0xA000 \<longleftrightarrow> a = b"
  by (auto simp: word_le_nat_alt word_unat_eq_iff)

lemma cm_write_extra:
  assumes "cm_ok c" and "extraRamMapped c" and "0xA000 \<le> a" and "a < 0xC000"
  shows "cm_write a v c = c\<lparr>extraRam := (extraRam c)[unat a - 0xA000 := v], extraRamDirty := True\<rparr>"
proof -
  have "unat a - 0xA000 < 0x2000"
    using assms(3,4) by (simp add: word_le_nat_alt word_less_nat_alt)
  then show ?thesis
    using assms by (simp add: cm_write_def cm_handlesControlWrite_def cm_ok_def)
qed

lemma cm_mapped_not_control:
  assumes "cm_handlesMappedWrite c a" and "\<not> cm_handlesControlWrite c a"
  shows "extraRamMapped c \<and> 0xA000 \<le> a \<and> a < 0xC000"
  using assms
  by (auto simp: cm_handlesMappedWrite_def cm_handlesControlWrite_def handlesMappedWrite_def
      split: if_splits)

lemma cm_read_after_write:
  assumes ok: "cm_ok c" and m: "cm_handlesMappedWrite c a" "\<not> cm_handlesControlWrite c a"
  shows "cm_read (cm_write a v c) b = (if b = a then v else cm_read c b)"
proof -
  have w: "extraRamMapped c" "0xA000 \<le> a" "a < 0xC000"
    using cm_mapped_not_control [OF m] by auto
  then have "unat a - 0xA000 < length (extraRam c)"
    using ok by (simp add: cm_ok_def word_le_nat_alt word_less_nat_alt)
  then show ?thesis
    using w extra_window_inj [of b a]
    by (auto simp: cm_write_extra [OF ok w] cm_read_def Let_def nth_list_update)
qed

interpretation cart_if: mapper_interface
  "cart_read :: cartridge \<Rightarrow> _" cart_write handlesMappedWrite handlesControlWrite rom cart_ok
proof
  fix c :: cartridge and a b :: u16 and v :: u8
  show "cart_ok c \<Longrightarrow> cart_ok (cart_write a v c)" by (rule cart_ok_write)
  show "rom (cart_write a v c) = rom c" by simp
  show "cart_ok c \<Longrightarrow> rom c \<noteq> [] \<Longrightarrow> handlesMappedWrite c a \<Longrightarrow> \<not> handlesControlWrite c a
      \<Longrightarrow> cart_read (cart_write a v c) b = (if b = a then v else cart_read c b)"
    by (rule cart_read_after_mapped_write) (auto simp: cart_loaded_def)
  show "handlesMappedWrite c a \<Longrightarrow> \<not> handlesControlWrite c a \<Longrightarrow>
      handlesMappedWrite (cart_write a v c) b = handlesMappedWrite c b \<and>
      handlesControlWrite (cart_write a v c) b = handlesControlWrite c b"
    by (simp add: handlesControlWrite_def not_le)
  show "\<not> handlesMappedWrite c a \<Longrightarrow> \<not> handlesControlWrite c a \<Longrightarrow> a < 0xFFFC
      \<Longrightarrow> cart_write a v c = c"
    by (auto simp: cart_write_def handlesMappedWrite_def handlesControlWrite_def)
  show "0xC000 \<le> a \<Longrightarrow> cart_read c a = 0xFF"
    by (simp add: cart_read_def)
qed

interpretation cm_if: mapper_interface
  cm_read cm_write cm_handlesMappedWrite cm_handlesControlWrite rom cm_ok
proof
  fix c :: codemasters and a b :: u16 and v :: u8
  show "cm_ok c \<Longrightarrow> cm_ok (cm_write a v c)" by (rule cm_ok_write)
  show "rom (cm_write a v c) = rom c" by simp
  show "cm_ok c \<Longrightarrow> rom c \<noteq> [] \<Longrightarrow> cm_handlesMappedWrite c a \<Longrightarrow> \<not> cm_handlesControlWrite c a
      \<Longrightarrow> cm_read (cm_write a v c) b = (if b = a then v else cm_read c b)"
    by (rule cm_read_after_write)
  show "cm_handlesMappedWrite (cm_write a v c) b = cm_handlesMappedWrite c b \<and>
      cm_handlesControlWrite (cm_write a v c) b = cm_handlesControlWrite c b"
    if m: "cm_handlesMappedWrite c a" "\<not> cm_handlesControlWrite c a"
    using cm_mapped_not_control [OF m] m
    by (auto simp: cm_write_def Let_def cm_handlesMappedWrite_def cm_handlesControlWrite_def)
  show "\<not> cm_handlesMappedWrite c a \<Longrightarrow> \<not> cm_handlesControlWrite c a \<Longrightarrow> a < 0xFFFC
      \<Longrightarrow> cm_write a v c = c"
    by (auto simp: cm_write_def cm_handlesMappedWrite_def cm_handlesControlWrite_def
        cart_write_def split: if_splits)
  show "0xC000 \<le> a \<Longrightarrow> cm_read c a = 0xFF"
    by (auto simp: cm_read_def cart_read_def not_le [symmetric])
qed

interpretation m_if: mapper_interface
  m_read m_write m_handlesMappedWrite m_handlesControlWrite m_romData m_ok
proof
  fix m :: mapper and a b :: u16 and v :: u8
  show "m_ok m \<Longrightarrow> m_ok (m_write a v m)" by (rule m_ok_write)
  show "m_romData (m_write a v m) = m_romData m" by simp
  show "m_ok m \<Longrightarrow> m_romData m \<noteq> [] \<Longrightarrow> m_handlesMappedWrite m a \<Longrightarrow> \<not> m_handlesControlWrite m a
      \<Longrightarrow> m_read (m_write a v m) b = (if b = a then v else m_read m b)"
    by (cases m) (simp_all add: m_romData_def cart_if.mapped_read cm_if.mapped_read
        cartridge.truncate_def)
  show "m_handlesMappedWrite m a \<Longrightarrow> \<not> m_handlesControlWrite m a \<Longrightarrow>
      m_handlesMappedWrite (m_write a v m) b = m_handlesMappedWrite m b \<and>
      m_handlesControlWrite (m_write a v m) b = m_handlesControlWrite m b"
    by (cases m) (simp_all add: cart_if.mapped_stable cm_if.mapped_stable)
  show "\<not> m_handlesMappedWrite m a \<Longrightarrow> \<not> m_handlesControlWrite m a \<Longrightarrow> a < 0xFFFC
      \<Longrightarrow> m_write a v m = m"
    by (cases m) (simp_all add: cart_if.ignored cm_if.ignored)
  show "0xC000 \<le> a \<Longrightarrow> m_read m a = 0xFF"
    by (cases m) (simp_all add: cart_if.open_bus cm_if.open_bus)
qed

section \<open>State round trip\<close>

lemma length_cart_exportState: "cart_ok c \<Longrightarrow> length (cart_exportState c) = 17 + length (sram c)"
  by (simp add: cart_ok_def cart_exportState_def)

lemma cart_ok_sram_length: "cart_ok s \<Longrightarrow> cart_ok t \<Longrightarrow> rom t = rom s \<Longrightarrow> length (sram t) = length (sram s)"
  by (simp add: cart_ok_def)

lemma cm_importTail_put:
  assumes "length x \<le> 0x2000"
  shows "rd_run cm_importTail (le32 (of_nat (length x)) @ x @ put_bool m @ put_bool d) = Inr (x, m, d)"
proof -
  have "unat (of_nat (length x) :: u32) = length x"
    using assms by (simp add: unat_of_nat_u32)
  then show ?thesis
    using assms by (simp add: cm_importTail_def put_bool_def reader_steps)
qed

definition cm_fits :: "codemasters \<Rightarrow> codemasters \<Rightarrow> bool" where
  "cm_fits t s \<longleftrightarrow> cart_ok t \<and> rom t = rom s"

lemma cm_import_export:
  assumes s: "cm_ok s" and t: "cm_fits t s"
  shows "cm_importState t (cm_exportState s) = Inr s"
proof -
  have ok: "cart_ok s" "length (extraRam s) \<le> 0x2000"
    using s by (auto simp: cm_ok_def)
  have base: "length (cart_exportState t) = length (cart_exportState s)"
    using ok t cart_ok_sram_length [of s t] by (simp add: cm_fits_def length_cart_exportState)
  have "length (cm_exportState s) \<ge> length (cart_exportState s) + 6"
    by (simp add: cm_exportState_def)
  moreover have "rd_run cm_importTail (drop (length (cart_exportState s)) (cm_exportState s)) =
      Inr (extraRam s, extraRamMapped s, extraRamDirty s)"
    by (simp add: cm_exportState_def cm_importTail_put ok)
  moreover have "cart_importState t (take (length (cart_exportState s)) (cm_exportState s)) =
      Inr (cart_restored t s)"
    using ok t by (simp add: cm_exportState_def cart_state.import_export cart_fits_def cm_fits_def)
  ultimately show ?thesis
    using t by (simp add: cm_importState_def base Let_def cart_restored_def cm_fits_def)
qed

interpretation cm_state: state_codec cm_exportState cm_importState cm_ok cm_fits "\<lambda>t s. s"
  by unfold_locales (simp_all add: cm_import_export)

lemma cart_restored_full: "rom t = rom s \<Longrightarrow> cart_restored t s = (s :: cartridge)"
  by (simp add: cart_restored_def)

text \<open>A target of the same class with the same ROM takes over the exported mapper entirely.\<close>

fun m_sameClass :: "mapper \<Rightarrow> mapper \<Rightarrow> bool" where
  "m_sameClass (BaseCartridge _) (BaseCartridge _) = True"
| "m_sameClass (Sega3155208Mapper _) (Sega3155208Mapper _) = True"
| "m_sameClass (Sega3155235Mapper _) (Sega3155235Mapper _) = True"
| "m_sameClass (Sega3155365Mapper _) (Sega3155365Mapper _) = True"
| "m_sameClass (CodemastersMapper _) (CodemastersMapper _) = True"
| "m_sameClass _ _ = False"

definition m_fits :: "mapper \<Rightarrow> mapper \<Rightarrow> bool" where
  "m_fits t s \<longleftrightarrow> m_sameClass t s \<and> m_ok t \<and> m_romData t = m_romData s"

lemma cart_import_full:
  "cart_ok s \<Longrightarrow> cart_ok t \<Longrightarrow> rom t = rom s \<Longrightarrow>
     cart_importState t (cart_exportState s) = Inr (s :: cartridge)"
  by (simp add: cart_state.import_export cart_fits_def cart_restored_full)

interpretation m_state: state_codec m_exportState m_importState m_ok m_fits "\<lambda>t s. s"
proof
  fix s t :: mapper
  assume "m_ok s" and "m_fits t s"
  then show "m_importState t (m_exportState s) = Inr s"
    by (cases t; cases s)
      (simp_all add: m_fits_def m_romData_def cart_import_full cm_import_export cm_fits_def
        cm_ok_def cartridge.truncate_def)
qed simp

section \<open>Loading and banking\<close>

lemma cart_ok_load_fields:
  "cart_ok c \<Longrightarrow> length d < 2 ^ 32 \<Longrightarrow> d \<noteq> [] \<Longrightarrow> 0 < sz \<Longrightarrow>
     cart_ok (c\<lparr>rom := take sz d, sram := replicate kSramSize 0\<rparr>)"
  by (simp add: cart_ok_def)

lemma m_load_ok:
  assumes "m_ok m" and "length d < 2 ^ 32" and "d \<noteq> []" and "0 < sz"
  shows "fst (m_load (Some d) sz m) \<and> m_ok (snd (m_load (Some d) sz m)) \<and>
    m_romData (snd (m_load (Some d) sz m)) = take sz d"
    using assms
    by (cases m)
      (auto simp: cart_ok_load_fields cart_load_def m_romData_def sega5208_reset_def sega5365_reset_def
        cart_ok_reset sega5235_ok_reset cm_ok_reset cm_ok_def cart_ok_write
        cm_reset_def sega5235_reset_def Let_def cartridge.truncate_def)

lemma pageBank_after_select:
  assumes "cart_ok c" and "slot < 3"
  shows "pageBank (cart_write (0xFFFD + of_nat slot) v c) i =
    (if i = slot then (unat v + unat (controlRegister c AND 3) * 8) mod numBanks c else pageBank c i)"
proof -
  have "slot = 0 \<or> slot = 1 \<or> slot = 2" using assms by auto
  then show ?thesis
    using assms by (auto simp: pageBank_def cart_write_def numBanks_def cart_ok_def nth_list_update)
qed

section \<open>Sequences of operations\<close>

datatype mapper_op =
    OpWrite u16 u8
  | OpReset
  | OpImportSave "u8 list"
  | OpMarkClean
  | OpLoad "u8 list"

fun mapper_step :: "mapper_op \<Rightarrow> mapper \<Rightarrow> mapper" where
  "mapper_step (OpWrite a v) m = m_write a v m"
| "mapper_step OpReset m = m_reset m"
| "mapper_step (OpImportSave d) m = m_importSaveData d m"
| "mapper_step OpMarkClean m = m_markSaveClean m"
| "mapper_step (OpLoad d) m = snd (m_load (Some d) (length d) m)"

lemma cart_ok_cleared: "cart_ok c \<Longrightarrow> cart_ok (c\<lparr>rom := [], sram := []\<rparr>)"
  by (simp add: cart_ok_def)

lemma m_ok_load:
  assumes "m_ok m" and "length d < 2 ^ 32"
  shows "m_ok (snd (m_load (Some d) (length d) m))"
proof (cases "d = []")
  case True
  show ?thesis
    using assms True
    by (cases m)
      (auto simp: cart_ok_cleared cart_load_def sega5208_reset_def sega5365_reset_def
        cart_ok_reset sega5235_ok_reset cm_ok_def cart_ok_write cm_reset_def Let_def)
next
  case False
  then show ?thesis using m_load_ok [OF assms(1,2)] by simp
qed

lemma m_ok_markSaveClean: "m_ok m \<Longrightarrow> m_ok (m_markSaveClean m)"
  by (cases m) (auto simp: cart_ok_markSaveClean cm_ok_def cm_markSaveClean_def cart_markSaveClean_def
      cart_ok_def)

lemma mapper_step_ok: "m_ok m \<Longrightarrow> (\<And>d. op = OpLoad d \<Longrightarrow> length d < 2 ^ 32) \<Longrightarrow> m_ok (mapper_step op m)"
  by (cases op) (simp_all add: m_ok_write m_ok_reset m_ok_importSaveData m_ok_markSaveClean m_ok_load
      del: m_load.simps m_write.simps m_reset.simps m_importSaveData.simps m_markSaveClean.simps)

section \<open>Properties\<close>

text \<open>C10: Cartridge memory is memory. After any sequence of stores into the windows a mapper
  offers for cartridge RAM, a read of any CPU address returns the last byte stored there, and what
  it returned before if there was none; ROM windows and the other RAM bank are not disturbed. It
  holds for all five mapper classes.\<close>

theorem mapper_last_write_wins:
  assumes "m_ok m" and "m_romData m \<noteq> []"
    and "\<forall>(a, v) \<in> set ws. m_handlesMappedWrite m a \<and> \<not> m_handlesControlWrite m a"
  shows "m_read (fold (\<lambda>(a, v). m_write a v) ws m) b =
    (case map_of (rev ws) b of Some v \<Rightarrow> v | None \<Rightarrow> m_read m b)"
  using assms by (rule m_if.writes_last_wins)

theorem mapper_last_write_wins_witness:
  "m_read (fold (\<lambda>(a, v). m_write a v) [(0xA001, 5), (0xA000, 6), (0xA001, 7)]
     (CodemastersMapper (new_codemasters\<lparr>rom := [1, 2], sram := replicate kSramSize 0,
        extraRam := replicate 0x2000 9, extraRamMapped := True\<rparr>))) 0xA001 = 7"
  using mapper_last_write_wins [of "CodemastersMapper (new_codemasters\<lparr>rom := [1, 2],
      sram := replicate kSramSize 0, extraRam := replicate 0x2000 9, extraRamMapped := True\<rparr>)"
      "[(0xA001, 5), (0xA000, 6), (0xA001, 7)]" "0xA001"]
  by (simp add: cm_ok_def cart_ok_def new_codemasters_def new_cartridge_def cartridge.defs
      m_romData_def cm_handlesMappedWrite_def cm_handlesControlWrite_def)

text \<open>C11: Bank switching. Writing a bank number to the register of slot 0, 1 or 2 makes the
  \<open>0x4000\<close> addresses of that slot (from \<open>0x0400\<close> on, the first KiB being fixed) show exactly
  that ROM bank, taken modulo the number of banks after the control register's shift, with
  \<open>0xFF\<close> past the end of the image, and leaves the other slots as they were; battery RAM
  mapped over slot 2 hides it.\<close>

theorem cart_bank_switch:
  assumes "cart_ok c" and "cart_loaded c" and "slot < 3" and "0x0400 \<le> a" and "a < 0xC000"
    and "0x8000 \<le> a \<longrightarrow> \<not> sramEnabled c"
  shows "cart_read (cart_write (0xFFFD + of_nat slot) v c) a =
    (if unat a div kPageSize = slot then
       (let offset = ((unat v + unat (controlRegister c AND 3) * 8) mod numBanks c) * kPageSize
                      + unat a mod kPageSize in
        if offset < length (rom c) then rom c ! offset else 0xFF)
     else cart_read c a)"
proof -
  let ?w = "cart_write (0xFFFD + of_nat slot) v c"
  have slot: "slot = 0 \<or> slot = 1 \<or> slot = 2" using assms(3) by auto
  then have en: "sramEnabled ?w = sramEnabled c"
    by (auto simp: sramEnabled_def cart_write_def)
  have a: "\<not> a < 0x0400" "\<not> 0xC000 \<le> a" "\<not> (0x8000 \<le> a \<and> sramEnabled c)"
    using assms(4-6) by auto
  show ?thesis
    using a assms(2) en pageBank_after_select [OF assms(1,3), of v]
    by (auto simp: cart_read_def Let_def)
qed

theorem cart_bank_switch_witness:
  "cart_read (cart_write 0xFFFE 3
     (new_cartridge\<lparr>rom := replicate 0x8000 0 @ [0x5A, 0xA5], sram := replicate kSramSize 0\<rparr>)) 0x4001 = 0"
  using cart_bank_switch [of "new_cartridge\<lparr>rom := replicate 0x8000 0 @ [0x5A, 0xA5],
      sram := replicate kSramSize 0\<rparr>" 1 "0x4001" 3]
  by (simp add: cart_ok_def new_cartridge_def cart_loaded_def sramEnabled_def kPageSize_def
      numBanks_def nth_append)

text \<open>Save states are faithful for every mapper class: the state exported by a well-formed
  mapper is accepted by any well-formed mapper of the same class that holds the same ROM, which
  becomes equal to the exporter (registers, battery RAM, on-cart RAM, dirty flags).\<close>

theorem mapper_state_roundtrip:
  assumes "m_ok s" and "m_ok t" and "m_sameClass t s" and "m_romData t = m_romData s"
  shows "m_importState t (m_exportState s) = Inr s"
  using assms by (intro m_state.import_export) (simp_all add: m_fits_def)

theorem mapper_state_roundtrip_witness:
  "m_importState (CodemastersMapper new_codemasters)
     (m_exportState (CodemastersMapper (new_codemasters\<lparr>extraRamDirty := True, controlRegister := 8\<rparr>))) =
   Inr (CodemastersMapper (new_codemasters\<lparr>extraRamDirty := True, controlRegister := 8\<rparr>))"
  by (rule mapper_state_roundtrip)
    (simp_all add: cm_ok_def cart_ok_def new_codemasters_def new_cartridge_def cartridge.defs m_romData_def)

text \<open>Well-formedness is an invariant of the mapper operations: writes to any address, resets,
  save-data imports and loads of a ROM keep the register count, the 32 KiB battery RAM of a loaded
  cartridge and the 8 KiB on-cart RAM that is present whenever it is mapped.\<close>

theorem mapper_ops_keep_ok:
  assumes "m_ok m" and "\<forall>d. OpLoad d \<in> set ops \<longrightarrow> length d < 2 ^ 32"
  shows "m_ok (fold mapper_step ops m)"
  using assms by (induction ops arbitrary: m) (auto simp: mapper_step_ok)

theorem mapper_ops_keep_ok_witness:
  "m_ok (fold mapper_step [OpLoad [1, 2, 3], OpWrite 0x4000 0x81, OpWrite 0xA000 7, OpReset]
     (CodemastersMapper new_codemasters))"
  by (rule mapper_ops_keep_ok)
    (simp_all add: cm_ok_def cart_ok_def new_codemasters_def new_cartridge_def cartridge.defs)

end
