(* ===== verification/GG_MapperFactory.thy ===== *)
theory GG_MapperFactory
  imports GG_Mappers
begin

text \<open>
  \<open>cores/gamegear/GameGearMapperFactory.cpp\<close>: which mapper class a ROM gets. The external
  table comes from files found at run time, so the lines of the candidate files are an argument;
  so is the file name component of the ROM path. Text is a list of bytes, as in
  \<open>std::string\<close>, and \<open>tolower\<close> and \<open>isspace\<close> are those of the C locale.
\<close>

section \<open>Text helpers\<close>

definition tolower_char :: "char \<Rightarrow> char" where
  "tolower_char c =
     (let n = of_char c :: nat in if 65 \<le> n \<and> n \<le> 90 then char_of (n + 32) else c)"

definition toLower :: "string \<Rightarrow> string" where
  "toLower s = map tolower_char s"

definition isspace :: "char \<Rightarrow> bool" where
  "isspace c = (let n = of_char c :: nat in n = 32 \<or> (9 \<le> n \<and> n \<le> 13))"

definition isdigit :: "char \<Rightarrow> bool" where
  "isdigit c = (let n = of_char c :: nat in 48 \<le> n \<and> n \<le> 57)"

fun starts_with :: "'a list \<Rightarrow> 'a list \<Rightarrow> bool" where
  "starts_with [] xs = True"
| "starts_with (p # ps) [] = False"
| "starts_with (p # ps) (x # xs) = (p = x \<and> starts_with ps xs)"

text \<open>\<open>hay.find(needle) != npos\<close>.\<close>

fun str_find :: "string \<Rightarrow> string \<Rightarrow> bool" where
  "str_find needle [] = (needle = [])"
| "str_find needle (c # cs) = (starts_with needle (c # cs) \<or> str_find needle cs)"

definition ascii_lower :: "u8 \<Rightarrow> u8" where
  "ascii_lower c = (if c \<ge> 0x41 \<and> c \<le> 0x5A then c - 0x41 + 0x61 else c)"

fun ascii_match :: "string \<Rightarrow> u8 list \<Rightarrow> bool" where
  "ascii_match [] bs = True"
| "ascii_match (p # ps) [] = False"
| "ascii_match (p # ps) (b # bs) = (ascii_lower b = of_char p \<and> ascii_match ps bs)"

fun ascii_scan :: "string \<Rightarrow> u8 list \<Rightarrow> bool" where
  "ascii_scan needle [] = (needle = [])"
| "ascii_scan needle (b # bs) = (ascii_match needle (b # bs) \<or> ascii_scan needle bs)"

definition containsAsciiSubstring :: "u8 list \<Rightarrow> nat \<Rightarrow> string \<Rightarrow> bool" where
  "containsAsciiSubstring bytes sz needleLower =
     (if sz = 0 \<or> needleLower = [] then False else ascii_scan needleLower (take sz bytes))"

text \<open>
  \<open>std::stoi\<close>: optional white space and sign, at least one digit, anything after it; it
  throws (\<open>None\<close>) without a digit and outside the range of \<open>int\<close>.
\<close>

fun digits_value :: "string \<Rightarrow> int \<Rightarrow> int" where
  "digits_value [] acc = acc"
| "digits_value (c # cs) acc = digits_value cs (acc * 10 + (of_char c - 48))"

definition stoi :: "string \<Rightarrow> int option" where
  "stoi s =
     (let s = dropWhile isspace s;
          neg = (case s of c # _ \<Rightarrow> c = CHR ''-'' | [] \<Rightarrow> False);
          s = (case s of c # cs \<Rightarrow> if c = CHR ''-'' \<or> c = CHR ''+'' then cs else s | [] \<Rightarrow> s);
          ds = takeWhile isdigit s;
          v = (if neg then - digits_value ds 0 else digits_value ds 0) in
      if ds = [] \<or> v < -2147483648 \<or> v > 2147483647 then None else Some v)"

section \<open>The external table\<close>

datatype entry_kind = FilenameContains | FilenameExact | HeaderContains

record MappingEntry =
  kind :: entry_kind
  patternLower :: string
  mapperId :: int
  priority :: int

definition trim :: "string \<Rightarrow> string" where
  "trim l = rev (dropWhile isspace (rev (dropWhile isspace l)))"

fun split_tabs :: "string \<Rightarrow> string list" where
  "split_tabs [] = [[]]"
| "split_tabs (c # cs) =
     (if c = CHR 0x09 then [] # split_tabs cs
      else (case split_tabs cs of p # ps \<Rightarrow> (c # p) # ps | [] \<Rightarrow> [[c]]))"

definition parse_kind :: "string \<Rightarrow> entry_kind option" where
  "parse_kind t =
     (if t = ''filename_contains'' then Some FilenameContains
      else if t = ''filename_exact'' then Some FilenameExact
      else if t = ''header_contains'' then Some HeaderContains
      else None)"

definition parse_line :: "string \<Rightarrow> MappingEntry option" where
  "parse_line line =
     (let l = trim line in
      if l = [] \<or> hd l = CHR ''#'' then None
      else
        (let parts = split_tabs l in
         if length parts < 3 then None
         else
           (case stoi (parts ! 2) of
              None \<Rightarrow> None
            | Some mid \<Rightarrow>
                (let prio = (if length parts \<ge> 4 then (case stoi (parts ! 3) of Some p \<Rightarrow> p | None \<Rightarrow> 0)
                             else 0) in
                 (case parse_kind (parts ! 0) of
                    None \<Rightarrow> None
                  | Some k \<Rightarrow> Some \<lparr>kind = k, patternLower = toLower (parts ! 1),
                                mapperId = mid, priority = prio\<rparr>)))))"

text \<open>
  Each candidate is \<open>None\<close> when the file does not exist or cannot be opened; the first one
  that yields an entry is the table.
\<close>

fun loadExternalMapperTable :: "string list option list \<Rightarrow> MappingEntry list" where
  "loadExternalMapperTable [] = []"
| "loadExternalMapperTable (None # fs) = loadExternalMapperTable fs"
| "loadExternalMapperTable (Some ls # fs) =
     (let out = List.map_filter parse_line ls in
      if out \<noteq> [] then out else loadExternalMapperTable fs)"

section \<open>Choosing the mapper\<close>

definition INT_MIN :: int where "INT_MIN = -2147483648"

definition makeMapperById :: "int \<Rightarrow> mapper" where
  "makeMapperById i =
     (if i = 5235 then Sega3155235Mapper new_cartridge
      else if i = 5365 then Sega3155365Mapper new_cartridge
      else if i = 999 then CodemastersMapper new_codemasters
      else Sega3155208Mapper new_cartridge)"

record Hint =
  patterns :: "string list"
  hintMapperId :: int
  hintPriority :: int

definition mapperHints :: "Hint list" where
  "mapperHints =
     [\<lparr>patterns = [''phantasy'', ''golden axe'', ''after burner'', ''galaxy force'', ''mercs'',
         ''phantasy star'', ''r-type'', ''penguin land'', ''monopoly''],
       hintMapperId = 5235, hintPriority = 100\<rparr>,
      \<lparr>patterns = [''bubble'', ''bubble bobble'', ''chase hq'', ''operation wolf'',
         ''wonder boy iii'', ''wonder boy 3''],
       hintMapperId = 5365, hintPriority = 90\<rparr>,
      \<lparr>patterns = [''alex kidd'', ''astro'', ''gangster'', ''ghostbusters'', ''the ninja'',
         ''world grand prix'', ''hang-on''],
       hintMapperId = 5208, hintPriority = 80\<rparr>]"

definition entry_matches :: "string \<Rightarrow> u8 list \<Rightarrow> nat \<Rightarrow> MappingEntry \<Rightarrow> bool" where
  "entry_matches filenameLower bytes sz e =
     (case kind e of
        FilenameExact \<Rightarrow> filenameLower \<noteq> [] \<and> filenameLower = patternLower e
      | FilenameContains \<Rightarrow> filenameLower \<noteq> [] \<and> str_find (patternLower e) filenameLower
      | HeaderContains \<Rightarrow> containsAsciiSubstring bytes (min sz 0x800) (patternLower e))"

text \<open>The loop over the table, with the best priority and mapper so far.\<close>

fun best_entry :: "(MappingEntry \<Rightarrow> bool) \<Rightarrow> MappingEntry list \<Rightarrow> int \<times> int \<Rightarrow> int \<times> int" where
  "best_entry matched [] b = b"
| "best_entry matched (e # es) (bp, bid) =
     (if matched e \<and> (priority e > bp \<or> bp = INT_MIN)
      then best_entry matched es (priority e, mapperId e)
      else best_entry matched es (bp, bid))"

text \<open>The two nested loops over the hints.\<close>

fun best_pattern :: "(string \<Rightarrow> bool) \<Rightarrow> string list \<Rightarrow> int \<times> int \<Rightarrow> int \<times> int \<Rightarrow> int \<times> int" where
  "best_pattern found [] h b = b"
| "best_pattern found (pat # pats) (pr, mid) (bp, bid) =
     (if found pat \<and> pr > bp then best_pattern found pats (pr, mid) (pr, mid)
      else best_pattern found pats (pr, mid) (bp, bid))"

fun best_hint :: "(string \<Rightarrow> bool) \<Rightarrow> Hint list \<Rightarrow> int \<times> int \<Rightarrow> int \<times> int" where
  "best_hint found [] b = b"
| "best_hint found (h # hs) b =
     best_hint found hs (best_pattern found (patterns h) (hintPriority h, hintMapperId h) b)"

definition heuristicId :: "string \<Rightarrow> u8 list \<Rightarrow> nat \<Rightarrow> int" where
  "heuristicId filenameLower bytes sz =
     (let b = (if filenameLower \<noteq> []
               then best_hint (\<lambda>pat. str_find (toLower pat) filenameLower) mapperHints (-1, -1)
               else (-1, -1));
          b = (if fst b < 0
               then best_hint (\<lambda>pat. containsAsciiSubstring bytes (min sz 0x20000) (toLower pat))
                      mapperHints b
               else b) in
      if snd b \<noteq> -1 then snd b
      else if sz \<le> 131072 then 5208 else if sz \<le> 524288 then 5235 else 5365)"

definition heuristicMapper :: "string \<Rightarrow> u8 list \<Rightarrow> nat \<Rightarrow> mapper" where
  "heuristicMapper filenameLower bytes sz =
     (case m_load (Some bytes) sz (makeMapperById (heuristicId filenameLower bytes sz)) of
        (True, m) \<Rightarrow> m
      | (False, _) \<Rightarrow> snd (m_load (Some bytes) sz (BaseCartridge new_cartridge)))"

definition createMapperFromRom ::
  "string list option list \<Rightarrow> u8 list option \<Rightarrow> nat \<Rightarrow> string option \<Rightarrow> mapper" where
  "createMapperFromRom candidates data sz romName =
     (case data of
        None \<Rightarrow> snd (m_load None 0 (BaseCartridge new_cartridge))
      | Some bytes \<Rightarrow>
          (if sz = 0 then snd (m_load None 0 (BaseCartridge new_cartridge))
           else
             (let filenameLower = (case romName of Some n \<Rightarrow> toLower n | None \<Rightarrow> []);
                  table = loadExternalMapperTable candidates;
                  ext = best_entry (entry_matches filenameLower bytes sz) table (INT_MIN, -1) in
              if table \<noteq> [] \<and> snd ext \<noteq> -1 then
                (case m_load (Some bytes) sz (makeMapperById (snd ext)) of
                   (True, m) \<Rightarrow> m
                 | (False, _) \<Rightarrow> heuristicMapper filenameLower bytes sz)
              else heuristicMapper filenameLower bytes sz)))"

section \<open>Selection\<close>

text \<open>The table loop keeps the first of the matching entries with the highest priority.\<close>

lemma best_entry_bound:
  "\<forall>e \<in> set es. matched e \<longrightarrow> priority e \<le> bp \<and> INT_MIN < priority e \<Longrightarrow>
     best_entry matched es (bp, bid) = (bp, bid)"
  by (induction es) auto

lemma best_entry_split:
  assumes "\<forall>e \<in> set es. matched e \<longrightarrow> INT_MIN < priority e"
    and "\<exists>e \<in> set es. matched e \<and> bp < priority e"
  shows "\<exists>xs e ys. es = xs @ e # ys \<and> matched e \<and> bp < priority e \<and>
    (\<forall>x \<in> set xs. matched x \<longrightarrow> priority x < priority e) \<and>
    (\<forall>y \<in> set ys. matched y \<longrightarrow> priority y \<le> priority e) \<and>
    best_entry matched es (bp, bid) = (priority e, mapperId e)"
  using assms
proof (induction es arbitrary: bp bid)
  case (Cons x es)
  define tk where "tk = (matched x \<and> bp < priority x)"
  define nb where "nb = (if tk then priority x else bp)"
  define ni where "ni = (if tk then mapperId x else bid)"
  have step: "best_entry matched (x # es) (bp, bid) = best_entry matched es (nb, ni)"
    using Cons.prems(1) by (auto simp: tk_def nb_def ni_def)
  have x: "matched x \<longrightarrow> priority x \<le> nb" "bp \<le> nb" by (auto simp: tk_def nb_def)
  show ?case
  proof (cases "\<exists>e \<in> set es. matched e \<and> nb < priority e")
    case True
    moreover have "\<forall>e \<in> set es. matched e \<longrightarrow> INT_MIN < priority e"
      using Cons.prems(1) by simp
    ultimately obtain xs e ys where e: "es = xs @ e # ys" "matched e" "nb < priority e"
      "\<forall>x \<in> set xs. matched x \<longrightarrow> priority x < priority e"
      "\<forall>y \<in> set ys. matched y \<longrightarrow> priority y \<le> priority e"
      "best_entry matched es (nb, ni) = (priority e, mapperId e)"
      using Cons.IH [of nb ni] by blast
    have "x # es = (x # xs) @ e # ys" "bp < priority e"
      "\<forall>z \<in> set (x # xs). matched z \<longrightarrow> priority z < priority e"
      using e(1,3,4) x by auto
    then show ?thesis using e(2,5,6) step by (metis (no_types, lifting))
  next
    case False
    then have stop: "best_entry matched es (nb, ni) = (nb, ni)"
      using best_entry_bound [of es matched nb ni] Cons.prems(1) by (auto simp: not_less)
    have tk: tk using False Cons.prems(2) by (auto simp: nb_def tk_def split: if_splits)
    then have "nb = priority x" "ni = mapperId x" "matched x" "bp < priority x"
      by (simp_all add: nb_def ni_def tk_def)
    moreover have "\<forall>y \<in> set es. matched y \<longrightarrow> priority y \<le> priority x"
      using False calculation by (auto simp: not_less)
    ultimately show ?thesis
      using stop step by (intro exI [of _ "[]"] exI [of _ x] exI [of _ es]) simp
  qed
qed simp

lemma best_entry_none:
  "\<forall>e \<in> set es. \<not> matched e \<Longrightarrow> best_entry matched es b = b"
  by (induction matched es b rule: best_entry.induct) auto

section \<open>The result\<close>

lemma m_loaded_romData: "m_loaded m \<longleftrightarrow> m_romData m \<noteq> []"
  by (simp add: m_loaded_def m_romData_def cart_loaded_def)

lemma m_sameClass_refl: "m_sameClass m m"
  by (cases m) simp_all

lemma tolower_idem [simp]: "tolower_char (tolower_char c) = tolower_char c"
  by (simp add: tolower_char_def Let_def)

lemma toLower_idem [simp]: "toLower (toLower s) = toLower s"
  by (simp add: toLower_def)

lemma makeMapperById_ok: "m_ok (makeMapperById i)"
  by (simp add: makeMapperById_def cart_ok_new cm_ok_def new_codemasters_def cart_ok_def
      new_cartridge_def cartridge.defs)

lemma makeMapperById_class: "\<not> m_sameClass (makeMapperById i) (BaseCartridge c)"
  by (simp add: makeMapperById_def)

lemma m_load_class: "m_sameClass (snd (m_load d n m)) x = m_sameClass m x"
  by (cases m; cases x) simp_all

lemma m_load_Some: "fst (m_load (Some d) n m)"
  by (cases m) (simp_all add: cart_load_def)

lemma m_load_case:
  "(case m_load (Some d) n m of (True, m) \<Rightarrow> m | (False, _) \<Rightarrow> h) = snd (m_load (Some d) n m)"
  using m_load_Some [of d n m] by (cases "m_load (Some d) n m") simp

lemma heuristicMapper_eq:
  "heuristicMapper f bytes sz = snd (m_load (Some bytes) sz (makeMapperById (heuristicId f bytes sz)))"
  by (simp only: heuristicMapper_def m_load_case)

text \<open>Which identifier the whole procedure settles on.\<close>

definition chosenId :: "string list option list \<Rightarrow> u8 list \<Rightarrow> nat \<Rightarrow> string option \<Rightarrow> int" where
  "chosenId candidates bytes sz romName =
     (let f = (case romName of Some n \<Rightarrow> toLower n | None \<Rightarrow> []);
          ext = snd (best_entry (entry_matches f bytes sz) (loadExternalMapperTable candidates)
                       (INT_MIN, -1)) in
      if ext \<noteq> -1 then ext else heuristicId f bytes sz)"

lemma createMapperFromRom_eq:
  assumes "sz \<noteq> 0"
  shows "createMapperFromRom candidates (Some bytes) sz romName =
    snd (m_load (Some bytes) sz (makeMapperById (chosenId candidates bytes sz romName)))"
  using assms
  by (cases "loadExternalMapperTable candidates = []")
    (simp_all add: createMapperFromRom_def chosenId_def heuristicMapper_eq m_load_case Let_def
      del: m_load.simps)

text \<open>Names are compared without regard to case.\<close>

lemma factory_case_insensitive:
  "toLower a = toLower b \<Longrightarrow>
     createMapperFromRom candidates d sz (Some a) = createMapperFromRom candidates d sz (Some b)"
  by (simp only: createMapperFromRom_def option.case)

lemma factory_loads:
  assumes "bytes \<noteq> []" and "length bytes < 2 ^ 32" and "0 < sz"
  shows "m_ok (createMapperFromRom candidates (Some bytes) sz romName)"
    and "m_loaded (createMapperFromRom candidates (Some bytes) sz romName)"
    and "m_romData (createMapperFromRom candidates (Some bytes) sz romName) = take sz bytes"
    and "\<not> m_sameClass (createMapperFromRom candidates (Some bytes) sz romName) (BaseCartridge new_cartridge)"
  using assms m_load_ok [OF makeMapperById_ok assms(2,1,3)]
  by (simp_all add: createMapperFromRom_eq m_load_class makeMapperById_class m_loaded_romData del: m_load.simps)

section \<open>Properties\<close>

text \<open>A ROM of at least one byte always gets a loaded, well-formed mapper of one of the four
  chip classes, whatever its name, its contents and the external tables: the ROM is taken over
  exactly, and the fallback class is never used.\<close>

theorem factory_makes_loaded_mapper:
  assumes "bytes \<noteq> []" and "length bytes < 2 ^ 32" and "0 < sz"
  shows "(let m = createMapperFromRom candidates (Some bytes) sz romName in
    m_ok m \<and> m_loaded m \<and> m_romData m = take sz bytes \<and> \<not> m_sameClass m (BaseCartridge new_cartridge))"
  using factory_loads [OF assms] by (simp add: Let_def)

theorem factory_makes_loaded_mapper_witness:
  "m_romData (createMapperFromRom [None] (Some [0x3C, 0x18]) 2 (Some ''Game.gg'')) = [0x3C, 0x18]"
  using factory_makes_loaded_mapper [of "[0x3C, 0x18]" 2 "[None]" "Some ''Game.gg''"]
  by (simp add: Let_def)

text \<open>Overlapping table entries are resolved deterministically: whenever some entry of the
  first usable table matches with a mapper identifier other than -1, the chosen class is that of
  the first entry among the matching ones of highest priority, and the built-in heuristics are
  not consulted.\<close>

theorem factory_table_priority:
  assumes "sz \<noteq> 0" and "f = (case romName of Some n \<Rightarrow> toLower n | None \<Rightarrow> [])"
    and "\<forall>e \<in> set (loadExternalMapperTable candidates).
      entry_matches f bytes sz e \<longrightarrow> INT_MIN < priority e \<and> mapperId e \<noteq> -1"
    and "\<exists>e \<in> set (loadExternalMapperTable candidates). entry_matches f bytes sz e"
  shows "\<exists>xs e ys. loadExternalMapperTable candidates = xs @ e # ys \<and> entry_matches f bytes sz e \<and>
    (\<forall>x \<in> set xs. entry_matches f bytes sz x \<longrightarrow> priority x < priority e) \<and>
    (\<forall>y \<in> set ys. entry_matches f bytes sz y \<longrightarrow> priority y \<le> priority e) \<and>
    m_sameClass (createMapperFromRom candidates (Some bytes) sz romName) (makeMapperById (mapperId e))"
proof -
  obtain xs e ys where e: "loadExternalMapperTable candidates = xs @ e # ys"
    "entry_matches f bytes sz e"
    "\<forall>x \<in> set xs. entry_matches f bytes sz x \<longrightarrow> priority x < priority e"
    "\<forall>y \<in> set ys. entry_matches f bytes sz y \<longrightarrow> priority y \<le> priority e"
    "best_entry (entry_matches f bytes sz) (loadExternalMapperTable candidates) (INT_MIN, -1) =
      (priority e, mapperId e)"
    using best_entry_split [of "loadExternalMapperTable candidates" "entry_matches f bytes sz" INT_MIN "-1"]
      assms(3,4) by blast
  have "mapperId e \<noteq> -1" using assms(3) e(1,2) by auto
  then have "chosenId candidates bytes sz romName = mapperId e"
    using e(5) assms(2) by (simp add: chosenId_def Let_def)
  then have "m_sameClass (createMapperFromRom candidates (Some bytes) sz romName)
      (makeMapperById (mapperId e))"
    using assms(1) by (simp add: createMapperFromRom_eq m_load_class m_sameClass_refl)
  then show ?thesis using e by blast
qed

theorem factory_table_priority_witness:
  "m_sameClass (createMapperFromRom
     [None, Some [''# a comment'', ''filename_contains'' @ [CHR 0x09] @ ''GOLF'' @ [CHR 0x09] @ ''999'']]
     (Some [0]) 1 (Some ''Els Golf.gg'')) (CodemastersMapper new_codemasters)"
proof -
  let ?tab = "[None, Some [''# a comment'', ''filename_contains'' @ [CHR 0x09] @ ''GOLF'' @ [CHR 0x09] @ ''999'']]"
  have tab: "loadExternalMapperTable ?tab =
      [\<lparr>kind = FilenameContains, patternLower = ''golf'', mapperId = 999, priority = 0\<rparr>]"
    by code_simp
  have hit: "entry_matches (toLower ''Els Golf.gg'') [0] 1
      \<lparr>kind = FilenameContains, patternLower = ''golf'', mapperId = 999, priority = 0\<rparr>"
    by code_simp
  obtain xs e ys where "loadExternalMapperTable ?tab = xs @ e # ys"
    "m_sameClass (createMapperFromRom ?tab (Some [0]) 1 (Some ''Els Golf.gg''))
      (makeMapperById (mapperId e))"
    using factory_table_priority [of 1 "toLower ''Els Golf.gg''" "Some ''Els Golf.gg''" ?tab "[0]"]
    unfolding tab using hit by (auto simp: INT_MIN_def)
  then show ?thesis unfolding tab by (cases xs) (auto simp: makeMapperById_def)
qed

end
