(* ===== verification/GG_Input.thy ===== *)
theory GG_Input
  imports Prelude
begin

text \<open>
  \<open>cores/gamegear/GameGearInput.{hpp,cpp}\<close> and the button masks of
  \<open>machine/InputTypes.hpp\<close>: the active-low controller port, the Game Gear system ports
  \<open>$00-$06\<close> and the ten-byte state.
\<close>

section \<open>Buttons\<close>

datatype InputButton = BRight | BLeft | BUp | BDown | Button1 | Button2 | Meta1 | Meta2

fun inputButtonMask :: "InputButton \<Rightarrow> u8" where
  "inputButtonMask BRight = 0x01"
| "inputButtonMask BLeft = 0x02"
| "inputButtonMask BUp = 0x04"
| "inputButtonMask BDown = 0x08"
| "inputButtonMask Button1 = 0x10"
| "inputButtonMask Button2 = 0x20"
| "inputButtonMask Meta1 = 0x40"
| "inputButtonMask Meta2 = 0x80"

definition button_down :: "u8 \<Rightarrow> InputButton \<Rightarrow> bool" where
  "button_down buttons b \<longleftrightarrow> buttons AND inputButtonMask b \<noteq> 0"

section \<open>State and operations\<close>

record input =
  logicalButtons :: u8
  extData :: u8
  extDirectionNmi :: u8
  serialTxData :: u8
  serialRxData :: u8
  serialControl :: u8
  audioStereoControl :: u8

definition new_input :: input where
  "new_input = \<lparr>logicalButtons = 0, extData = 0, extDirectionNmi = 0xFF, serialTxData = 0,
     serialRxData = 0, serialControl = 0, audioStereoControl = 0xFF\<rparr>"

definition in_reset :: "input \<Rightarrow> input" where
  "in_reset s = \<lparr>logicalButtons = 0, extData = 0x7F, extDirectionNmi = 0xFF, serialTxData = 0,
     serialRxData = 0xFF, serialControl = 0, audioStereoControl = 0xFF\<rparr>"

definition setLogicalButtons :: "u8 \<Rightarrow> input \<Rightarrow> input" where
  "setLogicalButtons buttons s = s\<lparr>logicalButtons := buttons\<rparr>"

definition clear_when :: "bool \<Rightarrow> u8 \<Rightarrow> u8 \<Rightarrow> u8" where
  "clear_when c m state = (if c then state AND NOT m else state)"

definition readInputs :: "input \<Rightarrow> u8" where
  "readInputs s =
     (let down = button_down (logicalButtons s);
          state = 0xFF;
          state = clear_when (down BUp) 0x01 state;
          state = clear_when (down BDown) 0x02 state;
          state = clear_when (down BLeft) 0x04 state;
          state = clear_when (down BRight) 0x08 state;
          state = clear_when (down Button1) 0x10 state;
          state = clear_when (down Button2) 0x20 state;
          state = clear_when (down Meta1) 0x80 state
      in state)"

definition readSystemPort0 :: "input \<Rightarrow> u8" where
  "readSystemPort0 s =
     (let state = 0x40 in
      if logicalButtons s AND inputButtonMask Meta2 = 0 then state OR 0x80 else state)"

definition readSystemPort :: "u8 \<Rightarrow> input \<Rightarrow> u8" where
  "readSystemPort port s =
     (if port = 0x00 then readSystemPort0 s
      else if port = 0x01 then extData s
      else if port = 0x02 then extDirectionNmi s
      else if port = 0x03 then serialTxData s
      else if port = 0x04 then serialRxData s
      else if port = 0x05 then serialControl s
      else 0xFF)"

definition writeSystemPort :: "u8 \<Rightarrow> u8 \<Rightarrow> input \<Rightarrow> input" where
  "writeSystemPort port v s =
     (if port = 0x01 then s\<lparr>extData := v\<rparr>
      else if port = 0x02 then s\<lparr>extDirectionNmi := v\<rparr>
      else if port = 0x03 then s\<lparr>serialTxData := v\<rparr>
      else if port = 0x05 then s\<lparr>serialControl := v\<rparr>
      else if port = 0x06 then s\<lparr>audioStereoControl := v\<rparr>
      else s)"

definition in_exportState :: "input \<Rightarrow> u8 list" where
  "in_exportState s =
     le32 (ucast (logicalButtons s)) @
     [extData s, extDirectionNmi s, serialTxData s, serialRxData s, serialControl s,
      audioStereoControl s]"

definition in_importState :: "input \<Rightarrow> u8 list \<Rightarrow> input result" where
  "in_importState s state =
     (if length state \<noteq> 10
        then Inl (Invalid_argument ''Game Gear input state must be exactly 10 bytes'')
      else Inr (s\<lparr>
        logicalButtons := ucast (mk32 (state ! 0) (state ! 1) (state ! 2) (state ! 3)),
        extData := state ! 4, extDirectionNmi := state ! 5, serialTxData := state ! 6,
        serialRxData := state ! 7, serialControl := state ! 8, audioStereoControl := state ! 9\<rparr>))"

section \<open>Lemmas\<close>

text \<open>The bit of the controller port that a button drives; \<open>Meta2\<close> is read on port 0.\<close>

fun port_bit :: "InputButton \<Rightarrow> nat option" where
  "port_bit BUp = Some 0"
| "port_bit BDown = Some 1"
| "port_bit BLeft = Some 2"
| "port_bit BRight = Some 3"
| "port_bit Button1 = Some 4"
| "port_bit Button2 = Some 5"
| "port_bit Meta1 = Some 7"
| "port_bit Meta2 = None"

lemma bit_clear_when: "bit (clear_when c m s) n \<longleftrightarrow> bit s n \<and> \<not> (c \<and> bit m n)"
  by (auto simp: clear_when_def bit_simps dest: bit_imp_le_length)

lemma below_8: "n < 8 \<Longrightarrow> n \<in> {0, 1, 2, 3, 4, 5, 6, 7 :: nat}"
  by auto

lemma byte_numeral_bits:
  "bit (0x01 :: u8) n \<longleftrightarrow> n = 0" "bit (0x02 :: u8) n \<longleftrightarrow> n = 1" "bit (0x04 :: u8) n \<longleftrightarrow> n = 2"
  "bit (0x08 :: u8) n \<longleftrightarrow> n = 3" "bit (0x10 :: u8) n \<longleftrightarrow> n = 4" "bit (0x20 :: u8) n \<longleftrightarrow> n = 5"
  "bit (0x40 :: u8) n \<longleftrightarrow> n = 6" "bit (0x80 :: u8) n \<longleftrightarrow> n = 7" "bit (0xFF :: u8) n \<longleftrightarrow> n < 8"
  by (cases "n < 8"; use below_8 [of n] bit_imp_le_length [of _ n] in force)+

fun button_bit :: "InputButton \<Rightarrow> nat" where
  "button_bit BRight = 0"
| "button_bit BLeft = 1"
| "button_bit BUp = 2"
| "button_bit BDown = 3"
| "button_bit Button1 = 4"
| "button_bit Button2 = 5"
| "button_bit Meta1 = 6"
| "button_bit Meta2 = 7"

lemma inputButtonMask_exp: "inputButtonMask b = 2 ^ button_bit b"
  by (cases b) simp_all

lemma button_down_bit: "button_down w b \<longleftrightarrow> bit w (button_bit b)"
  by (simp add: button_down_def inputButtonMask_exp and_exp_eq_0_iff_not_bit)

lemma readInputs_bit:
  "bit (readInputs s) n \<longleftrightarrow> n < 8 \<and>
     \<not> (\<exists>b. port_bit b = Some n \<and> button_down (logicalButtons s) b)"
proof (cases "n < 8")
  case True
  have ex: "(\<exists>b. P b) \<longleftrightarrow> P BRight \<or> P BLeft \<or> P BUp \<or> P BDown \<or> P Button1 \<or> P Button2 \<or> P Meta1 \<or> P Meta2" for P
    by (metis InputButton.exhaust)
  show ?thesis
    using below_8 [OF True] unfolding ex
    by (elim insertE; simp add: readInputs_def Let_def bit_clear_when byte_numeral_bits)
next
  case False
  then show ?thesis by (auto dest: bit_imp_le_length)
qed

lemma in_import_export: "in_importState t (in_exportState s) = Inr s"
proof -
  have "ucast (ucast (logicalButtons s) :: u32) = logicalButtons s"
    by (rule bit_word_eqI) (simp add: bit_simps)
  then show ?thesis
    using mk32_bytes [of "ucast (logicalButtons s)"]
    by (simp add: in_importState_def in_exportState_def le32_def)
qed

interpretation in_state: state_codec in_exportState in_importState "\<lambda>_. True" "\<lambda>_ _. True" "\<lambda>t s. s"
  by unfold_locales (simp_all add: in_import_export)

section \<open>Properties\<close>

text \<open>The controller port is active low and complete: bit \<open>n\<close> of the byte read at \<open>$DC\<close> is
  clear exactly when a button wired to that bit is held, bit 6 always reads as one, and every
  combination of the seven buttons is distinguishable from the byte.\<close>

theorem input_port_active_low:
  "(\<forall>n. bit (readInputs s) n \<longleftrightarrow>
      n < 8 \<and> \<not> (\<exists>b. port_bit b = Some n \<and> button_down (logicalButtons s) b)) \<and>
   bit (readInputs s) 6 \<and>
   (readInputs s = readInputs t \<longleftrightarrow>
      (\<forall>b. b \<noteq> Meta2 \<longrightarrow> button_down (logicalButtons s) b = button_down (logicalButtons t) b))"
proof -
  have six: "port_bit b \<noteq> Some 6" for b by (cases b) simp_all
  have inj: "port_bit b = Some n \<Longrightarrow> port_bit c = Some n \<Longrightarrow> b = c" for b c n
    by (cases b; cases c) simp_all
  have wired: "\<exists>n < 8. port_bit b = Some n" if "b \<noteq> Meta2" for b
    using that by (cases b) simp_all
  have meta2: "port_bit Meta2 = None" by simp
  have "readInputs s = readInputs t \<longleftrightarrow> (\<forall>n < 8. bit (readInputs s) n = bit (readInputs t) n)"
    by (auto intro: bit_word_eqI)
  also have "\<dots> \<longleftrightarrow> (\<forall>b. b \<noteq> Meta2 \<longrightarrow> button_down (logicalButtons s) b = button_down (logicalButtons t) b)"
  proof (rule iffI; intro allI impI)
    fix b assume eq: "\<forall>n < 8. bit (readInputs s) n = bit (readInputs t) n" and "b \<noteq> Meta2"
    then obtain n where n: "n < 8" "port_bit b = Some n" using wired by blast
    then have "(\<exists>c. port_bit c = Some n \<and> button_down w c) = button_down w b" for w
      using inj by blast
    then show "button_down (logicalButtons s) b = button_down (logicalButtons t) b"
      using eq n(1) by (metis readInputs_bit)
  next
    fix n :: nat
    assume "\<forall>b. b \<noteq> Meta2 \<longrightarrow> button_down (logicalButtons s) b = button_down (logicalButtons t) b"
      and "n < 8"
    then have "port_bit b = Some n \<and> button_down (logicalButtons s) b \<longleftrightarrow>
        port_bit b = Some n \<and> button_down (logicalButtons t) b" for b
      using meta2 by (cases "b = Meta2") simp_all
    then show "bit (readInputs s) n = bit (readInputs t) n"
      by (simp only: readInputs_bit)
  qed
  finally show ?thesis using six by (simp add: readInputs_bit)
qed

theorem input_port_active_low_witness:
  "\<not> bit (readInputs (setLogicalButtons 0x24 new_input)) 0 \<and>
   \<not> bit (readInputs (setLogicalButtons 0x24 new_input)) 5 \<and>
   readInputs (setLogicalButtons 0x24 new_input) = readInputs (setLogicalButtons 0xA4 new_input)"
proof -
  let ?s = "setLogicalButtons 0x24 new_input" and ?t = "setLogicalButtons 0xA4 new_input"
  have down: "button_down (logicalButtons ?s) BUp" "button_down (logicalButtons ?s) Button2"
    by (simp_all add: button_down_def setLogicalButtons_def)
  have "button_down (logicalButtons ?s) b = button_down (logicalButtons ?t) b" if "b \<noteq> Meta2" for b
    using that by (cases b) (simp_all add: button_down_def setLogicalButtons_def)
  then have "readInputs ?s = readInputs ?t"
    using input_port_active_low [of ?s ?t] by blast
  moreover have "port_bit BUp = Some 0" "port_bit Button2 = Some 5" by simp_all
  ultimately show ?thesis
    using input_port_active_low [of ?s ?t] down by blast
qed

end
