(* ===== verification/Machine_Audio.thy ===== *)
theory Machine_Audio
  imports Prelude
begin

text \<open>
  The sound events both sound generators hand to the audio service: \<open>src/machine/AudioPipeline.hpp\<close>.
\<close>

datatype PsgVoiceKind = VTone | VPulse | VWave | VNoise

datatype PsgEventKind =
    StateSnapshot | GateOn | GateOff | Retrigger | PitchChange | LevelChange | RoutingChange
  | TimbreChange | RawWrite

record PsgAudioEvent =
  sampleFrameOffset :: u32
  event_sequence :: u64
  voiceId :: u8
  voiceKind :: PsgVoiceKind
  event_kind :: PsgEventKind
  frequencyMilliHz :: u32
  levelQ15 :: u16
  routingMask :: u8
  timbre :: u8
  rawAddress :: u16
  rawValue :: u8
  gate :: bool
  hasRawWrite :: bool

end
