(* ===== verification/Binary64.thy ===== *)
theory Binary64
  imports Prelude
begin

text \<open>
  The part of IEEE 754 \<open>double\<close> that the sound generator uses: finite non-negative numbers
  as their 64-bit patterns, with addition, subtraction and comparison under round to nearest, ties
  to even. A number is a natural multiple of \<open>2 ^ -1074\<close>, so \<open>d_val\<close> counts those units.
\<close>

type_synonym double = u64

section \<open>Rounding to 53 significant bits\<close>

fun bits_len :: "nat \<Rightarrow> nat" where
  "bits_len n = (if n = 0 then 0 else Suc (bits_len (n div 2)))"

declare bits_len.simps [simp del]

definition d_round :: "nat \<Rightarrow> nat" where
  "d_round n =
     (if n < 2 ^ 53 then n
      else
        (let k = bits_len n - 53; q = n div 2 ^ k; r = n mod 2 ^ k in
         (if 2 * r > 2 ^ k \<or> (2 * r = 2 ^ k \<and> odd q) then q + 1 else q) * 2 ^ k))"

section \<open>Bit patterns\<close>

definition d_unit :: nat where "d_unit = 2 ^ 1074"

definition d_exponent :: "double \<Rightarrow> nat" where
  "d_exponent x = unat (drop_bit 52 x AND 0x7FF)"

definition d_mantissa :: "double \<Rightarrow> nat" where
  "d_mantissa x = unat (x AND 0xFFFFFFFFFFFFF)"

definition d_negative :: "double \<Rightarrow> bool" where
  "d_negative x \<longleftrightarrow> bit x 63"

definition d_finite :: "double \<Rightarrow> bool" where
  "d_finite x \<longleftrightarrow> d_exponent x \<noteq> 0x7FF"

definition d_val :: "double \<Rightarrow> nat" where
  "d_val x =
     (if d_exponent x = 0 then d_mantissa x
      else (2 ^ 52 + d_mantissa x) * 2 ^ (d_exponent x - 1))"

text \<open>The pattern of a number of at most 53 significant bits.\<close>

definition d_enc :: "nat \<Rightarrow> double" where
  "d_enc n =
     (if n < 2 ^ 53 then of_nat n
      else (let k = bits_len n - 53 in of_nat ((k + 1) * 2 ^ 52 + (n div 2 ^ k - 2 ^ 52))))"

definition d_add :: "double \<Rightarrow> double \<Rightarrow> double" where
  "d_add x y = d_enc (d_round (d_val x + d_val y))"

definition d_sub :: "double \<Rightarrow> double \<Rightarrow> double" where
  "d_sub x y = d_enc (d_round (d_val x - d_val y))"

definition d_of_nat :: "nat \<Rightarrow> double" where
  "d_of_nat n = d_enc (d_round (n * d_unit))"

section \<open>Bounds\<close>

lemma bits_len_bounds: "0 < n \<Longrightarrow> 2 ^ (bits_len n - 1) \<le> n \<and> n < 2 ^ bits_len n"
proof (induction n rule: bits_len.induct)
  case (1 n)
  show ?case
  proof (cases "n div 2 = 0")
    case True
    then have "n = 1" using 1(2) by auto
    then show ?thesis by (simp add: bits_len.simps)
  next
    case False
    then have ih: "2 ^ (bits_len (n div 2) - 1) \<le> n div 2" "n div 2 < 2 ^ bits_len (n div 2)"
      using 1 by auto
    moreover obtain m where m: "bits_len (n div 2) = Suc m"
      using False by (simp add: bits_len.simps [of "n div 2"])
    ultimately show ?thesis
      using 1(2) by (simp add: bits_len.simps [of n] m) linarith
  qed
qed

lemma bits_len_unique:
  assumes "2 ^ m \<le> n" and "n < 2 ^ Suc m"
  shows "bits_len n = Suc m"
proof -
  have n: "0 < n" using assms(1) by (meson less_le_trans zero_less_numeral zero_less_power)
  have "2 ^ (bits_len n - 1) < (2 :: nat) ^ Suc m"
    using bits_len_bounds [OF n] assms by linarith
  then have "bits_len n - 1 < Suc m" by (rule power_less_imp_less_exp [rotated]) simp
  moreover have "(2 :: nat) ^ m < 2 ^ bits_len n"
    using bits_len_bounds [OF n] assms by linarith
  then have "m < bits_len n" by (rule power_less_imp_less_exp [rotated]) simp
  ultimately show ?thesis by simp
qed

lemma d_round_small: "n < 2 ^ 53 \<Longrightarrow> d_round n = n"
  by (simp add: d_round_def)

text \<open>Rounding moves a number by at most half a unit in the last place.\<close>

lemma d_round_error:
  assumes "n < 2 ^ (53 + j)" and "0 < j"
  shows "2 * d_round n \<le> 2 * n + 2 ^ j \<and> 2 * n \<le> 2 * d_round n + 2 ^ j"
proof (cases "n < 2 ^ 53")
  case False
  define k where "k = bits_len n - 53"
  define q where "q = n div 2 ^ k"
  define r where "r = n mod 2 ^ k"
  have n: "n = q * 2 ^ k + r" by (simp only: q_def r_def div_mult_mod_eq)
  have r: "r < 2 ^ k" by (simp add: r_def)
  have "0 < n" using False by (cases n) simp_all
  then have "2 ^ (bits_len n - 1) < (2 :: nat) ^ (53 + j)"
    using bits_len_bounds [of n] assms(1) by linarith
  then have "bits_len n - 1 < 53 + j" by (rule power_less_imp_less_exp [rotated]) simp
  then have "(2 :: nat) ^ k \<le> 2 ^ j" using assms(2) by (intro power_increasing) (simp_all add: k_def)
  moreover have "d_round n = (if 2 * r > 2 ^ k \<or> (2 * r = 2 ^ k \<and> odd q) then q * 2 ^ k + 2 ^ k else q * 2 ^ k)"
    using False by (simp add: d_round_def k_def q_def r_def Let_def)
  moreover obtain p t where "p = (2 :: nat) ^ k" "t = q * 2 ^ k" by simp
  ultimately have "p \<le> 2 ^ j" "n = t + r" "r < p" "d_round n = (if 2 * r > p \<or> (2 * r = p \<and> odd q) then t + p else t)"
    using n r by simp_all
  then show ?thesis by (auto split: if_splits)
qed (simp add: d_round_small)

section \<open>Encoding\<close>

text \<open>Numbers of at most 53 significant bits below \<open>2 ^ 2046\<close> are what finite patterns denote.\<close>

definition d_exact :: "nat \<Rightarrow> bool" where
  "d_exact n \<longleftrightarrow> n < 2 ^ 53 \<or> (\<exists>q k. n = q * 2 ^ k \<and> 2 ^ 52 \<le> q \<and> q < 2 ^ 53 \<and> k < 2000)"

lemma d_exactI: "2 ^ 52 \<le> q \<Longrightarrow> q < 2 ^ 53 \<Longrightarrow> k < 2000 \<Longrightarrow> d_exact (q * 2 ^ k)"
  unfolding d_exact_def by blast

lemma unat_of_nat_u64: "n < 2 ^ 64 \<Longrightarrow> unat (of_nat n :: u64) = n"
  by (simp add: unat_of_nat take_bit_nat_eq_self)

lemma d_fields:
  assumes "e < 0x7FF" and "m < 2 ^ 52"
  shows "d_exponent (of_nat (e * 2 ^ 52 + m)) = e" and "d_mantissa (of_nat (e * 2 ^ 52 + m)) = m"
proof -
  have lt: "e * 2 ^ 52 + m < 2 ^ 64" using assms by simp
  then have u: "unat (of_nat (e * 2 ^ 52 + m) :: u64) = e * 2 ^ 52 + m"
    by (rule unat_of_nat_u64)
  have "(x AND 0x7FF) = take_bit 11 x" for x :: u64
    by (rule and_low_mask) simp
  moreover have "unat (drop_bit 52 x) = unat x div 2 ^ 52" for x :: u64
    by (simp only: unat_drop_bit_eq) (simp only: drop_bit_eq_div)
  ultimately have "d_exponent (of_nat (e * 2 ^ 52 + m)) = (e * 2 ^ 52 + m) div 2 ^ 52 mod 2 ^ 11"
    by (simp only: d_exponent_def unat_take_bit u)
  then show "d_exponent (of_nat (e * 2 ^ 52 + m)) = e"
    using assms by simp
  have "(x AND 0xFFFFFFFFFFFFF) = take_bit 52 x" for x :: u64
    by (rule and_low_mask) simp
  then have "d_mantissa (of_nat (e * 2 ^ 52 + m)) = (e * 2 ^ 52 + m) mod 2 ^ 52"
    by (simp only: d_mantissa_def unat_take_bit u)
  then show "d_mantissa (of_nat (e * 2 ^ 52 + m)) = m"
    using assms by simp
qed

lemma d_val_fields:
  assumes "e < 0x7FF" and "m < 2 ^ 52"
  shows "d_val (of_nat (e * 2 ^ 52 + m)) = (if e = 0 then m else (2 ^ 52 + m) * 2 ^ (e - 1))"
  using assms by (simp only: d_val_def d_fields)

lemma d_val_enc:
  assumes "d_exact n"
  shows "d_val (d_enc n) = n"
proof (cases "n < 2 ^ 53")
  case True
  show ?thesis
  proof (cases "n < 2 ^ 52")
    case True
    then show ?thesis using d_val_fields [of 0 n] by (simp add: d_enc_def)
  next
    case False
    then show ?thesis using True d_val_fields [of 1 "n - 2 ^ 52"] by (simp add: d_enc_def)
  qed
next
  case False
  then obtain q k where q: "n = q * 2 ^ k" "2 ^ 52 \<le> q" "q < 2 ^ 53" "k < 2000"
    using assms by (auto simp: d_exact_def)
  have "2 ^ (52 + k) \<le> n" "n < 2 ^ Suc (52 + k)"
    using q by (simp_all add: power_add)
  then have "bits_len n = Suc (52 + k)" by (rule bits_len_unique)
  then have "d_enc n = of_nat ((k + 1) * 2 ^ 52 + (q - 2 ^ 52))"
    using False q(1) by (simp add: d_enc_def Let_def)
  then show ?thesis
    using q d_val_fields [of "k + 1" "q - 2 ^ 52"] by simp
qed

lemma d_exact_round:
  assumes "n < 2 ^ 2000"
  shows "d_exact (d_round n)"
proof (cases "n < 2 ^ 53")
  case False
  define k where "k = bits_len n - 53"
  define q where "q = n div 2 ^ k"
  have "0 < n" using False by (cases n) simp_all
  then have b: "2 ^ (bits_len n - 1) \<le> n" "n < 2 ^ bits_len n" using bits_len_bounds by auto
  have "(2 :: nat) ^ 53 < 2 ^ bits_len n" using b False by linarith
  then have "53 < bits_len n" by (rule power_less_imp_less_exp [rotated]) simp
  then have len: "bits_len n = 53 + k" by (simp add: k_def)
  have "2 ^ (bits_len n - 1) < (2 :: nat) ^ 2000" using b assms by linarith
  then have "bits_len n - 1 < 2000" by (rule power_less_imp_less_exp [rotated]) simp
  then have k: "k < 1999" using len by simp
  have "2 ^ 52 * 2 ^ k \<le> n" "n < 2 ^ 53 * 2 ^ k"
    using b len by (simp_all add: power_add)
  then have q: "2 ^ 52 \<le> q" "q < 2 ^ 53"
    by (simp_all add: q_def less_eq_div_iff_mult_less_eq div_less_iff_less_mult)
  have "d_round n = q * 2 ^ k \<or> d_round n = (q + 1) * 2 ^ k"
    using False by (simp add: d_round_def k_def q_def Let_def)
  moreover have "d_exact (q * 2 ^ k)"
    using q k by (intro d_exactI) simp_all
  moreover have "d_exact ((q + 1) * 2 ^ k)"
  proof (cases "q + 1 < 2 ^ 53")
    case True
    then show ?thesis using q k by (intro d_exactI) simp_all
  next
    case False
    then have "q + 1 = 2 ^ 52 * 2" using q by simp
    then have e: "(q + 1) * 2 ^ k = 2 ^ 52 * 2 ^ Suc k"
      by (metis power_Suc mult.assoc)
    have "d_exact (2 ^ 52 * 2 ^ Suc k)"
      using k by (intro d_exactI) simp_all
    then show ?thesis by (simp only: e)
  qed
  ultimately show ?thesis by metis
qed (simp add: d_round_small d_exact_def)

lemma d_val_add: "d_val x + d_val y < 2 ^ 2000 \<Longrightarrow> d_val (d_add x y) = d_round (d_val x + d_val y)"
  by (simp add: d_add_def d_val_enc d_exact_round)

lemma d_val_sub: "d_val x < 2 ^ 2000 \<Longrightarrow> d_val (d_sub x y) = d_round (d_val x - d_val y)"
  by (simp add: d_sub_def d_val_enc d_exact_round)

lemma d_round_exact:
  assumes "d_exact n"
  shows "d_round n = n"
proof (cases "n < 2 ^ 53")
  case False
  then obtain q k where q: "n = q * 2 ^ k" "2 ^ 52 \<le> q" "q < 2 ^ 53"
    using assms by (auto simp: d_exact_def)
  have "2 ^ (52 + k) \<le> n" "n < 2 ^ Suc (52 + k)"
    using q by (simp_all add: power_add)
  then have "bits_len n = Suc (52 + k)" by (rule bits_len_unique)
  then show ?thesis using False q(1) by (simp add: d_round_def Let_def)
qed (simp add: d_round_small)

lemma d_exact_nat:
  assumes "0 < n" and "n < 2 ^ 52"
  shows "d_exact (n * d_unit)"
proof -
  define j where "j = 53 - bits_len n"
  have b: "2 ^ (bits_len n - 1) \<le> n" "n < 2 ^ bits_len n"
    using bits_len_bounds [OF assms(1)] by auto
  have "2 ^ (bits_len n - 1) < (2 :: nat) ^ 52" using b assms(2) by linarith
  then have "bits_len n - 1 < 52" by (rule power_less_imp_less_exp [rotated]) simp
  moreover have "0 < bits_len n" using assms(1) by (simp add: bits_len.simps [of n])
  ultimately have j: "bits_len n - 1 + j = 52" "bits_len n + j = 53" "j \<le> 52" by (auto simp: j_def)
  have "2 ^ (bits_len n - 1) * 2 ^ j \<le> n * 2 ^ j" "n * 2 ^ j < 2 ^ bits_len n * 2 ^ j"
    using b by simp_all
  then have "2 ^ 52 \<le> n * 2 ^ j" "n * 2 ^ j < 2 ^ 53"
    unfolding power_add [symmetric] j by simp_all
  then have "d_exact (n * 2 ^ j * 2 ^ (1074 - j))"
    by (rule d_exactI) simp
  moreover have "n * 2 ^ j * 2 ^ (1074 - j) = n * d_unit"
    using j(3) unfolding d_unit_def mult.assoc power_add [symmetric] by simp
  ultimately show ?thesis by simp
qed

text \<open>Whole numbers below \<open>2 ^ 52\<close> are represented exactly.\<close>

lemma d_val_of_nat: "0 < n \<Longrightarrow> n < 2 ^ 52 \<Longrightarrow> d_val (d_of_nat n) = n * d_unit"
  by (simp only: d_of_nat_def d_round_exact d_exact_nat d_val_enc)

text \<open>Numbers of a few billion: sums and differences stay close to the exact ones.\<close>

lemma d_small: "n \<le> 4000000000 * d_unit \<Longrightarrow> n < 2 ^ 2000 \<and> n < 2 ^ (53 + 1053)"
  by (simp add: d_unit_def)

lemma d_add_bound:
  assumes "d_val x + d_val y \<le> 4000000000 * d_unit"
  shows "d_val (d_add x y) \<le> d_val x + d_val y + d_unit"
proof -
  have "d_val x + d_val y < 2 ^ 2000" "2 * d_round (d_val x + d_val y) \<le> 2 * (d_val x + d_val y) + 2 ^ 1053"
    using d_small [OF assms] d_round_error [of "d_val x + d_val y" 1053] by auto
  moreover have "(2 :: nat) ^ 1053 \<le> d_unit" by (simp add: d_unit_def)
  ultimately show ?thesis by (simp add: d_val_add)
qed

lemma d_sub_decreases:
  assumes "d_val x \<le> 4000000000 * d_unit" and "d_unit \<le> d_val y" and "d_val y \<le> d_val x"
  shows "d_val (d_sub x y) < d_val x"
proof -
  have n: "d_val x - d_val y \<le> 4000000000 * d_unit" using assms(1) by simp
  have "2 * d_round (d_val x - d_val y) \<le> 2 * (d_val x - d_val y) + 2 ^ 1053" "d_val x < 2 ^ 2000"
    using d_small [OF n] d_small [OF assms(1)] d_round_error [of "d_val x - d_val y" 1053] by auto
  moreover have "(2 :: nat) ^ 1053 < d_unit" by (simp add: d_unit_def)
  ultimately have "2 * d_val (d_sub x y) < 2 * d_val x"
    using assms(2,3) by (simp only: d_val_sub)
  then show ?thesis by simp
qed

end
