(* ===== verification/GG_PSG.thy ===== *)
theory GG_PSG
  imports Machine_Audio Binary64 "HOL-Library.While_Combinator"
begin

text \<open>
  The programmable sound generator of \<open>cores/gamegear/GameGearPSG.{hpp,cpp}\<close>: three tone
  channels and a noise channel advanced once per output sample, the register and stereo ports, the
  256-frame chunks handed to the audio service, the event trace, and the state format. A 16-bit
  sample is a word read by \<open>sint\<close>. The generator loops are \<open>while_option\<close>, whose
  \<open>None\<close> is a loop that does not end.
\<close>

section \<open>Data\<close>

record ToneChannel =
  period :: u16
  attenuation :: u8
  counter :: double
  outputHigh :: bool
  enabled :: bool

record psg =
  tones :: "ToneChannel list"
  noiseControl :: u8
  noiseAttenuation :: u8
  noiseCounter :: double
  noiseLfsr :: u16
  noiseOutputHigh :: bool
  stereoControl :: u8
  compatRegisters :: "u8 list"
  waveRam :: "u8 list"
  currentFrameSamples :: "u16 list"
  recentSamples :: "u16 list"
  currentVoiceStems :: "u16 list"
  recentVoiceStems :: "u16 list"
  currentEvents :: "PsgAudioEvent list"
  recentEvents :: "PsgAudioEvent list"
  eventSequence :: u64
  recentFirstSampleFrame :: u64
  observedGateStates :: "bool list"
  chunkSamplesLast :: u64
  chunkSamplesMin :: u64
  chunkSamplesMax :: u64
  samplesGeneratedTotal :: u64
  samplePhase :: u64
  frameCounter :: u64
  latchedChannel :: u8
  latchedVolume :: bool

definition kClockHz :: nat where "kClockHz = 3579545"
definition kSampleRate :: nat where "kSampleRate = 48000"
definition kOutputChannelCount :: nat where "kOutputChannelCount = 2"
definition kFramesPerChunk :: nat where "kFramesPerChunk = 256"

definition kAttenuationTable :: "int list" where
  "kAttenuationTable = [8192, 6507, 5168, 4105, 3261, 2590, 2057, 1634,
     1298, 1031, 819, 650, 516, 410, 326, 0]"

text \<open>\<open>3579545.0 / 48000.0\<close>, correctly rounded (see \<open>kCyclesPerSample_nearest\<close> below).\<close>

definition kCyclesPerSample :: double where "kCyclesPerSample = 0x4052A4BA06D3A06D"

definition new_tone :: ToneChannel where
  "new_tone = \<lparr>period = 0x0010, attenuation = 0x0F, counter = 0, outputHigh = False, enabled = False\<rparr>"

definition new_psg :: psg where
  "new_psg = \<lparr>tones = replicate 3 new_tone, noiseControl = 0, noiseAttenuation = 0x0F,
     noiseCounter = 0, noiseLfsr = 0x8000, noiseOutputHigh = False, stereoControl = 0xFF,
     compatRegisters = replicate 0x17 0, waveRam = replicate 0x10 0, currentFrameSamples = [],
     recentSamples = [], currentVoiceStems = [], recentVoiceStems = [], currentEvents = [],
     recentEvents = [], eventSequence = 0, recentFirstSampleFrame = 0,
     observedGateStates = replicate 4 False, chunkSamplesLast = 0, chunkSamplesMin = 0,
     chunkSamplesMax = 0, samplesGeneratedTotal = 0, samplePhase = 0, frameCounter = 0,
     latchedChannel = 0, latchedVolume = False\<rparr>"

section \<open>Mixing\<close>

definition clampSample :: "int \<Rightarrow> u16" where
  "clampSample v = word_of_int (max (-32768) (min 32767 v))"

definition channelAmplitude :: "psg \<Rightarrow> nat \<Rightarrow> int" where
  "channelAmplitude s channel =
     (let att = (if channel < 3 then attenuation (tones s ! channel) else noiseAttenuation s) in
      kAttenuationTable ! unat (min att 0x0F))"

definition channelRoutedLeft :: "psg \<Rightarrow> nat \<Rightarrow> bool" where
  "channelRoutedLeft s channel \<longleftrightarrow> channel < 4 \<and> stereoControl s AND push_bit channel 0x10 \<noteq> 0"

definition channelRoutedRight :: "psg \<Rightarrow> nat \<Rightarrow> bool" where
  "channelRoutedRight s channel \<longleftrightarrow> channel < 4 \<and> stereoControl s AND push_bit channel 0x01 \<noteq> 0"

text \<open>The signed level of a channel, 0 when it is silent.\<close>

definition channelLevel :: "psg \<Rightarrow> nat \<Rightarrow> int" where
  "channelLevel s channel =
     (if channel < 3 then
        (let t = tones s ! channel in
         if enabled t \<and> attenuation t < 0x0F then
           (if outputHigh t then channelAmplitude s channel else - channelAmplitude s channel)
         else 0)
      else if noiseAttenuation s < 0x0F then
        (if noiseOutputHigh s then channelAmplitude s channel else - channelAmplitude s channel)
      else 0)"

definition mixFrame :: "psg \<Rightarrow> u16 \<times> u16" where
  "mixFrame s =
     (let left = sum_list (map (\<lambda>ch. if channelRoutedLeft s ch then channelLevel s ch else 0) [0..<4]);
          right = sum_list (map (\<lambda>ch. if channelRoutedRight s ch then channelLevel s ch else 0) [0..<4])
      in (clampSample left, clampSample right))"

definition voiceStems :: "psg \<Rightarrow> u16 list" where
  "voiceStems s = concat (map (\<lambda>ch.
     [if channelRoutedLeft s ch then clampSample (channelLevel s ch) else 0,
      if channelRoutedRight s ch then clampSample (channelLevel s ch) else 0]) [0..<4])"

section \<open>Event trace\<close>

definition min3 :: "u8 \<Rightarrow> u8" where "min3 v = (if v < 3 then v else 3)"

definition psg_recordWrite :: "u16 \<Rightarrow> u8 \<Rightarrow> u8 \<Rightarrow> PsgEventKind \<Rightarrow> bool \<Rightarrow> psg \<Rightarrow> psg" where
  "psg_recordWrite address v voice0 k raw s =
     (let voice = min3 voice0;
          i = unat voice;
          g = (if voice < 3 then enabled (tones s ! i) \<and> attenuation (tones s ! i) < 0x0F
               else noiseAttenuation s < 0x0F);
          per = (if voice < 3 then max (unat (period (tones s ! i))) 1 else 1);
          att = (if voice < 3 then attenuation (tones s ! i) else noiseAttenuation s);
          event = \<lparr>sampleFrameOffset = of_nat (length (currentFrameSamples s) div kOutputChannelCount),
            event_sequence = eventSequence s + 1,
            voiceId = voice,
            voiceKind = (if voice = 3 then VNoise else VTone),
            event_kind = k,
            frequencyMilliHz = (if voice = 3 then 0 else of_nat (kClockHz * 1000 div (32 * per))),
            levelQ15 = of_nat ((15 - min (unat att) 15) * 32767 div 15),
            routingMask = (if channelRoutedLeft s i then 1 else 0) OR (if channelRoutedRight s i then 2 else 0),
            timbre = (if voice = 3 then noiseControl s else 0),
            rawAddress = address, rawValue = v, gate = g, hasRawWrite = raw\<rparr>;
          first = (if k \<noteq> StateSnapshot \<and> k \<noteq> Retrigger \<and> g \<noteq> observedGateStates s ! i
                   then event\<lparr>event_kind := (if g then GateOn else GateOff)\<rparr> else event);
          s1 = s\<lparr>eventSequence := eventSequence s + 1, currentEvents := currentEvents s @ [first],
                 observedGateStates := (observedGateStates s)[i := g]\<rparr>
      in
      if k = StateSnapshot then s1
      else s1\<lparr>eventSequence := eventSequence s1 + 1,
              currentEvents := currentEvents s1 @ [event\<lparr>event_sequence := eventSequence s1 + 1,
                event_kind := RawWrite\<rparr>]\<rparr>)"

text \<open>The four snapshot events that \<open>reset\<close> and \<open>importState\<close> record.\<close>

definition psg_snapshots :: "psg \<Rightarrow> psg" where
  "psg_snapshots s = fold (\<lambda>voice. psg_recordWrite 0 0 voice StateSnapshot False) [0, 1, 2, 3] s"

definition psg_reset :: "psg \<Rightarrow> psg" where
  "psg_reset s = psg_snapshots (new_psg\<lparr>compatRegisters := (replicate 0x17 0)[0x16 := 0x80]\<rparr>)"

section \<open>Generators\<close>

definition tone_toggle :: "u16 \<Rightarrow> double" where
  "tone_toggle p = d_of_nat (max 1 (max (unat p) 1 * 16))"

definition advance_tone :: "ToneChannel \<Rightarrow> ToneChannel option" where
  "advance_tone t =
     (if \<not> enabled t \<or> attenuation t \<ge> 0x0F then Some t
      else
        map_option (\<lambda>(c, h). t\<lparr>counter := c, outputHigh := h\<rparr>)
          (while_option (\<lambda>(c, h). d_val (tone_toggle (period t)) \<le> d_val c)
             (\<lambda>(c, h). (d_sub c (tone_toggle (period t)), \<not> h))
             (d_add (counter t) kCyclesPerSample, outputHigh t)))"

definition lfsr_step :: "bool \<Rightarrow> u16 \<Rightarrow> u16" where
  "lfsr_step whiteNoise l =
     (let feedback = (if whiteNoise then (l XOR drop_bit 3 l) AND 1 else l AND 1) in
      drop_bit 1 l OR push_bit 15 feedback)"

definition noise_period :: "psg \<Rightarrow> nat" where
  "noise_period s =
     (let rateSelect = noiseControl s AND 0x03 in
      if rateSelect = 0 then 0x10 else if rateSelect = 1 then 0x20 else if rateSelect = 2 then 0x40
      else max (unat (period (tones s ! 2))) 1)"

definition advance_noise :: "psg \<Rightarrow> psg option" where
  "advance_noise s =
     (if noiseAttenuation s \<ge> 0x0F then Some s
      else
        (let togglePeriod = d_of_nat (noise_period s * 16);
             whiteNoise = (noiseControl s AND 0x04 \<noteq> 0) in
         map_option (\<lambda>(c, l, h). s\<lparr>noiseCounter := c, noiseLfsr := l, noiseOutputHigh := h\<rparr>)
           (while_option (\<lambda>(c, l, h). d_val togglePeriod \<le> d_val c)
              (\<lambda>(c, l, h). (let l' = lfsr_step whiteNoise l in
                 (d_sub c togglePeriod, l', l' AND 1 \<noteq> 0)))
              (d_add (noiseCounter s) kCyclesPerSample, noiseLfsr s, noiseOutputHigh s))))"

fun advance_tones :: "ToneChannel list \<Rightarrow> ToneChannel list option" where
  "advance_tones [] = Some []"
| "advance_tones (t # ts) =
     (case advance_tone t of None \<Rightarrow> None
      | Some t' \<Rightarrow> map_option (\<lambda>ts'. t' # ts') (advance_tones ts))"

definition advanceGenerators :: "psg \<Rightarrow> psg option" where
  "advanceGenerators s =
     (case advance_tones (tones s) of None \<Rightarrow> None
      | Some ts \<Rightarrow> advance_noise (s\<lparr>tones := ts\<rparr>))"

section \<open>Frames and chunks\<close>

definition kChunkSamples :: nat where "kChunkSamples = kFramesPerChunk * kOutputChannelCount"

text \<open>The three nested loops that turn the frame-major stems into voice-major ones.\<close>

definition voice_major :: "u16 list \<Rightarrow> u16 list" where
  "voice_major stems =
     concat (map (\<lambda>voice. concat (map (\<lambda>frame. map (\<lambda>out.
       stems ! ((frame * 4 + voice) * kOutputChannelCount + out))
       [0..<kOutputChannelCount]) [0..<kFramesPerChunk])) [0..<4])"

definition emit_chunk :: "psg \<Rightarrow> psg" where
  "emit_chunk s =
     (let chunkSamples = min (length (currentFrameSamples s)) kChunkSamples;
          generatedFrames = samplesGeneratedTotal s div of_nat kOutputChannelCount in
      s\<lparr>recentSamples := take kChunkSamples (currentFrameSamples s),
        recentVoiceStems := voice_major (currentVoiceStems s),
        recentEvents := currentEvents s,
        recentFirstSampleFrame := (if generatedFrames \<ge> of_nat kFramesPerChunk
          then generatedFrames - of_nat kFramesPerChunk else 0),
        chunkSamplesLast := of_nat chunkSamples,
        chunkSamplesMin := (if chunkSamplesMin s = 0 \<or> of_nat chunkSamples < chunkSamplesMin s
          then of_nat chunkSamples else chunkSamplesMin s),
        chunkSamplesMax := max (chunkSamplesMax s) (of_nat chunkSamples),
        currentFrameSamples := [], currentVoiceStems := [], currentEvents := [],
        frameCounter := frameCounter s + 1\<rparr>)"

definition push_frame :: "psg \<Rightarrow> psg" where
  "push_frame s =
     (let (left, right) = mixFrame s;
          s = s\<lparr>currentVoiceStems := currentVoiceStems s @ voiceStems s,
                currentFrameSamples := currentFrameSamples s @ [left, right],
                samplesGeneratedTotal := samplesGeneratedTotal s + 2\<rparr> in
      if length (currentFrameSamples s) \<ge> kChunkSamples then emit_chunk s else s)"

definition produceFrame :: "psg \<Rightarrow> psg option" where
  "produceFrame s = map_option push_frame (advanceGenerators s)"

text \<open>A frame does not touch the phase, so the sampling loop counts down.\<close>

lemma advance_noise_phase: "advance_noise s = Some s' \<Longrightarrow> samplePhase s' = samplePhase s"
  by (auto simp: advance_noise_def Let_def split: if_splits)

lemma push_frame_phase [simp]: "samplePhase (push_frame s) = samplePhase s"
  by (simp add: push_frame_def emit_chunk_def Let_def split: prod.splits)

lemma produceFrame_phase: "produceFrame s = Some s' \<Longrightarrow> samplePhase s' = samplePhase s"
  by (auto simp: produceFrame_def advanceGenerators_def dest: advance_noise_phase split: option.splits)

lemma phase_decreases:
  "of_nat kClockHz \<le> samplePhase s \<Longrightarrow> samplePhase s - of_nat kClockHz < samplePhase s"
  by (simp add: kClockHz_def word_less_nat_alt unat_sub_if' word_le_nat_alt)

function psg_run :: "psg \<Rightarrow> psg option" where
  "psg_run s =
     (if of_nat kClockHz \<le> samplePhase s then
        (case produceFrame (s\<lparr>samplePhase := samplePhase s - of_nat kClockHz\<rparr>) of
           None \<Rightarrow> None
         | Some s' \<Rightarrow> psg_run s')
      else Some s)"
  by auto

termination
  by (relation "measure (\<lambda>s. unat (samplePhase s))")
    (auto dest!: produceFrame_phase phase_decreases simp: word_less_nat_alt)

declare psg_run.simps [simp del]

definition psg_step :: "u32 \<Rightarrow> psg \<Rightarrow> psg option" where
  "psg_step cpuCycles s =
     psg_run (s\<lparr>samplePhase := samplePhase s + ucast cpuCycles * of_nat kSampleRate\<rparr>)"

definition cyclesUntilNextSample :: "psg \<Rightarrow> u32" where
  "cyclesUntilNextSample s =
     (if samplePhase s < of_nat kClockHz
      then ucast ((of_nat kClockHz - samplePhase s + of_nat kSampleRate - 1) div of_nat kSampleRate)
      else 0)"

section \<open>Registers\<close>

definition upd_tone :: "nat \<Rightarrow> (ToneChannel \<Rightarrow> ToneChannel) \<Rightarrow> psg \<Rightarrow> psg" where
  "upd_tone i f s = s\<lparr>tones := (tones s)[i := f (tones s ! i)]\<rparr>"

definition compat_status :: "psg \<Rightarrow> u8" where
  "compat_status s =
     fold (\<lambda>i status. if enabled (tones s ! i) \<and> attenuation (tones s ! i) < 0x0F
                      then status OR push_bit i 1 else status) [0..<3]
       (compatRegisters s ! 0x16 AND 0x80)
     OR (if noiseAttenuation s < 0x0F then 0x08 else 0)"

definition updateCompatStatus :: "psg \<Rightarrow> psg" where
  "updateCompatStatus s = s\<lparr>compatRegisters := (compatRegisters s)[0x16 := compat_status s]\<rparr>"

definition psg_writeData :: "u8 \<Rightarrow> psg \<Rightarrow> psg" where
  "psg_writeData v s =
     (let s =
       (if v AND 0x80 \<noteq> 0 then
          (let ch = drop_bit 5 v AND 0x03; vol = (v AND 0x10 \<noteq> 0); i = unat ch;
               s = s\<lparr>latchedChannel := ch, latchedVolume := vol\<rparr> in
           if ch < 3 then
             (if vol then
                upd_tone i (\<lambda>t. t\<lparr>attenuation := v AND 0x0F, enabled := (v AND 0x0F) < 0x0F\<rparr>) s
              else
                upd_tone i (\<lambda>t. t\<lparr>period := (period t AND 0x03F0) OR ucast (v AND 0x0F),
                                  enabled := True\<rparr>) s)
           else if vol then s\<lparr>noiseAttenuation := v AND 0x0F\<rparr>
           else s\<lparr>noiseControl := v AND 0x07, noiseLfsr := 0x8000, noiseCounter := 0,
                  noiseOutputHigh := False\<rparr>)
        else if latchedChannel s < 3 \<and> \<not> latchedVolume s then
          upd_tone (unat (latchedChannel s))
            (\<lambda>t. t\<lparr>period := (period t AND 0x000F) OR push_bit 4 (ucast (v AND 0x3F)),
                  enabled := True\<rparr>) s
        else s);
          s = updateCompatStatus s in
      psg_recordWrite 0x007F v (latchedChannel s)
        (if latchedVolume s then LevelChange
         else if latchedChannel s = 3 then TimbreChange else PitchChange) True s)"

definition psg_writeStereoControl :: "u8 \<Rightarrow> psg \<Rightarrow> psg" where
  "psg_writeStereoControl v s =
     fold (\<lambda>voice. psg_recordWrite 0x0006 v voice RoutingChange True) [0, 1, 2, 3]
       (s\<lparr>stereoControl := v\<rparr>)"

definition psg_readCompatRegister :: "u16 \<Rightarrow> psg \<Rightarrow> u8" where
  "psg_readCompatRegister addr s =
     (if addr < 0xFF10 \<or> addr > 0xFF26 then 0xFF else compatRegisters s ! (unat addr - 0xFF10))"

definition applyCompatToneLow :: "u8 \<Rightarrow> psg \<Rightarrow> psg" where
  "applyCompatToneLow v = upd_tone 0 (\<lambda>t. t\<lparr>period := (period t AND 0x0700) OR ucast v\<rparr>)"

definition applyCompatToneHigh :: "u8 \<Rightarrow> psg \<Rightarrow> psg" where
  "applyCompatToneHigh v s =
     (let s = upd_tone 0 (\<lambda>t. t\<lparr>period := (period t AND 0x00FF) OR push_bit 8 (ucast (v AND 0x07))\<rparr>) s in
      if v AND 0x80 \<noteq> 0 \<and> compatRegisters s ! 0x16 AND 0x80 \<noteq> 0
      then upd_tone 0 (\<lambda>t. t\<lparr>enabled := True, counter := 0, outputHigh := True\<rparr>) s
      else s)"

definition applyCompatVolume :: "u8 \<Rightarrow> psg \<Rightarrow> psg" where
  "applyCompatVolume v s =
     (let envelope = drop_bit 4 v AND 0x0F in
      upd_tone 0 (\<lambda>t. t\<lparr>attenuation := 0x0F - envelope,
        enabled := (envelope \<noteq> 0 \<and> compatRegisters s ! 0x16 AND 0x80 \<noteq> 0)\<rparr>) s)"

definition psg_writeCompatRegister :: "u16 \<Rightarrow> u8 \<Rightarrow> psg \<Rightarrow> psg" where
  "psg_writeCompatRegister addr v s =
     (if addr < 0xFF10 \<or> addr > 0xFF26 then s
      else
        (let s = s\<lparr>compatRegisters := (compatRegisters s)[unat addr - 0xFF10 := v]\<rparr>;
             s = (if addr = 0xFF12 then applyCompatVolume v s
                  else if addr = 0xFF13 then applyCompatToneLow v s
                  else if addr = 0xFF14 then applyCompatToneHigh v s
                  else if addr = 0xFF26 \<and> v AND 0x80 = 0 then
                    s\<lparr>tones := map (\<lambda>t. t\<lparr>enabled := False\<rparr>) (tones s),
                      currentFrameSamples := [], recentSamples := [], currentVoiceStems := [],
                      recentVoiceStems := [], currentEvents := [], recentEvents := [],
                      recentFirstSampleFrame := 0\<rparr>
                  else s) in
         updateCompatStatus s))"

definition psg_readWaveRam :: "u16 \<Rightarrow> psg \<Rightarrow> u8" where
  "psg_readWaveRam addr s =
     (if addr < 0xFF30 \<or> addr > 0xFF3F then 0xFF else waveRam s ! (unat addr - 0xFF30))"

definition psg_writeWaveRam :: "u16 \<Rightarrow> u8 \<Rightarrow> psg \<Rightarrow> psg" where
  "psg_writeWaveRam addr v s =
     (if addr < 0xFF30 \<or> addr > 0xFF3F then s
      else s\<lparr>waveRam := (waveRam s)[unat addr - 0xFF30 := v]\<rparr>)"

section \<open>State format\<close>

definition put_samples :: "u16 list \<Rightarrow> u8 list" where
  "put_samples xs = le32 (of_nat (length xs)) @ concat (map le16 xs)"

definition put_tone :: "ToneChannel \<Rightarrow> u8 list" where
  "put_tone t = le16 (period t) @ [attenuation t] @ le64 (counter t) @ put_bool (outputHigh t) @
     put_bool (enabled t)"

definition psg_exportState :: "psg \<Rightarrow> u8 list" where
  "psg_exportState s =
     concat (map put_tone (tones s)) @ [noiseControl s, noiseAttenuation s] @ le64 (noiseCounter s) @
     le16 (noiseLfsr s) @ put_bool (noiseOutputHigh s) @ [stereoControl s] @
     (le32 (of_nat (length (compatRegisters s))) @ compatRegisters s) @
     (le32 (of_nat (length (waveRam s))) @ waveRam s) @
     put_samples (currentFrameSamples s) @ put_samples (recentSamples s) @
     le64 (chunkSamplesLast s) @ le64 (chunkSamplesMin s) @ le64 (chunkSamplesMax s) @
     le64 (frameCounter s) @ le64 (samplesGeneratedTotal s) @ le64 (samplePhase s) @
     le64 (frameCounter s) @ [latchedChannel s] @ put_bool (latchedVolume s)"

definition psg_truncated :: exn where
  "psg_truncated = Invalid_argument ''Game Gear PSG state truncated''"

definition psg_bool :: "bool reader" where
  "psg_bool = rd_bool psg_truncated (Invalid_argument ''Game Gear PSG state boolean invalid'')"

definition kMaxImportedCounter :: nat where "kMaxImportedCounter = 1000000000"

definition counter_valid :: "double \<Rightarrow> bool" where
  "counter_valid x \<longleftrightarrow> d_finite x \<and> \<not> (d_negative x \<and> d_val x \<noteq> 0) \<and>
     d_val x \<le> kMaxImportedCounter * d_unit"

definition validateImportedCounter :: "double \<Rightarrow> unit reader" where
  "validateImportedCounter x =
     rd_guard (counter_valid x) (Invalid_argument ''Game Gear PSG state counter invalid'')"

definition get_tone :: "ToneChannel reader" where
  "get_tone =
     rd_bind (rd_u16 psg_truncated) (\<lambda>p.
     rd_bind (rd_u8 psg_truncated) (\<lambda>a.
     rd_bind (rd_u64 psg_truncated) (\<lambda>c.
     rd_bind (validateImportedCounter c) (\<lambda>_.
     rd_bind psg_bool (\<lambda>h.
     rd_bind psg_bool (\<lambda>e.
     rd_return \<lparr>period = p, attenuation = a, counter = c, outputHigh = h, enabled = e\<rparr>))))))"

definition get_array :: "nat \<Rightarrow> u8 list reader" where
  "get_array n =
     rd_bind (rd_u32 psg_truncated) (\<lambda>count.
     rd_bind (rd_guard (unat count = n)
       (Invalid_argument ''Game Gear PSG state array size mismatch'')) (\<lambda>_.
     rd_take psg_truncated n))"

definition get_samples :: "nat \<Rightarrow> u16 list reader" where
  "get_samples maxSamples =
     rd_bind (rd_u32 psg_truncated) (\<lambda>count.
     rd_bind (rd_guard (unat count \<le> maxSamples)
       (Invalid_argument ''Game Gear PSG sample history too large'')) (\<lambda>_.
     rd_list (unat count) (rd_u16 psg_truncated)))"

text \<open>
  \<open>importState\<close> reads everything into locals first: the first half here, the counters after
  the samples in \<open>psg_importTail\<close>. The result is the function applied to the object.
\<close>

definition psg_importTail :: "(psg \<Rightarrow> psg) reader" where
  "psg_importTail =
     rd_bind (rd_u64 psg_truncated) (\<lambda>nextChunkLast.
     rd_bind (rd_u64 psg_truncated) (\<lambda>nextChunkMin.
     rd_bind (rd_u64 psg_truncated) (\<lambda>nextChunkMax.
     rd_bind (rd_u64 psg_truncated) (\<lambda>nextChunksEmitted.
     rd_bind (rd_u64 psg_truncated) (\<lambda>nextSamplesTotal.
     rd_bind (rd_u64 psg_truncated) (\<lambda>nextSamplePhase.
     rd_bind (rd_u64 psg_truncated) (\<lambda>nextFrameCounter.
     rd_bind (rd_u8 psg_truncated) (\<lambda>nextLatchedChannel.
     rd_bind psg_bool (\<lambda>nextLatchedVolume.
     rd_bind rd_at_end (\<lambda>end_reached.
     rd_bind (rd_guard (nextLatchedChannel \<le> 3 \<and> end_reached)
       (Invalid_argument ''Game Gear PSG state invalid'')) (\<lambda>_.
     rd_return (\<lambda>s. s\<lparr>chunkSamplesLast := nextChunkLast, chunkSamplesMin := nextChunkMin,
       chunkSamplesMax := nextChunkMax, samplesGeneratedTotal := nextSamplesTotal,
       samplePhase := nextSamplePhase, frameCounter := nextFrameCounter,
       latchedChannel := nextLatchedChannel, latchedVolume := nextLatchedVolume\<rparr>))))))))))))"

definition psg_importBody :: "(psg \<Rightarrow> psg) reader" where
  "psg_importBody =
     rd_bind (rd_list 3 get_tone) (\<lambda>nextTones.
     rd_bind (rd_u8 psg_truncated) (\<lambda>nextNoiseControl.
     rd_bind (rd_u8 psg_truncated) (\<lambda>nextNoiseAttenuation.
     rd_bind (rd_u64 psg_truncated) (\<lambda>nextNoiseCounter.
     rd_bind (validateImportedCounter nextNoiseCounter) (\<lambda>_.
     rd_bind (rd_u16 psg_truncated) (\<lambda>nextNoiseLfsr.
     rd_bind psg_bool (\<lambda>nextNoiseOutputHigh.
     rd_bind (rd_u8 psg_truncated) (\<lambda>nextStereoControl.
     rd_bind (get_array 0x17) (\<lambda>nextCompat.
     rd_bind (get_array 0x10) (\<lambda>nextWaveRam.
     rd_bind (get_samples kChunkSamples) (\<lambda>nextCurrent.
     rd_bind (get_samples 8192) (\<lambda>nextRecent.
     rd_bind (rd_guard (length nextCurrent < kChunkSamples \<and> length nextCurrent mod kOutputChannelCount = 0)
       (Invalid_argument ''Game Gear PSG pending sample chunk invalid'')) (\<lambda>_.
     rd_bind psg_importTail (\<lambda>tail.
     rd_return (\<lambda>s. tail (s\<lparr>tones := nextTones, noiseControl := nextNoiseControl,
       noiseAttenuation := nextNoiseAttenuation, noiseCounter := nextNoiseCounter,
       noiseLfsr := nextNoiseLfsr, noiseOutputHigh := nextNoiseOutputHigh,
       stereoControl := nextStereoControl, compatRegisters := nextCompat, waveRam := nextWaveRam,
       currentFrameSamples := nextCurrent, recentSamples := nextRecent\<rparr>))))))))))))))))"

definition psg_importState :: "psg \<Rightarrow> u8 list \<Rightarrow> psg result" where
  "psg_importState s state =
     (case rd_run psg_importBody state of
        Inl e \<Rightarrow> Inl e
      | Inr restore \<Rightarrow>
          (let s = restore s in
           Inr (psg_snapshots (s\<lparr>
             currentVoiceStems := replicate (length (currentFrameSamples s) * 4) 0,
             recentVoiceStems := replicate (length (recentSamples s) * 4) 0,
             currentEvents := [], recentEvents := [],
             observedGateStates := replicate 4 False\<rparr>))))"

section \<open>Well-formedness\<close>

definition counter_bound :: "double \<Rightarrow> bool" where
  "counter_bound x \<longleftrightarrow> d_val x \<le> kMaxImportedCounter * d_unit"

definition psg_ok :: "psg \<Rightarrow> bool" where
  "psg_ok s \<longleftrightarrow>
     length (tones s) = 3 \<and> (\<forall>t \<in> set (tones s). counter_bound (counter t)) \<and>
     counter_bound (noiseCounter s) \<and>
     length (compatRegisters s) = 0x17 \<and> length (waveRam s) = 0x10 \<and>
     length (observedGateStates s) = 4 \<and> latchedChannel s \<le> 3 \<and>
     length (currentFrameSamples s) < kChunkSamples \<and> even (length (currentFrameSamples s)) \<and>
     length (currentVoiceStems s) = 4 * length (currentFrameSamples s) \<and>
     length (recentSamples s) \<le> 8192"

section \<open>The generator loops end\<close>

lemma d_val_cycles: "d_val kCyclesPerSample = 5247668466196589 * 2 ^ 1028"
proof -
  have "d_exponent kCyclesPerSample = 1029" "d_mantissa kCyclesPerSample = 744068838826093"
    by (simp_all add: d_exponent_def d_mantissa_def kCyclesPerSample_def)
  then show ?thesis by (simp add: d_val_def)
qed

text \<open>The constant is the double nearest to \<open>3579545 / 48000\<close>: it is off by at most half a unit
  in the last place, which is \<open>2 ^ 1028\<close> units.\<close>

lemma kCyclesPerSample_nearest:
  "2 * \<bar>int (d_val kCyclesPerSample) * 48000 - 3579545 * int d_unit\<bar> \<le> 48000 * 2 ^ 1028"
  by (simp add: d_val_cycles d_unit_def)

lemma kCyclesPerSample_bound: "d_val kCyclesPerSample \<le> 75 * d_unit"
  by (simp add: d_val_cycles d_unit_def)

definition counter_near :: "double \<Rightarrow> bool" where
  "counter_near x \<longleftrightarrow> d_val x \<le> 2000000000 * d_unit"

lemma counter_near_add: "counter_bound c \<Longrightarrow> counter_near (d_add c kCyclesPerSample)"
  using d_add_bound [of c kCyclesPerSample] kCyclesPerSample_bound
  by (simp add: counter_bound_def counter_near_def kMaxImportedCounter_def)

lemma counter_step:
  assumes "counter_near c" and "0 < n" and "n < 2 ^ 52" and "d_val (d_of_nat n) \<le> d_val c"
  shows "counter_near (d_sub c (d_of_nat n)) \<and> d_val (d_sub c (d_of_nat n)) < d_val c"
proof -
  have "d_unit \<le> d_val (d_of_nat n)" using assms(2,3) by (simp add: d_val_of_nat)
  then have "d_val (d_sub c (d_of_nat n)) < d_val c"
    using assms(1,4) by (intro d_sub_decreases) (simp_all add: counter_near_def)
  then show ?thesis using assms(1) by (simp add: counter_near_def)
qed

lemma tone_toggle_nat: "\<exists>n. 0 < n \<and> n \<le> 65535 * 16 \<and> tone_toggle p = d_of_nat n"
proof -
  have "unat p \<le> 65535" using unat_u16_less [of p] by simp
  then show ?thesis
    unfolding tone_toggle_def by (intro exI [of _ "max 1 (max (unat p) 1 * 16)"]) auto
qed

lemma loop_exit_bound:
  assumes "0 < n" and "n \<le> 65535 * 16" and "\<not> d_val (d_of_nat n) \<le> d_val c"
  shows "counter_bound c"
proof -
  have "d_val c \<le> n * d_unit" using assms by (simp add: d_val_of_nat)
  also have "\<dots> \<le> kMaxImportedCounter * d_unit"
    using assms(2) by (intro mult_right_mono) (simp_all add: kMaxImportedCounter_def)
  finally show ?thesis by (simp add: counter_bound_def)
qed

lemma advance_tone_total:
  assumes "counter_bound (counter t)"
  shows "\<exists>t'. advance_tone t = Some t' \<and> counter_bound (counter t') \<and> period t' = period t \<and>
    attenuation t' = attenuation t \<and> enabled t' = enabled t"
proof (cases "enabled t \<and> attenuation t < 0x0F")
  case True
  obtain n where n: "0 < n" "n \<le> 65535 * 16" "tone_toggle (period t) = d_of_nat n"
    using tone_toggle_nat by blast
  let ?b = "\<lambda>(c, h :: bool). d_val (d_of_nat n) \<le> d_val c"
  let ?c = "\<lambda>(c, h). (d_sub c (d_of_nat n), \<not> h)"
  have "\<exists>r. while_option ?b ?c (d_add (counter t) kCyclesPerSample, outputHigh t) = Some r"
    by (rule measure_while_option_Some [where P = "\<lambda>(c, h). counter_near c" and f = "\<lambda>(c, h). d_val c"])
      (use n counter_step counter_near_add [OF assms] in auto)
  then obtain c h where w: "while_option ?b ?c (d_add (counter t) kCyclesPerSample, outputHigh t) = Some (c, h)"
    by auto
  then have "counter_bound c"
    using while_option_stop [OF w] n loop_exit_bound by auto
  then show ?thesis using True n(3) w by (simp add: advance_tone_def not_le [symmetric])
qed (use assms in \<open>auto simp: advance_tone_def\<close>)

lemma lfsr_step_nonzero: "l \<noteq> 0 \<Longrightarrow> lfsr_step w l \<noteq> 0"
proof
  assume l: "l \<noteq> 0" and z: "lfsr_step w l = 0"
  have "bit (lfsr_step w l) n = (bit l (Suc n) \<or> n = 15 \<and> (bit l 0 \<noteq> (w \<and> bit l 3)))" if "n < 16" for n
    using that by (auto simp: lfsr_step_def Let_def bit_simps dest: bit_imp_le_length)
  then have b: "\<not> bit l (Suc n) \<and> \<not> (n = 15 \<and> (bit l 0 \<noteq> (w \<and> bit l 3)))" if "n < 16" for n
    using that z by auto
  have "\<not> bit l 3" using b [of 2] by (simp add: eval_nat_numeral)
  then have "\<not> bit l 0" using b [of 15] by simp
  moreover have "\<not> bit l (Suc n)" for n
    using b [of n] by (cases "n < 16") (auto dest: bit_imp_le_length)
  ultimately have "\<not> bit l n" for n by (cases n) auto
  then have "l = 0" by (auto intro: bit_word_eqI)
  then show False using l by simp
qed

lemma advance_noise_total:
  assumes "counter_bound (noiseCounter s)"
  shows "\<exists>c l h. advance_noise s = Some (s\<lparr>noiseCounter := c, noiseLfsr := l, noiseOutputHigh := h\<rparr>) \<and>
    counter_bound c \<and> (noiseLfsr s \<noteq> 0 \<longrightarrow> l \<noteq> 0)"
proof (cases "noiseAttenuation s < 0x0F")
  case True
  define n where "n = noise_period s * 16"
  have n: "0 < n" "n \<le> 65535 * 16"
    using unat_u16_less [of "period (tones s ! 2)"] by (auto simp: n_def noise_period_def Let_def)
  let ?w = "noiseControl s AND 0x04 \<noteq> 0"
  let ?b = "\<lambda>(c, l :: u16, h :: bool). d_val (d_of_nat n) \<le> d_val c"
  let ?c = "\<lambda>(c, l, h). (let l' = lfsr_step ?w l in (d_sub c (d_of_nat n), l', l' AND 1 \<noteq> 0))"
  let ?s = "(d_add (noiseCounter s) kCyclesPerSample, noiseLfsr s, noiseOutputHigh s)"
  let ?P = "\<lambda>(c, l, h :: bool). counter_near c \<and> (noiseLfsr s \<noteq> 0 \<longrightarrow> l \<noteq> 0)"
  have "\<exists>r. while_option ?b ?c ?s = Some r"
    by (rule measure_while_option_Some [where P = ?P and f = "\<lambda>(c, l, h). d_val c"])
      (use n counter_step counter_near_add [OF assms] lfsr_step_nonzero in \<open>auto simp: Let_def\<close>)
  then obtain c l h where w: "while_option ?b ?c ?s = Some (c, l, h)" by auto
  have "?P (c, l, h)"
    by (rule while_option_rule [where P = ?P, OF _ w])
      (use n counter_step counter_near_add [OF assms] lfsr_step_nonzero in \<open>auto simp: Let_def\<close>)
  moreover have "counter_bound c"
    using while_option_stop [OF w] n loop_exit_bound by auto
  ultimately show ?thesis using True w by (auto simp: advance_noise_def n_def Let_def)
next
  case False
  then show ?thesis
    using assms
    by (intro exI [of _ "noiseCounter s"] exI [of _ "noiseLfsr s"] exI [of _ "noiseOutputHigh s"])
      (simp add: advance_noise_def not_less)
qed

lemma advance_tones_total:
  "\<forall>t \<in> set ts. counter_bound (counter t) \<Longrightarrow>
     \<exists>ts'. advance_tones ts = Some ts' \<and> length ts' = length ts \<and> (\<forall>t \<in> set ts'. counter_bound (counter t))"
proof (induction ts)
  case (Cons t ts)
  obtain t' where t': "advance_tone t = Some t'" "counter_bound (counter t')"
    using advance_tone_total [of t] Cons.prems by auto
  obtain ts' where "advance_tones ts = Some ts'" "length ts' = length ts"
    "\<forall>t \<in> set ts'. counter_bound (counter t)"
    using Cons by auto
  then show ?case using t' by auto
qed simp

text \<open>What the generators may change.\<close>

lemma advanceGenerators_total:
  assumes "\<forall>t \<in> set (tones s). counter_bound (counter t)" and "counter_bound (noiseCounter s)"
  shows "\<exists>ts c l h. advanceGenerators s =
      Some (s\<lparr>tones := ts, noiseCounter := c, noiseLfsr := l, noiseOutputHigh := h\<rparr>) \<and>
    length ts = length (tones s) \<and> (\<forall>t \<in> set ts. counter_bound (counter t)) \<and> counter_bound c \<and>
    (noiseLfsr s \<noteq> 0 \<longrightarrow> l \<noteq> 0)"
proof -
  obtain ts where ts: "advance_tones (tones s) = Some ts" "length ts = length (tones s)"
    "\<forall>t \<in> set ts. counter_bound (counter t)"
    using advance_tones_total [OF assms(1)] by auto
  obtain c l h where "advance_noise (s\<lparr>tones := ts\<rparr>) =
      Some (s\<lparr>tones := ts\<rparr>\<lparr>noiseCounter := c, noiseLfsr := l, noiseOutputHigh := h\<rparr>)"
    "counter_bound c" "noiseLfsr s \<noteq> 0 \<longrightarrow> l \<noteq> 0"
    using advance_noise_total [of "s\<lparr>tones := ts\<rparr>"] assms(2) by auto
  then show ?thesis
    using ts by (intro exI [of _ ts] exI [of _ c] exI [of _ l] exI [of _ h]) (simp add: advanceGenerators_def)
qed

lemma length_voiceStems [simp]: "length (voiceStems s) = 8"
  by (simp add: voiceStems_def eval_nat_numeral)

lemma push_frame_ok:
  assumes "psg_ok s"
  shows "psg_ok (push_frame s)"
proof -
  obtain l r where m: "mixFrame s = (l, r)" by fastforce
  show ?thesis
    using assms
    by (auto simp: psg_ok_def push_frame_def emit_chunk_def m Let_def kChunkSamples_def
        kFramesPerChunk_def kOutputChannelCount_def)
qed

lemma produceFrame_total:
  assumes "psg_ok s"
  shows "\<exists>s'. produceFrame s = Some s' \<and> psg_ok s' \<and> samplesGeneratedTotal s' = samplesGeneratedTotal s + 2 \<and>
    (noiseLfsr s \<noteq> 0 \<longrightarrow> noiseLfsr s' \<noteq> 0)"
proof -
  obtain ts c l h where g: "advanceGenerators s =
      Some (s\<lparr>tones := ts, noiseCounter := c, noiseLfsr := l, noiseOutputHigh := h\<rparr>)"
    "length ts = length (tones s)" "\<forall>t \<in> set ts. counter_bound (counter t)" "counter_bound c"
    "noiseLfsr s \<noteq> 0 \<longrightarrow> l \<noteq> 0"
    using advanceGenerators_total [of s] assms by (auto simp: psg_ok_def)
  let ?s = "s\<lparr>tones := ts, noiseCounter := c, noiseLfsr := l, noiseOutputHigh := h\<rparr>"
  have "psg_ok ?s" using assms g by (simp add: psg_ok_def)
  moreover have "samplesGeneratedTotal (push_frame ?s) = samplesGeneratedTotal s + 2"
    "noiseLfsr (push_frame ?s) = l"
    by (simp_all add: push_frame_def emit_chunk_def Let_def split: prod.splits)
  ultimately show ?thesis
    using g by (simp add: produceFrame_def push_frame_ok)
qed

lemma psg_ok_phase [simp]: "psg_ok (s\<lparr>samplePhase := p\<rparr>) = psg_ok s"
  by (simp add: psg_ok_def)

lemma psg_run_total:
  "psg_ok s \<Longrightarrow> \<exists>s'. psg_run s = Some s' \<and> psg_ok s' \<and>
     unat (samplePhase s') = unat (samplePhase s) mod kClockHz \<and>
     samplesGeneratedTotal s' = samplesGeneratedTotal s + of_nat (2 * (unat (samplePhase s) div kClockHz)) \<and>
     (noiseLfsr s \<noteq> 0 \<longrightarrow> noiseLfsr s' \<noteq> 0)"
proof (induction s rule: psg_run.induct)
  case (1 s)
  show ?case
  proof (cases "of_nat kClockHz \<le> samplePhase s")
    case True
    let ?s = "s\<lparr>samplePhase := samplePhase s - of_nat kClockHz\<rparr>"
    obtain s1 where s1: "produceFrame ?s = Some s1" "psg_ok s1"
      "samplesGeneratedTotal s1 = samplesGeneratedTotal s + 2" "noiseLfsr s \<noteq> 0 \<longrightarrow> noiseLfsr s1 \<noteq> 0"
      using produceFrame_total [of ?s] 1(2) by auto
    obtain s2 where s2: "psg_run s1 = Some s2" "psg_ok s2"
      "unat (samplePhase s2) = unat (samplePhase s1) mod kClockHz"
      "samplesGeneratedTotal s2 = samplesGeneratedTotal s1 + of_nat (2 * (unat (samplePhase s1) div kClockHz))"
      "noiseLfsr s1 \<noteq> 0 \<longrightarrow> noiseLfsr s2 \<noteq> 0"
      using 1(1) [OF True s1(1,2)] by auto
    have "unat (of_nat kClockHz :: u64) = kClockHz" by (simp add: kClockHz_def)
    then have p: "kClockHz \<le> unat (samplePhase s)" "unat (samplePhase s1) = unat (samplePhase s) - kClockHz"
      using True produceFrame_phase [OF s1(1)] by (simp_all add: word_le_nat_alt unat_sub_if')
    have k: "0 < kClockHz" by (simp add: kClockHz_def)
    have "unat (samplePhase s) div kClockHz = Suc (unat (samplePhase s1) div kClockHz)"
      "unat (samplePhase s) mod kClockHz = unat (samplePhase s1) mod kClockHz"
      using p k by (simp_all add: le_div_geq le_mod_geq)
    then show ?thesis
      using True s1 s2 by (simp add: psg_run.simps [of s])
  next
    case False
    then have "unat (samplePhase s) < kClockHz"
      by (simp add: word_le_nat_alt kClockHz_def)
    then show ?thesis using False 1(2) by (simp add: psg_run.simps [of s])
  qed
qed

section \<open>Frames do not depend on the phase\<close>

fun psg_frames :: "nat \<Rightarrow> psg \<Rightarrow> psg option" where
  "psg_frames 0 s = Some s"
| "psg_frames (Suc n) s = (case produceFrame s of None \<Rightarrow> None | Some s' \<Rightarrow> psg_frames n s')"

lemma routed_phase [simp]:
  "channelRoutedLeft (s\<lparr>samplePhase := p\<rparr>) = channelRoutedLeft s"
  "channelRoutedRight (s\<lparr>samplePhase := p\<rparr>) = channelRoutedRight s"
  "channelLevel (s\<lparr>samplePhase := p\<rparr>) = channelLevel s"
  by (simp_all add: fun_eq_iff channelRoutedLeft_def channelRoutedRight_def channelLevel_def
      channelAmplitude_def Let_def)

lemma mix_phase [simp]:
  "mixFrame (s\<lparr>samplePhase := p\<rparr>) = mixFrame s" "voiceStems (s\<lparr>samplePhase := p\<rparr>) = voiceStems s"
  by (simp_all add: mixFrame_def voiceStems_def cong: if_cong)

lemma noise_period_phase [simp]: "noise_period (s\<lparr>samplePhase := p\<rparr>) = noise_period s"
  by (simp add: noise_period_def Let_def)

lemma advance_noise_set_phase:
  "advance_noise (s\<lparr>samplePhase := p\<rparr>) = map_option (\<lambda>s. s\<lparr>samplePhase := p\<rparr>) (advance_noise s)"
  by (auto simp: advance_noise_def Let_def option.map_comp comp_def split_def intro!: option.map_cong)

lemma produceFrame_set_phase:
  "produceFrame (s\<lparr>samplePhase := p\<rparr>) = map_option (\<lambda>s. s\<lparr>samplePhase := p\<rparr>) (produceFrame s)"
proof -
  have "advanceGenerators (s\<lparr>samplePhase := p\<rparr>) =
      map_option (\<lambda>s. s\<lparr>samplePhase := p\<rparr>) (advanceGenerators s)"
  proof (cases "advance_tones (tones s)")
    case (Some ts)
    have e: "advance_noise (s\<lparr>samplePhase := p, tones := ts\<rparr>) = advance_noise (s\<lparr>tones := ts, samplePhase := p\<rparr>)"
      by (rule arg_cong [where f = advance_noise]) simp
    then show ?thesis
      using Some advance_noise_set_phase [of p "s\<lparr>tones := ts\<rparr>"] by (simp add: advanceGenerators_def e)
  qed (simp add: advanceGenerators_def)
  moreover have "push_frame (s\<lparr>samplePhase := p\<rparr>) = (push_frame s)\<lparr>samplePhase := p\<rparr>" for s
    by (simp add: push_frame_def emit_chunk_def Let_def split: prod.splits)
  ultimately show ?thesis by (simp add: produceFrame_def option.map_comp comp_def)
qed

lemma psg_frames_set_phase:
  "psg_frames n (s\<lparr>samplePhase := p\<rparr>) = map_option (\<lambda>s. s\<lparr>samplePhase := p\<rparr>) (psg_frames n s)"
  by (induction n arbitrary: s) (simp_all add: produceFrame_set_phase split: option.splits)

lemma psg_frames_add:
  "psg_frames (m + n) s = Option.bind (psg_frames m s) (psg_frames n)"
  by (induction m arbitrary: s) (simp_all split: option.splits)

lemma psg_frames_phase: "psg_frames n s = Some s' \<Longrightarrow> samplePhase s' = samplePhase s"
  by (induction n arbitrary: s) (auto split: option.splits dest: produceFrame_phase)

lemma psg_run_frames:
  "psg_run s = psg_frames (unat (samplePhase s) div kClockHz)
     (s\<lparr>samplePhase := of_nat (unat (samplePhase s) mod kClockHz)\<rparr>)"
proof (induction s rule: psg_run.induct)
  case (1 s)
  have k: "0 < kClockHz" "unat (of_nat kClockHz :: u64) = kClockHz" by (simp_all add: kClockHz_def)
  show ?case
  proof (cases "of_nat kClockHz \<le> samplePhase s")
    case True
    let ?p = "unat (samplePhase s)"
    have p: "kClockHz \<le> ?p" "unat (samplePhase s - of_nat kClockHz) = ?p - kClockHz"
      using True k(2) by (simp_all add: word_le_nat_alt unat_sub_if')
    then have d: "?p div kClockHz = Suc ((?p - kClockHz) div kClockHz)" "?p mod kClockHz = (?p - kClockHz) mod kClockHz"
      using k(1) by (simp_all add: le_div_geq le_mod_geq)
    show ?thesis
    proof (cases "produceFrame (s\<lparr>samplePhase := samplePhase s - of_nat kClockHz\<rparr>)")
      case None
      then show ?thesis
        using True by (simp add: psg_run.simps [of s] d produceFrame_set_phase)
    next
      case (Some s1)
      have "samplePhase s1 = samplePhase s - of_nat kClockHz" using produceFrame_phase [OF Some] by simp
      then have "psg_run s1 = psg_frames ((?p - kClockHz) div kClockHz)
          (s1\<lparr>samplePhase := of_nat ((?p - kClockHz) mod kClockHz)\<rparr>)"
        using 1 [OF True Some] p by simp
      moreover have "produceFrame (s\<lparr>samplePhase := q\<rparr>) = Some (s1\<lparr>samplePhase := q\<rparr>)" for q
        using Some by (cases "produceFrame s") (auto simp: produceFrame_set_phase)
      ultimately show ?thesis
        using True Some by (simp add: psg_run.simps [of s] d)
    qed
  next
    case False
    then have "unat (samplePhase s) < kClockHz" using k(2) by (simp add: word_le_nat_alt)
    then show ?thesis using False by (simp add: psg_run.simps [of s])
  qed
qed

lemma psg_step_frames:
  assumes "unat (samplePhase s) < kClockHz" and "n = unat c * kSampleRate + unat (samplePhase s)"
  shows "psg_step c s = psg_frames (n div kClockHz) (s\<lparr>samplePhase := of_nat (n mod kClockHz)\<rparr>)"
proof -
  have "unat (samplePhase s + ucast c * of_nat kSampleRate) = n"
    using assms unat_u32_less [of c] by (simp add: unat_word_ariths unat_ucast_u64 kSampleRate_def kClockHz_def)
  then show ?thesis by (simp add: psg_step_def psg_run_frames)
qed

section \<open>State round trip\<close>

definition tone_valid :: "ToneChannel \<Rightarrow> bool" where
  "tone_valid t \<longleftrightarrow> counter_valid (counter t)"

interpretation psg_bool_codec: codec put_bool psg_bool "\<lambda>_. True"
  unfolding psg_bool_def by (rule bool_codec.codec_axioms)

interpretation tone_codec: codec put_tone get_tone tone_valid
  by unfold_locales
    (simp add: put_tone_def get_tone_def tone_valid_def validateImportedCounter_def reader_steps
      psg_bool_codec.get_put_bind)

interpretation array_codec: codec "\<lambda>xs. le32 (of_nat (length xs)) @ xs" "get_array n"
  "\<lambda>xs. length xs = n \<and> n < 2 ^ 32" for n
  by unfold_locales (auto simp: get_array_def reader_steps unat_of_nat_u32 rd_take_def)

interpretation samples_codec: codec put_samples "get_samples n"
  "\<lambda>xs. length xs \<le> n \<and> length xs < 2 ^ 32" for n
  by unfold_locales
    (simp add: get_samples_def put_samples_def reader_steps unat_of_nat_u32 u16_codec.get_list)

text \<open>What a state must satisfy for its export to be accepted again.\<close>

definition psg_exportable :: "psg \<Rightarrow> bool" where
  "psg_exportable s \<longleftrightarrow> psg_ok s \<and> (\<forall>t \<in> set (tones s). counter_valid (counter t)) \<and>
     counter_valid (noiseCounter s)"

text \<open>The registers come back, the stems and events of the running chunk do not.\<close>

definition psg_restored :: "psg \<Rightarrow> psg \<Rightarrow> psg" where
  "psg_restored t s = psg_snapshots (s\<lparr>
     currentVoiceStems := replicate (length (currentFrameSamples s) * 4) 0,
     recentVoiceStems := replicate (length (recentSamples s) * 4) 0,
     currentEvents := [], recentEvents := [], observedGateStates := replicate 4 False,
     eventSequence := eventSequence t, recentFirstSampleFrame := recentFirstSampleFrame t\<rparr>)"

lemma psg_import_tail:
  assumes "latchedChannel s \<le> 3"
  shows "psg_importTail (le64 (chunkSamplesLast s) @ le64 (chunkSamplesMin s) @ le64 (chunkSamplesMax s) @
     le64 (frameCounter s) @ le64 (samplesGeneratedTotal s) @ le64 (samplePhase s) @
     le64 (frameCounter s) @ latchedChannel s # put_bool (latchedVolume s)) =
   Inr (\<lambda>t. t\<lparr>chunkSamplesLast := chunkSamplesLast s, chunkSamplesMin := chunkSamplesMin s,
       chunkSamplesMax := chunkSamplesMax s, samplesGeneratedTotal := samplesGeneratedTotal s,
       samplePhase := samplePhase s, frameCounter := frameCounter s,
       latchedChannel := latchedChannel s, latchedVolume := latchedVolume s\<rparr>, [])"
  using assms
  by (simp add: psg_importTail_def reader_steps psg_bool_codec.get_put_bind_nil)

lemma psg_import_body:
  assumes "psg_exportable s"
  shows "\<exists>f. psg_importBody (psg_exportState s) = Inr (f, []) \<and>
    (\<forall>t. f t = t\<lparr>tones := tones s, noiseControl := noiseControl s,
       noiseAttenuation := noiseAttenuation s, noiseCounter := noiseCounter s,
       noiseLfsr := noiseLfsr s, noiseOutputHigh := noiseOutputHigh s,
       stereoControl := stereoControl s, compatRegisters := compatRegisters s, waveRam := waveRam s,
       currentFrameSamples := currentFrameSamples s, recentSamples := recentSamples s,
       chunkSamplesLast := chunkSamplesLast s, chunkSamplesMin := chunkSamplesMin s,
       chunkSamplesMax := chunkSamplesMax s, samplesGeneratedTotal := samplesGeneratedTotal s,
       samplePhase := samplePhase s, frameCounter := frameCounter s,
       latchedChannel := latchedChannel s, latchedVolume := latchedVolume s\<rparr>)"
proof -
  have len: "length (tones s) = 3" "length (compatRegisters s) = 0x17" "length (waveRam s) = 0x10"
    "length (currentFrameSamples s) < 512" "even (length (currentFrameSamples s))"
    "length (recentSamples s) \<le> 8192" "latchedChannel s \<le> 3"
    using assms by (simp_all add: psg_exportable_def psg_ok_def kChunkSamples_def kFramesPerChunk_def
        kOutputChannelCount_def)
  have k: "kChunkSamples = 512" by (simp add: kChunkSamples_def kFramesPerChunk_def kOutputChannelCount_def)
  have tones: "rd_list 3 get_tone (concat (map put_tone (tones s)) @ bs) = Inr (tones s, bs)" for bs
    using tone_codec.get_list [of "tones s" bs] assms len(1)
    by (simp add: psg_exportable_def tone_valid_def)
  have valid: "counter_valid (noiseCounter s)" using assms by (simp add: psg_exportable_def)
  have compat: "rd_bind (get_array 0x17) f (le32 23 @ compatRegisters s @ bs) = f (compatRegisters s) bs" for f :: "u8 list \<Rightarrow> (psg \<Rightarrow> psg) reader" and bs
    using array_codec.get_put_bind [of "compatRegisters s" 23 f bs] len by simp
  have wave: "rd_bind (get_array 0x10) f (le32 16 @ waveRam s @ bs) = f (waveRam s) bs" for f :: "u8 list \<Rightarrow> (psg \<Rightarrow> psg) reader" and bs
    using array_codec.get_put_bind [of "waveRam s" 16 f bs] len by simp
  show ?thesis
    using len valid
    by (simp add: psg_importBody_def psg_exportState_def tones rd_bind_Inr [where p = "rd_list 3 get_tone", OF tones]
        validateImportedCounter_def reader_steps psg_bool_codec.get_put_bind compat wave k
        samples_codec.get_put_bind kOutputChannelCount_def even_iff_mod_2_eq_zero
        rd_bind_Inr [where p = psg_importTail, OF psg_import_tail])
qed

lemma psg_import_export:
  assumes "psg_exportable s"
  shows "psg_importState t (psg_exportState s) = Inr (psg_restored t s)"
proof -
  obtain f where f: "psg_importBody (psg_exportState s) = Inr (f, [])"
   "\<And>t. f t = t\<lparr>tones := tones s, noiseControl := noiseControl s,
       noiseAttenuation := noiseAttenuation s, noiseCounter := noiseCounter s,
       noiseLfsr := noiseLfsr s, noiseOutputHigh := noiseOutputHigh s,
       stereoControl := stereoControl s, compatRegisters := compatRegisters s, waveRam := waveRam s,
       currentFrameSamples := currentFrameSamples s, recentSamples := recentSamples s,
       chunkSamplesLast := chunkSamplesLast s, chunkSamplesMin := chunkSamplesMin s,
       chunkSamplesMax := chunkSamplesMax s, samplesGeneratedTotal := samplesGeneratedTotal s,
       samplePhase := samplePhase s, frameCounter := frameCounter s,
       latchedChannel := latchedChannel s, latchedVolume := latchedVolume s\<rparr>"
    using psg_import_body [OF assms] by blast
  show ?thesis
    unfolding psg_importState_def psg_restored_def
    by (simp add: rd_run_def f Let_def) (rule arg_cong [where f = psg_snapshots], simp)
qed

lemma recordWrite_export [simp]:
  "psg_exportState (psg_recordWrite a v c k r s) = psg_exportState s"
  by (simp add: psg_exportState_def psg_recordWrite_def Let_def)

lemma snapshots_export [simp]: "psg_exportState (psg_snapshots s) = psg_exportState s"
  by (simp add: psg_snapshots_def)

lemma recordWrite_snapshot_length:
  "length (currentEvents (psg_recordWrite a v c StateSnapshot r s)) = Suc (length (currentEvents s))"
  by (simp add: psg_recordWrite_def Let_def)

interpretation psg_state: state_codec psg_exportState psg_importState psg_exportable "\<lambda>_ _. True" psg_restored
  by unfold_locales
    (simp_all only: psg_import_export psg_restored_def snapshots_export, simp add: psg_exportState_def)

section \<open>Restored states are well-formed\<close>

lemma rd_list_all:
  assumes "\<And>bs a rest. p bs = Inr (a, rest) \<Longrightarrow> P a"
  shows "rd_list n p bs = Inr (xs, rest) \<Longrightarrow> length xs = n \<and> (\<forall>x \<in> set xs. P x)"
proof (induction n arbitrary: bs xs)
  case (Suc n)
  then show ?case
    using assms by (auto elim!: rd_bind_Inr_E)
qed simp

lemma get_tone_valid: "get_tone bs = Inr (t, rest) \<Longrightarrow> tone_valid t"
  unfolding get_tone_def validateImportedCounter_def
  by (elim rd_bind_Inr_E) (auto simp: tone_valid_def split: if_splits)

lemma get_array_length: "get_array n bs = Inr (xs, rest) \<Longrightarrow> length xs = n"
  unfolding get_array_def by (elim rd_bind_Inr_E) (auto simp: rd_take_def split: if_splits)

lemma get_samples_length: "get_samples n bs = Inr (xs, rest) \<Longrightarrow> length xs \<le> n"
  unfolding get_samples_def
  by (elim rd_bind_Inr_E) (auto dest: rd_list_all [where P = "\<lambda>_. True", rotated] split: if_splits)

lemma psg_importTail_ok:
  assumes "psg_importTail bs = Inr (f, rest)"
  shows "latchedChannel (f s) \<le> 3 \<and> tones (f s) = tones s \<and> noiseCounter (f s) = noiseCounter s \<and>
    compatRegisters (f s) = compatRegisters s \<and> waveRam (f s) = waveRam s \<and>
    currentFrameSamples (f s) = currentFrameSamples s \<and> recentSamples (f s) = recentSamples s"
  using assms unfolding psg_importTail_def
  by (elim rd_bind_Inr_E) (auto split: if_splits)

lemma counter_valid_bound: "counter_valid x \<Longrightarrow> counter_bound x"
  by (simp add: counter_valid_def counter_bound_def)

lemma recordWrite_ok [simp]: "psg_ok s \<Longrightarrow> psg_ok (psg_recordWrite a v c k r s)"
  by (simp add: psg_ok_def psg_recordWrite_def Let_def)

lemma snapshots_ok [simp]: "psg_ok s \<Longrightarrow> psg_ok (psg_snapshots s)"
  by (simp add: psg_snapshots_def)

lemma psg_import_ok:
  assumes "psg_importState t bs = Inr s"
  shows "psg_ok s"
proof -
  obtain f rest where b: "psg_importBody bs = Inr (f, rest)" and s: "s = (let s = f t in
           psg_snapshots (s\<lparr>
             currentVoiceStems := replicate (length (currentFrameSamples s) * 4) 0,
             recentVoiceStems := replicate (length (recentSamples s) * 4) 0,
             currentEvents := [], recentEvents := [],
             observedGateStates := replicate 4 False\<rparr>))"
    using assms unfolding psg_importState_def rd_run_def by (auto simp: Let_def split: sum.splits prod.splits)
  have "length (tones (f t)) = 3 \<and> (\<forall>x \<in> set (tones (f t)). counter_bound (counter x)) \<and>
    counter_bound (noiseCounter (f t)) \<and> length (compatRegisters (f t)) = 0x17 \<and>
    length (waveRam (f t)) = 0x10 \<and> latchedChannel (f t) \<le> 3 \<and>
    length (currentFrameSamples (f t)) < kChunkSamples \<and> even (length (currentFrameSamples (f t))) \<and>
    length (recentSamples (f t)) \<le> 8192"
    using b unfolding psg_importBody_def validateImportedCounter_def
    apply (elim rd_bind_Inr_E)
    apply (drule rd_list_all [where P = tone_valid, rotated], erule get_tone_valid)
    apply (drule get_array_length, drule get_array_length, drule get_samples_length, drule get_samples_length)
    by (auto simp: psg_importTail_ok tone_valid_def counter_valid_bound kOutputChannelCount_def
        even_iff_mod_2_eq_zero split: if_splits)
  then show ?thesis
    unfolding s Let_def by (intro snapshots_ok) (simp add: psg_ok_def)
qed

section \<open>Operations keep the invariant\<close>

definition psg_inv :: "psg \<Rightarrow> bool" where
  "psg_inv s \<longleftrightarrow> psg_ok s \<and> noiseLfsr s \<noteq> 0"

datatype psg_op =
    OpData u8 | OpStereo u8 | OpCompat u16 u8 | OpWave u16 u8 | OpStep u32 | OpPsgReset

fun psg_op_step :: "psg_op \<Rightarrow> psg \<Rightarrow> psg option" where
  "psg_op_step (OpData v) s = Some (psg_writeData v s)"
| "psg_op_step (OpStereo v) s = Some (psg_writeStereoControl v s)"
| "psg_op_step (OpCompat a v) s = Some (psg_writeCompatRegister a v s)"
| "psg_op_step (OpWave a v) s = Some (psg_writeWaveRam a v s)"
| "psg_op_step (OpStep c) s = psg_step c s"
| "psg_op_step OpPsgReset s = Some (psg_reset s)"

fun psg_ops :: "psg_op list \<Rightarrow> psg \<Rightarrow> psg option" where
  "psg_ops [] s = Some s"
| "psg_ops (op # ops) s = (case psg_op_step op s of None \<Rightarrow> None | Some s' \<Rightarrow> psg_ops ops s')"

lemma recordWrite_lfsr [simp]: "noiseLfsr (psg_recordWrite a v c k r s) = noiseLfsr s"
  by (simp add: psg_recordWrite_def Let_def)

lemma recordWrite_inv [simp]: "psg_inv s \<Longrightarrow> psg_inv (psg_recordWrite a v c k r s)"
  by (simp add: psg_inv_def)

lemma psg_inv_updateCompatStatus [simp]: "psg_inv s \<Longrightarrow> psg_inv (updateCompatStatus s)"
  by (simp add: psg_inv_def psg_ok_def updateCompatStatus_def)

lemma psg_inv_upd_tone:
  assumes "psg_inv s" and "\<And>t. counter_bound (counter t) \<Longrightarrow> counter_bound (counter (f t))" and "i < 3"
  shows "psg_inv (upd_tone i f s)"
proof -
  have "tones s ! i \<in> set (tones s)" using assms by (simp add: psg_inv_def psg_ok_def)
  then have "counter_bound (counter (f (tones s ! i)))"
    using assms(1,2) by (simp add: psg_inv_def psg_ok_def)
  then have "\<forall>t \<in> set ((tones s)[i := f (tones s ! i)]). counter_bound (counter t)"
    using assms(1) set_update_subset_insert [of "tones s" i "f (tones s ! i)"]
    by (auto simp: psg_inv_def psg_ok_def)
  then show ?thesis using assms(1) by (simp add: psg_inv_def psg_ok_def upd_tone_def)
qed

lemma counter_bound_0 [simp]: "counter_bound 0"
  by (simp add: counter_bound_def d_val_def d_exponent_def d_mantissa_def)

lemma psg_inv_latch:
  "psg_inv s \<Longrightarrow> psg_inv (s\<lparr>latchedChannel := x AND 3, latchedVolume := v\<rparr>)"
  by (simp add: psg_inv_def psg_ok_def word_and_le1)

lemma psg_inv_noise:
  "psg_inv s \<Longrightarrow> psg_inv (s\<lparr>noiseAttenuation := a\<rparr>)"
  "psg_inv s \<Longrightarrow> psg_inv (s\<lparr>noiseControl := n, noiseLfsr := 0x8000, noiseCounter := 0, noiseOutputHigh := h\<rparr>)"
  by (simp_all add: psg_inv_def psg_ok_def)

lemma unat_less_3: "(x :: u8) < 3 \<Longrightarrow> unat x < 3"
  by (simp add: word_less_nat_alt)

lemma psg_inv_writeData: "psg_inv s \<Longrightarrow> psg_inv (psg_writeData v s)"
  unfolding psg_writeData_def Let_def
  by (intro recordWrite_inv psg_inv_updateCompatStatus)
    (auto intro!: psg_inv_upd_tone psg_inv_noise psg_inv_latch unat_less_3)

lemma psg_inv_writeStereo: "psg_inv s \<Longrightarrow> psg_inv (psg_writeStereoControl v s)"
proof -
  assume "psg_inv s"
  then have "psg_inv (s\<lparr>stereoControl := v\<rparr>)" by (simp add: psg_inv_def psg_ok_def)
  then show ?thesis by (simp add: psg_writeStereoControl_def)
qed

lemma psg_inv_compat_register: "psg_inv s \<Longrightarrow> psg_inv (s\<lparr>compatRegisters := (compatRegisters s)[i := v]\<rparr>)"
  by (simp add: psg_inv_def psg_ok_def)

lemma psg_inv_power_off:
  "psg_inv s \<Longrightarrow> psg_inv (s\<lparr>tones := map (\<lambda>t. t\<lparr>enabled := False\<rparr>) (tones s),
     currentFrameSamples := [], recentSamples := [], currentVoiceStems := [], recentVoiceStems := [],
     currentEvents := [], recentEvents := [], recentFirstSampleFrame := 0\<rparr>)"
  by (auto simp: psg_inv_def psg_ok_def kChunkSamples_def kFramesPerChunk_def kOutputChannelCount_def)

lemma psg_inv_compat:
  "psg_inv s \<Longrightarrow> psg_inv (applyCompatVolume v s)" "psg_inv s \<Longrightarrow> psg_inv (applyCompatToneLow v s)"
  "psg_inv s \<Longrightarrow> psg_inv (applyCompatToneHigh v s)"
  unfolding applyCompatVolume_def applyCompatToneLow_def applyCompatToneHigh_def Let_def
  by (auto intro!: psg_inv_upd_tone)

lemma psg_inv_writeCompat:
  assumes "psg_inv s"
  shows "psg_inv (psg_writeCompatRegister a v s)"
proof -
  let ?s = "s\<lparr>compatRegisters := (compatRegisters s)[unat a - 0xFF10 := v]\<rparr>"
  have "psg_inv ?s" using assms by (rule psg_inv_compat_register)
  then show ?thesis
    using assms psg_inv_power_off [of ?s]
    by (auto simp: psg_writeCompatRegister_def Let_def intro!: psg_inv_compat psg_inv_updateCompatStatus)
qed

lemma psg_inv_writeWave: "psg_inv s \<Longrightarrow> psg_inv (psg_writeWaveRam a v s)"
  by (simp add: psg_inv_def psg_ok_def psg_writeWaveRam_def)

lemma psg_ok_new: "psg_ok new_psg"
  by (simp add: psg_ok_def new_psg_def new_tone_def kChunkSamples_def kFramesPerChunk_def
      kOutputChannelCount_def)

lemma psg_inv_reset: "psg_inv (psg_reset s)"
proof -
  have "psg_inv (new_psg\<lparr>compatRegisters := (replicate 0x17 0)[0x16 := 0x80]\<rparr>)"
    using psg_ok_new by (simp add: psg_inv_def psg_ok_def) (simp add: new_psg_def)
  then show ?thesis by (simp add: psg_reset_def psg_snapshots_def)
qed

lemma psg_inv_step:
  assumes "psg_inv s"
  shows "\<exists>s'. psg_step c s = Some s' \<and> psg_inv s'"
  using psg_run_total [of "s\<lparr>samplePhase := samplePhase s + ucast c * of_nat kSampleRate\<rparr>"] assms
  by (auto simp: psg_inv_def psg_step_def)

lemma psg_op_total: "psg_inv s \<Longrightarrow> \<exists>s'. psg_op_step op s = Some s' \<and> psg_inv s'"
  by (cases op) (simp_all add: psg_inv_writeData psg_inv_writeStereo psg_inv_writeCompat
      psg_inv_writeWave psg_inv_reset psg_inv_step)

section \<open>Levels\<close>

lemma attenuation_bound:
  assumes "i < 16"
  shows "0 \<le> kAttenuationTable ! i \<and> kAttenuationTable ! i \<le> 8192"
proof -
  have "\<forall>x \<in> set kAttenuationTable. 0 \<le> x \<and> x \<le> 8192" by (simp add: kAttenuationTable_def)
  moreover have "kAttenuationTable ! i \<in> set kAttenuationTable"
    using assms by (intro nth_mem) (simp add: kAttenuationTable_def)
  ultimately show ?thesis by blast
qed

lemma amplitude_bound: "0 \<le> channelAmplitude s ch \<and> channelAmplitude s ch \<le> 8192"
proof -
  have "unat (min a 0x0F) < 16" for a :: u8
    by (simp add: min_def word_le_nat_alt)
  then show ?thesis by (simp add: channelAmplitude_def Let_def attenuation_bound)
qed

lemma level_bound: "\<bar>channelLevel s ch\<bar> \<le> 8192"
  using amplitude_bound [of s ch] by (auto simp: channelLevel_def Let_def)

lemma sint_clampSample: "sint (clampSample v) = max (-32768) (min 32767 v)"
  by (simp add: clampSample_def signed_of_int signed_take_bit_int_eq_self)


lemma upt_4: "[0..<4] = [0, 1, 2, 3 :: nat]"
  by (simp add: upt_rec)

lemma counter_valid_0: "counter_valid 0"
  by (simp add: counter_valid_def d_finite_def d_negative_def d_val_def d_exponent_def d_mantissa_def)

lemma psg_exportable_new: "psg_exportable new_psg"
proof -
  have "counter_valid (noiseCounter new_psg)" "\<forall>t \<in> set (tones new_psg). counter_valid (counter t)"
    by (simp_all add: new_psg_def new_tone_def counter_valid_0)
  then show ?thesis using psg_ok_new by (simp add: psg_exportable_def)
qed

section \<open>Properties\<close>

text \<open>C12: The generator can be stepped from any restored state. Whatever bytes \<open>importState\<close>
  accepts, and whatever register writes and cycle counts follow, every sampling loop and every
  counter loop ends; the bound on imported counters is what makes the floating-point subtraction
  loops terminate.\<close>

theorem psg_never_hangs:
  assumes "psg_importState t bs = Inr s"
  shows "\<exists>s'. psg_step c s = Some s' \<and> psg_ok s' \<and> unat (samplePhase s') < kClockHz"
proof -
  let ?s = "s\<lparr>samplePhase := samplePhase s + ucast c * of_nat kSampleRate\<rparr>"
  have "psg_ok ?s" using psg_import_ok [OF assms] by simp
  then obtain s' where "psg_run ?s = Some s'" "psg_ok s'"
    "unat (samplePhase s') = unat (samplePhase ?s) mod kClockHz"
    using psg_run_total [of ?s] by auto
  then show ?thesis by (auto simp: psg_step_def kClockHz_def)
qed

theorem psg_never_hangs_witness:
  "\<exists>s'. psg_step 228 (psg_restored new_psg new_psg) = Some s' \<and> psg_ok s'"
  using psg_never_hangs [OF psg_import_export [OF psg_exportable_new, of new_psg], of 228] by blast

text \<open>C13: The register interface keeps the generator well-formed: after any sequence of data, stereo,
  compatibility-register and wave-RAM writes, steps and resets, all of which return, the channel and
  register arrays have their sizes, the counters stay below the bound, less than a chunk of samples
  is pending with its stems in step, and the noise shift register never reaches the all-zero state
  in which it would be stuck.\<close>

theorem psg_ops_keep_invariant:
  assumes "psg_inv s"
  shows "\<exists>s'. psg_ops ops s = Some s' \<and> psg_inv s'"
  using assms
proof (induction ops arbitrary: s)
  case (Cons op ops)
  obtain s1 where "psg_op_step op s = Some s1" "psg_inv s1"
    using psg_op_total [OF Cons.prems] by blast
  then show ?case using Cons.IH by simp
qed simp

theorem psg_ops_keep_invariant_witness:
  "\<exists>s'. psg_ops [OpData 0x80, OpData 0x3F, OpData 0x90, OpStep 59736, OpCompat 0xFF26 0] (psg_reset new_psg)
     = Some s' \<and> noiseLfsr s' \<noteq> 0"
  using psg_ops_keep_invariant [OF psg_inv_reset,
      of "[OpData 0x80, OpData 0x3F, OpData 0x90, OpStep 59736, OpCompat 0xFF26 0]" new_psg]
  unfolding psg_inv_def by blast

text \<open>Splitting time does not change the sound: stepping by \<open>a\<close> cycles and then by \<open>b\<close> gives
  exactly the state (samples, chunks, events, counters, phase) of one step by \<open>a + b\<close>, so the
  output does not depend on the granularity at which the machine retires instructions.\<close>

theorem psg_step_additive:
  assumes "unat (samplePhase s) < kClockHz" and "unat a + unat b < 2 ^ 32"
  shows "psg_step (a + b) s = Option.bind (psg_step a s) (psg_step b)"
proof -
  define n1 where "n1 = unat a * kSampleRate + unat (samplePhase s)"
  define n2 where "n2 = unat b * kSampleRate + n1 mod kClockHz"
  have k: "0 < kClockHz" by (simp add: kClockHz_def)
  have small: "n1 mod kClockHz < kClockHz" "kClockHz < 2 ^ 64" using k by (simp_all add: kClockHz_def)
  then have p1: "unat (of_nat (n1 mod kClockHz) :: u64) = n1 mod kClockHz"
    by (intro unat_of_nat_u64) linarith
  have ab: "unat (a + b) = unat a + unat b" using assms(2) by (simp add: unat_word_ariths)
  have "unat (a + b) * kSampleRate + unat (samplePhase s) = n1 + unat b * kSampleRate"
    by (simp add: ab n1_def algebra_simps)
  also have "\<dots> = n2 + n1 div kClockHz * kClockHz"
    by (simp add: n2_def)
  finally have n: "unat (a + b) * kSampleRate + unat (samplePhase s) = n2 + n1 div kClockHz * kClockHz" .
  then have whole: "psg_step (a + b) s = psg_frames (n1 div kClockHz + n2 div kClockHz)
      (s\<lparr>samplePhase := of_nat (n2 mod kClockHz)\<rparr>)"
    using psg_step_frames [OF assms(1), of _ "a + b"] k by (simp add: add.commute)
  have first: "psg_step a s = psg_frames (n1 div kClockHz) (s\<lparr>samplePhase := of_nat (n1 mod kClockHz)\<rparr>)"
    by (rule psg_step_frames) (simp_all add: assms(1) n1_def)
  show ?thesis
  proof (cases "psg_frames (n1 div kClockHz) s")
    case None
    then show ?thesis by (simp add: whole first psg_frames_add psg_frames_set_phase)
  next
    case (Some s1)
    have "psg_step b (s1\<lparr>samplePhase := of_nat (n1 mod kClockHz)\<rparr>) =
        psg_frames (n2 div kClockHz) (s1\<lparr>samplePhase := of_nat (n2 mod kClockHz)\<rparr>)"
      using psg_step_frames [of "s1\<lparr>samplePhase := of_nat (n1 mod kClockHz)\<rparr>" n2 b] p1 small(1)
      by (simp add: n2_def)
    then show ?thesis using Some by (simp add: whole first psg_frames_add psg_frames_set_phase)
  qed
qed

theorem psg_step_additive_witness:
  "psg_step (4 + 11) (psg_reset new_psg) = Option.bind (psg_step 4 (psg_reset new_psg)) (psg_step 11)"
proof -
  have "samplePhase (psg_recordWrite a v c k r s) = samplePhase s" for a v c k r s
    by (simp add: psg_recordWrite_def Let_def)
  then have "samplePhase (psg_reset new_psg) = 0"
    by (simp add: psg_reset_def psg_snapshots_def new_psg_def)
  then show ?thesis
    by (intro psg_step_additive) (simp_all add: kClockHz_def)
qed

text \<open>The stereo mix is exact: each output sample is the sum of the signed levels of the channels
  routed to that side, saturated only at the one value 32768 that four channels at full level reach,
  and the four voice stems carry the same levels unsaturated.\<close>

theorem psg_mix_exact:
  "sint (fst (mixFrame s)) = min 32767 (\<Sum>ch < 4. if channelRoutedLeft s ch then channelLevel s ch else 0) \<and>
   sint (snd (mixFrame s)) = min 32767 (\<Sum>ch < 4. if channelRoutedRight s ch then channelLevel s ch else 0) \<and>
   (\<forall>ch < 4. sint (voiceStems s ! (2 * ch)) = (if channelRoutedLeft s ch then channelLevel s ch else 0) \<and>
      sint (voiceStems s ! (2 * ch + 1)) = (if channelRoutedRight s ch then channelLevel s ch else 0))"
proof -
  have sum: "(\<Sum>ch < (4 :: nat). f ch) = f 0 + f 1 + f 2 + f 3" for f :: "nat \<Rightarrow> int"
    by (simp add: eval_nat_numeral)
  have list: "sum_list (map f [0..<4]) = (\<Sum>ch < (4 :: nat). f ch)" for f :: "nat \<Rightarrow> int"
    unfolding sum upt_4 by simp
  have low: "- 32768 \<le> (\<Sum>ch < (4 :: nat). if r ch then channelLevel s ch else 0)" for r
    using level_bound [of s 0] level_bound [of s 1] level_bound [of s 2] level_bound [of s 3]
    unfolding sum by (auto split: if_split)
  have stems: "\<forall>ch < 4. sint (voiceStems s ! (2 * ch)) = (if channelRoutedLeft s ch then channelLevel s ch else 0) \<and>
      sint (voiceStems s ! (2 * ch + 1)) = (if channelRoutedRight s ch then channelLevel s ch else 0)"
  proof (intro allI impI)
    fix ch :: nat
    assume "ch < 4"
    then have "ch = 0 \<or> ch = 1 \<or> ch = 2 \<or> ch = 3" by auto
    then show "sint (voiceStems s ! (2 * ch)) = (if channelRoutedLeft s ch then channelLevel s ch else 0) \<and>
      sint (voiceStems s ! (2 * ch + 1)) = (if channelRoutedRight s ch then channelLevel s ch else 0)"
      using level_bound [of s 0] level_bound [of s 1] level_bound [of s 2] level_bound [of s 3]
      by (elim disjE; simp add: voiceStems_def upt_4 sint_clampSample)
  qed
  show ?thesis
    using low stems by (simp add: mixFrame_def Let_def list sint_clampSample)
qed

theorem psg_mix_exact_witness:
  "sint (voiceStems (new_psg\<lparr>noiseAttenuation := 0, stereoControl := 0x0F\<rparr>) ! 7) = -8192"
  using conjunct2 [OF spec [OF conjunct2 [OF conjunct2 [OF psg_mix_exact
      [of "new_psg\<lparr>noiseAttenuation := 0, stereoControl := 0x0F\<rparr>"]]], of 3, THEN mp]]
  by (simp add: new_psg_def channelLevel_def channelAmplitude_def kAttenuationTable_def
      channelRoutedRight_def)

text \<open>A saved generator resumes identically: exporting a well-formed generator and importing the
  bytes into any generator restores every register, counter, sample buffer and clock; only the
  in-flight voice stems and event trace are reset, with a fresh snapshot of the four voices.\<close>

theorem psg_state_roundtrip:
  assumes "psg_exportable s"
  shows "psg_importState t (psg_exportState s) = Inr (psg_restored t s) \<and>
    psg_exportState (psg_restored t s) = psg_exportState s \<and> length (currentEvents (psg_restored t s)) = 4"
proof -
  have "length (currentEvents (psg_restored t s)) = 4"
    by (simp add: psg_restored_def psg_snapshots_def recordWrite_snapshot_length)
  then show ?thesis
    using psg_state.import_export [OF assms] psg_state.export_restored [OF assms] by simp
qed

theorem psg_state_roundtrip_witness:
  "psg_importState new_psg (psg_exportState (new_psg\<lparr>noiseControl := 5, currentFrameSamples := [1, 2],
      currentVoiceStems := replicate 8 0\<rparr>)) =
   Inr (psg_restored new_psg (new_psg\<lparr>noiseControl := 5, currentFrameSamples := [1, 2],
      currentVoiceStems := replicate 8 0\<rparr>))"
proof -
  let ?s = "new_psg\<lparr>noiseControl := 5, currentFrameSamples := [1, 2], currentVoiceStems := replicate 8 0\<rparr>"
  have "psg_exportable ?s"
    using psg_exportable_new
    by (simp add: psg_exportable_def psg_ok_def kChunkSamples_def kFramesPerChunk_def kOutputChannelCount_def)
  from psg_state_roundtrip [OF this, of new_psg] show ?thesis by (rule conjunct1)
qed

end
