(* ===== verification/Z80_Core.thy ===== *)
theory Z80_Core
  imports Prelude
begin

text \<open>
  The register file, the bus and the arithmetic of \<open>src/cores/gamegear/Z80Interpreter.cpp\<close>:
  the members of the class, the memory and port callbacks, the accessors, the flag computations,
  the eight ALU operations and the eight rotates and shifts. The second half says what the flags
  mean as integer arithmetic.
\<close>

section \<open>Registers and interfaces\<close>

text \<open>
  The data members of \<open>Z80Interpreter\<close>, \<open>AF'\<close> and the other primed names being the shadow
  registers. What the installed callbacks act on is the field \<open>world\<close>.
\<close>

record 'w z80 =
  AF :: u16
  BC :: u16
  DE :: u16
  HL :: u16
  IX :: u16
  IY :: u16
  SP :: u16
  PC :: u16
  AF' :: u16
  BC' :: u16
  DE' :: u16
  HL' :: u16
  regI :: u8
  regR :: u8
  IFF1 :: bool
  IFF2 :: bool
  IME :: bool
  imeEnableDelay :: int
  halted :: bool
  interruptMode :: u8
  world :: 'w

text \<open>
  The installed \<open>std::function\<close> members, empty ones being \<open>None\<close>. A memory read leaves the
  world alone (\<open>GameGearMemoryMap::read\<close> is const); a port read may change it.
\<close>

record 'w interface =
  memReader :: "('w \<Rightarrow> u16 \<Rightarrow> u8) option"
  memWriter :: "('w \<Rightarrow> u16 \<Rightarrow> u8 \<Rightarrow> 'w) option"
  ioReader :: "('w \<Rightarrow> u8 \<Rightarrow> u8 \<times> 'w) option"
  ioWriter :: "('w \<Rightarrow> u8 \<Rightarrow> u8 \<Rightarrow> 'w) option"
  effectiveIoRead :: "('w \<Rightarrow> u16 \<Rightarrow> u8 \<times> 'w) option"
  effectiveIoWrite :: "('w \<Rightarrow> u16 \<Rightarrow> u8 \<Rightarrow> 'w) option"
  interruptRequestProvider :: "('w \<Rightarrow> u8 option \<times> 'w) option"
  instructionFetchObserver :: "('w \<Rightarrow> u16 \<Rightarrow> 'w) option"

definition new_interface :: "'w interface" where
  "new_interface =
     \<lparr>memReader = None, memWriter = None, ioReader = None, ioWriter = None,
      effectiveIoRead = None, effectiveIoWrite = None,
      interruptRequestProvider = None, instructionFetchObserver = None\<rparr>"

definition setMemoryInterface ::
  "('w \<Rightarrow> u16 \<Rightarrow> u8) option \<Rightarrow> ('w \<Rightarrow> u16 \<Rightarrow> u8 \<Rightarrow> 'w) option \<Rightarrow> 'w interface \<Rightarrow> 'w interface" where
  "setMemoryInterface r w i = i\<lparr>memReader := r, memWriter := w\<rparr>"

definition setIoInterface ::
  "('w \<Rightarrow> u8 \<Rightarrow> u8 \<times> 'w) option \<Rightarrow> ('w \<Rightarrow> u8 \<Rightarrow> u8 \<Rightarrow> 'w) option \<Rightarrow> 'w interface \<Rightarrow> 'w interface" where
  "setIoInterface r w i =
     i\<lparr>effectiveIoRead := None, effectiveIoWrite := None, ioReader := r, ioWriter := w\<rparr>"

definition setEffectiveIoInterface ::
  "('w \<Rightarrow> u16 \<Rightarrow> u8 \<times> 'w) option \<Rightarrow> ('w \<Rightarrow> u16 \<Rightarrow> u8 \<Rightarrow> 'w) option \<Rightarrow> 'w interface \<Rightarrow> 'w interface" where
  "setEffectiveIoInterface r w i = i\<lparr>effectiveIoRead := r, effectiveIoWrite := w\<rparr>"

definition setInterruptRequestProvider ::
  "('w \<Rightarrow> u8 option \<times> 'w) option \<Rightarrow> 'w interface \<Rightarrow> 'w interface" where
  "setInterruptRequestProvider p i = i\<lparr>interruptRequestProvider := p\<rparr>"

definition setInstructionFetchObserver :: "('w \<Rightarrow> u16 \<Rightarrow> 'w) option \<Rightarrow> 'w interface \<Rightarrow> 'w interface" where
  "setInstructionFetchObserver p i = i\<lparr>instructionFetchObserver := p\<rparr>"

definition hasInstructionFetchObserver :: "'w interface \<Rightarrow> bool" where
  "hasInstructionFetchObserver i \<longleftrightarrow> instructionFetchObserver i \<noteq> None"

definition requireMemoryInterface :: "'w interface \<Rightarrow> unit result" where
  "requireMemoryInterface i =
     (if memReader i = None \<or> memWriter i = None
      then Inl (Runtime_error ''Z80 memory interface not set'') else Inr ())"

definition readIo :: "'w interface \<Rightarrow> 'w \<Rightarrow> u16 \<Rightarrow> u8 \<times> 'w" where
  "readIo i w port =
     (case effectiveIoRead i of
        Some f \<Rightarrow> f w port
      | None \<Rightarrow> (case ioReader i of Some f \<Rightarrow> f w (ucast port) | None \<Rightarrow> (0xFF, w)))"

definition writeIo :: "'w interface \<Rightarrow> 'w \<Rightarrow> u16 \<Rightarrow> u8 \<Rightarrow> 'w" where
  "writeIo i w port value =
     (case effectiveIoWrite i of
        Some f \<Rightarrow> f w port value
      | None \<Rightarrow> (case ioWriter i of Some f \<Rightarrow> f w (ucast port) value | None \<Rightarrow> w))"

text \<open>
  The callbacks as the opcodes use them. \<open>step\<close> has checked that both memory callbacks are
  installed before it runs an opcode, so below it they are plain functions.
\<close>

record 'w bus =
  memRead :: "'w \<Rightarrow> u16 \<Rightarrow> u8"
  memWrite :: "'w \<Rightarrow> u16 \<Rightarrow> u8 \<Rightarrow> 'w"
  portRead :: "'w \<Rightarrow> u16 \<Rightarrow> u8 \<times> 'w"
  portWrite :: "'w \<Rightarrow> u16 \<Rightarrow> u8 \<Rightarrow> 'w"

definition rd :: "'w bus \<Rightarrow> 'w z80 \<Rightarrow> u16 \<Rightarrow> u8" where
  "rd b s a = memRead b (world s) a"

definition wr :: "'w bus \<Rightarrow> u16 \<Rightarrow> u8 \<Rightarrow> 'w z80 \<Rightarrow> 'w z80" where
  "wr b a v s = s\<lparr>world := memWrite b (world s) a v\<rparr>"

definition inPort :: "'w bus \<Rightarrow> u16 \<Rightarrow> 'w z80 \<Rightarrow> u8 \<times> 'w z80" where
  "inPort b p s = (let (v, w) = portRead b (world s) p in (v, s\<lparr>world := w\<rparr>))"

definition outPort :: "'w bus \<Rightarrow> u16 \<Rightarrow> u8 \<Rightarrow> 'w z80 \<Rightarrow> 'w z80" where
  "outPort b p v s = s\<lparr>world := portWrite b (world s) p v\<rparr>"

section \<open>Reset\<close>

definition z80_reset :: "'w z80 \<Rightarrow> 'w z80" where
  "z80_reset s = s\<lparr>AF := 0x01B0, BC := 0, DE := 0, HL := 0, IX := 0, IY := 0, SP := 0xDFF0,
     PC := 0, AF' := 0, BC' := 0, DE' := 0, HL' := 0, regI := 0, regR := 0,
     IFF1 := False, IFF2 := False, IME := False, imeEnableDelay := 0, halted := False,
     interruptMode := 1\<rparr>"

definition setInterruptMode :: "u8 \<Rightarrow> 'w z80 \<Rightarrow> 'w z80" where
  "setInterruptMode mode s = s\<lparr>interruptMode := (if mode \<le> 2 then mode else 1)\<rparr>"

definition deferredInterruptEnable :: "'w z80 \<Rightarrow> bool" where
  "deferredInterruptEnable s \<longleftrightarrow> imeEnableDelay s \<noteq> 0"

section \<open>Flags\<close>

abbreviation kFlagS :: u8 where "kFlagS \<equiv> 0x80"
abbreviation kFlagZ :: u8 where "kFlagZ \<equiv> 0x40"
abbreviation kFlag5 :: u8 where "kFlag5 \<equiv> 0x20"
abbreviation kFlagH :: u8 where "kFlagH \<equiv> 0x10"
abbreviation kFlag3 :: u8 where "kFlag3 \<equiv> 0x08"
abbreviation kFlagPV :: u8 where "kFlagPV \<equiv> 0x04"
abbreviation kFlagN :: u8 where "kFlagN \<equiv> 0x02"
abbreviation kFlagC :: u8 where "kFlagC \<equiv> 0x01"

abbreviation copied_bits :: u8 where "copied_bits \<equiv> kFlagS OR kFlag5 OR kFlag3"

text \<open>The statement \<open>if (c) flags |= m\<close>.\<close>

definition or_if :: "bool \<Rightarrow> u8 \<Rightarrow> u8 \<Rightarrow> u8" where
  "or_if c m flags = (if c then flags OR m else flags)"

definition sz35 :: "u8 \<Rightarrow> u8" where
  "sz35 value = or_if (value = 0) kFlagZ (value AND copied_bits)"

definition parityEven :: "u8 \<Rightarrow> bool" where
  "parityEven value \<longleftrightarrow> even (length (filter (bit value) [0..<8]))"

definition displacement :: "u8 \<Rightarrow> u16" where
  "displacement value = scast value"

definition regA :: "'w z80 \<Rightarrow> u8" where
  "regA s = hi (AF s)"

definition regF :: "'w z80 \<Rightarrow> u8" where
  "regF s = lo (AF s)"

definition setRegA :: "u8 \<Rightarrow> 'w z80 \<Rightarrow> 'w z80" where
  "setRegA value s = s\<lparr>AF := mk16 (regF s) value\<rparr>"

definition setRegF :: "u8 \<Rightarrow> 'w z80 \<Rightarrow> 'w z80" where
  "setRegF value s = s\<lparr>AF := (AF s AND 0xFF00) OR ucast value\<rparr>"

definition setZeroFlag :: "bool \<Rightarrow> 'w z80 \<Rightarrow> 'w z80" where
  "setZeroFlag on s = setRegF (or_if on kFlagZ (regF s AND NOT kFlagZ)) s"

definition zeroFlag :: "'w z80 \<Rightarrow> bool" where
  "zeroFlag s \<longleftrightarrow> regF s AND kFlagZ \<noteq> 0"

definition carryFlag :: "'w z80 \<Rightarrow> bool" where
  "carryFlag s \<longleftrightarrow> regF s AND kFlagC \<noteq> 0"

definition computeIncFlags :: "'w z80 \<Rightarrow> u8 \<Rightarrow> u8 \<Rightarrow> u8" where
  "computeIncFlags s before res =
     or_if (before = 0x7F) kFlagPV
     (or_if (unat (before AND 0x0F) + 1 > 0x0F) kFlagH
     (or_if (res = 0) kFlagZ
     ((regF s AND kFlagC) OR (res AND copied_bits))))"

definition computeDecFlags :: "'w z80 \<Rightarrow> u8 \<Rightarrow> u8 \<Rightarrow> u8" where
  "computeDecFlags s before res =
     or_if (before = 0x80) kFlagPV
     (or_if (before AND 0x0F = 0) kFlagH
     (or_if (res = 0) kFlagZ
     ((regF s AND kFlagC) OR kFlagN OR (res AND copied_bits))))"

definition computeAddFlags :: "u8 \<Rightarrow> u8 \<Rightarrow> u8 \<Rightarrow> u8 \<Rightarrow> u8" where
  "computeAddFlags lhs rhs carryIn res =
     or_if (unat lhs + unat rhs + unat carryIn > 0xFF) kFlagC
     (or_if (NOT (lhs XOR rhs) AND (lhs XOR res) AND 0x80 \<noteq> 0) kFlagPV
     (or_if (unat (lhs AND 0x0F) + unat (rhs AND 0x0F) + unat carryIn > 0x0F) kFlagH
     (or_if (res = 0) kFlagZ
     (res AND copied_bits))))"

definition computeSubFlags :: "u8 \<Rightarrow> u8 \<Rightarrow> u8 \<Rightarrow> u8 \<Rightarrow> u8" where
  "computeSubFlags lhs rhs carryIn res =
     or_if (unat lhs < unat rhs + unat carryIn) kFlagC
     (or_if ((lhs XOR rhs) AND (lhs XOR res) AND 0x80 \<noteq> 0) kFlagPV
     (or_if (unat (lhs AND 0x0F) < unat (rhs AND 0x0F) + unat carryIn) kFlagH
     (or_if (res = 0) kFlagZ
     (kFlagN OR (res AND copied_bits)))))"

definition setLogicFlags :: "u8 \<Rightarrow> bool \<Rightarrow> 'w z80 \<Rightarrow> 'w z80" where
  "setLogicFlags res halfCarry s =
     setRegF (or_if (parityEven res) kFlagPV (or_if halfCarry kFlagH (sz35 res))) s"

section \<open>Register and memory access\<close>

definition incRefresh :: "'w z80 \<Rightarrow> 'w z80" where
  "incRefresh s = s\<lparr>regR := (regR s AND 0x80) OR ((regR s + 1) AND 0x7F)\<rparr>"

definition fetch8 :: "'w bus \<Rightarrow> 'w z80 \<Rightarrow> u8 \<times> 'w z80" where
  "fetch8 b s = (rd b s (PC s), s\<lparr>PC := PC s + 1\<rparr>)"

definition fetchOpcode :: "'w bus \<Rightarrow> 'w z80 \<Rightarrow> u8 \<times> 'w z80" where
  "fetchOpcode b s = fetch8 b (incRefresh s)"

definition fetch16 :: "'w bus \<Rightarrow> 'w z80 \<Rightarrow> u16 \<times> 'w z80" where
  "fetch16 b s = (let (low, s) = fetch8 b s; (high, s) = fetch8 b s in (mk16 low high, s))"

definition readReg8 :: "'w bus \<Rightarrow> u8 \<Rightarrow> 'w z80 \<Rightarrow> u8" where
  "readReg8 b idx s = (let r = idx AND 7 in
     if r = 0 then hi (BC s) else if r = 1 then lo (BC s)
     else if r = 2 then hi (DE s) else if r = 3 then lo (DE s)
     else if r = 4 then hi (HL s) else if r = 5 then lo (HL s)
     else if r = 6 then rd b s (HL s)
     else regA s)"

definition writeReg8 :: "'w bus \<Rightarrow> u8 \<Rightarrow> u8 \<Rightarrow> 'w z80 \<Rightarrow> 'w z80" where
  "writeReg8 b idx value s = (let r = idx AND 7 in
     if r = 0 then s\<lparr>BC := mk16 (lo (BC s)) value\<rparr>
     else if r = 1 then s\<lparr>BC := mk16 value (hi (BC s))\<rparr>
     else if r = 2 then s\<lparr>DE := mk16 (lo (DE s)) value\<rparr>
     else if r = 3 then s\<lparr>DE := mk16 value (hi (DE s))\<rparr>
     else if r = 4 then s\<lparr>HL := mk16 (lo (HL s)) value\<rparr>
     else if r = 5 then s\<lparr>HL := mk16 value (hi (HL s))\<rparr>
     else if r = 6 then wr b (HL s) value s
     else setRegA value s)"

definition push16 :: "'w bus \<Rightarrow> u16 \<Rightarrow> 'w z80 \<Rightarrow> 'w z80" where
  "push16 b value s =
     (let s = s\<lparr>SP := SP s - 1\<rparr>; s = wr b (SP s) (hi value) s;
          s = s\<lparr>SP := SP s - 1\<rparr>
      in wr b (SP s) (lo value) s)"

definition pop16 :: "'w bus \<Rightarrow> 'w z80 \<Rightarrow> u16 \<times> 'w z80" where
  "pop16 b s =
     (let low = rd b s (SP s); high = rd b s (SP s + 1)
      in (mk16 low high, s\<lparr>SP := SP s + 2\<rparr>))"

definition write16 :: "'w bus \<Rightarrow> u16 \<Rightarrow> u16 \<Rightarrow> 'w z80 \<Rightarrow> 'w z80" where
  "write16 b address value s = wr b (address + 1) (hi value) (wr b address (lo value) s)"

definition read16 :: "'w bus \<Rightarrow> u16 \<Rightarrow> 'w z80 \<Rightarrow> u16" where
  "read16 b address s = mk16 (rd b s address) (rd b s (address + 1))"

definition getReg16ByPair :: "u8 \<Rightarrow> bool \<Rightarrow> 'w z80 \<Rightarrow> u16" where
  "getReg16ByPair pair afForPair3 s = (let r = pair AND 3 in
     if r = 0 then BC s else if r = 1 then DE s else if r = 2 then HL s
     else if afForPair3 then AF s else SP s)"

definition setReg16ByPair :: "u8 \<Rightarrow> u16 \<Rightarrow> bool \<Rightarrow> 'w z80 \<Rightarrow> 'w z80" where
  "setReg16ByPair pair value afForPair3 s = (let r = pair AND 3 in
     if r = 0 then s\<lparr>BC := value\<rparr> else if r = 1 then s\<lparr>DE := value\<rparr>
     else if r = 2 then s\<lparr>HL := value\<rparr>
     else if afForPair3 then s\<lparr>AF := value\<rparr> else s\<lparr>SP := value\<rparr>)"

section \<open>Arithmetic, logic, rotates and shifts\<close>

definition alu :: "u8 \<Rightarrow> u8 \<Rightarrow> 'w z80 \<Rightarrow> u8 \<times> 'w z80" where
  "alu grp value s =
     (let a = regA s; g = grp AND 7; c = (if carryFlag s then 1 else 0) in
      if g = 0 then
        (let res = a + value in (res, setRegF (computeAddFlags a value 0 res) (setRegA res s)))
      else if g = 1 then
        (let res = a + value + c in (res, setRegF (computeAddFlags a value c res) (setRegA res s)))
      else if g = 2 then
        (let res = a - value in (res, setRegF (computeSubFlags a value 0 res) (setRegA res s)))
      else if g = 3 then
        (let res = a - value - c in (res, setRegF (computeSubFlags a value c res) (setRegA res s)))
      else if g = 4 then
        (let res = a AND value in (res, setLogicFlags res True (setRegA res s)))
      else if g = 5 then
        (let res = a XOR value in (res, setLogicFlags res False (setRegA res s)))
      else if g = 6 then
        (let res = a OR value in (res, setLogicFlags res False (setRegA res s)))
      else
        (let res = a - value in (res, setRegF (computeSubFlags a value 0 res) s)))"

definition rotateShift :: "u8 \<Rightarrow> u8 \<Rightarrow> 'w z80 \<Rightarrow> u8 \<times> 'w z80" where
  "rotateShift grp value s =
     (let g = grp AND 7;
          top = drop_bit 7 value AND 1;
          bottom = value AND 1;
          (carry, res) =
            (if g = 0 then (top, push_bit 1 value OR top)
             else if g = 1 then (bottom, drop_bit 1 value OR push_bit 7 bottom)
             else if g = 2 then (top, push_bit 1 value OR (if carryFlag s then 1 else 0))
             else if g = 3 then (bottom, drop_bit 1 value OR (if carryFlag s then 0x80 else 0))
             else if g = 4 then (top, push_bit 1 value)
             else if g = 5 then (bottom, drop_bit 1 value OR (value AND 0x80))
             else if g = 6 then (top, push_bit 1 value OR 1)
             else (bottom, drop_bit 1 value));
          flags = or_if (carry \<noteq> 0) kFlagC (or_if (parityEven res) kFlagPV (sz35 res))
      in (res, setRegF flags s))"

section \<open>Reading back what was set\<close>

lemma or_byte: "((w :: u16) AND 0xFF00) OR ucast v = mk16 v (hi w)"
proof -
  have m: "(0xFF00 :: u16) = push_bit 8 (mask 8)" by (simp add: mask_eq_exp_minus_1 push_bit_eq_mult)
  show ?thesis
    unfolding m by (rule bit_word_eqI) (auto simp: hi_def mk16_def bit_simps not_less dest: bit_imp_le_length)
qed

lemma setRegF_eq: "setRegF v s = s\<lparr>AF := mk16 v (regA s)\<rparr>"
  by (simp add: setRegF_def regA_def or_byte)

lemma reg_set [simp]:
  "regA (setRegA v s) = v" "regF (setRegA v s) = regF s"
  "regF (setRegF v s) = v" "regA (setRegF v s) = regA s"
  by (simp_all add: setRegA_def setRegF_eq regA_def regF_def)

lemma bit_or_if [simp]: "bit (or_if c m f) n \<longleftrightarrow> bit f n \<or> c \<and> bit m n"
  by (simp add: or_if_def bit_simps)

lemma flag_test:
  "(f :: u8) AND kFlagC \<noteq> 0 \<longleftrightarrow> bit f 0" "f AND kFlagZ \<noteq> 0 \<longleftrightarrow> bit f 6"
  "f AND kFlagN \<noteq> 0 \<longleftrightarrow> bit f 1" "f AND kFlagH \<noteq> 0 \<longleftrightarrow> bit f 4"
  "f AND kFlagPV \<noteq> 0 \<longleftrightarrow> bit f 2" "f AND kFlagS \<noteq> 0 \<longleftrightarrow> bit f 7"
  using and_exp_eq_0_iff_not_bit [of f 0] and_exp_eq_0_iff_not_bit [of f 6]
    and_exp_eq_0_iff_not_bit [of f 1] and_exp_eq_0_iff_not_bit [of f 4]
    and_exp_eq_0_iff_not_bit [of f 2] and_exp_eq_0_iff_not_bit [of f 7]
  by simp_all

lemma carryFlag_bit: "carryFlag s \<longleftrightarrow> bit (regF s) 0"
  by (simp add: carryFlag_def flag_test)

lemma zeroFlag_bit: "zeroFlag s \<longleftrightarrow> bit (regF s) 6"
  by (simp add: zeroFlag_def flag_test)

lemma bit_sz35:
  "bit (sz35 v) 7 = bit v 7" "bit (sz35 v) 6 \<longleftrightarrow> v = 0" "bit (sz35 v) 5 = bit v 5"
  "bit (sz35 v) 3 = bit v 3" "\<not> bit (sz35 v) 4" "\<not> bit (sz35 v) 2" "\<not> bit (sz35 v) 1" "\<not> bit (sz35 v) 0"
  by (simp_all add: sz35_def bit_simps)

lemma nibble: "unat ((w :: u8) AND 0x0F) = unat w mod 16"
  by (simp add: and_15 unat_take_bit)

lemma bit_7_u8: "bit (w :: u8) 7 \<longleftrightarrow> unat w \<ge> 128"
proof -
  have "bit w 7 \<longleftrightarrow> odd (unat w div 128)"
    using bit_unsigned_iff [of w 7, where 'a = nat] by (simp add: bit_iff_odd)
  moreover have "unat w div 128 = (if unat w \<ge> 128 then 1 else 0)"
    using unat_u8_less [of w] by auto
  ultimately show ?thesis by simp
qed

lemma sint_u8: "sint (w :: u8) = (if unat w \<ge> 128 then int (unat w) - 256 else int (unat w))"
proof -
  have "bit (uint w) 7 \<longleftrightarrow> unat w \<ge> 128"
    using bit_unsigned_iff [of w 7, where 'a = int] bit_7_u8 [of w] by simp
  moreover have "take_bit 8 (uint w) = uint w"
    using unsigned_less [of w, where 'a = int] by (simp add: take_bit_int_eq_self_iff)
  ultimately show ?thesis
    by (simp add: sint_uint signed_take_bit_eq_take_bit_minus)
qed

section \<open>What the flags mean\<close>

lemma sign_test: "(w :: u8) AND 0x80 \<noteq> 0 \<longleftrightarrow> bit w 7"
  by (simp add: flag_test)

text \<open>The same conditions on the values, as arithmetic.\<close>

definition signed8 :: "nat \<Rightarrow> int" where
  "signed8 x = (if x \<ge> 128 then int x - 256 else int x)"

lemma sint_signed8: "sint (w :: u8) = signed8 (unat w)"
  by (simp add: sint_u8 signed8_def)

lemma add_overflow_nat:
  assumes "x < 256" and "y < 256" and "c \<le> 1" and "z = (x + y + c) mod 256"
  shows "(x \<ge> 128) = (y \<ge> 128) \<and> (x \<ge> 128) \<noteq> (z \<ge> 128) \<longleftrightarrow>
         \<not> (- 128 \<le> signed8 x + signed8 y + int c \<and> signed8 x + signed8 y + int c \<le> 127)"
proof -
  have "z = (if x + y + c < 256 then x + y + c else x + y + c - 256)"
    using assms by (simp add: mod_if)
  then show ?thesis using assms(1-3) unfolding signed8_def by presburger
qed

lemma sub_mod_256:
  assumes "x < 256" and "y < 256" and "c \<le> 1"
  shows "(int x - int y - int c) mod 256 =
         (if y + c \<le> x then int x - int y - int c else int x - int y - int c + 256)"
proof (cases "y + c \<le> x")
  case True
  then show ?thesis using assms by simp
next
  case False
  have "(int x - int y - int c) mod 256 = (int x - int y - int c + 256) mod 256"
    by simp
  also have "\<dots> = int x - int y - int c + 256"
    using False assms by (intro mod_pos_pos_trivial) simp_all
  finally show ?thesis using False by simp
qed

lemma sub_overflow_nat:
  assumes "x < 256" and "y < 256" and "c \<le> 1" and "int z = (int x - int y - int c) mod 256"
  shows "(x \<ge> 128) \<noteq> (y \<ge> 128) \<and> (x \<ge> 128) \<noteq> (z \<ge> 128) \<longleftrightarrow>
         \<not> (- 128 \<le> signed8 x - signed8 y - int c \<and> signed8 x - signed8 y - int c \<le> 127)"
  using assms(1-3) assms(4) [unfolded sub_mod_256 [OF assms(1-3)]] unfolding signed8_def by presburger

lemma add_overflow:
  fixes a v r :: u8
  assumes "unat r = (unat a + unat v + c) mod 256" and "c \<le> 1"
  shows "NOT (a XOR v) AND (a XOR r) AND 0x80 \<noteq> 0 \<longleftrightarrow>
         \<not> (- 128 \<le> sint a + sint v + int c \<and> sint a + sint v + int c \<le> 127)"
proof -
  have "NOT (a XOR v) AND (a XOR r) AND 0x80 \<noteq> 0 \<longleftrightarrow>
      (unat a \<ge> 128) = (unat v \<ge> 128) \<and> (unat a \<ge> 128) \<noteq> (unat r \<ge> 128)"
    by (simp only: sign_test bit_7_u8 [symmetric] flip: and.assoc) (auto simp: bit_simps)
  then show ?thesis
    unfolding sint_signed8
    using add_overflow_nat [OF unat_u8_less unat_u8_less assms(2,1)] by blast
qed

lemma sub_overflow:
  fixes a v r :: u8
  assumes "int (unat r) = (int (unat a) - int (unat v) - int c) mod 256" and "c \<le> 1"
  shows "(a XOR v) AND (a XOR r) AND 0x80 \<noteq> 0 \<longleftrightarrow>
         \<not> (- 128 \<le> sint a - sint v - int c \<and> sint a - sint v - int c \<le> 127)"
proof -
  have "(a XOR v) AND (a XOR r) AND 0x80 \<noteq> 0 \<longleftrightarrow>
      (unat a \<ge> 128) \<noteq> (unat v \<ge> 128) \<and> (unat a \<ge> 128) \<noteq> (unat r \<ge> 128)"
    by (simp only: sign_test bit_7_u8 [symmetric] flip: and.assoc) (auto simp: bit_simps)
  then show ?thesis
    unfolding sint_signed8
    using sub_overflow_nat [OF unat_u8_less unat_u8_less assms(2,1)] by blast
qed

lemma sign_u8: "bit (w :: u8) 7 \<longleftrightarrow> sint w < 0"
proof -
  have "signed8 x < 0 \<longleftrightarrow> x \<ge> 128" if "x < 256" for x
    using that unfolding signed8_def by presburger
  then show ?thesis unfolding bit_7_u8 sint_signed8 using unat_u8_less by blast
qed

lemma unat_sum3: "unat ((a :: u8) + v + c) = (unat a + unat v + unat c) mod 256"
  by (simp add: unat_word_ariths mod_simps)

lemma unat_diff3: "int (unat ((a :: u8) - v - c)) = (int (unat a) - int (unat v) - int (unat c)) mod 256"
proof -
  have "uint (a - v - c) = ((uint a - uint v) mod 256 - uint c) mod 256"
    by (simp add: uint_word_ariths)
  then show ?thesis by (simp add: mod_simps)
qed

text \<open>C14: ADD and ADC: the accumulator gets the sum modulo 256 and every flag is the condition
  the Z80 manual gives it: carry, signed overflow, half carry out of bit 3, zero, sign, the two
  undocumented copies, and N cleared.\<close>

theorem alu_add_correct:
  "let (r, s') = alu (if with_carry then 1 else 0) v s;
       c = of_bool (with_carry \<and> bit (regF s) 0) :: nat;
       f = regF s';
       signed = sint (regA s) + sint v + int c
   in r = regA s' \<and> unat r = (unat (regA s) + unat v + c) mod 256 \<and>
      (bit f 0 \<longleftrightarrow> unat (regA s) + unat v + c > 255) \<and>
      (bit f 2 \<longleftrightarrow> \<not> (- 128 \<le> signed \<and> signed \<le> 127)) \<and>
      (bit f 4 \<longleftrightarrow> unat (regA s) mod 16 + unat v mod 16 + c > 15) \<and>
      (bit f 6 \<longleftrightarrow> unat r = 0) \<and> (bit f 7 \<longleftrightarrow> sint r < 0) \<and>
      bit f 5 = bit r 5 \<and> bit f 3 = bit r 3 \<and> \<not> bit f 1"
proof -
  define a where "a = regA s"
  define cw :: u8 where "cw = of_bool (with_carry \<and> bit (regF s) 0)"
  define c :: nat where "c = of_bool (with_carry \<and> bit (regF s) 0)"
  define r where "r = a + v + cw"
  define f where "f = computeAddFlags a v cw r"
  have c: "unat cw = c" "c \<le> 1" by (simp_all add: cw_def c_def)
  have alu: "alu (if with_carry then 1 else 0) v s = (r, setRegF f (setRegA r s))"
    by (simp add: alu_def Let_def carryFlag_bit r_def f_def a_def cw_def)
  have r: "unat r = (unat a + unat v + c) mod 256"
    by (simp only: r_def unat_sum3 c)
  have f: "bit f 0 \<longleftrightarrow> unat a + unat v + c > 255"
    "bit f 2 \<longleftrightarrow> NOT (a XOR v) AND (a XOR r) AND 0x80 \<noteq> 0"
    "bit f 4 \<longleftrightarrow> unat a mod 16 + unat v mod 16 + c > 15"
    "bit f 6 \<longleftrightarrow> unat r = 0" "bit f 7 = bit r 7" "bit f 5 = bit r 5" "bit f 3 = bit r 3" "\<not> bit f 1"
    by (auto simp: f_def computeAddFlags_def nibble bit_simps c unat_eq_0)
  show ?thesis
    unfolding alu Let_def prod.case reg_set a_def [symmetric] c_def [symmetric]
    by (intro conjI refl r f f(2) [unfolded add_overflow [OF r c(2)]] trans [OF f(5) sign_u8])
qed

text \<open>SUB, SBC and CP: the difference modulo 256 goes to the accumulator (CP leaves it), N is
  set, carry is the borrow, half carry the borrow from bit 4, and overflow the signed one.\<close>

theorem alu_sub_correct:
  "let (r, s') = alu (case k of 0 \<Rightarrow> 2 | Suc 0 \<Rightarrow> 3 | _ \<Rightarrow> 7) v s;
       c = of_bool (k = 1 \<and> bit (regF s) 0) :: nat;
       f = regF s';
       signed = sint (regA s) - sint v - int c
   in regA s' = (if k < 2 then r else regA s) \<and>
      int (unat r) = (int (unat (regA s)) - int (unat v) - int c) mod 256 \<and>
      (bit f 0 \<longleftrightarrow> unat (regA s) < unat v + c) \<and>
      (bit f 2 \<longleftrightarrow> \<not> (- 128 \<le> signed \<and> signed \<le> 127)) \<and>
      (bit f 4 \<longleftrightarrow> unat (regA s) mod 16 < unat v mod 16 + c) \<and>
      (bit f 6 \<longleftrightarrow> unat r = 0) \<and> (bit f 7 \<longleftrightarrow> sint r < 0) \<and>
      bit f 5 = bit r 5 \<and> bit f 3 = bit r 3 \<and> bit f 1"
proof -
  define a where "a = regA s"
  define cw :: u8 where "cw = of_bool (k = 1 \<and> bit (regF s) 0)"
  define c :: nat where "c = of_bool (k = 1 \<and> bit (regF s) 0)"
  define r where "r = a - v - cw"
  define f where "f = computeSubFlags a v cw r"
  have c: "unat cw = c" "c \<le> 1" by (simp_all add: cw_def c_def)
  have alu: "alu (case k of 0 \<Rightarrow> 2 | Suc 0 \<Rightarrow> 3 | _ \<Rightarrow> 7) v s =
      (r, setRegF f (if k < 2 then setRegA r s else s))"
    by (auto simp: alu_def Let_def carryFlag_bit r_def f_def a_def cw_def split: nat.split)
  have A: "regA (if k < 2 then setRegA r s else s) = (if k < 2 then r else a)"
    by (simp add: a_def)
  have r: "int (unat r) = (int (unat a) - int (unat v) - int c) mod 256"
    by (simp only: r_def unat_diff3 c)
  have f: "bit f 0 \<longleftrightarrow> unat a < unat v + c"
    "bit f 2 \<longleftrightarrow> (a XOR v) AND (a XOR r) AND 0x80 \<noteq> 0"
    "bit f 4 \<longleftrightarrow> unat a mod 16 < unat v mod 16 + c"
    "bit f 6 \<longleftrightarrow> unat r = 0" "bit f 7 = bit r 7" "bit f 5 = bit r 5" "bit f 3 = bit r 3" "bit f 1"
    by (auto simp: f_def computeSubFlags_def nibble bit_simps c unat_eq_0)
  show ?thesis
    unfolding alu Let_def prod.case reg_set a_def [symmetric] c_def [symmetric]
    by (intro conjI refl A r f f(2) [unfolded sub_overflow [OF r c(2)]] trans [OF f(5) sign_u8])
qed

lemma bit_1_numeral: "bit (1 :: u8) n \<longleftrightarrow> n = 0"
  by (auto simp: bit_1_iff)

lemma alu_logic:
  "r = (if g = 4 then regA s AND v else if g = 5 then regA s XOR v else regA s OR v) \<Longrightarrow>
   g = 4 \<or> g = 5 \<or> g = 6 \<Longrightarrow> alu g v s = (r, setLogicFlags r (g = 4) (setRegA r s))"
  by (auto simp: alu_def Let_def)

lemma and_7_cases:
  "(g :: u8) AND 7 = 0 \<or> g AND 7 = 1 \<or> g AND 7 = 2 \<or> g AND 7 = 3 \<or>
   g AND 7 = 4 \<or> g AND 7 = 5 \<or> g AND 7 = 6 \<or> g AND 7 = 7"
proof -
  define k where "k = g AND 7"
  have "unat k < 8" by (simp add: k_def and_7 unat_take_bit)
  then have "unat k = 0 \<or> unat k = 1 \<or> unat k = 2 \<or> unat k = 3 \<or> unat k = 4 \<or> unat k = 5 \<or>
    unat k = 6 \<or> unat k = 7" by arith
  then show ?thesis by (simp add: word_unat_eq_iff flip: k_def)
qed

lemma bit_0x80:
  "bit (0x80 :: u8) n \<longleftrightarrow> n = 7" "bit (0x80 :: int) n \<longleftrightarrow> n = 7" "bit (0x80 :: nat) n \<longleftrightarrow> n = 7"
  using bit_exp_iff [where 'a = "8 word", of 7 n] bit_exp_iff [where 'a = int, of 7 n]
    bit_exp_iff [where 'a = nat, of 7 n] by auto

lemma bit_8_u8 [simp]: "\<not> bit (v :: u8) 8"
  by (auto dest: bit_imp_le_length)

text \<open>The rotates and shifts, by bits of the result.\<close>

lemma flags_rotateShift:
  assumes "rotateShift g v s = (r, s')"
  shows "bit (regF s') 6 \<longleftrightarrow> r = 0" "bit (regF s') 7 = bit r 7" "bit (regF s') 2 = parityEven r"
    "\<not> bit (regF s') 4" "\<not> bit (regF s') 1" "bit (regF s') 5 = bit r 5" "bit (regF s') 3 = bit r 3"
  using assms by (auto simp: rotateShift_def Let_def bit_sz35 bit_sz35 [simplified] split: if_splits)

text \<open>CB rotates and shifts: every group moves the bits by one position, the vacated bit is
  the one the manual names (the bit that fell out, the old carry, zero, the sign, or one for the
  undocumented SLL), and the bit that fell out is the new carry.\<close>

theorem rotateShift_correct:
  "let (r, s') = rotateShift g v s; k = g AND 7; left = (\<not> bit k 0) in
   (\<forall>n. bit r n \<longleftrightarrow> n < 8 \<and>
      (if left then
         (if n = 0 then (if k = 0 then bit v 7 else if k = 2 then bit (regF s) 0 else k = 6)
          else bit v (n - 1))
       else
         (if n = 7 then (if k = 1 then bit v 0 else if k = 3 then bit (regF s) 0
                         else k = 5 \<and> bit v 7)
          else bit v (n + 1)))) \<and>
   (bit (regF s') 0 \<longleftrightarrow> bit v (if left then 7 else 0)) \<and>
   (bit (regF s') 6 \<longleftrightarrow> r = 0) \<and> bit (regF s') 7 = bit r 7 \<and> bit (regF s') 2 = parityEven r \<and>
   \<not> bit (regF s') 4 \<and> \<not> bit (regF s') 1 \<and> regA s' = regA s"
proof -
  define k where "k = g AND 7"
  obtain r s' where rs: "rotateShift g v s = (r, s')" by fastforce
  have k: "k = 0 \<or> k = 1 \<or> k = 2 \<or> k = 3 \<or> k = 4 \<or> k = 5 \<or> k = 6 \<or> k = 7"
    unfolding k_def by (rule and_7_cases)
  then have r: "bit r n \<longleftrightarrow> n < 8 \<and>
      (if \<not> bit k 0 then
         (if n = 0 then (if k = 0 then bit v 7 else if k = 2 then bit (regF s) 0 else k = 6)
          else bit v (n - 1))
       else
         (if n = 7 then (if k = 1 then bit v 0 else if k = 3 then bit (regF s) 0
                         else k = 5 \<and> bit v 7)
          else bit v (n + 1)))" for n
    using rs by (auto simp: rotateShift_def Let_def bit_simps carryFlag_bit bit_0x80 add.commute [of 1] k_def [symmetric]
        simp del: push_bit_Suc One_nat_def dest: bit_imp_le_length split: if_splits)
  have c: "bit (regF s') 0 \<longleftrightarrow> bit v (if \<not> bit k 0 then 7 else 0)"
    using k rs by (auto simp: rotateShift_def Let_def bit_simps bit_sz35 flag_test k_def [symmetric]
        simp del: push_bit_Suc One_nat_def split: if_splits)
  have "regA s' = regA s"
    using rs by (auto simp: rotateShift_def Let_def split: if_splits)
  with r c flags_rotateShift [OF rs] show ?thesis
    unfolding rs Let_def prod.case k_def by blast
qed

end
