(* ===== verification/Z80_Exec.thy ===== *)
theory Z80_Exec
  imports Z80_Core
begin

text \<open>
  Instruction decoding and execution of \<open>src/cores/gamegear/Z80Interpreter.cpp\<close>: the CB, ED,
  DD/FD and main opcode tables, the prefix loop, interrupt acceptance and \<open>step\<close>. An opcode
  yields the cycles it took and the state it left.
\<close>

type_synonym 'w exec = "nat \<times> 'w z80"

text \<open>The fields of an opcode byte.\<close>

definition op_x :: "u8 \<Rightarrow> u8" where "op_x opcode = drop_bit 6 opcode"
definition op_y :: "u8 \<Rightarrow> u8" where "op_y opcode = drop_bit 3 opcode AND 7"
definition op_z :: "u8 \<Rightarrow> u8" where "op_z opcode = opcode AND 7"
definition op_pair :: "u8 \<Rightarrow> u8" where "op_pair opcode = drop_bit 4 opcode AND 3"

section \<open>CB opcodes\<close>

text \<open>
  \<open>destination\<close> is the byte behind the pointer argument, \<open>None\<close> for a null pointer; the result
  carries what the call left there.
\<close>

definition executeCbOpcode ::
  "'w bus \<Rightarrow> u8 \<Rightarrow> bool \<Rightarrow> u16 \<Rightarrow> u8 option \<Rightarrow> 'w z80 \<Rightarrow> nat \<times> u8 option \<times> 'w z80" where
  "executeCbOpcode b opcode indexed indexedAddress destination s =
     (let x = op_x opcode; y = op_y opcode; z = op_z opcode;
          memTarget = (indexed \<or> z = 6);
          value = (if indexed then rd b s indexedAddress else readReg8 b z s);
          store = (\<lambda>v s. if indexed
            then (map_option (\<lambda>_. v) destination, wr b indexedAddress v s)
            else (destination, writeReg8 b z v s));
          cycles = (if indexed then 23 else if memTarget then 15 else 8)
      in
      if x = 0 then
        (let (res, s) = rotateShift y value s; (d, s) = store res s in (cycles, d, s))
      else if x = 1 then
        (let zero = (value AND push_bit (unat y) 1 = 0);
             flags = (regF s AND kFlagC) OR kFlagH;
             flags = or_if zero (kFlagZ OR kFlagPV) flags;
             flags = or_if (y = 7 \<and> \<not> zero) kFlagS flags;
             sourceFor35 = (if indexed then hi indexedAddress else value);
             flags = flags OR (sourceFor35 AND (kFlag5 OR kFlag3))
         in (if indexed then 20 else if memTarget then 12 else 8, destination, setRegF flags s))
      else
        (let value = (if x = 2 then value AND NOT (push_bit (unat y) 1)
                      else value OR push_bit (unat y) 1);
             (d, s) = store value s
         in (cycles, d, s)))"

section \<open>ED opcodes\<close>

definition in_r_c :: "'w bus \<Rightarrow> u8 \<Rightarrow> 'w z80 \<Rightarrow> 'w exec" where
  "in_r_c b y s =
     (let (value, s) = inPort b (BC s) s;
          flags = or_if (parityEven value) kFlagPV ((regF s AND kFlagC) OR sz35 value);
          s = setRegF flags s
      in (12, if y \<noteq> 6 then writeReg8 b y value s else s))"

definition sbc_hl :: "u16 \<Rightarrow> 'w z80 \<Rightarrow> 'w exec" where
  "sbc_hl rhs s =
     (let lhs = HL s; carry = (if carryFlag s then 1 else 0 :: nat);
          r16 = lhs - rhs - of_nat carry;
          flags = kFlagN OR (hi r16 AND copied_bits);
          flags = or_if (r16 = 0) kFlagZ flags;
          flags = or_if (unat (lhs AND 0x0FFF) < unat (rhs AND 0x0FFF) + carry) kFlagH flags;
          flags = or_if ((lhs XOR rhs) AND (lhs XOR r16) AND 0x8000 \<noteq> 0) kFlagPV flags;
          flags = or_if (unat lhs < unat rhs + carry) kFlagC flags
      in (15, setRegF flags (s\<lparr>HL := r16\<rparr>)))"

definition adc_hl :: "u16 \<Rightarrow> 'w z80 \<Rightarrow> 'w exec" where
  "adc_hl rhs s =
     (let lhs = HL s; carry = (if carryFlag s then 1 else 0 :: nat);
          r16 = lhs + rhs + of_nat carry;
          flags = hi r16 AND copied_bits;
          flags = or_if (r16 = 0) kFlagZ flags;
          flags = or_if (unat (lhs AND 0x0FFF) + unat (rhs AND 0x0FFF) + carry > 0x0FFF) kFlagH flags;
          flags = or_if (NOT (lhs XOR rhs) AND (lhs XOR r16) AND 0x8000 \<noteq> 0) kFlagPV flags;
          flags = or_if (unat lhs + unat rhs + carry > 0xFFFF) kFlagC flags
      in (15, setRegF flags (s\<lparr>HL := r16\<rparr>)))"

definition ld_a_ir :: "u8 \<Rightarrow> 'w z80 \<Rightarrow> 'w exec" where
  "ld_a_ir value s =
     (let s = setRegA value s
      in (9, setRegF (or_if (IFF2 s) kFlagPV ((regF s AND kFlagC) OR sz35 value)) s))"

definition rrd :: "'w bus \<Rightarrow> 'w z80 \<Rightarrow> 'w exec" where
  "rrd b s =
     (let mem = rd b s (HL s); a = regA s; carry = regF s AND kFlagC;
          s = wr b (HL s) (push_bit 4 a OR drop_bit 4 mem) s;
          s = setRegA ((a AND 0xF0) OR (mem AND 0x0F)) s;
          s = setLogicFlags (regA s) False s
      in (18, setRegF (regF s OR carry) s))"

definition rld :: "'w bus \<Rightarrow> 'w z80 \<Rightarrow> 'w exec" where
  "rld b s =
     (let mem = rd b s (HL s); a = regA s; carry = regF s AND kFlagC;
          s = wr b (HL s) (push_bit 4 mem OR (a AND 0x0F)) s;
          s = setRegA ((a AND 0xF0) OR drop_bit 4 mem) s;
          s = setLogicFlags (regA s) False s
      in (18, setRegF (regF s OR carry) s))"

text \<open>The four lambdas of \<open>executeEdOpcode\<close>; \<open>direction\<close> is 1 or -1.\<close>

definition blockTransfer :: "'w bus \<Rightarrow> u16 \<Rightarrow> bool \<Rightarrow> 'w z80 \<Rightarrow> 'w exec" where
  "blockTransfer b direction rep s =
     (let s = wr b (DE s) (rd b s (HL s)) s;
          s = s\<lparr>HL := HL s + direction, DE := DE s + direction, BC := BC s - 1\<rparr>;
          flags = or_if (BC s \<noteq> 0) kFlagPV (regF s AND (kFlagS OR kFlagZ OR kFlagC));
          s = setRegF flags s
      in if rep \<and> BC s \<noteq> 0 then (21, s\<lparr>PC := PC s - 2\<rparr>) else (16, s))"

definition blockCompare :: "'w bus \<Rightarrow> u16 \<Rightarrow> bool \<Rightarrow> 'w z80 \<Rightarrow> 'w exec" where
  "blockCompare b direction rep s =
     (let value = rd b s (HL s); a = regA s; res = a - value;
          s = s\<lparr>HL := HL s + direction, BC := BC s - 1\<rparr>;
          flags = computeSubFlags a value 0 res;
          flags = (flags AND NOT kFlagC) OR (regF s AND kFlagC);
          flags = (if BC s \<noteq> 0 \<and> res \<noteq> 0 then flags OR kFlagPV else flags AND NOT kFlagPV);
          s = setRegF flags s
      in if rep \<and> BC s \<noteq> 0 \<and> res \<noteq> 0 then (21, s\<lparr>PC := PC s - 2\<rparr>) else (16, s))"

definition blockIn :: "'w bus \<Rightarrow> u16 \<Rightarrow> bool \<Rightarrow> 'w z80 \<Rightarrow> 'w exec" where
  "blockIn b direction rep s =
     (let (value, s) = inPort b (BC s) s;
          s = wr b (HL s) value s;
          s = s\<lparr>HL := HL s + direction\<rparr>;
          bb = hi (BC s) - 1;
          s = s\<lparr>BC := mk16 (lo (BC s)) bb\<rparr>;
          s = setRegF (sz35 bb OR kFlagN) s
      in if rep \<and> bb \<noteq> 0 then (21, s\<lparr>PC := PC s - 2\<rparr>) else (16, s))"

definition blockOut :: "'w bus \<Rightarrow> u16 \<Rightarrow> bool \<Rightarrow> 'w z80 \<Rightarrow> 'w exec" where
  "blockOut b direction rep s =
     (let value = rd b s (HL s);
          s = s\<lparr>HL := HL s + direction\<rparr>;
          bb = hi (BC s) - 1;
          s = s\<lparr>BC := mk16 (lo (BC s)) bb\<rparr>;
          s = outPort b (BC s) value s;
          s = setRegF (sz35 bb OR kFlagN) s
      in if rep \<and> bb \<noteq> 0 then (21, s\<lparr>PC := PC s - 2\<rparr>) else (16, s))"

definition executeEdOpcode :: "'w bus \<Rightarrow> u8 \<Rightarrow> 'w z80 \<Rightarrow> 'w exec" where
  "executeEdOpcode b opcode s =
     (let x = op_x opcode; y = op_y opcode; z = op_z opcode;
          p = drop_bit 1 y AND 3; q = y AND 1
      in
      if x = 1 then
        (if z = 0 then in_r_c b y s
         else if z = 1 then (12, outPort b (BC s) (if y = 6 then 0 else readReg8 b y s) s)
         else if z = 2 then
           (if q = 0 then sbc_hl (getReg16ByPair p False s) s
            else adc_hl (getReg16ByPair p False s) s)
         else if z = 3 then
           (let (address, s) = fetch16 b s
            in (20, if q = 0 then write16 b address (getReg16ByPair p False s) s
                    else setReg16ByPair p (read16 b address s) False s))
         else if z = 4 then
           (let a = regA s; res = 0 - a
            in (8, setRegF (computeSubFlags 0 a 0 res) (setRegA res s)))
         else if z = 5 then
           (let (pc, s) = pop16 b s; s = s\<lparr>PC := pc\<rparr>; s = s\<lparr>IFF1 := IFF2 s\<rparr>
            in (14, s\<lparr>IME := IFF1 s\<rparr>))
         else if z = 6 then
           (8, s\<lparr>interruptMode := (if y = 0 \<or> y = 4 then 0 else if y = 2 \<or> y = 6 then 1 else 2)\<rparr>)
         else
           (if y = 0 then (9, s\<lparr>regI := regA s\<rparr>)
            else if y = 1 then (9, s\<lparr>regR := regA s\<rparr>)
            else if y = 2 then ld_a_ir (regI s) s
            else if y = 3 then ld_a_ir (regR s) s
            else if y = 4 then rrd b s
            else if y = 5 then rld b s
            else (8, s)))
      else if opcode = 0xA0 then blockTransfer b 1 False s
      else if opcode = 0xA1 then blockCompare b 1 False s
      else if opcode = 0xA2 then blockIn b 1 False s
      else if opcode = 0xA3 then blockOut b 1 False s
      else if opcode = 0xA8 then blockTransfer b (- 1) False s
      else if opcode = 0xA9 then blockCompare b (- 1) False s
      else if opcode = 0xAA then blockIn b (- 1) False s
      else if opcode = 0xAB then blockOut b (- 1) False s
      else if opcode = 0xB0 then blockTransfer b 1 True s
      else if opcode = 0xB1 then blockCompare b 1 True s
      else if opcode = 0xB2 then blockIn b 1 True s
      else if opcode = 0xB3 then blockOut b 1 True s
      else if opcode = 0xB8 then blockTransfer b (- 1) True s
      else if opcode = 0xB9 then blockCompare b (- 1) True s
      else if opcode = 0xBA then blockIn b (- 1) True s
      else if opcode = 0xBB then blockOut b (- 1) True s
      else (8, s))"

section \<open>The main table\<close>

text \<open>The flags of the 16-bit additions to HL, IX and IY, with the sum.\<close>

definition add16 :: "u16 \<Rightarrow> u16 \<Rightarrow> 'w z80 \<Rightarrow> u16 \<times> u8" where
  "add16 lhs rhs s =
     (let flags = regF s AND (kFlagS OR kFlagZ OR kFlagPV);
          flags = or_if (unat (lhs AND 0x0FFF) + unat (rhs AND 0x0FFF) > 0x0FFF) kFlagH flags;
          flags = or_if (unat lhs + unat rhs > 0xFFFF) kFlagC flags;
          res = lhs + rhs
      in (res, flags OR (hi res AND (kFlag5 OR kFlag3))))"

definition add_hl :: "u16 \<Rightarrow> 'w z80 \<Rightarrow> 'w exec" where
  "add_hl rhs s = (let (res, flags) = add16 (HL s) rhs s in (11, setRegF flags (s\<lparr>HL := res\<rparr>)))"

definition accumulatorFlags :: "u8 \<Rightarrow> u8 \<Rightarrow> 'w z80 \<Rightarrow> u8" where
  "accumulatorFlags r c s =
     (regF s AND (kFlagS OR kFlagZ OR kFlagPV)) OR (r AND (kFlag5 OR kFlag3)) OR c"

definition rlca :: "'w z80 \<Rightarrow> 'w exec" where
  "rlca s = (let a = regA s; c = drop_bit 7 a; r = push_bit 1 a OR c; s = setRegA r s
             in (4, setRegF (accumulatorFlags r c s) s))"

definition rrca :: "'w z80 \<Rightarrow> 'w exec" where
  "rrca s = (let a = regA s; c = a AND 1; r = drop_bit 1 a OR push_bit 7 c; s = setRegA r s
             in (4, setRegF (accumulatorFlags r c s) s))"

definition rla :: "'w z80 \<Rightarrow> 'w exec" where
  "rla s = (let a = regA s; c = drop_bit 7 a; r = push_bit 1 a OR (if carryFlag s then 1 else 0);
                s = setRegA r s
            in (4, setRegF (accumulatorFlags r c s) s))"

definition rra :: "'w z80 \<Rightarrow> 'w exec" where
  "rra s = (let a = regA s; c = a AND 1; r = drop_bit 1 a OR (if carryFlag s then 0x80 else 0);
                s = setRegA r s
            in (4, setRegF (accumulatorFlags r c s) s))"

definition djnz :: "'w bus \<Rightarrow> 'w z80 \<Rightarrow> 'w exec" where
  "djnz b s =
     (let (d, s) = fetch8 b s; bb = hi (BC s) - 1; s = s\<lparr>BC := mk16 (lo (BC s)) bb\<rparr>
      in if bb \<noteq> 0 then (13, s\<lparr>PC := PC s + displacement d\<rparr>) else (8, s))"

definition jr_cond :: "'w bus \<Rightarrow> u8 \<Rightarrow> 'w z80 \<Rightarrow> 'w exec" where
  "jr_cond b opcode s =
     (let (d, s) = fetch8 b s; z = zeroFlag s; c = carryFlag s;
          take = (opcode = 0x20 \<and> \<not> z \<or> opcode = 0x28 \<and> z \<or> opcode = 0x30 \<and> \<not> c \<or> opcode = 0x38 \<and> c)
      in if take then (12, s\<lparr>PC := PC s + displacement d\<rparr>) else (7, s))"

definition daa :: "'w z80 \<Rightarrow> 'w exec" where
  "daa s =
     (let a = regA s; f = regF s;
          carry = f AND kFlagC;
          low = or_if (f AND kFlagH \<noteq> 0 \<or> unat (a AND 0x0F) > 9) 0x06 0;
          high = (carry \<noteq> 0 \<or> unat a > 0x99);
          correction = or_if high 0x60 low;
          carry = (if high then kFlagC else carry);
          a = (if f AND kFlagN \<noteq> 0 then a - correction else a + correction);
          s = setRegA a s;
          flags = (regF s AND kFlagN) OR carry OR sz35 a
      in (4, setRegF (or_if (parityEven a) kFlagPV flags) s))"

definition cpl :: "'w z80 \<Rightarrow> 'w exec" where
  "cpl s = (let s = setRegA (NOT (regA s)) s
            in (4, setRegF ((regF s AND (kFlagS OR kFlagZ OR kFlagPV OR kFlagC)) OR kFlagH OR kFlagN OR
                            (regA s AND (kFlag5 OR kFlag3))) s))"

definition scf :: "'w z80 \<Rightarrow> 'w exec" where
  "scf s = (4, setRegF ((regF s AND (kFlagS OR kFlagZ OR kFlagPV)) OR kFlagC OR
                        (regA s AND (kFlag5 OR kFlag3))) s)"

definition ccf :: "'w z80 \<Rightarrow> 'w exec" where
  "ccf s = (let oldCarry = regF s AND kFlagC
            in (4, setRegF ((regF s AND (kFlagS OR kFlagZ OR kFlagPV)) OR
                            (if oldCarry \<noteq> 0 then kFlagH else 0) OR (if oldCarry \<noteq> 0 then 0 else kFlagC) OR
                            (regA s AND (kFlag5 OR kFlag3))) s))"

text \<open>The eight conditions of RET, JP and CALL.\<close>

definition condition :: "u8 \<Rightarrow> 'w z80 \<Rightarrow> bool" where
  "condition cc s =
     (if cc = 0 then \<not> zeroFlag s else if cc = 1 then zeroFlag s
      else if cc = 2 then regF s AND kFlagC = 0 else if cc = 3 then regF s AND kFlagC \<noteq> 0
      else if cc = 4 then regF s AND kFlagPV = 0 else if cc = 5 then regF s AND kFlagPV \<noteq> 0
      else if cc = 6 then regF s AND kFlagS = 0 else regF s AND kFlagS \<noteq> 0)"

definition ret_cond :: "'w bus \<Rightarrow> u8 \<Rightarrow> 'w z80 \<Rightarrow> 'w exec" where
  "ret_cond b cc s =
     (if condition cc s then (let (pc, s) = pop16 b s in (11, s\<lparr>PC := pc\<rparr>)) else (5, s))"

definition jp_cond :: "'w bus \<Rightarrow> u8 \<Rightarrow> 'w z80 \<Rightarrow> 'w exec" where
  "jp_cond b cc s =
     (let (a, s) = fetch16 b s in (10, if condition cc s then s\<lparr>PC := a\<rparr> else s))"

definition call_cond :: "'w bus \<Rightarrow> u8 \<Rightarrow> 'w z80 \<Rightarrow> 'w exec" where
  "call_cond b cc s =
     (let (a, s) = fetch16 b s
      in if condition cc s then (17, push16 b (PC s) s\<lparr>PC := a\<rparr>) else (10, s))"

definition call :: "'w bus \<Rightarrow> 'w z80 \<Rightarrow> 'w exec" where
  "call b s = (let (a, s) = fetch16 b s; s = push16 b (PC s) s in (17, s\<lparr>PC := a\<rparr>))"

definition rst :: "'w bus \<Rightarrow> u8 \<Rightarrow> 'w z80 \<Rightarrow> 'w exec" where
  "rst b opcode s = (let s = push16 b (PC s) s in (11, s\<lparr>PC := ucast (opcode AND 0x38)\<rparr>))"

definition out_n :: "'w bus \<Rightarrow> 'w z80 \<Rightarrow> 'w exec" where
  "out_n b s = (let (p, s) = fetch8 b s in (11, outPort b (mk16 p (regA s)) (regA s) s))"

definition in_n :: "'w bus \<Rightarrow> 'w z80 \<Rightarrow> 'w exec" where
  "in_n b s = (let (p, s) = fetch8 b s; (v, s) = inPort b (mk16 p (regA s)) s in (11, setRegA v s))"

definition ex_sp_hl :: "'w bus \<Rightarrow> 'w z80 \<Rightarrow> 'w exec" where
  "ex_sp_hl b s = (let temp = read16 b (SP s) s; s = write16 b (SP s) (HL s) s in (19, s\<lparr>HL := temp\<rparr>))"

definition ex_af :: "'w z80 \<Rightarrow> 'w exec" where
  "ex_af s = (4, s\<lparr>AF := AF' s, AF' := AF s\<rparr>)"

definition exx :: "'w z80 \<Rightarrow> 'w exec" where
  "exx s = (4, s\<lparr>BC := BC' s, BC' := BC s, DE := DE' s, DE' := DE s, HL := HL' s, HL' := HL s\<rparr>)"

definition ex_de_hl :: "'w z80 \<Rightarrow> 'w exec" where
  "ex_de_hl s = (4, s\<lparr>DE := HL s, HL := DE s\<rparr>)"

definition inc_r :: "'w bus \<Rightarrow> u8 \<Rightarrow> 'w z80 \<Rightarrow> 'w exec" where
  "inc_r b dst s =
     (let before = readReg8 b dst s; res = before + 1; s = writeReg8 b dst res s
      in (if dst = 6 then 11 else 4, setRegF (computeIncFlags s before res) s))"

definition dec_r :: "'w bus \<Rightarrow> u8 \<Rightarrow> 'w z80 \<Rightarrow> 'w exec" where
  "dec_r b dst s =
     (let before = readReg8 b dst s; res = before - 1; s = writeReg8 b dst res s
      in (if dst = 6 then 11 else 4, setRegF (computeDecFlags s before res) s))"

text \<open>
  \<open>executeOpcode\<close>, with what it does for the two index prefixes as the argument \<open>prefixed\<close>:
  the C++ function and \<open>executeIndexedOpcode\<close> call each other, and \<open>executeOpcode\<close> below ties the
  knot.
\<close>

definition opcode_body :: "(u8 \<Rightarrow> 'w z80 \<Rightarrow> 'w exec) \<Rightarrow> 'w bus \<Rightarrow> u8 \<Rightarrow> 'w z80 \<Rightarrow> 'w exec" where
  "opcode_body prefixed b opcode s =
     (let dst = op_y opcode; src = op_z opcode; pair = op_pair opcode in
      if opcode AND 0xC0 = 0x40 then
        (if opcode = 0x76 then (4, s\<lparr>halted := True\<rparr>)
         else (if dst = 6 \<or> src = 6 then 7 else 4, writeReg8 b dst (readReg8 b src s) s))
      else if opcode AND 0xC0 = 0x80 then
        (if src = 6 then 7 else 4, snd (alu dst (readReg8 b src s) s))
      else if opcode AND 0xC7 = 0x06 then
        (let (v, s) = fetch8 b s in (if dst = 6 then 10 else 7, writeReg8 b dst v s))
      else if opcode AND 0xC7 = 0x04 then inc_r b dst s
      else if opcode AND 0xC7 = 0x05 then dec_r b dst s
      else if opcode = 0x00 then (4, s)
      else if opcode \<in> {0x01, 0x11, 0x21, 0x31} then
        (let (v, s) = fetch16 b s in (10, setReg16ByPair pair v False s))
      else if opcode = 0x02 then (7, wr b (BC s) (regA s) s)
      else if opcode \<in> {0x03, 0x13, 0x23, 0x33} then
        (6, setReg16ByPair pair (getReg16ByPair pair False s + 1) False s)
      else if opcode = 0x07 then rlca s
      else if opcode = 0x08 then ex_af s
      else if opcode \<in> {0x09, 0x19, 0x29, 0x39} then add_hl (getReg16ByPair pair False s) s
      else if opcode = 0x0A then (7, setRegA (rd b s (BC s)) s)
      else if opcode \<in> {0x0B, 0x1B, 0x2B, 0x3B} then
        (6, setReg16ByPair pair (getReg16ByPair pair False s - 1) False s)
      else if opcode = 0x0F then rrca s
      else if opcode = 0x10 then djnz b s
      else if opcode = 0x12 then (7, wr b (DE s) (regA s) s)
      else if opcode = 0x17 then rla s
      else if opcode = 0x18 then
        (let (d, s) = fetch8 b s in (12, s\<lparr>PC := PC s + displacement d\<rparr>))
      else if opcode = 0x1A then (7, setRegA (rd b s (DE s)) s)
      else if opcode = 0x1F then rra s
      else if opcode \<in> {0x20, 0x28, 0x30, 0x38} then jr_cond b opcode s
      else if opcode = 0x22 then (let (a, s) = fetch16 b s in (16, write16 b a (HL s) s))
      else if opcode = 0x27 then daa s
      else if opcode = 0x2A then (let (a, s) = fetch16 b s in (16, s\<lparr>HL := read16 b a s\<rparr>))
      else if opcode = 0x2F then cpl s
      else if opcode = 0x32 then (let (a, s) = fetch16 b s in (13, wr b a (regA s) s))
      else if opcode = 0x37 then scf s
      else if opcode = 0x3A then (let (a, s) = fetch16 b s in (13, setRegA (rd b s a) s))
      else if opcode = 0x3F then ccf s
      else if opcode AND 0xC7 = 0xC0 then ret_cond b dst s
      else if opcode \<in> {0xC1, 0xD1, 0xE1, 0xF1} then
        (let (v, s) = pop16 b s in (10, setReg16ByPair pair v True s))
      else if opcode AND 0xC7 = 0xC2 then jp_cond b dst s
      else if opcode = 0xC3 then (let (a, s) = fetch16 b s in (10, s\<lparr>PC := a\<rparr>))
      else if opcode AND 0xC7 = 0xC4 then call_cond b dst s
      else if opcode \<in> {0xC5, 0xD5, 0xE5, 0xF5} then
        (11, push16 b (getReg16ByPair pair True s) s)
      else if opcode AND 0xC7 = 0xC6 then
        (let (v, s) = fetch8 b s in (7, snd (alu dst v s)))
      else if opcode AND 0xC7 = 0xC7 then rst b opcode s
      else if opcode = 0xC9 then (let (a, s) = pop16 b s in (10, s\<lparr>PC := a\<rparr>))
      else if opcode = 0xCB then
        (let (cb, s) = fetchOpcode b s; (c, _, s) = executeCbOpcode b cb False 0 None s in (c, s))
      else if opcode = 0xCD then call b s
      else if opcode = 0xD3 then out_n b s
      else if opcode = 0xD9 then exx s
      else if opcode = 0xDB then in_n b s
      else if opcode = 0xDD \<or> opcode = 0xFD then prefixed opcode s
      else if opcode = 0xE3 then ex_sp_hl b s
      else if opcode = 0xE9 then (4, s\<lparr>PC := HL s\<rparr>)
      else if opcode = 0xEB then ex_de_hl s
      else if opcode = 0xED then (let (ed, s) = fetchOpcode b s in executeEdOpcode b ed s)
      else if opcode = 0xF3 then
        (4, s\<lparr>IFF1 := False, IFF2 := False, IME := False, imeEnableDelay := 0\<rparr>)
      else if opcode = 0xF9 then (6, s\<lparr>SP := HL s\<rparr>)
      else if opcode = 0xFB then (4, s\<lparr>IFF1 := True, IFF2 := True, imeEnableDelay := 2\<rparr>)
      else (4, s))"

section \<open>Index prefixes\<close>

text \<open>The reference \<open>index\<close>, which is IX after a DD prefix and IY otherwise.\<close>

definition index_reg :: "u8 \<Rightarrow> 'w z80 \<Rightarrow> u16" where
  "index_reg prefix s = (if prefix = 0xDD then IX s else IY s)"

definition set_index :: "u8 \<Rightarrow> u16 \<Rightarrow> 'w z80 \<Rightarrow> 'w z80" where
  "set_index prefix v s = (if prefix = 0xDD then s\<lparr>IX := v\<rparr> else s\<lparr>IY := v\<rparr>)"

definition readIndexedReg :: "'w bus \<Rightarrow> u8 \<Rightarrow> 'w z80 \<Rightarrow> u8" where
  "readIndexedReg b r s = (if r = 4 then hi (HL s) else if r = 5 then lo (HL s) else readReg8 b r s)"

definition writeIndexedReg :: "'w bus \<Rightarrow> u8 \<Rightarrow> u8 \<Rightarrow> 'w z80 \<Rightarrow> 'w z80" where
  "writeIndexedReg b r value s = writeReg8 b r value s"

definition indexedAddress :: "'w bus \<Rightarrow> u8 \<Rightarrow> 'w z80 \<Rightarrow> u16 \<times> 'w z80" where
  "indexedAddress b prefix s =
     (let (d, s) = fetch8 b s in (index_reg prefix s + displacement d, s))"

definition indexed_cb :: "'w bus \<Rightarrow> u8 \<Rightarrow> 'w z80 \<Rightarrow> 'w exec" where
  "indexed_cb b prefix s =
     (let (address, s) = indexedAddress b prefix s;
          (cb, s) = fetchOpcode b s;
          dest = (if cb AND 0xC0 \<noteq> 0x40 \<and> cb AND 7 \<noteq> 6 then Some 0 else None);
          (cycles, d, s) = executeCbOpcode b cb True address dest s
      in (cycles, case d of Some v \<Rightarrow> writeIndexedReg b (cb AND 7) v s | None \<Rightarrow> s))"

definition add_index :: "u8 \<Rightarrow> u16 \<Rightarrow> 'w z80 \<Rightarrow> 'w exec" where
  "add_index prefix rhs s =
     (let (res, flags) = add16 (index_reg prefix s) rhs s
      in (15, setRegF flags (set_index prefix res s)))"

definition index_high :: "bool \<Rightarrow> u8 \<Rightarrow> 'w z80 \<Rightarrow> 'w exec" where
  "index_high inc prefix s =
     (let i = index_reg prefix s; v = hi i; r = (if inc then v + 1 else v - 1);
          s = set_index prefix (mk16 (lo i) r) s
      in (8, setRegF (if inc then computeIncFlags s v r else computeDecFlags s v r) s))"

definition index_low :: "bool \<Rightarrow> u8 \<Rightarrow> 'w z80 \<Rightarrow> 'w exec" where
  "index_low inc prefix s =
     (let i = index_reg prefix s; v = lo i; r = (if inc then v + 1 else v - 1);
          s = set_index prefix (mk16 r (hi i)) s
      in (8, setRegF (if inc then computeIncFlags s v r else computeDecFlags s v r) s))"

definition index_mem :: "bool \<Rightarrow> 'w bus \<Rightarrow> u8 \<Rightarrow> 'w z80 \<Rightarrow> 'w exec" where
  "index_mem inc b prefix s =
     (let (a, s) = indexedAddress b prefix s; v = rd b s a; r = (if inc then v + 1 else v - 1);
          s = wr b a r s
      in (23, setRegF (if inc then computeIncFlags s v r else computeDecFlags s v r) s))"

definition ex_sp_index :: "'w bus \<Rightarrow> u8 \<Rightarrow> 'w z80 \<Rightarrow> 'w exec" where
  "ex_sp_index b prefix s =
     (let temp = read16 b (SP s) s; s = write16 b (SP s) (index_reg prefix s) s
      in (23, set_index prefix temp s))"

definition indexed_ld :: "'w bus \<Rightarrow> u8 \<Rightarrow> u8 \<Rightarrow> 'w z80 \<Rightarrow> 'w exec" where
  "indexed_ld b prefix opcode s =
     (let dst = op_y opcode; src = op_z opcode in
      if src = 6 then
        (let (a, s) = indexedAddress b prefix s in (19, writeIndexedReg b dst (rd b s a) s))
      else if dst = 6 then
        (let (a, s) = indexedAddress b prefix s in (19, wr b a (readIndexedReg b src s) s))
      else (8, writeIndexedReg b dst (readIndexedReg b src s) s))"

definition indexed_alu :: "'w bus \<Rightarrow> u8 \<Rightarrow> u8 \<Rightarrow> 'w z80 \<Rightarrow> 'w exec" where
  "indexed_alu b prefix opcode s =
     (let src = op_z opcode;
          (value, s) = (if src = 6 then (let (a, s) = indexedAddress b prefix s in (rd b s a, s))
                        else (readIndexedReg b src s, s))
      in (if src = 6 then 19 else 8, snd (alu (op_y opcode) value s)))"

text \<open>
  \<open>executeIndexedOpcode\<close>, with the final call of \<open>executeOpcode\<close> as the argument \<open>plain\<close>.
\<close>

definition indexed_body ::
  "(u8 \<Rightarrow> 'w z80 \<Rightarrow> 'w exec) \<Rightarrow> 'w bus \<Rightarrow> u8 \<Rightarrow> u8 \<Rightarrow> 'w z80 \<Rightarrow> 'w exec" where
  "indexed_body plain b prefix opcode s =
     (let i = index_reg prefix s in
      if opcode = 0xCB then indexed_cb b prefix s
      else if opcode = 0x09 then add_index prefix (BC s) s
      else if opcode = 0x19 then add_index prefix (DE s) s
      else if opcode = 0x21 then (let (v, s) = fetch16 b s in (14, set_index prefix v s))
      else if opcode = 0x22 then (let (a, s) = fetch16 b s in (20, write16 b a i s))
      else if opcode = 0x23 then (10, set_index prefix (i + 1) s)
      else if opcode = 0x24 then index_high True prefix s
      else if opcode = 0x25 then index_high False prefix s
      else if opcode = 0x26 then
        (let (v, s) = fetch8 b s in (11, set_index prefix (mk16 (lo i) v) s))
      else if opcode = 0x29 then add_index prefix i s
      else if opcode = 0x2A then
        (let (a, s) = fetch16 b s in (20, set_index prefix (read16 b a s) s))
      else if opcode = 0x2B then (10, set_index prefix (i - 1) s)
      else if opcode = 0x2C then index_low True prefix s
      else if opcode = 0x2D then index_low False prefix s
      else if opcode = 0x2E then
        (let (v, s) = fetch8 b s in (11, set_index prefix (mk16 v (hi i)) s))
      else if opcode = 0x34 then index_mem True b prefix s
      else if opcode = 0x35 then index_mem False b prefix s
      else if opcode = 0x36 then
        (let (a, s) = indexedAddress b prefix s; (v, s) = fetch8 b s in (19, wr b a v s))
      else if opcode = 0x39 then add_index prefix (SP s) s
      else if opcode = 0xE1 then (let (v, s) = pop16 b s in (14, set_index prefix v s))
      else if opcode = 0xE3 then ex_sp_index b prefix s
      else if opcode = 0xE5 then (15, push16 b i s)
      else if opcode = 0xE9 then (8, s\<lparr>PC := i\<rparr>)
      else if opcode = 0xF9 then (10, s\<lparr>SP := i\<rparr>)
      else if opcode AND 0xC7 = 0x06 \<and> opcode \<noteq> 0x36 then
        (let (v, s) = fetch8 b s in (11, writeIndexedReg b (op_y opcode) v s))
      else if opcode AND 0xC0 = 0x40 \<and> opcode \<noteq> 0x76 then indexed_ld b prefix opcode s
      else if opcode AND 0xC0 = 0x80 then indexed_alu b prefix opcode s
      else if opcode = 0x76 then (8, s\<lparr>halted := True\<rparr>)
      else (let (c, s) = plain opcode s in (4 + c, s)))"

text \<open>
  The prefix loop, \<open>n\<close> being the iterations it has left. It hands only opcodes other than the
  two prefixes to \<open>executeIndexedOpcode\<close>, so the inner \<open>executeOpcode\<close> is never asked for a
  prefix; \<open>executeIndexedOpcode_eq\<close> below is that statement.
\<close>

definition executeIndexedOpcode :: "'w bus \<Rightarrow> u8 \<Rightarrow> u8 \<Rightarrow> 'w z80 \<Rightarrow> 'w exec" where
  "executeIndexedOpcode b = indexed_body (opcode_body (\<lambda>_ s. (4, s)) b) b"

fun prefix_loop :: "nat \<Rightarrow> 'w bus \<Rightarrow> u8 \<Rightarrow> nat \<Rightarrow> 'w z80 \<Rightarrow> 'w exec" where
  "prefix_loop n b lastPrefix stray s =
     (if n = 0 then (stray + 4, s)
      else (let (nextOpcode, s) = fetchOpcode b s in
        if nextOpcode \<noteq> 0xDD \<and> nextOpcode \<noteq> 0xFD
        then (let (c, s) = executeIndexedOpcode b lastPrefix nextOpcode s in (stray + c, s))
        else prefix_loop (n - 1) b nextOpcode (stray + 4) s))"

declare prefix_loop.simps [simp del]

definition kMaxIndexPrefixesPerStep :: nat where
  "kMaxIndexPrefixesPerStep = 0x10000"

definition executeOpcode :: "'w bus \<Rightarrow> u8 \<Rightarrow> 'w z80 \<Rightarrow> 'w exec" where
  "executeOpcode b =
     opcode_body (\<lambda>opcode. prefix_loop (kMaxIndexPrefixesPerStep - 1) b opcode 0) b"

section \<open>Interrupts and step\<close>

definition acceptInterrupt :: "'w bus \<Rightarrow> u8 \<Rightarrow> 'w z80 \<Rightarrow> 'w exec" where
  "acceptInterrupt b vector s =
     (let s = s\<lparr>halted := False, IFF1 := False, IFF2 := False, IME := False, imeEnableDelay := 0\<rparr>
      in if interruptMode s = 2 then
           (let s = push16 b (PC s) s in (19, s\<lparr>PC := read16 b (mk16 vector (regI s)) s\<rparr>))
         else if interruptMode s = 0 \<and> vector AND 0xC7 = 0xC7 then
           (11, push16 b (PC s) s\<lparr>PC := ucast (vector AND 0x38)\<rparr>)
         else (11, push16 b (PC s) s\<lparr>PC := 0x0038\<rparr>))"

definition handleInterrupts :: "'w interface \<Rightarrow> 'w bus \<Rightarrow> 'w z80 \<Rightarrow> 'w exec" where
  "handleInterrupts i b s =
     (case interruptRequestProvider i of
        None \<Rightarrow> (0, s)
      | Some provider \<Rightarrow>
          if \<not> IME s \<or> \<not> IFF1 s then (0, s)
          else (case provider (world s) of
                  (None, w) \<Rightarrow> (0, s\<lparr>world := w\<rparr>)
                | (Some vector, w) \<Rightarrow> acceptInterrupt b vector (s\<lparr>world := w\<rparr>)))"

definition bus_of :: "'w interface \<Rightarrow> 'w bus" where
  "bus_of i = \<lparr>memRead = the (memReader i), memWrite = the (memWriter i),
               portRead = readIo i, portWrite = writeIo i\<rparr>"

definition countDownEnable :: "'w z80 \<Rightarrow> 'w z80" where
  "countDownEnable s =
     (if imeEnableDelay s > 0
      then (let s = s\<lparr>imeEnableDelay := imeEnableDelay s - 1\<rparr>
            in if imeEnableDelay s = 0 then s\<lparr>IME := IFF1 s\<rparr> else s)
      else s)"

definition observeFetch :: "'w interface \<Rightarrow> 'w z80 \<Rightarrow> 'w z80" where
  "observeFetch i s =
     (case instructionFetchObserver i of None \<Rightarrow> s | Some f \<Rightarrow> s\<lparr>world := f (world s) (PC s)\<rparr>)"

definition executeInstruction :: "'w interface \<Rightarrow> 'w z80 \<Rightarrow> 'w exec" where
  "executeInstruction i s =
     (let b = bus_of i; s = observeFetch i s;
          (opcode, s) = fetchOpcode b s;
          (cycles, s) = executeOpcode b opcode s
      in (cycles, countDownEnable s))"

definition z80_step :: "'w interface \<Rightarrow> 'w z80 \<Rightarrow> 'w exec result" where
  "z80_step i s =
     (case requireMemoryInterface i of
        Inl e \<Rightarrow> Inl e
      | Inr _ \<Rightarrow> Inr
          (let (interruptCycles, s) = handleInterrupts i (bus_of i) s in
           if interruptCycles \<noteq> 0 then (interruptCycles, s)
           else if halted s then (4, s)
           else executeInstruction i s))"

end
