(* ===== verification/Z80_Laws.thy ===== *)
theory Z80_Laws
  imports Z80_Exec
begin

text \<open>
  What holds of every instruction of the interpreter: a locale carries an invariant through the
  whole opcode table from the primitive effects, and is interpreted for the interrupt flip-flops;
  then the bounds on the cycles of a step, interrupt acceptance, the deferral of EI, decimal
  adjustment and the block copy.
\<close>

section \<open>What every instruction preserves\<close>

text \<open>
  The contract between the instruction set and a property of the CPU with its world: \<open>P\<close> is kept
  by each primitive effect an instruction is made of. The client's lemmas then give it for every
  opcode, prefixed or not, for interrupt acceptance and for \<open>step\<close>.
\<close>

locale cpu_invariant =
  fixes P :: "'w z80 \<Rightarrow> bool" and b :: "'w bus"
  assumes set_AF: "P s \<Longrightarrow> P (s\<lparr>AF := v\<rparr>)" and set_BC: "P s \<Longrightarrow> P (s\<lparr>BC := v\<rparr>)"
    and set_DE: "P s \<Longrightarrow> P (s\<lparr>DE := v\<rparr>)" and set_HL: "P s \<Longrightarrow> P (s\<lparr>HL := v\<rparr>)"
    and set_IX: "P s \<Longrightarrow> P (s\<lparr>IX := v\<rparr>)" and set_IY: "P s \<Longrightarrow> P (s\<lparr>IY := v\<rparr>)"
    and set_SP: "P s \<Longrightarrow> P (s\<lparr>SP := v\<rparr>)" and set_PC: "P s \<Longrightarrow> P (s\<lparr>PC := v\<rparr>)"
    and set_AF': "P s \<Longrightarrow> P (s\<lparr>AF' := v\<rparr>)" and set_BC': "P s \<Longrightarrow> P (s\<lparr>BC' := v\<rparr>)"
    and set_DE': "P s \<Longrightarrow> P (s\<lparr>DE' := v\<rparr>)" and set_HL': "P s \<Longrightarrow> P (s\<lparr>HL' := v\<rparr>)"
    and set_I: "P s \<Longrightarrow> P (s\<lparr>regI := w\<rparr>)" and set_R: "P s \<Longrightarrow> P (s\<lparr>regR := w\<rparr>)"
    and set_halted: "P s \<Longrightarrow> P (s\<lparr>halted := h\<rparr>)"
    and set_mode: "P s \<Longrightarrow> w \<le> 2 \<Longrightarrow> P (s\<lparr>interruptMode := w\<rparr>)"
    and copy_iff: "P s \<Longrightarrow> P (s\<lparr>IFF1 := IFF2 s, IME := IFF2 s\<rparr>)"
    and disable: "P s \<Longrightarrow> P (s\<lparr>IFF1 := False, IFF2 := False, IME := False, imeEnableDelay := 0\<rparr>)"
    and enable: "P s \<Longrightarrow> P (s\<lparr>IFF1 := True, IFF2 := True, imeEnableDelay := 2\<rparr>)"
    and count_down: "P s \<Longrightarrow> P (countDownEnable s)"
    and write_mem: "P s \<Longrightarrow> P (wr b a w s)"
    and read_port: "P s \<Longrightarrow> P (snd (inPort b p s))"
    and write_port: "P s \<Longrightarrow> P (outPort b p w s)"
begin

lemmas primitive =
  set_AF set_BC set_DE set_HL set_IX set_IY set_SP set_PC set_AF' set_BC' set_DE' set_HL'
  set_I set_R set_halted set_mode copy_iff disable enable write_mem read_port write_port

lemma registers:
  assumes "P s"
  shows "P (setRegA w s)" "P (setRegF w s)" "P (setLogicFlags w h s)" "P (incRefresh s)"
    "P (writeReg8 b idx w s)" "P (setReg16ByPair pair v af s)" "P (push16 b v s)" "P (write16 b a v s)"
    "P (set_index w v s)" "P (writeIndexedReg b idx w s)"
    "P (snd (fetch8 b s))" "P (snd (fetchOpcode b s))" "P (snd (fetch16 b s))" "P (snd (pop16 b s))"
    "P (snd (alu w x s))" "P (snd (rotateShift w x s))" "P (snd (indexedAddress b w s))"
  using assms
  by (simp_all add: setRegA_def setRegF_def setLogicFlags_def incRefresh_def writeReg8_def
      setReg16ByPair_def push16_def write16_def set_index_def writeIndexedReg_def fetch8_def
      fetchOpcode_def fetch16_def pop16_def alu_def rotateShift_def indexedAddress_def Let_def
      case_prod_unfold primitive)

lemma choose: "P (snd x) \<Longrightarrow> P (snd y) \<Longrightarrow> P (snd (if c then x else y))"
  by simp

lemma choose_state: "P s \<Longrightarrow> P t \<Longrightarrow> P (if c then s else t)"
  by simp

lemma cb_opcode: "P s \<Longrightarrow> P (snd (snd (executeCbOpcode b opcode ix a d s)))"
  by (simp add: executeCbOpcode_def Let_def case_prod_unfold registers primitive)

lemmas op_defs = in_r_c_def sbc_hl_def adc_hl_def ld_a_ir_def rrd_def rld_def
  blockTransfer_def blockCompare_def blockIn_def blockOut_def
  add_hl_def rlca_def rrca_def rla_def rra_def djnz_def jr_cond_def daa_def cpl_def scf_def ccf_def
  ret_cond_def jp_cond_def call_cond_def call_def rst_def out_n_def in_n_def ex_sp_hl_def ex_af_def
  exx_def ex_de_hl_def inc_r_def dec_r_def indexed_cb_def add_index_def index_high_def index_low_def
  index_mem_def ex_sp_index_def indexed_ld_def indexed_alu_def

lemma operations:
  assumes "P s"
  shows "P (snd (in_r_c b w s))" "P (snd (sbc_hl v s))" "P (snd (adc_hl v s))" "P (snd (ld_a_ir w s))"
    "P (snd (rrd b s))" "P (snd (rld b s))"
    "P (snd (blockTransfer b v rp s))" "P (snd (blockCompare b v rp s))"
    "P (snd (blockIn b v rp s))" "P (snd (blockOut b v rp s))"
    "P (snd (add_hl v s))" "P (snd (rlca s))" "P (snd (rrca s))" "P (snd (rla s))" "P (snd (rra s))"
    "P (snd (djnz b s))" "P (snd (jr_cond b w s))" "P (snd (daa s))" "P (snd (cpl s))" "P (snd (scf s))"
    "P (snd (ccf s))" "P (snd (ret_cond b w s))" "P (snd (jp_cond b w s))" "P (snd (call_cond b w s))"
    "P (snd (call b s))" "P (snd (rst b w s))" "P (snd (out_n b s))" "P (snd (in_n b s))"
    "P (snd (ex_sp_hl b s))" "P (snd (ex_af s))" "P (snd (exx s))" "P (snd (ex_de_hl s))"
    "P (snd (inc_r b w s))" "P (snd (dec_r b w s))" "P (snd (indexed_cb b w s))" "P (snd (add_index w v s))"
    "P (snd (index_high up w s))" "P (snd (index_low up w s))" "P (snd (index_mem up b w s))"
    "P (snd (ex_sp_index b w s))" "P (snd (indexed_ld b w x s))" "P (snd (indexed_alu b w x s))"
  using assms
  by (simp_all add: op_defs Let_def case_prod_unfold registers primitive cb_opcode split: option.split)


lemma ed_mode: "P s \<Longrightarrow> P (s\<lparr>interruptMode := (if c then 0 else if d then 1 else 2)\<rparr>)"
  by (rule set_mode) simp_all

lemma return_from_interrupt: "P s \<Longrightarrow> P (s\<lparr>PC := pc, IFF1 := IFF2 s, IME := IFF2 s\<rparr>)"
  using copy_iff [of "s\<lparr>PC := pc\<rparr>"] by (simp add: set_PC)

lemma ed_opcode: "P s \<Longrightarrow> P (snd (executeEdOpcode b opcode s))"
  unfolding executeEdOpcode_def Let_def case_prod_unfold
  by (intro choose; simp add: registers primitive operations ed_mode return_from_interrupt)

lemma body:
  assumes "P s" and "\<And>op s. P s \<Longrightarrow> P (snd (prefixed op s))"
  shows "P (snd (opcode_body prefixed b opcode s))"
  unfolding opcode_body_def Let_def case_prod_unfold
  by (intro choose; simp add: assms registers primitive operations cb_opcode ed_opcode)

lemma indexed:
  assumes "P s"
  shows "P (snd (executeIndexedOpcode b prefix opcode s))"
  unfolding executeIndexedOpcode_def indexed_body_def Let_def case_prod_unfold
  by (intro choose; simp add: assms registers primitive operations body)

lemma loop: "P s \<Longrightarrow> P (snd (prefix_loop n b prefix stray s))"
proof (induction n arbitrary: prefix stray s)
  case 0
  then show ?case by (simp add: prefix_loop.simps [of 0])
next
  case (Suc n)
  then show ?case
    by (simp add: prefix_loop.simps [of "Suc n"] case_prod_unfold Let_def registers indexed)
qed

theorem opcode: "P s \<Longrightarrow> P (snd (executeOpcode b opcode s))"
  unfolding executeOpcode_def by (rule body) (simp_all add: loop)

lemma interrupt:
  assumes "P s" shows "P (snd (acceptInterrupt b vector s))"
proof -
  have "P (s\<lparr>halted := False, IFF1 := False, IFF2 := False, IME := False, imeEnableDelay := 0\<rparr>)"
    using disable [OF set_halted [OF assms]] by simp
  then show ?thesis by (simp add: acceptInterrupt_def Let_def registers primitive)
qed

end

text \<open>
  The same for \<open>step\<close>: the interrupt provider and the fetch observer act on the world too.
\<close>

locale step_invariant = cpu_invariant P "bus_of i" for P :: "'w z80 \<Rightarrow> bool" and i :: "'w interface" +
  assumes provider: "P s \<Longrightarrow> interruptRequestProvider i = Some f \<Longrightarrow> P (s\<lparr>world := snd (f (world s))\<rparr>)"
    and observer: "P s \<Longrightarrow> instructionFetchObserver i = Some g \<Longrightarrow> P (s\<lparr>world := g (world s) (PC s)\<rparr>)"
begin

lemma handle: "P s \<Longrightarrow> P (snd (handleInterrupts i (bus_of i) s))"
  using provider [of s]
  by (auto simp: handleInterrupts_def interrupt split: option.split prod.split)

lemma instruction: "P s \<Longrightarrow> P (snd (executeInstruction i s))"
  by (simp add: executeInstruction_def observeFetch_def Let_def case_prod_unfold count_down opcode
      registers observer split: option.split)

theorem step: "P s \<Longrightarrow> z80_step i s = Inr (c, t) \<Longrightarrow> P t"
  using handle [of s] instruction [of "snd (handleInterrupts i (bus_of i) s)"]
  by (auto simp: z80_step_def Let_def case_prod_unfold split: sum.splits if_splits)

end

section \<open>Interrupt flip-flops\<close>

text \<open>
  The two flip-flops agree (there is no NMI), interrupts are enabled exactly when the flip-flops
  are set and no EI is pending, or an EI is still to take effect, and mode and delay are in range.
\<close>

definition z80_ok :: "'w z80 \<Rightarrow> bool" where
  "z80_ok s \<longleftrightarrow> IFF1 s = IFF2 s \<and> (IFF1 s \<longleftrightarrow> IME s \<or> imeEnableDelay s > 0) \<and>
     0 \<le> imeEnableDelay s \<and> imeEnableDelay s \<le> 2 \<and> interruptMode s \<le> 2"

interpretation flip_flops: step_invariant z80_ok i for i
  by unfold_locales
    (auto simp: z80_ok_def wr_def inPort_def outPort_def countDownEnable_def Let_def split: prod.splits)

lemma z80_ok_reset: "z80_ok (z80_reset s)"
  by (simp add: z80_ok_def z80_reset_def)

text \<open>\<open>n\<close> consecutive steps, with the cycles they took together.\<close>

fun z80_run :: "'w interface \<Rightarrow> nat \<Rightarrow> 'w z80 \<Rightarrow> 'w exec result" where
  "z80_run i 0 s = Inr (0, s)"
| "z80_run i (Suc n) s =
     (case z80_step i s of
        Inl e \<Rightarrow> Inl e
      | Inr (c, t) \<Rightarrow> (case z80_run i n t of Inl e \<Rightarrow> Inl e | Inr (c', u) \<Rightarrow> Inr (c + c', u)))"

context step_invariant begin

theorem run: "P s \<Longrightarrow> z80_run i n s = Inr (c, t) \<Longrightarrow> P t"
proof (induction n arbitrary: s c)
  case (Suc n)
  then show ?case by (auto dest: step split: sum.splits prod.splits)
qed simp

end

text \<open>Single opcodes, for the proofs that follow a program.\<close>

lemma opcode_EI: "executeOpcode b 0xFB s = (4, s\<lparr>IFF1 := True, IFF2 := True, imeEnableDelay := 2\<rparr>)"
  by (simp add: executeOpcode_def opcode_body_def)

lemma opcode_HALT: "executeOpcode b 0x76 s = (4, s\<lparr>halted := True\<rparr>)"
  by (simp add: executeOpcode_def opcode_body_def)

lemma opcode_RET: "executeOpcode b 0xC9 s = (10, s\<lparr>PC := read16 b (SP s) s, SP := SP s + 2\<rparr>)"
  by (simp add: executeOpcode_def opcode_body_def pop16_def read16_def Let_def)

lemma opcode_ED: "executeOpcode b 0xED s = (let (ed, s) = fetchOpcode b s in executeEdOpcode b ed s)"
  by (simp add: executeOpcode_def opcode_body_def)

lemma opcode_LDIR: "executeEdOpcode b 0xB0 s = blockTransfer b 1 True s"
  by (simp add: executeEdOpcode_def op_x_def)

lemma opcode_DAA: "executeOpcode b 0x27 s = daa s"
  by (simp add: executeOpcode_def opcode_body_def)

lemma z80_step_instruction:
  assumes "memReader i \<noteq> None" and "memWriter i \<noteq> None" and "\<not> IME s" and "\<not> halted s"
  shows "z80_step i s = Inr (executeInstruction i s)"
  using assms
  by (simp add: z80_step_def requireMemoryInterface_def handleInterrupts_def split: option.split)

section \<open>Block copy\<close>

text \<open>Copying upwards byte by byte, in the order LDIR does it.\<close>

fun copy_up :: "'w bus \<Rightarrow> nat \<Rightarrow> u16 \<Rightarrow> u16 \<Rightarrow> 'w \<Rightarrow> 'w" where
  "copy_up b 0 src dst w = w"
| "copy_up b (Suc n) src dst w = copy_up b n (src + 1) (dst + 1) (memWrite b w dst (memRead b w src))"

lemma ldir_step:
  assumes mem: "memReader i \<noteq> None" "memWriter i \<noteq> None" "instructionFetchObserver i = None"
    and idle: "\<not> IME s" "\<not> halted s" "imeEnableDelay s = 0"
    and code: "memRead (bus_of i) (world s) (PC s) = 0xED" "memRead (bus_of i) (world s) (PC s + 1) = 0xB0"
  obtains f r where "z80_step i s = Inr (if BC s = 1 then 16 else 21,
    s\<lparr>AF := mk16 f (regA s), BC := BC s - 1, DE := DE s + 1, HL := HL s + 1, regR := r,
      PC := (if BC s = 1 then PC s + 2 else PC s),
      world := memWrite (bus_of i) (world s) (DE s) (memRead (bus_of i) (world s) (HL s))\<rparr>)"
    "bit f 2 \<longleftrightarrow> BC s \<noteq> 1"
proof -
  define f where "f = or_if (BC s \<noteq> 1) kFlagPV (regF s AND (kFlagS OR kFlagZ OR kFlagC))"
  define r where "r = regR (incRefresh (incRefresh s))"
  show ?thesis
  proof (rule that [of r f])
    show "z80_step i s = Inr (if BC s = 1 then 16 else 21,
      s\<lparr>AF := mk16 f (regA s), BC := BC s - 1, DE := DE s + 1, HL := HL s + 1, regR := r,
        PC := (if BC s = 1 then PC s + 2 else PC s),
        world := memWrite (bus_of i) (world s) (DE s) (memRead (bus_of i) (world s) (HL s))\<rparr>)"
      by (simp add: z80_step_instruction mem idle executeInstruction_def observeFetch_def Let_def
          fetchOpcode_def fetch8_def incRefresh_def rd_def code opcode_ED opcode_LDIR blockTransfer_def
          wr_def setRegF_eq countDownEnable_def regF_def regA_def f_def r_def)
  qed (simp add: f_def bit_simps)
qed

text \<open>C20: LDIR, stepped until it is done, copies BC bytes (65536 when BC is 0) upwards in
  ascending order, one byte per step, as long as the copy does not overwrite the instruction
  itself: it ends after exactly that many steps with the pointers advanced, BC zero, PC behind the
  instruction and P/V reset, having taken 21 cycles for each byte but the last and 16 for the last.\<close>

theorem ldir_copies_block:
  assumes mem: "memReader i \<noteq> None" "memWriter i \<noteq> None" "instructionFetchObserver i = None"
    and idle: "\<not> IME s" "\<not> halted s" "imeEnableDelay s = 0"
    and n: "n = (if BC s = 0 then 65536 else unat (BC s))"
    and code: "\<forall>k < n. let w = copy_up (bus_of i) k (HL s) (DE s) (world s) in
      memRead (bus_of i) w (PC s) = 0xED \<and> memRead (bus_of i) w (PC s + 1) = 0xB0"
  shows "\<exists>t. z80_run i n s = Inr (21 * (n - 1) + 16, t) \<and>
    world t = copy_up (bus_of i) n (HL s) (DE s) (world s) \<and>
    HL t = HL s + of_nat n \<and> DE t = DE s + of_nat n \<and> BC t = 0 \<and> PC t = PC s + 2 \<and>
    regA t = regA s \<and> SP t = SP s \<and> \<not> bit (regF t) 2"
proof -
  have "BC s = of_nat n" "0 < n" "n \<le> 65536"
    using n unat_u16_less [of "BC s"] by (auto simp: unat_gt_0)
  then show ?thesis
    using idle code
  proof (induction n arbitrary: s)
    case (Suc m)
    have c: "memRead (bus_of i) (world s) (PC s) = 0xED" "memRead (bus_of i) (world s) (PC s + 1) = 0xB0"
      using Suc.prems(7) by (auto simp: Let_def dest: spec [of _ 0])
    obtain f r where st: "z80_step i s = Inr (if BC s = 1 then 16 else 21,
        s\<lparr>AF := mk16 f (regA s), BC := BC s - 1, DE := DE s + 1, HL := HL s + 1, regR := r,
          PC := (if BC s = 1 then PC s + 2 else PC s),
          world := memWrite (bus_of i) (world s) (DE s) (memRead (bus_of i) (world s) (HL s))\<rparr>)"
        "bit f 2 \<longleftrightarrow> BC s \<noteq> 1"
      by (rule ldir_step [OF mem Suc.prems(4-6) c])
    define u where "u = s\<lparr>AF := mk16 f (regA s), BC := BC s - 1, DE := DE s + 1, HL := HL s + 1, regR := r,
          PC := (if BC s = 1 then PC s + 2 else PC s),
          world := memWrite (bus_of i) (world s) (DE s) (memRead (bus_of i) (world s) (HL s))\<rparr>"
    show ?case
    proof (cases "m = 0")
      case True
      then show ?thesis using st Suc.prems(1) by (simp add: regF_def regA_def)
    next
      case False
      have "unat (of_nat (Suc m) :: u16) \<noteq> 1"
        using False Suc.prems(3)
        by (cases "m = 65535") (simp_all add: unat_of_nat take_bit_eq_mod del: of_nat_Suc)
      then have BC: "BC s \<noteq> 1" using Suc.prems(1) by auto
      have "\<exists>t. z80_run i m u = Inr (21 * (m - 1) + 16, t) \<and>
        world t = copy_up (bus_of i) m (HL u) (DE u) (world u) \<and>
        HL t = HL u + of_nat m \<and> DE t = DE u + of_nat m \<and> BC t = 0 \<and> PC t = PC u + 2 \<and>
        regA t = regA u \<and> SP t = SP u \<and> \<not> bit (regF t) 2"
        using Suc.prems False BC by (intro Suc.IH) (auto simp: u_def dest: spec [of _ "Suc _"])
      then show ?thesis
        using st BC False by (auto simp: u_def [symmetric]) (auto simp: u_def regA_def)
    qed
  qed simp
qed

section \<open>Cycles\<close>

lemma choose_least: "m \<le> fst x \<Longrightarrow> m \<le> fst y \<Longrightarrow> m \<le> fst (if c then x else y)" for m :: nat
  by simp

lemma choose_most: "fst x \<le> m \<Longrightarrow> fst y \<le> m \<Longrightarrow> fst (if c then x else y) \<le> m" for m :: nat
  by simp

lemmas op_cycle_defs = in_r_c_def sbc_hl_def adc_hl_def ld_a_ir_def rrd_def rld_def
  blockTransfer_def blockCompare_def blockIn_def blockOut_def
  add_hl_def rlca_def rrca_def rla_def rra_def djnz_def jr_cond_def daa_def cpl_def scf_def ccf_def
  ret_cond_def jp_cond_def call_cond_def call_def rst_def out_n_def in_n_def ex_sp_hl_def ex_af_def
  exx_def ex_de_hl_def inc_r_def dec_r_def indexed_cb_def add_index_def index_high_def index_low_def
  index_mem_def ex_sp_index_def indexed_ld_def indexed_alu_def executeCbOpcode_def

lemma ed_cycles: "8 \<le> fst (executeEdOpcode b opcode s)" "fst (executeEdOpcode b opcode s) \<le> 21"
  unfolding executeEdOpcode_def Let_def case_prod_unfold
  by (intro choose_least choose_most; simp add: op_cycle_defs Let_def case_prod_unfold)+

lemma ed_cycles_4: "4 \<le> fst (executeEdOpcode b opcode s)"
  using ed_cycles(1) by (rule order_trans [rotated]) simp

lemma body_cycles:
  assumes "\<And>op s. 4 \<le> fst (prefixed op s)"
  shows "4 \<le> fst (opcode_body prefixed b opcode s)"
  unfolding opcode_body_def Let_def case_prod_unfold
  by (intro choose_least; simp add: assms ed_cycles_4 op_cycle_defs Let_def case_prod_unfold)

lemma body_cycles_most:
  assumes "\<And>op s. fst (prefixed op s) \<le> m" and "21 \<le> m"
  shows "fst (opcode_body prefixed b opcode s) \<le> m"
proof -
  have small: "n \<le> m" if "n \<le> 21" for n using that assms(2) by simp
  show ?thesis
    unfolding opcode_body_def Let_def case_prod_unfold
    by (intro choose_most; simp add: assms(1) small ed_cycles op_cycle_defs Let_def case_prod_unfold)
qed

lemma indexed_cycles: "8 \<le> fst (executeIndexedOpcode b prefix opcode s)"
  "fst (executeIndexedOpcode b prefix opcode s) \<le> 25"
  unfolding executeIndexedOpcode_def indexed_body_def Let_def case_prod_unfold
  by (intro choose_least choose_most;
      simp add: body_cycles body_cycles_most op_cycle_defs Let_def case_prod_unfold)+

lemma loop_cycles_least: "4 \<le> fst (prefix_loop n b prefix stray s)"
proof (induction n arbitrary: prefix stray s)
  case (Suc n)
  then show ?case
    using indexed_cycles(1) [of b prefix "fst (fetchOpcode b s)" "snd (fetchOpcode b s)"]
    by (simp add: prefix_loop.simps [of "Suc n"] case_prod_unfold Let_def)
qed (simp add: prefix_loop.simps [of 0])

lemma loop_cycles_most: "fst (prefix_loop n b prefix stray s) \<le> stray + 4 * n + 25"
proof (induction n arbitrary: prefix stray s)
  case (Suc n)
  then show ?case
    using Suc [of _ "stray + 4"]
      indexed_cycles(2) [of b prefix "fst (fetchOpcode b s)" "snd (fetchOpcode b s)"]
    by (simp add: prefix_loop.simps [of "Suc n"] case_prod_unfold Let_def)
qed (simp add: prefix_loop.simps [of 0])

lemma opcode_cycles: "4 \<le> fst (executeOpcode b opcode s)" "fst (executeOpcode b opcode s) \<le> 262165"
proof -
  show "4 \<le> fst (executeOpcode b opcode s)"
    unfolding executeOpcode_def by (intro body_cycles loop_cycles_least)
  have "fst (prefix_loop (kMaxIndexPrefixesPerStep - 1) b p 0 t) \<le> 262165" for p t
    using loop_cycles_most [of "kMaxIndexPrefixesPerStep - 1" b p 0 t]
    by (simp add: kMaxIndexPrefixesPerStep_def)
  then show "fst (executeOpcode b opcode s) \<le> 262165"
    unfolding executeOpcode_def by (intro body_cycles_most) simp_all
qed

lemma interrupt_cycles: "fst (acceptInterrupt b v s) \<in> {11, 19}"
  by (simp add: acceptInterrupt_def Let_def)

text \<open>C16: A step always comes back, with at least 4 and at most 262165 cycles, so a program
  cannot stall the clock and the 32-bit counter cannot wrap within a step, however many index
  prefixes memory holds; without a memory interface it throws and does nothing else.\<close>

theorem z80_step_total:
  "(memReader i \<noteq> None \<and> memWriter i \<noteq> None \<and>
     (\<exists>c t. z80_step i s = Inr (c, t) \<and> 4 \<le> c \<and> c \<le> 262165)) \<or>
   (memReader i = None \<or> memWriter i = None) \<and>
     z80_step i s = Inl (Runtime_error ''Z80 memory interface not set'')"
proof (cases "memReader i = None \<or> memWriter i = None")
  case False
  define h where "h = handleInterrupts i (bus_of i) s"
  define x where "x = (if fst h \<noteq> 0 then h else if halted (snd h) then (4, snd h)
                       else executeInstruction i (snd h))"
  have "fst h = 0 \<or> fst h = 11 \<or> fst h = 19"
    using interrupt_cycles by (auto simp: h_def handleInterrupts_def split: option.split prod.split)
  then have "4 \<le> fst x \<and> fst x \<le> 262165"
    by (auto simp: x_def executeInstruction_def Let_def case_prod_unfold opcode_cycles)
  moreover have "z80_step i s = Inr x"
    using False by (auto simp: z80_step_def requireMemoryInterface_def Let_def case_prod_unfold h_def x_def)
  ultimately show ?thesis using False by (cases x) auto
qed (simp add: z80_step_def requireMemoryInterface_def)

section \<open>Programs in a flat memory\<close>

text \<open>A 64 KiB RAM and nothing else, to run the theorems on.\<close>

definition flat_interface :: "(u16 \<Rightarrow> u8) interface" where
  "flat_interface = setMemoryInterface (Some (\<lambda>w a. w a)) (Some (\<lambda>w a v. w(a := v))) new_interface"

definition power_on :: "'w \<Rightarrow> 'w z80" where
  "power_on w = z80_reset \<lparr>AF = 0, BC = 0, DE = 0, HL = 0, IX = 0, IY = 0, SP = 0, PC = 0,
     AF' = 0, BC' = 0, DE' = 0, HL' = 0, regI = 0, regR = 0, IFF1 = False, IFF2 = False,
     IME = False, imeEnableDelay = 0, halted = False, interruptMode = 1, world = w\<rparr>"

lemma flat_interface_simps [simp]:
  "memReader flat_interface = Some (\<lambda>w a. w a)" "memWriter flat_interface = Some (\<lambda>w a v. w(a := v))"
  "instructionFetchObserver flat_interface = None" "interruptRequestProvider flat_interface = None"
  "memRead (bus_of flat_interface) = (\<lambda>w a. w a)" "memWrite (bus_of flat_interface) = (\<lambda>w a v. w(a := v))"
  by (simp_all add: flat_interface_def setMemoryInterface_def new_interface_def bus_of_def)

lemma power_on_simps [simp]:
  "world (power_on w) = w" "PC (power_on w) = 0" "IME (power_on w) = False" "halted (power_on w) = False"
  "imeEnableDelay (power_on w) = 0" "SP (power_on w) = 0xDFF0" "IFF1 (power_on w) = False"
  "interruptMode (power_on w) = 1"
  by (simp_all add: power_on_def z80_reset_def)

text \<open>C17: Every step keeps the interrupt logic consistent: IFF1 equals IFF2, they are set exactly
  when interrupts are enabled or an EI is still pending, the delay is at most 2 and the mode is one
  of 0, 1, 2.\<close>

theorem z80_step_keeps_ok:
  assumes "z80_ok s" and "z80_run i n s = Inr (c, t)"
  shows "z80_ok t"
  using assms by (rule flip_flops.run)

lemma run_two:
  assumes "memReader i \<noteq> None" "memWriter i \<noteq> None" "\<not> IME s" "\<not> halted s"
    and "executeInstruction i s = (c, t)" "\<not> IME t" "\<not> halted t" "executeInstruction i t = (d, u)"
  shows "z80_run i 2 s = Inr (c + d, u)"
  using assms by (simp add: numeral_2_eq_2 z80_step_instruction)

text \<open>The program \<open>EI; HALT\<close>.\<close>

theorem z80_step_keeps_ok_witness:
  "let s = power_on (\<lambda>a :: u16. if a = 0 then 0xFB else 0x76 :: u8) in
   \<exists>t. z80_run flat_interface 2 s = Inr (8, t) \<and> IME t \<and> halted t \<and> z80_ok t"
proof -
  define s where "s = power_on (\<lambda>a :: u16. if a = 0 then 0xFB else 0x76 :: u8)"
  have ok: "z80_ok s" by (simp add: s_def power_on_def z80_ok_reset)
  define t where "t = (incRefresh s)\<lparr>PC := 1, IFF1 := True, IFF2 := True, imeEnableDelay := 1\<rparr>"
  define u where "u = (incRefresh t)\<lparr>PC := 2, halted := True, imeEnableDelay := 0, IME := True\<rparr>"
  have s: "world s = (\<lambda>a. if a = 0 then 0xFB else 0x76)" "PC s = 0" "\<not> IME s" "\<not> halted s"
    by (simp_all add: s_def)
  have t: "executeInstruction flat_interface s = (4, t)"
    by (simp add: executeInstruction_def observeFetch_def fetchOpcode_def fetch8_def rd_def Let_def
        incRefresh_def s opcode_EI countDownEnable_def t_def)
  have t': "world t = world s" "PC t = 1" "\<not> IME t" "\<not> halted t" "imeEnableDelay t = 1" "IFF1 t"
    by (simp_all add: t_def s incRefresh_def)
  have u: "executeInstruction flat_interface t = (4, u)"
    by (simp add: executeInstruction_def observeFetch_def fetchOpcode_def fetch8_def rd_def Let_def
        incRefresh_def s t' opcode_HALT countDownEnable_def u_def)
  have run: "z80_run flat_interface 2 s = Inr (4 + 4, u)"
    by (rule run_two [OF _ _ _ _ t _ _ u]) (simp_all add: s t')
  have "z80_ok u" by (rule z80_step_keeps_ok [OF ok run])
  then show ?thesis using run by (simp add: s_def [symmetric] u_def)
qed

text \<open>Four bytes from 0x1000 to 0x2000.\<close>

theorem ldir_copies_block_witness:
  "let w = (\<lambda>a :: u16. if a = 0 then 0xED else if a = 1 then 0xB0 else ucast a :: u8);
       s = power_on w\<lparr>HL := 0x1003, DE := 0x2000, BC := 2\<rparr> in
   \<exists>t. z80_run flat_interface 2 s = Inr (37, t) \<and> world t = w(0x2000 := 3, 0x2001 := 4) \<and> PC t = 2"
proof -
  define w where "w = (\<lambda>a :: u16. if a = 0 then 0xED else if a = 1 then 0xB0 else ucast a :: u8)"
  define s where "s = power_on w\<lparr>HL := 0x1003, DE := 0x2000, BC := 2\<rparr>"
  have s: "world s = w" "HL s = 0x1003" "DE s = 0x2000" "BC s = 2" "PC s = 0" "\<not> IME s" "\<not> halted s"
    "imeEnableDelay s = 0"
    by (simp_all add: s_def)
  have w: "w 0 = 0xED" "w 1 = 0xB0" "w 0x1003 = 3" "w 0x1004 = 4"
    by (simp_all add: w_def)
  have up: "copy_up (bus_of flat_interface) (Suc 0) 0x1003 0x2000 w = w(0x2000 := 3)"
    by (simp add: w)
  have up2: "copy_up (bus_of flat_interface) 2 0x1003 0x2000 w = w(0x2000 := 3, 0x2001 := 4)"
    unfolding numeral_2_eq_2 by (simp add: w)
  have "k = 0 \<or> k = Suc 0" if "k < 2" for k :: nat using that by auto
  then have code: "\<forall>k < 2. let w = copy_up (bus_of flat_interface) k (HL s) (DE s) (world s) in
      memRead (bus_of flat_interface) w (PC s) = 0xED \<and> memRead (bus_of flat_interface) w (PC s + 1) = 0xB0"
    unfolding s Let_def using w up by force
  have "\<exists>t. z80_run flat_interface 2 s = Inr (21 * (2 - 1) + 16, t) \<and>
    world t = copy_up (bus_of flat_interface) 2 (HL s) (DE s) (world s) \<and>
    HL t = HL s + of_nat 2 \<and> DE t = DE s + of_nat 2 \<and> BC t = 0 \<and> PC t = PC s + 2 \<and>
    regA t = regA s \<and> SP t = SP s \<and> \<not> bit (regF t) 2"
    by (rule ldir_copies_block [OF _ _ _ _ _ _ _ code]) (simp_all add: s)
  then show ?thesis
    unfolding s up2 Let_def w_def [symmetric] s_def [symmetric] by auto
qed

section \<open>Interrupt acceptance\<close>

definition interrupt_target :: "'w bus \<Rightarrow> u8 \<Rightarrow> 'w z80 \<Rightarrow> 'w \<Rightarrow> u16" where
  "interrupt_target b vector s w =
     (if interruptMode s = 2
      then mk16 (memRead b w (mk16 vector (regI s))) (memRead b w (mk16 vector (regI s) + 1))
      else if interruptMode s = 0 \<and> vector AND 0xC7 = 0xC7 then ucast (vector AND 0x38)
      else 0x38)"

text \<open>C18: A step asks the interrupt provider only while IME and IFF1 are set. A request it gets then
  is served before the next instruction: HALT is left, both flip-flops and IME are cleared, the
  return address is pushed, and the PC goes to the vector of the interrupt mode; without a request,
  or with interrupts disabled, the step is the next instruction (or 4 idle cycles in HALT).\<close>

theorem interrupt_acceptance:
  assumes "memReader i \<noteq> None" and "memWriter i \<noteq> None" and "interruptRequestProvider i = Some provider"
  shows "if IME s \<and> IFF1 s then
      (case provider (world s) of
         (Some vector, w) \<Rightarrow>
           let b = bus_of i;
               w' = memWrite b (memWrite b w (SP s - 1) (hi (PC s))) (SP s - 2) (lo (PC s))
           in \<exists>t. z80_step i s = Inr (if interruptMode s = 2 then 19 else 11, t) \<and>
              \<not> halted t \<and> \<not> IFF1 t \<and> \<not> IFF2 t \<and> \<not> IME t \<and> imeEnableDelay t = 0 \<and>
              SP t = SP s - 2 \<and> world t = w' \<and> PC t = interrupt_target b vector s w' \<and>
              AF t = AF s \<and> regR t = regR s
       | (None, w) \<Rightarrow>
           z80_step i s = Inr (if halted s then (4, s\<lparr>world := w\<rparr>) else executeInstruction i (s\<lparr>world := w\<rparr>)))
    else z80_step i s = Inr (if halted s then (4, s) else executeInstruction i s)"
  using assms
  by (auto simp: z80_step_def requireMemoryInterface_def handleInterrupts_def acceptInterrupt_def Let_def
      push16_def wr_def read16_def rd_def interrupt_target_def split: option.split prod.split)

theorem interrupt_acceptance_witness:
  "let i = flat_interface\<lparr>interruptRequestProvider := Some (\<lambda>w. (Some 0x10, w))\<rparr>;
       w = (\<lambda>a :: u16. if a = 0x2010 then 0x34 else if a = 0x2011 then 0x12 else 0 :: u8);
       s = power_on w\<lparr>IME := True, IFF1 := True, IFF2 := True, interruptMode := 2, regI := 0x20\<rparr> in
   \<exists>t. z80_step i s = Inr (19, t) \<and> PC t = 0x1234 \<and> \<not> IFF1 t"
proof -
  define i where "i = flat_interface\<lparr>interruptRequestProvider := Some (\<lambda>w. (Some 0x10, w))\<rparr>"
  define w where "w = (\<lambda>a :: u16. if a = 0x2010 then 0x34 else if a = 0x2011 then 0x12 else 0 :: u8)"
  define s where "s = power_on w\<lparr>IME := True, IFF1 := True, IFF2 := True, interruptMode := 2, regI := 0x20\<rparr>"
  have s: "IME s" "IFF1 s" "interruptMode s = 2" "regI s = 0x20" "SP s = 0xDFF0" "world s = w"
    by (simp_all add: s_def)
  have i: "memReader i \<noteq> None" "memWriter i \<noteq> None"
    "interruptRequestProvider i = Some (\<lambda>w. (Some 0x10, w))"
    "memRead (bus_of i) = (\<lambda>w a. w a)" "memWrite (bus_of i) = (\<lambda>w a v. w(a := v))"
    by (simp_all add: i_def bus_of_def)
  have v: "mk16 0x10 0x20 = 0x2010" "mk16 0x34 0x12 = 0x1234" by (simp_all add: mk16_def)
  have "\<exists>t. z80_step i s = Inr (19, t) \<and> PC t = interrupt_target (bus_of i) 0x10 s
      (w(0xDFEF := hi (PC s), 0xDFEE := lo (PC s))) \<and> \<not> IFF1 t"
    using interrupt_acceptance [OF i(1-3), of s] by (auto simp: s i(4,5) Let_def)
  moreover have "interrupt_target (bus_of i) 0x10 s (w(0xDFEF := hi (PC s), 0xDFEE := lo (PC s))) = 0x1234"
    by (simp add: interrupt_target_def s i(4,5) v w_def)
  ultimately show ?thesis
    unfolding Let_def i_def [symmetric] w_def [symmetric] s_def [symmetric] by auto
qed



section \<open>The two tables as the source writes them\<close>

lemma opcode_body_prefixed:
  assumes "opcode \<noteq> 0xDD" and "opcode \<noteq> 0xFD"
  shows "opcode_body f b opcode s = opcode_body g b opcode s"
  using assms unfolding opcode_body_def by simp

lemma indexed_body_plain: "f opcode = g opcode \<Longrightarrow> indexed_body f b prefix opcode s = indexed_body g b prefix opcode s"
  unfolding indexed_body_def by (simp only:)

text \<open>The mutual recursion of the C++ functions: for every opcode that is not a prefix, the indexed
  table ends in 4 cycles more than the main table itself, and the main table runs the prefix loop
  on exactly the two prefixes, so the way the knot is tied in the model loses nothing.\<close>

theorem executeIndexedOpcode_eq:
  "(if opcode = 0xDD \<or> opcode = 0xFD
    then executeOpcode b opcode s = prefix_loop (kMaxIndexPrefixesPerStep - 1) b opcode 0 s
    else executeIndexedOpcode b prefix opcode s = indexed_body (executeOpcode b) b prefix opcode s)"
proof (cases "opcode = 0xDD \<or> opcode = 0xFD")
  case True
  then show ?thesis by (auto simp: executeOpcode_def opcode_body_def)
next
  case False
  then have h: "opcode_body (\<lambda>_ s. (4, s)) b opcode = executeOpcode b opcode"
    unfolding executeOpcode_def by (intro ext opcode_body_prefixed) simp_all
  then show ?thesis
    unfolding executeIndexedOpcode_def indexed_body_plain [where f = "opcode_body (\<lambda>_ s. (4, s)) b" and g = "executeOpcode b", OF h] using False by simp
qed

end
