(* ===== verification/Z80_Decimal.thy ===== *)
theory Z80_Decimal
  imports Z80_Laws
begin

text \<open>
  DAA is decimal: what \<open>daa\<close> makes of the accumulator and the flags an addition or a subtraction of
  two packed BCD numbers left behind.
\<close>

section \<open>Decimal adjustment\<close>

definition bcd :: "nat \<Rightarrow> u8" where
  "bcd x = of_nat (16 * (x div 10) + x mod 10)"

lemma unat_bcd: "x < 100 \<Longrightarrow> unat (bcd x) = 16 * (x div 10) + x mod 10"
proof -
  assume "x < 100"
  then have "x div 10 \<le> 9" "x mod 10 \<le> 9" by auto
  then have "16 * (x div 10) + x mod 10 < 2 ^ 8" by simp
  then show ?thesis
    unfolding bcd_def by (simp only: unat_of_nat) (simp add: take_bit_nat_eq_self)
qed

lemma and_1_u8: "(f :: u8) AND kFlagC = of_bool (bit f 0)"
  by (rule bit_word_eqI) (auto simp: bit_simps)

definition daa_correction :: "nat \<Rightarrow> bool \<Rightarrow> bool \<Rightarrow> nat" where
  "daa_correction a h c = (if h \<or> a mod 16 > 9 then 6 else 0) + (if c \<or> a > 0x99 then 0x60 else 0)"

lemma daa_result:
  assumes "daa s = (c, t)"
  shows "unat (regA t) =
      (if bit (regF s) 1
       then nat ((int (unat (regA s)) - int (daa_correction (unat (regA s)) (bit (regF s) 4) (bit (regF s) 0))) mod 256)
       else (unat (regA s) + daa_correction (unat (regA s)) (bit (regF s) 4) (bit (regF s) 0)) mod 256)"
    and "bit (regF t) 0 \<longleftrightarrow> bit (regF s) 0 \<or> unat (regA s) > 0x99"
    and "bit (regF t) 1 = bit (regF s) 1"
proof -
  define a where "a = regA s"
  define k :: u8 where "k = or_if (bit (regF s) 0 \<or> unat a > 0x99) 0x60
     (or_if (bit (regF s) 4 \<or> unat (a AND 0x0F) > 9) 0x06 0)"
  have k: "unat k = daa_correction (unat a) (bit (regF s) 4) (bit (regF s) 0)"
    by (simp add: k_def or_if_def daa_correction_def nibble)
  have A: "regA t = (if bit (regF s) 1 then a - k else a + k)"
    using assms by (auto simp: daa_def Let_def flag_test and_1_u8 k_def a_def or_if_def)
  have "int (unat (a - k)) = (int (unat a) - int (unat k)) mod 256"
    using unat_diff3 [of a k 0] by simp
  then have minus: "unat (a - k) = nat ((int (unat a) - int (unat k)) mod 256)"
    by (metis nat_int)
  have plus: "unat (a + k) = (unat a + unat k) mod 256"
    by (simp add: unat_word_ariths)
  show "unat (regA t) = (if bit (regF s) 1
       then nat ((int (unat (regA s)) - int (daa_correction (unat (regA s)) (bit (regF s) 4) (bit (regF s) 0))) mod 256)
       else (unat (regA s) + daa_correction (unat (regA s)) (bit (regF s) 4) (bit (regF s) 0)) mod 256)"
    unfolding A a_def [symmetric] k [symmetric] by (simp only: minus plus split: if_split) simp
  show "bit (regF t) 0 \<longleftrightarrow> bit (regF s) 0 \<or> unat (regA s) > 0x99" "bit (regF t) 1 = bit (regF s) 1"
    using assms
    by (auto simp: daa_def Let_def flag_test and_1_u8 bit_simps bit_sz35 bit_sz35 [simplified] split: if_splits)
qed

text \<open>The sums and differences of two digit pairs are few enough to be tried one by one.\<close>

lemma decimal_add_check:
  "list_all (\<lambda>u. list_all (\<lambda>d. let a = (16 * u + d) mod 256; k = daa_correction a (d > 15) (16 * u + d > 255) in
     (16 * u + d > 255 \<or> a > 0x99) = (10 * u + d \<ge> 100) \<and>
     (a + k) mod 256 = 16 * ((10 * u + d) mod 100 div 10) + (10 * u + d) mod 10) [0..<19]) [0..<19 :: nat]"
  by code_simp

lemma decimal_sub_check:
  "list_all (\<lambda>u. list_all (\<lambda>d. let a = nat ((16 * u + d) mod 256); k = daa_correction a (d < 0) (16 * u + d < 0) in
     (16 * u + d < 0 \<or> a > 0x99) = (10 * u + d < 0) \<and>
     nat ((int a - int k) mod 256) = nat (16 * ((10 * u + d) mod 100 div 10) + (10 * u + d) mod 10)) [-9..9]) [-9..9 :: int]"
  by code_simp

lemma decimal_add:
  fixes u d :: nat
  assumes "u \<le> 18" "d \<le> 18" "a = (16 * u + d) mod 256" "k = daa_correction a (d > 15) (16 * u + d > 255)"
  shows "(16 * u + d > 255 \<or> a > 0x99) = (10 * u + d \<ge> 100) \<and>
    (a + k) mod 256 = 16 * ((10 * u + d) mod 100 div 10) + (10 * u + d) mod 10"
proof -
  have "u \<in> set [0..<19]" "d \<in> set [0..<19]" using assms(1,2) by simp_all
  then show ?thesis
    using decimal_add_check [unfolded list_all_iff Let_def, THEN bspec [of _ _ u], THEN bspec [of _ _ d]]
    unfolding assms(3,4) by blast
qed

lemma decimal_sub:
  fixes u d :: int
  assumes "- 9 \<le> u" "u \<le> 9" "- 9 \<le> d" "d \<le> 9" "a = nat ((16 * u + d) mod 256)"
    "k = daa_correction a (d < 0) (16 * u + d < 0)"
  shows "(16 * u + d < 0 \<or> a > 0x99) = (10 * u + d < 0) \<and>
    nat ((int a - int k) mod 256) = nat (16 * ((10 * u + d) mod 100 div 10) + (10 * u + d) mod 10)"
proof -
  have "u \<in> set [-9..9]" "d \<in> set [-9..9]" using assms(1-4) unfolding set_upto by simp_all
  then show ?thesis
    using decimal_sub_check [unfolded list_all_iff Let_def, THEN bspec [of _ _ u], THEN bspec [of _ _ d]]
    unfolding assms(5,6) by blast
qed

lemma flags_after:
  "bit (regF (snd (alu 0 v s))) 0 \<longleftrightarrow> unat (regA s) + unat v > 255"
  "bit (regF (snd (alu 0 v s))) 4 \<longleftrightarrow> unat (regA s) mod 16 + unat v mod 16 > 15"
  "\<not> bit (regF (snd (alu 0 v s))) 1" "regA (snd (alu 0 v s)) = regA s + v"
  "bit (regF (snd (alu 2 v s))) 0 \<longleftrightarrow> unat (regA s) < unat v"
  "bit (regF (snd (alu 2 v s))) 4 \<longleftrightarrow> unat (regA s) mod 16 < unat v mod 16"
  "bit (regF (snd (alu 2 v s))) 1" "regA (snd (alu 2 v s)) = regA s - v"
  by (auto simp: alu_def Let_def computeAddFlags_def computeSubFlags_def nibble bit_simps)

lemma carryFlag_daa:
  "carryFlag (snd (daa s)) \<longleftrightarrow> bit (regF s) 0 \<or> unat (regA s) > 0x99"
  using daa_result(2) [of s "fst (daa s)" "snd (daa s)"] by (simp add: carryFlag_bit)

lemma regA_daa:
  "unat (regA (snd (daa s))) =
     (if bit (regF s) 1
      then nat ((int (unat (regA s)) - int (daa_correction (unat (regA s)) (bit (regF s) 4) (bit (regF s) 0))) mod 256)
      else (unat (regA s) + daa_correction (unat (regA s)) (bit (regF s) 4) (bit (regF s) 0)) mod 256)"
  using daa_result(1) [of s "fst (daa s)" "snd (daa s)"] by simp

lemma daa_after_add:
  assumes "x < 100" and "y < 100"
  shows "let s2 = snd (daa (snd (alu 0 (bcd y) (setRegA (bcd x) s))))
         in regA s2 = bcd ((x + y) mod 100) \<and> (carryFlag s2 \<longleftrightarrow> x + y \<ge> 100)"
proof -
  define p q r t where d: "p = x div 10" "q = x mod 10" "r = y div 10" "t = y mod 10"
  have le: "p \<le> 9" "q \<le> 9" "r \<le> 9" "t \<le> 9" using assms by (auto simp: d)
  have xy: "x + y = 10 * (p + r) + (q + t)" by (simp add: d)
  define s1 where "s1 = snd (alu 0 (bcd y) (setRegA (bcd x) s))"
  have a: "unat (regA s1) = (16 * (p + r) + (q + t)) mod 256"
    using assms by (simp add: s1_def flags_after unat_word_ariths unat_bcd d algebra_simps)
  have f: "bit (regF s1) 0 \<longleftrightarrow> 16 * (p + r) + (q + t) > 255" "bit (regF s1) 4 \<longleftrightarrow> q + t > 15" "\<not> bit (regF s1) 1"
    using assms le by (simp_all add: s1_def flags_after flags_after [simplified] unat_bcd flip: d)
      (simp_all add: algebra_simps)
  have "(16 * (p + r) + (q + t) > 255 \<or> unat (regA s1) > 0x99) = (10 * (p + r) + (q + t) \<ge> 100) \<and>
    (unat (regA s1) + daa_correction (unat (regA s1)) (q + t > 15) (16 * (p + r) + (q + t) > 255)) mod 256 =
    16 * ((10 * (p + r) + (q + t)) mod 100 div 10) + (10 * (p + r) + (q + t)) mod 10"
    by (rule decimal_add) (use le a in simp_all)
  then have "carryFlag (snd (daa s1)) \<longleftrightarrow> x + y \<ge> 100"
    and "unat (regA (snd (daa s1))) = 16 * ((x + y) mod 100 div 10) + (x + y) mod 10"
    by (simp_all add: carryFlag_daa regA_daa f f(3) [simplified] xy)
  then show ?thesis
    by (simp add: s1_def [symmetric] word_unat_eq_iff unat_bcd mod_mod_cancel)
qed

lemma daa_after_sub:
  assumes "x < 100" and "y < 100"
  shows "let s2 = snd (daa (snd (alu 2 (bcd y) (setRegA (bcd x) s))))
         in regA s2 = bcd ((x + 100 - y) mod 100) \<and> (carryFlag s2 \<longleftrightarrow> x < y)"
proof -
  define p q r t where d: "p = x div 10" "q = x mod 10" "r = y div 10" "t = y mod 10"
  have le: "p \<le> 9" "q \<le> 9" "r \<le> 9" "t \<le> 9" using assms by (auto simp: d)
  define u e where ue: "u = int p - int r" "e = int q - int t"
  have xy: "int x = 10 * int p + int q" "int y = 10 * int r + int t"
    unfolding d by presburger+
  have bx: "int (unat (bcd x)) = 16 * int p + int q" "int (unat (bcd y)) = 16 * int r + int t"
    using assms by (simp_all only: unat_bcd) (simp_all add: d)
  define s1 where "s1 = snd (alu 2 (bcd y) (setRegA (bcd x) s))"
  have "int (unat (regA s1)) = (16 * u + e) mod 256"
    using unat_diff3 [of "bcd x" "bcd y" 0] unfolding s1_def flags_after reg_set bx
    by (simp add: ue algebra_simps)
  then have a: "unat (regA s1) = nat ((16 * u + e) mod 256)" by linarith
  have f0: "bit (regF s1) 0 \<longleftrightarrow> 16 * u + e < 0"
    unfolding s1_def flags_after reg_set ue of_nat_less_iff [where 'a = int, symmetric] bx by (simp add: algebra_simps)
  have f1: "bit (regF s1) 4 \<longleftrightarrow> e < 0" "bit (regF s1) 1"
    using assms le by (simp_all add: s1_def flags_after flags_after [simplified] unat_bcd ue flip: d)
  have "(16 * u + e < 0 \<or> unat (regA s1) > 0x99) = (10 * u + e < 0) \<and>
    nat ((int (unat (regA s1)) - int (daa_correction (unat (regA s1)) (e < 0) (16 * u + e < 0))) mod 256) =
    nat (16 * ((10 * u + e) mod 100 div 10) + (10 * u + e) mod 10)"
    by (rule decimal_sub) (use le a in \<open>simp_all add: ue\<close>)
  then have "carryFlag (snd (daa s1)) \<longleftrightarrow> 10 * u + e < 0"
    and A: "unat (regA (snd (daa s1))) = nat (16 * ((10 * u + e) mod 100 div 10) + (10 * u + e) mod 10)"
    by (simp_all add: carryFlag_daa regA_daa f0 f1 f1(2) [simplified])
  moreover have v: "10 * u + e = int x - int y" by (simp add: xy ue)
  moreover have "nat (16 * ((int x - int y) mod 100 div 10) + (int x - int y) mod 10) =
      16 * ((x + 100 - y) mod 100 div 10) + (x + 100 - y) mod 100 mod 10"
  proof -
    have "(int x - int y) mod 100 = int ((x + 100 - y) mod 100)"
      using assms by (simp add: zmod_int of_nat_diff) (metis add.commute add_diff_eq mod_add_self1)
    moreover have "(int x - int y) mod 10 = (int x - int y) mod 100 mod 10"
      by (simp add: mod_mod_cancel)
    ultimately have "16 * ((int x - int y) mod 100 div 10) + (int x - int y) mod 10 =
        int (16 * ((x + 100 - y) mod 100 div 10) + (x + 100 - y) mod 100 mod 10)"
      by (simp only: zdiv_int zmod_int of_nat_add of_nat_mult of_nat_numeral)
    then show ?thesis by (simp only: nat_int)
  qed
  ultimately show ?thesis
    by (simp add: s1_def [symmetric] word_unat_eq_iff unat_bcd)
qed

text \<open>C15: DAA makes ADD and SUB decimal: for two packed BCD numbers below 100 the accumulator holds
  the packed BCD sum (or difference) modulo 100 afterwards and the carry says whether the decimal
  operation carried (or borrowed).\<close>

theorem daa_decimal:
  assumes "x < 100" and "y < 100"
  shows "let s1 = snd (alu (if subtract then 2 else 0) (bcd y) (setRegA (bcd x) s)); s2 = snd (daa s1)
         in if subtract then regA s2 = bcd ((x + 100 - y) mod 100) \<and> (carryFlag s2 \<longleftrightarrow> x < y)
            else regA s2 = bcd ((x + y) mod 100) \<and> (carryFlag s2 \<longleftrightarrow> x + y \<ge> 100)"
  using daa_after_add [OF assms, of s] daa_after_sub [OF assms, of s] by (simp add: Let_def)

theorem daa_decimal_witness:
  "let s1 = snd (alu 0 (bcd 48) (setRegA (bcd 75) (power_on ()))); s2 = snd (daa s1)
   in regA s2 = bcd 23 \<and> carryFlag s2"
  using daa_decimal [of 75 48 False "power_on ()"] by (simp add: Let_def)

end
