(* ===== verification/Z80_State.thy ===== *)
theory Z80_State
  imports Z80_Laws
begin

text \<open>
  The 32-byte state vector of the interpreter and the register list of the analysis interface
  (\<open>exportState\<close>, \<open>importState\<close>, \<open>analysisRegisters\<close>, \<open>setAnalysisRegisters\<close>), with their round trips.
\<close>

section \<open>State vector\<close>

definition z80_exportState :: "'w z80 \<Rightarrow> u8 list" where
  "z80_exportState s =
     le16 (AF s) @ le16 (BC s) @ le16 (DE s) @ le16 (HL s) @ le16 (IX s) @ le16 (IY s) @
     le16 (SP s) @ le16 (PC s) @ le16 (AF' s) @ le16 (BC' s) @ le16 (DE' s) @ le16 (HL' s) @
     [regI s, regR s] @ put_bool (IFF1 s) @ put_bool (IFF2 s) @ put_bool (IME s) @
     [of_int (imeEnableDelay s)] @ put_bool (halted s) @ [interruptMode s]"

definition z80_truncated :: exn where
  "z80_truncated = Invalid_argument ''Z80 state truncated''"

definition z80_bad_bool :: exn where
  "z80_bad_bool = Invalid_argument ''Z80 state boolean invalid''"

definition z80_invalid :: exn where
  "z80_invalid = Invalid_argument ''Z80 state invalid''"

definition z80_reader :: "'w z80 \<Rightarrow> 'w z80 reader" where
  "z80_reader s =
     (let w = rd_u16 z80_truncated; byte = rd_u8 z80_truncated; flag = rd_bool z80_truncated z80_bad_bool in
      rd_bind w (\<lambda>af. rd_bind w (\<lambda>bc. rd_bind w (\<lambda>de. rd_bind w (\<lambda>hl.
      rd_bind w (\<lambda>ix. rd_bind w (\<lambda>iy. rd_bind w (\<lambda>sp. rd_bind w (\<lambda>pc.
      rd_bind w (\<lambda>af'. rd_bind w (\<lambda>bc'. rd_bind w (\<lambda>de'. rd_bind w (\<lambda>hl'.
      rd_bind byte (\<lambda>i. rd_bind byte (\<lambda>r.
      rd_bind flag (\<lambda>iff1. rd_bind flag (\<lambda>iff2. rd_bind flag (\<lambda>ime.
      rd_bind byte (\<lambda>delay. rd_bind flag (\<lambda>halt. rd_bind byte (\<lambda>mode.
      rd_bind rd_at_end (\<lambda>ended. rd_bind (rd_guard (\<not> (mode > 2 \<or> \<not> ended)) z80_invalid) (\<lambda>_.
      rd_return (s\<lparr>AF := af, BC := bc, DE := de, HL := hl, IX := ix, IY := iy, SP := sp, PC := pc,
        AF' := af', BC' := bc', DE' := de', HL' := hl', regI := i, regR := r,
        IFF1 := iff1, IFF2 := iff2, IME := ime, imeEnableDelay := uint delay, halted := halt,
        interruptMode := mode\<rparr>))))))))))))))))))))))))"

definition z80_importState :: "'w z80 \<Rightarrow> u8 list \<Rightarrow> 'w z80 result" where
  "z80_importState s bs = rd_run (z80_reader s) bs"

text \<open>The registers as the analysis interface hands them out and takes them back.\<close>

definition analysisRegisters :: "'w z80 \<Rightarrow> u16 list" where
  "analysisRegisters s =
     [AF s, BC s, DE s, HL s, SP s, PC s, IX s, IY s, AF' s, BC' s, DE' s, HL' s, ucast (regI s),
      ucast (regR s), of_bool (IFF1 s), of_bool (IFF2 s), of_bool (IME s), ucast (interruptMode s),
      of_bool (halted s), of_int (imeEnableDelay s)]"

definition setAnalysisRegisters :: "'w z80 \<Rightarrow> u16 list \<Rightarrow> 'w z80 result" where
  "setAnalysisRegisters s r =
     (if r ! 12 > 255 \<or> r ! 13 > 255 \<or> r ! 14 > 1 \<or> r ! 15 > 1 \<or> r ! 16 > 1 \<or> r ! 17 > 2 \<or>
         r ! 18 > 1 \<or> r ! 19 > 2
      then Inl (Invalid_argument ''invalid Z80 architectural snapshot'')
      else Inr (s\<lparr>AF := r ! 0, BC := r ! 1, DE := r ! 2, HL := r ! 3, SP := r ! 4, PC := r ! 5,
        IX := r ! 6, IY := r ! 7, AF' := r ! 8, BC' := r ! 9, DE' := r ! 10, HL' := r ! 11,
        regI := ucast (r ! 12), regR := ucast (r ! 13), IFF1 := r ! 14 \<noteq> 0, IFF2 := r ! 15 \<noteq> 0,
        IME := r ! 16 \<noteq> 0, interruptMode := ucast (r ! 17), halted := r ! 18 \<noteq> 0,
        imeEnableDelay := uint (r ! 19)\<rparr>))"

text \<open>What the other CPU becomes: everything but the world it is wired to.\<close>

definition z80_restored :: "'w z80 \<Rightarrow> 'w z80 \<Rightarrow> 'w z80" where
  "z80_restored t s = s\<lparr>world := world t\<rparr>"

definition z80_savable :: "'w z80 \<Rightarrow> bool" where
  "z80_savable s \<longleftrightarrow> 0 \<le> imeEnableDelay s \<and> imeEnableDelay s \<le> 2 \<and> interruptMode s \<le> 2"

lemma z80_read_written:
  assumes "z80_savable s"
  shows "z80_importState t (z80_exportState s) = Inr (z80_restored t s)"
proof -
  have d: "uint (of_int (imeEnableDelay s) :: u8) = imeEnableDelay s" "\<not> 2 < interruptMode s"
    using assms by (auto simp: not_less z80_savable_def uint_word_of_int_eq take_bit_int_eq_self)
  show ?thesis
    unfolding z80_importState_def z80_exportState_def z80_reader_def Let_def append_assoc
    by (simp add: reader_steps d z80_restored_def)
qed

interpretation z80_state: state_codec z80_exportState z80_importState z80_savable "\<lambda>_ _. True" z80_restored
proof
  fix s t :: "'w z80"
  assume "z80_savable s"
  then show "z80_importState t (z80_exportState s) = Inr (z80_restored t s)" by (rule z80_read_written)
  show "z80_exportState (z80_restored t s) = z80_exportState s"
    by (simp add: z80_restored_def z80_exportState_def)
qed

lemma length_z80_exportState: "length (z80_exportState s) = 32"
  by (simp add: z80_exportState_def)

lemma analysis_roundtrip:
  assumes "z80_savable s"
  shows "setAnalysisRegisters t (analysisRegisters s) = Inr (z80_restored t s)"
proof -
  have d: "uint (of_int (imeEnableDelay s) :: u16) = imeEnableDelay s" "(of_int (imeEnableDelay s) :: u16) \<le> 2"
    "interruptMode s \<le> 2"
    using assms by (auto simp: z80_savable_def uint_word_of_int_eq take_bit_int_eq_self word_le_def)
  have b: "(ucast (v :: u8) :: u16) \<le> 255" for v
    using unat_u8_less [of v] by (simp add: word_le_nat_alt unsigned_ucast_eq take_bit_nat_eq_self)
  have m: "(ucast (interruptMode s) :: u16) \<le> 2"
    using d(3) by (simp add: word_le_nat_alt unsigned_ucast_eq take_bit_nat_eq_self)
  have u: "ucast (ucast (v :: u8) :: u16) = v" for v
    by (rule bit_word_eqI) (simp add: bit_simps)
  show ?thesis
    using b d m by (simp add: setAnalysisRegisters_def analysisRegisters_def z80_restored_def u not_le not_less)
qed

lemma ok_savable: "z80_ok s \<Longrightarrow> z80_savable s"
  by (simp add: z80_ok_def z80_savable_def)

text \<open>Any CPU in a consistent interrupt state, so any reachable one, survives both ways out: another
  CPU that imports its 32 state bytes, or its 20 analysis registers, becomes equal to it in every
  register and flag and keeps the memory it is wired to.\<close>

theorem z80_state_roundtrip:
  assumes "z80_ok s"
  shows "length (z80_exportState s) = 32 \<and>
    z80_importState t (z80_exportState s) = Inr (s\<lparr>world := world t\<rparr>) \<and>
    setAnalysisRegisters t (analysisRegisters s) = Inr (s\<lparr>world := world t\<rparr>)"
  using z80_state.import_export [OF ok_savable [OF assms], of t] analysis_roundtrip [OF ok_savable [OF assms], of t]
  by (simp add: length_z80_exportState z80_restored_def)

theorem z80_state_roundtrip_witness:
  "z80_importState (power_on True) (z80_exportState (power_on False\<lparr>HL := 0x1234\<rparr>)) =
     Inr (power_on True\<lparr>HL := 0x1234\<rparr>)"
proof -
  have "z80_ok (power_on False\<lparr>HL := 0x1234\<rparr>)"
    by (simp add: power_on_def z80_reset_def z80_ok_def)
  from z80_state_roundtrip [OF this, of "power_on True"] show ?thesis
    by (simp add: power_on_def z80_reset_def)
qed

end
