(* ===== verification/GG_VDP.thy ===== *)
theory GG_VDP
  imports Prelude
begin

text \<open>
  The video display processor of \<open>src/cores/gamegear/GameGearVDP.cpp\<close>: its memories and registers,
  the data and control ports, scanline timing with the line and frame interrupts, sprite status,
  the decoded palette cache and the state vector. The renderer is in \<open>GG_VDP_Render\<close>. The analysis
  trace (\<open>traceByte\<close>, \<open>traceState\<close>) only records and is left out.
\<close>

section \<open>State\<close>

datatype AccessMode = VramRead | VramWrite | RegisterWrite | CramWrite

record vdp =
  vram :: "u8 list"
  oam :: "u8 list"
  registers :: "u8 list"
  cram :: "u8 list"
  decodedCram :: "u32 list"
  pendingCycles :: u32
  scanline :: u16
  lastReadyScanline :: u8
  hCounter :: u8
  latchedHCounter :: u8
  hCounterLatched :: bool
  scanlineReadyPending :: bool
  vblankPending :: bool
  frameInterruptPending :: bool
  lineInterruptPending :: bool
  irqAsserted :: bool
  spriteOverflowPending :: bool
  spriteCollisionPending :: bool
  lastStatusScanline :: u8
  statusScanlineConsumed :: bool
  dataAddress :: u16
  commandLow :: u8
  readBuffer :: u8
  lineCounter :: u8
  verticalScrollLatch :: u8
  accessMode :: AccessMode
  commandLatchPending :: bool
  smsMode :: bool

definition kCyclesPerScanline :: u32 where "kCyclesPerScanline = 228"
definition kTotalScanlines :: u16 where "kTotalScanlines = 262"
definition kVramSize :: nat where "kVramSize = 0x4000"

definition new_vdp :: vdp where
  "new_vdp =
     \<lparr>vram = replicate 0x4000 0, oam = replicate 0xA0 0, registers = replicate 0xB 0,
      cram = replicate 0x40 0, decodedCram = replicate 32 0, pendingCycles = 0, scanline = 0,
      lastReadyScanline = 0, hCounter = 0, latchedHCounter = 0, hCounterLatched = False,
      scanlineReadyPending = False, vblankPending = False, frameInterruptPending = False,
      lineInterruptPending = False, irqAsserted = False, spriteOverflowPending = False,
      spriteCollisionPending = False, lastStatusScanline = 0xFF, statusScanlineConsumed = True,
      dataAddress = 0, commandLow = 0, readBuffer = 0, lineCounter = 0, verticalScrollLatch = 0,
      accessMode = VramRead, commandLatchPending = False, smsMode = False\<rparr>"

section \<open>Register decoding\<close>

definition displayEnabled :: "vdp \<Rightarrow> bool" where
  "displayEnabled v \<longleftrightarrow> registers v ! 1 AND 0x40 \<noteq> 0"

definition mode4Enabled :: "vdp \<Rightarrow> bool" where
  "mode4Enabled v \<longleftrightarrow> registers v ! 0 AND 0x04 \<noteq> 0"

definition activeDisplayLines :: "vdp \<Rightarrow> nat" where
  "activeDisplayLines v =
     (let m1 = (registers v ! 1 AND 0x10 \<noteq> 0); m3 = (registers v ! 1 AND 0x08 \<noteq> 0) in
      if smsMode v \<and> mode4Enabled v \<and> registers v ! 0 AND 0x02 \<noteq> 0
      then (if m1 \<and> \<not> m3 then 224 else if \<not> m1 \<and> m3 then 240 else 192)
      else 192)"

definition vCounterValue :: "vdp \<Rightarrow> u8" where
  "vCounterValue v =
     (if activeDisplayLines v = 224
      then (if scanline v \<le> 0xEA then ucast (scanline v) else ucast (scanline v - 6))
      else if activeDisplayLines v = 240 then ucast (scanline v AND 0x00FF)
      else (if scanline v \<le> 0xDA then ucast (scanline v) else ucast (scanline v - 6)))"

definition spriteTallMode :: "vdp \<Rightarrow> bool" where
  "spriteTallMode v \<longleftrightarrow> registers v ! 1 AND 0x02 \<noteq> 0"

definition spriteZoomMode :: "vdp \<Rightarrow> bool" where
  "spriteZoomMode v \<longleftrightarrow> registers v ! 1 AND 0x01 \<noteq> 0"

definition nameTableBase :: "vdp \<Rightarrow> nat" where
  "nameTableBase v =
     (let reg2 = registers v ! 2 in
      if mode4Enabled v \<and> activeDisplayLines v \<noteq> 192
      then 0x0700 + unat (drop_bit 2 reg2 AND 0x03) * 0x1000
      else unat (reg2 AND 0x0E) * 2 ^ 10)"

definition spriteAttributeTableBase :: "vdp \<Rightarrow> nat" where
  "spriteAttributeTableBase v =
     (let reg5 = registers v ! 5 in if reg5 = 0 then 0x3F00 else unat (reg5 AND 0x7E) * 2 ^ 7)"

definition spriteGeneratorBase :: "vdp \<Rightarrow> nat" where
  "spriteGeneratorBase v = (if registers v ! 6 AND 0x04 \<noteq> 0 then 0x2000 else 0)"

definition recomputeIrqAsserted :: "vdp \<Rightarrow> vdp" where
  "recomputeIrqAsserted v =
     (let vblankEnabled = (registers v ! 1 AND 0x20 \<noteq> 0); lineEnabled = (registers v ! 0 AND 0x10 \<noteq> 0)
      in v\<lparr>irqAsserted := frameInterruptPending v \<and> vblankEnabled \<or> lineInterruptPending v \<and> lineEnabled\<rparr>)"

section \<open>Palette\<close>

definition paletteColor :: "u8 \<Rightarrow> u32" where
  "paletteColor shade =
     (let k = shade AND 0x03 in
      if k = 0 then 0xFFE0F8D0 else if k = 1 then 0xFF88C070 else if k = 2 then 0xFF346856 else 0xFF081820)"

definition argb :: "u8 \<Rightarrow> u8 \<Rightarrow> u8 \<Rightarrow> u32" where
  "argb red green blue =
     0xFF000000 OR push_bit 16 (ucast red) OR push_bit 8 (ucast green) OR ucast blue"

definition colorFromCramWord :: "u16 \<Rightarrow> u32" where
  "colorFromCramWord w =
     argb (ucast ((w AND 0x000F) * 17)) (ucast ((drop_bit 4 w AND 0x000F) * 17))
       (ucast ((drop_bit 8 w AND 0x000F) * 17))"

definition colorFromSms :: "u8 \<Rightarrow> u32" where
  "colorFromSms c =
     argb ((c AND 0x03) * 85) ((drop_bit 2 c AND 0x03) * 85) ((drop_bit 4 c AND 0x03) * 85)"

text \<open>The colour \<open>updateDecodedCramEntry\<close> computes for an index already reduced modulo 32.\<close>

definition decodeEntry :: "vdp \<Rightarrow> nat \<Rightarrow> u32" where
  "decodeEntry v idx =
     (if smsMode v then
        (let smsIndex = idx mod 0x20 in
         if smsIndex < length (cram v) then colorFromSms (cram v ! smsIndex)
         else paletteColor (of_nat idx AND 0x03))
      else
        (let byteIndex = idx * 2 in
         if byteIndex + 1 \<ge> length (cram v) then paletteColor (of_nat idx AND 0x03)
         else
           (let ev = cram v ! byteIndex; od = cram v ! (byteIndex + 1)
            in colorFromCramWord (ucast (ev AND 0x0F) OR ucast (ev AND 0xF0) OR
                                  push_bit 8 (ucast (od AND 0x0F))))))"

definition updateDecodedCramEntry :: "nat \<Rightarrow> vdp \<Rightarrow> vdp" where
  "updateDecodedCramEntry colorIndex v =
     (let idx = colorIndex mod length (decodedCram v)
      in v\<lparr>decodedCram := (decodedCram v)[idx := decodeEntry v idx]\<rparr>)"

definition recomputeDecodedCramCache :: "vdp \<Rightarrow> vdp" where
  "recomputeDecodedCramCache v = fold updateDecodedCramEntry [0..<length (decodedCram v)] v"

definition setWord :: "nat \<Rightarrow> u8 \<Rightarrow> u8 \<Rightarrow> u8 \<Rightarrow> vdp \<Rightarrow> vdp" where
  "setWord colorIndex red green blue v =
     (let byteIndex = colorIndex * 2 in
      if byteIndex + 1 \<ge> length (cram v) then v
      else v\<lparr>cram := (cram v)[byteIndex := push_bit 4 (green AND 0x0F) OR (red AND 0x0F),
                              byteIndex + 1 := blue AND 0x0F]\<rparr>)"

definition seedDefaultCram :: "vdp \<Rightarrow> vdp" where
  "seedDefaultCram v =
     (let v = fold (\<lambda>i. setWord i 0 0 0) [0..<32] v;
          v = setWord 0 14 15 13 v; v = setWord 1 8 12 7 v; v = setWord 2 3 6 5 v;
          v = setWord 3 0 1 2 v; v = setWord 16 14 15 13 v; v = setWord 17 15 0 0 v;
          v = setWord 18 0 15 0 v; v = setWord 19 0 0 15 v
      in setWord 20 15 15 15 v)"

definition setSmsMode :: "bool \<Rightarrow> vdp \<Rightarrow> vdp" where
  "setSmsMode enabled v = recomputeDecodedCramCache (v\<lparr>smsMode := enabled\<rparr>)"

definition debugDecodedCramColor :: "vdp \<Rightarrow> nat \<Rightarrow> u32" where
  "debugDecodedCramColor v colorIndex = decodedCram v ! (colorIndex mod length (decodedCram v))"

definition sampleCramColor :: "vdp \<Rightarrow> u8 \<Rightarrow> u8 \<Rightarrow> u32" where
  "sampleCramColor v paletteSelect colorCode =
     (let colorIndex = unat (paletteSelect AND 0x01) * 16 + unat (colorCode AND 0x0F) in
      if colorIndex \<ge> length (decodedCram v) then paletteColor (colorCode AND 0x03)
      else decodedCram v ! colorIndex)"

section \<open>Reset\<close>

definition hideSprites :: "vdp \<Rightarrow> vdp" where
  "hideSprites v =
     (let satBase = spriteAttributeTableBase v in
      if satBase + 64 \<le> length (vram v)
      then v\<lparr>vram := fold (\<lambda>i m. m[satBase + i := 0xE0]) [0..<64] (vram v)\<rparr>
      else v)"

definition vdp_reset :: "vdp \<Rightarrow> vdp" where
  "vdp_reset v =
     (let v = v\<lparr>vram := replicate (length (vram v)) 0, oam := replicate (length (oam v)) 0,
              registers := replicate (length (registers v)) 0, cram := replicate (length (cram v)) 0,
              pendingCycles := 0, scanline := 0, lastReadyScanline := 0, hCounter := 0,
              latchedHCounter := 0, hCounterLatched := False, scanlineReadyPending := False,
              vblankPending := False, frameInterruptPending := False, lineInterruptPending := False,
              irqAsserted := False, spriteOverflowPending := False, spriteCollisionPending := False,
              lastStatusScanline := 0xFF, statusScanlineConsumed := True\<rparr>;
          v = v\<lparr>registers := (registers v)[2 := 0xFF, 5 := 0xFF, 6 := 0xFF, 7 := 0x00]\<rparr>;
          v = v\<lparr>dataAddress := 0, commandLow := 0, readBuffer := 0, lineCounter := 0,
              verticalScrollLatch := 0, accessMode := VramRead, commandLatchPending := False\<rparr>
      in hideSprites (recomputeDecodedCramCache (seedDefaultCram v)))"

section \<open>Sprite status of a scanline\<close>

definition samplePatternColor :: "vdp \<Rightarrow> nat \<Rightarrow> u16 \<Rightarrow> nat \<Rightarrow> nat \<Rightarrow> u8" where
  "samplePatternColor v patternBase tileIndex pixelX pixelY =
     (let n = length (vram v);
          tileBase = (patternBase + unat tileIndex * 32) mod n;
          rowBase = (tileBase + (pixelY mod 8) * 4) mod n;
          plane0 = vram v ! rowBase; plane1 = vram v ! ((rowBase + 1) mod n);
          plane2 = vram v ! ((rowBase + 2) mod n); plane3 = vram v ! ((rowBase + 3) mod n);
          b = 7 - pixelX mod 8
      in push_bit 3 (drop_bit b plane3 AND 1) OR push_bit 2 (drop_bit b plane2 AND 1) OR
         push_bit 1 (drop_bit b plane1 AND 1) OR (drop_bit b plane0 AND 1))"

text \<open>The inner loop over the pixels of one sprite row: which screen columns are taken, and
  whether an opaque pixel met a taken one.\<close>

fun occupy :: "nat option list \<Rightarrow> bool list \<Rightarrow> bool \<Rightarrow> bool list \<times> bool" where
  "occupy [] taken hit = (taken, hit)"
| "occupy (None # cs) taken hit = occupy cs taken hit"
| "occupy (Some x # cs) taken hit =
     (if taken ! x then occupy cs taken True else occupy cs (taken[x := True]) hit)"

definition spritePixels :: "vdp \<Rightarrow> int \<Rightarrow> u16 \<Rightarrow> nat \<Rightarrow> nat \<Rightarrow> nat option list" where
  "spritePixels v spriteX tile row zoom =
     map (\<lambda>px. let screenX = spriteX + int px in
            if screenX < 0 \<or> screenX \<ge> 256 then None
            else if samplePatternColor v (spriteGeneratorBase v) tile (px div zoom) (row mod 8) = 0 then None
            else Some (nat screenX)) [0..<8 * zoom]"

record status_scan =
  occupied :: "bool list"
  spritesOnLine :: nat
  overflow :: bool
  collision :: bool

fun scanSprites :: "vdp \<Rightarrow> u8 \<Rightarrow> nat list \<Rightarrow> status_scan \<Rightarrow> status_scan" where
  "scanSprites v line [] a = a"
| "scanSprites v line (sprite # rest) a =
     (let satBase = spriteAttributeTableBase v;
          zoom = (if spriteZoomMode v then 2 else 1 :: nat);
          spriteHeight = (if spriteTallMode v then 16 else 8) * zoom;
          yIndex = satBase + sprite
      in if yIndex \<ge> length (vram v) then a
         else (let rawY = vram v ! yIndex in
           if activeDisplayLines v = 192 \<and> rawY = 0xD0 then a
           else if rawY = 0xE0 then scanSprites v line rest a
           else (let spriteY = unat rawY + 1 in
             if unat line < spriteY \<or> unat line \<ge> spriteY + spriteHeight then scanSprites v line rest a
             else (let count = spritesOnLine a + 1;
                       xyBase = (satBase + 0x80 + sprite * 2) mod length (vram v);
                       spriteX = int (unat (vram v ! xyBase)) - (if registers v ! 0 AND 0x08 \<noteq> 0 then 8 else 0);
                       tileIndex = (ucast (vram v ! ((xyBase + 1) mod length (vram v))) :: u16);
                       tileIndex = (if spriteTallMode v then tileIndex AND 0x00FE else tileIndex);
                       row = (unat line - spriteY) div zoom;
                       rowTileOffset = (if spriteTallMode v \<and> row \<ge> 8 then 1 else 0);
                       (taken, hit) = occupy (spritePixels v spriteX (tileIndex + rowTileOffset) row zoom)
                                        (occupied a) (collision a)
                   in scanSprites v line rest
                        (a\<lparr>spritesOnLine := count, overflow := overflow a \<or> count > 8,
                           occupied := taken, collision := hit\<rparr>)))))"

definition evaluateScanlineStatus :: "u8 \<Rightarrow> vdp \<Rightarrow> vdp" where
  "evaluateScanlineStatus line v =
     (let a = scanSprites v line [0..<64]
                \<lparr>occupied = replicate 256 False, spritesOnLine = 0,
                 overflow = spriteOverflowPending v, collision = spriteCollisionPending v\<rparr>
      in v\<lparr>lastStatusScanline := line, statusScanlineConsumed := False,
           spriteOverflowPending := overflow a, spriteCollisionPending := collision a\<rparr>)"

section \<open>Timing\<close>

text \<open>One scanline of the loop of \<open>step\<close>: the status of the line that ends, the move to the next
  line, the line counter, then the frame interrupt.\<close>

definition end_line :: "bool \<Rightarrow> vdp \<Rightarrow> vdp" where
  "end_line displayOn v =
     (let currentLine = scanline v; currentV = vCounterValue v in
      if displayOn \<and> unat currentLine < activeDisplayLines v
      then (let v = evaluateScanlineStatus currentV v
            in v\<lparr>lastReadyScanline := currentV, scanlineReadyPending := True\<rparr>)
      else v)"

definition next_line :: "vdp \<Rightarrow> vdp" where
  "next_line v =
     (let v = v\<lparr>scanline := scanline v + 1\<rparr>
      in if scanline v \<ge> kTotalScanlines then v\<lparr>scanline := 0\<rparr> else v)"

definition count_line :: "nat \<Rightarrow> vdp \<Rightarrow> vdp" where
  "count_line activeLines v =
     (if unat (scanline v) \<le> activeLines
      then (if lineCounter v = 0
            then recomputeIrqAsserted (v\<lparr>lineCounter := registers v ! 0x0A, lineInterruptPending := True\<rparr>)
            else v\<lparr>lineCounter := lineCounter v - 1\<rparr>)
      else v\<lparr>lineCounter := registers v ! 0x0A, verticalScrollLatch := registers v ! 9\<rparr>)"

definition vdp_line :: "bool \<Rightarrow> vdp \<Rightarrow> vdp" where
  "vdp_line displayOn v =
     (let v = v\<lparr>pendingCycles := pendingCycles v - kCyclesPerScanline\<rparr>;
          activeLines = activeDisplayLines v;
          v = count_line activeLines (next_line (end_line displayOn v))
      in if unat (scanline v) = activeLines + 1
         then recomputeIrqAsserted (v\<lparr>vblankPending := True, frameInterruptPending := True\<rparr>)
         else v)"

lemma pendingCycles_recompute [simp]: "pendingCycles (recomputeIrqAsserted v) = pendingCycles v"
  by (simp add: recomputeIrqAsserted_def Let_def)

lemma pendingCycles_evaluate [simp]: "pendingCycles (evaluateScanlineStatus l v) = pendingCycles v"
  by (simp add: evaluateScanlineStatus_def Let_def)

lemma pendingCycles_line [simp]:
  "pendingCycles (vdp_line on v) = pendingCycles v - kCyclesPerScanline"
  by (simp add: vdp_line_def count_line_def next_line_def end_line_def Let_def)

lemma unat_minus_scanline:
  "p \<ge> kCyclesPerScanline \<Longrightarrow> unat (p - kCyclesPerScanline) = unat p - 228"
  by (simp add: kCyclesPerScanline_def unat_sub)

function vdp_lines :: "bool \<Rightarrow> vdp \<Rightarrow> vdp" where
  "vdp_lines displayOn v =
     (if pendingCycles v \<ge> kCyclesPerScanline then vdp_lines displayOn (vdp_line displayOn v) else v)"
  by auto
termination
proof (relation "measure (\<lambda>(_, v). unat (pendingCycles v))", goal_cases)
  case (2 on v)
  then show ?case
    by (simp add: unat_minus_scanline) (simp add: kCyclesPerScanline_def word_le_nat_alt)
qed simp

declare vdp_lines.simps [simp del]

definition vdp_step :: "u32 \<Rightarrow> vdp \<Rightarrow> vdp" where
  "vdp_step cpuCycles v =
     (let displayOn = displayEnabled v;
          v = vdp_lines displayOn (v\<lparr>pendingCycles := pendingCycles v + cpuCycles\<rparr>)
      in v\<lparr>hCounter := ucast (pendingCycles v * 256 div kCyclesPerScanline)\<rparr>)"

definition cyclesUntilNextScanline :: "vdp \<Rightarrow> u32" where
  "cyclesUntilNextScanline v =
     (if pendingCycles v < kCyclesPerScanline then kCyclesPerScanline - pendingCycles v else 0)"

definition hasPendingRetirementEvent :: "vdp \<Rightarrow> bool" where
  "hasPendingRetirementEvent v \<longleftrightarrow> scanlineReadyPending v \<or> vblankPending v \<or> irqAsserted v"

section \<open>Compatibility windows\<close>

definition vdp_readVram :: "vdp \<Rightarrow> u16 \<Rightarrow> u8" where
  "vdp_readVram v address =
     (let index = int (unat address) - 0x8000 in
      if 0 \<le> index \<and> nat index < length (vram v) then vram v ! nat index else 0xFF)"

definition vdp_writeVram :: "u16 \<Rightarrow> u8 \<Rightarrow> vdp \<Rightarrow> vdp" where
  "vdp_writeVram address value v =
     (let index = int (unat address) - 0x8000 in
      if 0 \<le> index \<and> nat index < length (vram v) then v\<lparr>vram := (vram v)[nat index := value]\<rparr> else v)"

text \<open>Where a field of an OAM entry lives in the sprite attribute table, if it does.\<close>

definition oam_cell :: "vdp \<Rightarrow> nat \<Rightarrow> nat option" where
  "oam_cell v index =
     (let spriteIndex = index div 4; field = index mod 4;
          satBase = spriteAttributeTableBase v;
          xBase = (satBase + 0x80) mod length (vram v)
      in if spriteIndex \<ge> 64 \<or> satBase \<ge> length (vram v) then None
         else if field = 0 then Some (satBase + spriteIndex)
         else if field = 1 then Some ((xBase + spriteIndex * 2) mod length (vram v))
         else if field = 2 then Some ((xBase + spriteIndex * 2 + 1) mod length (vram v))
         else None)"

definition vdp_readOam :: "vdp \<Rightarrow> u16 \<Rightarrow> u8" where
  "vdp_readOam v address =
     (let index = int (unat address) - 0xFE00 in
      if index < 0 \<or> nat index \<ge> length (oam v) then 0xFF
      else (case oam_cell v (nat index) of Some k \<Rightarrow> vram v ! k | None \<Rightarrow> oam v ! nat index))"

definition vdp_writeOam :: "u16 \<Rightarrow> u8 \<Rightarrow> vdp \<Rightarrow> vdp" where
  "vdp_writeOam address value v =
     (let index = int (unat address) - 0xFE00 in
      if 0 \<le> index \<and> nat index < length (oam v)
      then (let v = v\<lparr>oam := (oam v)[nat index := value]\<rparr>
            in case oam_cell v (nat index) of Some k \<Rightarrow> v\<lparr>vram := (vram v)[k := value]\<rparr> | None \<Rightarrow> v)
      else v)"

definition vdp_writeCompatRegister :: "nat \<Rightarrow> u8 \<Rightarrow> vdp \<Rightarrow> vdp" where
  "vdp_writeCompatRegister index value v =
     (if index \<ge> length (registers v) then v
      else
        (let v = v\<lparr>registers := (registers v)[index := value]\<rparr>;
             v = (if index = 9 \<and> unat (scanline v) > activeDisplayLines v
                  then v\<lparr>verticalScrollLatch := value\<rparr> else v);
             v = (if index = 0x0A \<and> scanline v = 0 then v\<lparr>lineCounter := value\<rparr> else v)
         in recomputeIrqAsserted v))"

definition vdp_readCompatRegister :: "vdp \<Rightarrow> nat \<Rightarrow> u8" where
  "vdp_readCompatRegister v index = (if index \<ge> length (registers v) then 0xFF else registers v ! index)"

definition vdp_readRegister :: "vdp \<Rightarrow> u16 \<Rightarrow> u8" where
  "vdp_readRegister v address =
     (if address \<ge> 0xFF40 \<and> address \<le> 0xFF4B then vdp_readCompatRegister v (unat (address - 0xFF40)) else 0xFF)"

definition vdp_writeRegister :: "u16 \<Rightarrow> u8 \<Rightarrow> vdp \<Rightarrow> vdp" where
  "vdp_writeRegister address value v =
     (if address < 0xFF40 \<or> address > 0xFF4B then v
      else vdp_writeCompatRegister (unat (address - 0xFF40)) value v)"

section \<open>Ports\<close>

definition next_address :: "u16 \<Rightarrow> u16" where
  "next_address a = (a + 1) AND 0x3FFF"

definition readDataPort :: "vdp \<Rightarrow> u8 \<times> vdp" where
  "readDataPort v =
     (readBuffer v,
      v\<lparr>commandLatchPending := False,
        readBuffer := vram v ! unat (dataAddress v AND 0x3FFF),
        dataAddress := next_address (dataAddress v)\<rparr>)"

definition writeDataPort :: "u8 \<Rightarrow> vdp \<Rightarrow> vdp" where
  "writeDataPort value v =
     (let v = v\<lparr>commandLatchPending := False, readBuffer := value\<rparr>
      in if accessMode v = CramWrite then
           (let cramSize = (if smsMode v then 0x20 else length (cram v));
                cramIndex = unat (dataAddress v) mod cramSize
            in if smsMode v then
                 (let v = v\<lparr>cram := (cram v)[cramIndex := value AND 0x3F]\<rparr>;
                      v = updateDecodedCramEntry (cramIndex mod length (decodedCram v)) v
                  in v\<lparr>dataAddress := next_address (dataAddress v)\<rparr>)
               else
                 (let v = v\<lparr>cram := (cram v)[cramIndex := value]\<rparr>;
                      colorIdx = cramIndex div 2;
                      v = (if colorIdx < length (decodedCram v) then updateDecodedCramEntry colorIdx v else v)
                  in v\<lparr>dataAddress := next_address (dataAddress v)\<rparr>))
         else v\<lparr>vram := (vram v)[unat (dataAddress v AND 0x3FFF) := value],
                dataAddress := next_address (dataAddress v)\<rparr>)"

definition access_mode_of :: "u8 \<Rightarrow> AccessMode" where
  "access_mode_of c =
     (if c = 0 then VramRead else if c = 1 then VramWrite else if c = 2 then RegisterWrite else CramWrite)"

definition writeControlPort :: "u8 \<Rightarrow> vdp \<Rightarrow> vdp" where
  "writeControlPort value v =
     (if \<not> commandLatchPending v then
        v\<lparr>commandLow := value, dataAddress := (dataAddress v AND 0x3F00) OR ucast value,
          commandLatchPending := True\<rparr>
      else
        (let command = drop_bit 6 value AND 0x03;
             v = v\<lparr>commandLatchPending := False,
                   dataAddress := (push_bit 8 (ucast (value AND 0x3F)) OR ucast (commandLow v)) AND 0x3FFF,
                   accessMode := access_mode_of command\<rparr>
         in if command = 2 then vdp_writeCompatRegister (unat (value AND 0x0F)) (commandLow v) v
            else if accessMode v = VramRead \<and> vram v \<noteq> [] then
              v\<lparr>readBuffer := vram v ! unat (dataAddress v AND 0x3FFF),
                dataAddress := next_address (dataAddress v)\<rparr>
            else v))"

definition readVCounter :: "vdp \<Rightarrow> u8" where
  "readVCounter v = vCounterValue v"

definition readHCounter :: "vdp \<Rightarrow> u8" where
  "readHCounter v = (if hCounterLatched v then latchedHCounter v else hCounter v)"

definition latchHCounter :: "vdp \<Rightarrow> vdp" where
  "latchHCounter v = v\<lparr>latchedHCounter := hCounter v, hCounterLatched := True\<rparr>"

definition readControlPort :: "vdp \<Rightarrow> u8 \<times> vdp" where
  "readControlPort v =
     (let v = v\<lparr>commandLatchPending := False\<rparr>;
          line = readVCounter v;
          v = (if unat line < activeDisplayLines v \<and> (\<not> statusScanlineConsumed v \<or> line \<noteq> lastStatusScanline v)
               then evaluateScanlineStatus line v else v);
          status = (if frameInterruptPending v then 0x80 else 0) OR
                   (if spriteOverflowPending v then 0x40 else 0) OR
                   (if spriteCollisionPending v then 0x20 else 0);
          v = recomputeIrqAsserted (v\<lparr>frameInterruptPending := False, lineInterruptPending := False,
                spriteOverflowPending := False, spriteCollisionPending := False\<rparr>)
      in (status, v\<lparr>lastStatusScanline := line, statusScanlineConsumed := True\<rparr>))"

definition takeScanlineReady :: "vdp \<Rightarrow> bool \<times> vdp" where
  "takeScanlineReady v = (scanlineReadyPending v, v\<lparr>scanlineReadyPending := False\<rparr>)"

definition takeVBlankEntered :: "vdp \<Rightarrow> bool \<times> vdp" where
  "takeVBlankEntered v = (vblankPending v, v\<lparr>vblankPending := False\<rparr>)"

definition takeIrqAsserted :: "vdp \<Rightarrow> bool" where
  "takeIrqAsserted v = irqAsserted v"

definition currentScanline :: "vdp \<Rightarrow> u8" where
  "currentScanline v = ucast (scanline v AND 0x00FF)"

section \<open>State vector\<close>

definition put_bytes :: "u8 list \<Rightarrow> u8 list" where
  "put_bytes bs = le32 (of_nat (length bs)) @ bs"

definition access_mode_code :: "AccessMode \<Rightarrow> u8" where
  "access_mode_code m = (case m of VramRead \<Rightarrow> 0 | VramWrite \<Rightarrow> 1 | RegisterWrite \<Rightarrow> 2 | CramWrite \<Rightarrow> 3)"

definition vdp_exportState :: "vdp \<Rightarrow> u8 list" where
  "vdp_exportState v =
     put_bytes (vram v) @ put_bytes (oam v) @ put_bytes (registers v) @ put_bytes (cram v) @
     le32 (pendingCycles v) @ le16 (scanline v) @
     [lastReadyScanline v, hCounter v, latchedHCounter v] @
     put_bool (hCounterLatched v) @ put_bool (scanlineReadyPending v) @ put_bool (vblankPending v) @
     put_bool (frameInterruptPending v) @ put_bool (lineInterruptPending v) @ put_bool (irqAsserted v) @
     put_bool (spriteOverflowPending v) @ put_bool (spriteCollisionPending v) @
     [lastStatusScanline v] @ put_bool (statusScanlineConsumed v) @ le16 (dataAddress v) @
     [commandLow v, readBuffer v, lineCounter v, verticalScrollLatch v, access_mode_code (accessMode v)] @
     put_bool (commandLatchPending v) @ put_bool (smsMode v)"

definition vdp_truncated :: exn where
  "vdp_truncated = Invalid_argument ''Game Gear VDP state truncated''"

definition vdp_bad_bool :: exn where
  "vdp_bad_bool = Invalid_argument ''Game Gear VDP state boolean invalid''"

definition vdp_mismatch :: exn where
  "vdp_mismatch = Invalid_argument ''Game Gear VDP state array size mismatch''"

definition vdp_invalid :: exn where
  "vdp_invalid = Invalid_argument ''Game Gear VDP state invalid''"

text \<open>An array of fixed size: its length, checked against the size, then its bytes.\<close>

definition vdp_bytes :: "nat \<Rightarrow> u8 list reader" where
  "vdp_bytes n =
     rd_bind (rd_u32 vdp_truncated) (\<lambda>count.
     rd_bind (rd_guard (unat count = n) vdp_mismatch) (\<lambda>_. rd_take vdp_truncated n))"

definition vdp_reader :: "vdp \<Rightarrow> vdp reader" where
  "vdp_reader v =
     (let byte = rd_u8 vdp_truncated; flag = rd_bool vdp_truncated vdp_bad_bool; w16 = rd_u16 vdp_truncated in
      rd_bind (vdp_bytes (length (vram v))) (\<lambda>nextVram.
      rd_bind (vdp_bytes (length (oam v))) (\<lambda>nextOam.
      rd_bind (vdp_bytes (length (registers v))) (\<lambda>nextRegisters.
      rd_bind (vdp_bytes (length (cram v))) (\<lambda>nextCram.
      rd_bind (rd_u32 vdp_truncated) (\<lambda>nextPendingCycles. rd_bind w16 (\<lambda>nextScanline.
      rd_bind byte (\<lambda>nextLastReady. rd_bind byte (\<lambda>nextHCounter. rd_bind byte (\<lambda>nextLatchedHCounter.
      rd_bind flag (\<lambda>nextHCounterLatched. rd_bind flag (\<lambda>nextScanlineReady. rd_bind flag (\<lambda>nextVblank.
      rd_bind flag (\<lambda>nextFrameInterrupt. rd_bind flag (\<lambda>nextLineInterrupt. rd_bind flag (\<lambda>nextIrqAsserted.
      rd_bind flag (\<lambda>nextSpriteOverflow. rd_bind flag (\<lambda>nextSpriteCollision.
      rd_bind byte (\<lambda>nextLastStatusScanline. rd_bind flag (\<lambda>nextStatusConsumed.
      rd_bind w16 (\<lambda>nextDataAddress. rd_bind byte (\<lambda>nextCommandLow. rd_bind byte (\<lambda>nextReadBuffer.
      rd_bind byte (\<lambda>nextLineCounter. rd_bind byte (\<lambda>nextVerticalScrollLatch. rd_bind byte (\<lambda>nextAccessMode.
      rd_bind flag (\<lambda>nextCommandLatchPending. rd_bind flag (\<lambda>nextSmsMode. rd_bind rd_at_end (\<lambda>ended.
      rd_bind (rd_guard (\<not> (nextScanline \<ge> kTotalScanlines \<or> (ucast nextLastReady :: u16) \<ge> kTotalScanlines \<or>
          nextAccessMode > 3 \<or> \<not> ended)) vdp_invalid) (\<lambda>_.
      rd_return (recomputeIrqAsserted (recomputeDecodedCramCache
        (v\<lparr>vram := nextVram, oam := nextOam, registers := nextRegisters, cram := nextCram,
           pendingCycles := nextPendingCycles, scanline := nextScanline, lastReadyScanline := nextLastReady,
           hCounter := nextHCounter, latchedHCounter := nextLatchedHCounter,
           hCounterLatched := nextHCounterLatched, scanlineReadyPending := nextScanlineReady,
           vblankPending := nextVblank, frameInterruptPending := nextFrameInterrupt,
           lineInterruptPending := nextLineInterrupt, irqAsserted := nextIrqAsserted,
           spriteOverflowPending := nextSpriteOverflow, spriteCollisionPending := nextSpriteCollision,
           lastStatusScanline := nextLastStatusScanline, statusScanlineConsumed := nextStatusConsumed,
           dataAddress := nextDataAddress, commandLow := nextCommandLow, readBuffer := nextReadBuffer,
           lineCounter := nextLineCounter, verticalScrollLatch := nextVerticalScrollLatch,
           accessMode := access_mode_of nextAccessMode, commandLatchPending := nextCommandLatchPending,
           smsMode := nextSmsMode\<rparr>)))))))))))))))))))))))))))))))))"

definition vdp_importState :: "vdp \<Rightarrow> u8 list \<Rightarrow> vdp result" where
  "vdp_importState v bs = rd_run (vdp_reader v) bs"

end
