(* ===== verification/GG_VDP_Laws.thy ===== *)
theory GG_VDP_Laws
  imports GG_VDP
begin

text \<open>
  What keeps the video display processor consistent, and what follows: the invariant of memory sizes,
  palette cache, interrupt line and scanline under every operation, exact scanline timing, the data
  port as a memory, the status port as an acknowledgement, the state vector as a codec.
\<close>

section \<open>Well-formedness\<close>

definition vdp_sizes :: "vdp \<Rightarrow> bool" where
  "vdp_sizes v \<longleftrightarrow> length (vram v) = 0x4000 \<and> length (oam v) = 0xA0 \<and> length (registers v) = 0xB \<and>
     length (cram v) = 0x40 \<and> length (decodedCram v) = 32"

text \<open>The cached palette is what decoding the colour RAM afresh would give.\<close>

definition cache_ok :: "vdp \<Rightarrow> bool" where
  "cache_ok v \<longleftrightarrow> (\<forall>i < 32. decodedCram v ! i = decodeEntry v i)"

text \<open>The interrupt line is the pending flags masked by their enable bits.\<close>

definition irq_level :: "vdp \<Rightarrow> bool" where
  "irq_level v \<longleftrightarrow> frameInterruptPending v \<and> registers v ! 1 AND 0x20 \<noteq> 0 \<or>
     lineInterruptPending v \<and> registers v ! 0 AND 0x10 \<noteq> 0"

definition vdp_ok :: "vdp \<Rightarrow> bool" where
  "vdp_ok v \<longleftrightarrow> vdp_sizes v \<and> cache_ok v \<and> irqAsserted v = irq_level v \<and> unat (scanline v) < 262"


lemma recompute_irq: "recomputeIrqAsserted v = v\<lparr>irqAsserted := irq_level v\<rparr>"
  by (simp add: recomputeIrqAsserted_def irq_level_def Let_def)

lemma decodeEntry_cong:
  "cram w = cram v \<Longrightarrow> smsMode w = smsMode v \<Longrightarrow> decodeEntry w i = decodeEntry v i"
  by (simp add: decodeEntry_def Let_def)

lemma updateDecoded_others:
  "updateDecodedCramEntry i v = v\<lparr>decodedCram := decodedCram (updateDecodedCramEntry i v)\<rparr>"
  by (simp add: updateDecodedCramEntry_def Let_def)

lemma recompute_cache:
  assumes "length (decodedCram v) = n"
  shows "recomputeDecodedCramCache v = v\<lparr>decodedCram := map (decodeEntry v) [0..<n]\<rparr>"
proof -
  have "k \<le> n \<Longrightarrow> fold updateDecodedCramEntry [0..<k] v =
      v\<lparr>decodedCram := map (decodeEntry v) [0..<k] @ drop k (decodedCram v)\<rparr>" for k
  proof (induction k)
    case (Suc k)
    have "(map (decodeEntry v) [0..<k] @ drop k (decodedCram v))[k := decodeEntry v k] =
        map (decodeEntry v) [0..<Suc k] @ drop (Suc k) (decodedCram v)"
      using Suc.prems assms by (simp add: list_update_append Cons_nth_drop_Suc [symmetric])
    then show ?case
      using Suc assms by (simp add: updateDecodedCramEntry_def Let_def decodeEntry_cong
          [where w = "v\<lparr>decodedCram := map (decodeEntry v) [0..<k] @ drop k (decodedCram v)\<rparr>" and v = v])
  qed simp
  from this [of n] show ?thesis using assms by (simp add: recomputeDecodedCramCache_def)
qed

text \<open>Operations that leave memories, registers, palette and interrupt state alone.\<close>

lemma vdp_ok_frame:
  assumes "vdp_ok v" and "vram w = vram v \<or> length (vram w) = length (vram v)"
    and "oam w = oam v \<or> length (oam w) = length (oam v)"
    and "registers w = registers v" "cram w = cram v" "decodedCram w = decodedCram v" "smsMode w = smsMode v"
    and "irqAsserted w = irqAsserted v" "frameInterruptPending w = frameInterruptPending v"
    and "lineInterruptPending w = lineInterruptPending v" "scanline w = scanline v"
  shows "vdp_ok w"
  using assms by (auto simp: vdp_ok_def vdp_sizes_def cache_ok_def irq_level_def decodeEntry_cong [of w v])

lemma vdp_ok_recompute_irq:
  assumes "vdp_sizes v" and "cache_ok v" and "unat (scanline v) < 262"
  shows "vdp_ok (recomputeIrqAsserted v)"
  using assms
  by (simp add: recompute_irq vdp_ok_def vdp_sizes_def cache_ok_def irq_level_def
      decodeEntry_cong [of "v\<lparr>irqAsserted := x\<rparr>" v for x])

lemma vdp_ok_evaluate: "vdp_ok v \<Longrightarrow> vdp_ok (evaluateScanlineStatus l v)"
  by (erule vdp_ok_frame) (simp_all add: evaluateScanlineStatus_def Let_def)

lemma evaluate_fields [simp]:
  "vram (evaluateScanlineStatus l v) = vram v" "oam (evaluateScanlineStatus l v) = oam v"
  "registers (evaluateScanlineStatus l v) = registers v" "cram (evaluateScanlineStatus l v) = cram v"
  "decodedCram (evaluateScanlineStatus l v) = decodedCram v" "smsMode (evaluateScanlineStatus l v) = smsMode v"
  "scanline (evaluateScanlineStatus l v) = scanline v" "lineCounter (evaluateScanlineStatus l v) = lineCounter v"
  "frameInterruptPending (evaluateScanlineStatus l v) = frameInterruptPending v"
  "lineInterruptPending (evaluateScanlineStatus l v) = lineInterruptPending v"
  "irqAsserted (evaluateScanlineStatus l v) = irqAsserted v"
  "vblankPending (evaluateScanlineStatus l v) = vblankPending v"
  "dataAddress (evaluateScanlineStatus l v) = dataAddress v"
  "commandLatchPending (evaluateScanlineStatus l v) = commandLatchPending v"
  by (simp_all add: evaluateScanlineStatus_def Let_def)

lemma vdp_ok_recompute_like:
  assumes "vdp_ok w" and "length (vram u) = length (vram w)" "length (oam u) = length (oam w)"
    and "length (registers u) = length (registers w)" "cram u = cram w" "decodedCram u = decodedCram w"
    and "smsMode u = smsMode w" "scanline u = scanline w"
  shows "vdp_ok (recomputeIrqAsserted u)"
  using assms by (intro vdp_ok_recompute_irq)
    (auto simp: vdp_ok_def vdp_sizes_def cache_ok_def decodeEntry_cong [of u w])

lemma next_line_eq:
  assumes "unat (scanline v) < 262"
  shows "next_line v = v\<lparr>scanline := of_nat ((unat (scanline v) + 1) mod 262)\<rparr>"
proof -
  have s: "unat (scanline v + 1) = unat (scanline v) + 1"
    using assms by (simp add: unat_word_ariths)
  then have c: "scanline v + 1 \<ge> kTotalScanlines \<longleftrightarrow> unat (scanline v) = 261"
    using assms by (auto simp: kTotalScanlines_def word_le_nat_alt)
  have "scanline v + 1 = of_nat ((unat (scanline v) + 1) mod 262)" if "unat (scanline v) \<noteq> 261"
    using that assms by (simp add: unat_add_lem s mod_less)
  then show ?thesis using c by (auto simp: next_line_def Let_def)
qed

lemma scanline_next_line:
  "unat (scanline v) < 262 \<Longrightarrow> unat (scanline (next_line v)) = (unat (scanline v) + 1) mod 262"
  by (simp add: next_line_eq unat_of_nat take_bit_nat_eq_self)

lemma vdp_ok_end_line: "vdp_ok v \<Longrightarrow> vdp_ok (end_line on v)"
  by (erule vdp_ok_frame) (simp_all add: end_line_def Let_def)

lemma vdp_ok_next_line: "vdp_ok v \<Longrightarrow> vdp_ok (next_line v)"
  using scanline_next_line [of v]
  by (simp add: next_line_eq vdp_ok_def vdp_sizes_def cache_ok_def irq_level_def
      decodeEntry_cong [of "v\<lparr>scanline := x\<rparr>" v for x])

lemma vdp_ok_count_line:
  assumes ok: "vdp_ok v" shows "vdp_ok (count_line n v)"
proof -
  have "vdp_ok (recomputeIrqAsserted (v\<lparr>lineCounter := registers v ! 0x0A, lineInterruptPending := True\<rparr>))"
    by (rule vdp_ok_recompute_like [OF ok]) simp_all
  moreover have "vdp_ok (v\<lparr>lineCounter := x, verticalScrollLatch := y\<rparr>)" "vdp_ok (v\<lparr>lineCounter := x\<rparr>)" for x y
    by (rule vdp_ok_frame [OF ok]; simp)+
  ultimately show ?thesis by (simp add: count_line_def)
qed

lemma vdp_ok_line:
  assumes "vdp_ok v"
  shows "vdp_ok (vdp_line on v)"
proof -
  have "vdp_ok (v\<lparr>pendingCycles := pendingCycles v - kCyclesPerScanline\<rparr>)"
    using assms by (rule vdp_ok_frame) simp_all
  then have "vdp_ok (count_line n (next_line (end_line on
      (v\<lparr>pendingCycles := pendingCycles v - kCyclesPerScanline\<rparr>))))" for n
    by (intro vdp_ok_count_line vdp_ok_next_line vdp_ok_end_line)
  then have ok: "vdp_ok w" if "w = count_line n (next_line (end_line on
      (v\<lparr>pendingCycles := pendingCycles v - kCyclesPerScanline\<rparr>)))" for n w
    using that by simp
  have "vdp_ok (recomputeIrqAsserted (w\<lparr>vblankPending := True, frameInterruptPending := True\<rparr>))"
    if "w = count_line n (next_line (end_line on
      (v\<lparr>pendingCycles := pendingCycles v - kCyclesPerScanline\<rparr>)))" for n w
    by (rule vdp_ok_recompute_like [OF ok [OF that]]) simp_all
  with ok show ?thesis by (simp add: vdp_line_def Let_def)
qed

lemma vdp_ok_lines: "vdp_ok v \<Longrightarrow> vdp_ok (vdp_lines on v)"
proof (induction on v rule: vdp_lines.induct)
  case (1 on v)
  then show ?case by (simp add: vdp_lines.simps [of on v] vdp_ok_line)
qed

lemma vdp_ok_step: "vdp_ok v \<Longrightarrow> vdp_ok (vdp_step n v)"
proof -
  assume "vdp_ok v"
  then have "vdp_ok (v\<lparr>pendingCycles := pendingCycles v + n\<rparr>)" by (rule vdp_ok_frame) simp_all
  then have "vdp_ok (vdp_lines (displayEnabled v) (v\<lparr>pendingCycles := pendingCycles v + n\<rparr>))"
    by (rule vdp_ok_lines)
  then show ?thesis by (rule vdp_ok_frame) (simp_all add: vdp_step_def Let_def)
qed

lemma vdp_ok_cache:
  assumes "vdp_sizes v" and "irqAsserted v = irq_level v" and "unat (scanline v) < 262"
  shows "vdp_ok (recomputeDecodedCramCache v)"
proof -
  have "recomputeDecodedCramCache v = v\<lparr>decodedCram := map (decodeEntry v) [0..<32]\<rparr>"
    using assms(1) by (intro recompute_cache) (simp add: vdp_sizes_def)
  then show ?thesis
    using assms by (simp add: vdp_ok_def vdp_sizes_def cache_ok_def irq_level_def
        decodeEntry_cong [of "v\<lparr>decodedCram := x\<rparr>" v for x])
qed

lemma vdp_ok_setSmsMode: "vdp_ok v \<Longrightarrow> vdp_ok (setSmsMode b v)"
  unfolding setSmsMode_def by (rule vdp_ok_cache) (simp_all add: vdp_ok_def vdp_sizes_def irq_level_def)

lemma setWord_frame:
  "setWord i r g b v = v\<lparr>cram := cram (setWord i r g b v)\<rparr>"
  "length (cram (setWord i r g b v)) = length (cram v)"
  by (simp_all add: setWord_def Let_def)

lemma setWord_fields [simp]:
  "vram (setWord i r g b v) = vram v" "oam (setWord i r g b v) = oam v"
  "registers (setWord i r g b v) = registers v" "decodedCram (setWord i r g b v) = decodedCram v"
  "scanline (setWord i r g b v) = scanline v" "irqAsserted (setWord i r g b v) = irqAsserted v"
  "frameInterruptPending (setWord i r g b v) = frameInterruptPending v"
  "lineInterruptPending (setWord i r g b v) = lineInterruptPending v"
  "smsMode (setWord i r g b v) = smsMode v"
  "length (cram (setWord i r g b v)) = length (cram v)"
  by (simp_all add: setWord_def Let_def)

lemma setWord_fold:
  "vram (fold (\<lambda>i. setWord i r g b) is v) = vram v" "oam (fold (\<lambda>i. setWord i r g b) is v) = oam v"
  "registers (fold (\<lambda>i. setWord i r g b) is v) = registers v"
  "decodedCram (fold (\<lambda>i. setWord i r g b) is v) = decodedCram v"
  "scanline (fold (\<lambda>i. setWord i r g b) is v) = scanline v"
  "irqAsserted (fold (\<lambda>i. setWord i r g b) is v) = irqAsserted v"
  "frameInterruptPending (fold (\<lambda>i. setWord i r g b) is v) = frameInterruptPending v"
  "lineInterruptPending (fold (\<lambda>i. setWord i r g b) is v) = lineInterruptPending v"
  "length (cram (fold (\<lambda>i. setWord i r g b) is v)) = length (cram v)"
  by (induction "is" arbitrary: v) simp_all

lemma length_fold_update: "length (fold (\<lambda>i m. m[f i := x i]) is m) = length m"
  by (induction "is" arbitrary: m) simp_all

lemma vdp_ok_hideSprites: "vdp_ok v \<Longrightarrow> vdp_ok (hideSprites v)"
  by (erule vdp_ok_frame) (simp_all add: hideSprites_def Let_def length_fold_update)

lemma vdp_ok_reset:
  assumes "vdp_sizes v" shows "vdp_ok (vdp_reset v)"
  unfolding vdp_reset_def Let_def
  by (intro vdp_ok_hideSprites vdp_ok_cache)
    (use assms in \<open>simp_all add: seedDefaultCram_def Let_def setWord_fold vdp_sizes_def irq_level_def\<close>)

lemma vdp_ok_writeCompatRegister: "vdp_ok v \<Longrightarrow> vdp_ok (vdp_writeCompatRegister i x v)"
  unfolding vdp_writeCompatRegister_def Let_def
  by (auto intro: vdp_ok_recompute_like)

lemma vdp_ok_writeVram: "vdp_ok v \<Longrightarrow> vdp_ok (vdp_writeVram a x v)"
  by (erule vdp_ok_frame) (simp_all add: vdp_writeVram_def Let_def)

lemma vdp_ok_writeOam: "vdp_ok v \<Longrightarrow> vdp_ok (vdp_writeOam a x v)"
  by (erule vdp_ok_frame) (auto simp: vdp_writeOam_def Let_def split: option.split)

lemma vdp_ok_writeRegister: "vdp_ok v \<Longrightarrow> vdp_ok (vdp_writeRegister a x v)"
  by (simp add: vdp_writeRegister_def vdp_ok_writeCompatRegister)

lemma vdp_ok_readDataPort: "vdp_ok v \<Longrightarrow> vdp_ok (snd (readDataPort v))"
  by (erule vdp_ok_frame) (simp_all add: readDataPort_def)

lemma vdp_ok_latch: "vdp_ok v \<Longrightarrow> vdp_ok (latchHCounter v)"
  by (erule vdp_ok_frame) (simp_all add: latchHCounter_def)

lemma vdp_ok_takes: "vdp_ok v \<Longrightarrow> vdp_ok (snd (takeScanlineReady v))" "vdp_ok v \<Longrightarrow> vdp_ok (snd (takeVBlankEntered v))"
  by (erule vdp_ok_frame, simp_all add: takeScanlineReady_def takeVBlankEntered_def)+

lemma vdp_ok_writeControlPort: "vdp_ok v \<Longrightarrow> vdp_ok (writeControlPort x v)"
proof -
  assume ok: "vdp_ok v"
  define v1 where "v1 = v\<lparr>commandLatchPending := False,
    dataAddress := (push_bit 8 (ucast (x AND 0x3F)) OR ucast (commandLow v)) AND 0x3FFF,
    accessMode := access_mode_of (drop_bit 6 x AND 0x03)\<rparr>"
  have 1: "vdp_ok v1" using ok by (rule vdp_ok_frame) (simp_all add: v1_def)
  have 2: "vdp_ok (v\<lparr>commandLow := x, dataAddress := (dataAddress v AND 0x3F00) OR ucast x,
          commandLatchPending := True\<rparr>)" using ok by (rule vdp_ok_frame) simp_all
  have 3: "vdp_ok (v1\<lparr>readBuffer := b, dataAddress := a\<rparr>)" for a b
    using 1 by (rule vdp_ok_frame) simp_all
  show ?thesis
    unfolding writeControlPort_def Let_def v1_def [symmetric]
    using 1 2 3 vdp_ok_writeCompatRegister [OF 1] by simp
qed

lemma vdp_ok_readControlPort: "vdp_ok v \<Longrightarrow> vdp_ok (snd (readControlPort v))"
proof -
  assume ok: "vdp_ok v"
  define v1 where "v1 = v\<lparr>commandLatchPending := False\<rparr>"
  define v2 where "v2 = (if unat (readVCounter v1) < activeDisplayLines v1 \<and>
      (\<not> statusScanlineConsumed v1 \<or> readVCounter v1 \<noteq> lastStatusScanline v1)
      then evaluateScanlineStatus (readVCounter v1) v1 else v1)"
  have "vdp_ok v1" using ok by (rule vdp_ok_frame) (simp_all add: v1_def)
  then have 2: "vdp_ok v2" by (simp add: v2_def vdp_ok_evaluate)
  have "vdp_ok (recomputeIrqAsserted (v2\<lparr>frameInterruptPending := False, lineInterruptPending := False,
      spriteOverflowPending := False, spriteCollisionPending := False\<rparr>))"
    by (intro vdp_ok_recompute_irq)
      (use 2 in \<open>auto simp: vdp_ok_def vdp_sizes_def cache_ok_def decodeEntry_def Let_def\<close>)
  then have "vdp_ok (recomputeIrqAsserted (v2\<lparr>frameInterruptPending := False, lineInterruptPending := False,
      spriteOverflowPending := False, spriteCollisionPending := False\<rparr>)\<lparr>lastStatusScanline := readVCounter v1,
      statusScanlineConsumed := True\<rparr>)"
    by (rule vdp_ok_frame) simp_all
  then show ?thesis unfolding readControlPort_def Let_def snd_conv v1_def [symmetric] v2_def [symmetric] .
qed

lemma decodeEntry_other:
  assumes "length (cram v) = 0x40" "i < 32" "if smsMode v then k \<noteq> i else k div 2 \<noteq> i"
  shows "decodeEntry (v\<lparr>cram := (cram v)[k := x]\<rparr>) i = decodeEntry v i"
proof -
  have "\<not> smsMode v \<Longrightarrow> k \<noteq> i * 2 \<and> k \<noteq> Suc (i * 2)" using assms(3) by auto
  then show ?thesis using assms by (auto simp: decodeEntry_def Let_def)
qed

lemma vdp_ok_cram_write:
  assumes ok: "vdp_ok v" and k: "if smsMode v then k = i \<and> k < 32 else k div 2 = i \<and> k < 0x40"
  shows "vdp_ok (updateDecodedCramEntry i (v\<lparr>cram := (cram v)[k := x]\<rparr>))"
proof -
  define w where "w = v\<lparr>cram := (cram v)[k := x]\<rparr>"
  have i: "i < 32" using k by (auto split: if_splits)
  have w: "updateDecodedCramEntry i w = w\<lparr>decodedCram := (decodedCram w)[i := decodeEntry w i]\<rparr>"
    using ok i by (simp add: updateDecodedCramEntry_def Let_def w_def vdp_ok_def vdp_sizes_def)
  have "decodeEntry w j = decodeEntry v j" if "j < 32" "j \<noteq> i" for j
    unfolding w_def using ok k that by (intro decodeEntry_other) (auto simp: vdp_ok_def vdp_sizes_def)
  moreover have dec: "decodedCram w = decodedCram v" by (simp add: w_def)
  ultimately have "cache_ok (w\<lparr>decodedCram := (decodedCram w)[i := decodeEntry w i]\<rparr>)"
    using ok i by (simp add: cache_ok_def nth_list_update decodeEntry_cong [of "w\<lparr>decodedCram := y\<rparr>" w for y]
        vdp_ok_def vdp_sizes_def dec)
  moreover have "vdp_sizes (w\<lparr>decodedCram := z\<rparr>)" "irq_level (w\<lparr>decodedCram := z\<rparr>) = irqAsserted w"
    "unat (scanline w) < 262" if "length z = length (decodedCram v)" for z
    using ok that by (simp_all add: w_def vdp_ok_def vdp_sizes_def irq_level_def)
  ultimately show ?thesis
    unfolding w_def [symmetric] w by (simp add: vdp_ok_def dec)
qed

lemma vdp_ok_writeDataPort: "vdp_ok v \<Longrightarrow> vdp_ok (writeDataPort x v)"
proof -
  assume ok: "vdp_ok v"
  define v1 where "v1 = v\<lparr>commandLatchPending := False, readBuffer := x\<rparr>"
  have 1: "vdp_ok v1" using ok by (rule vdp_ok_frame) (simp_all add: v1_def)
  have len: "length (cram v1) = 64" "length (decodedCram v1) = 32"
    using 1 by (simp_all add: vdp_ok_def vdp_sizes_def)
  have addr: "vdp_ok (w\<lparr>dataAddress := a\<rparr>)" if "vdp_ok w" for w a
    using that by (rule vdp_ok_frame) simp_all
  define k where "k = unat (dataAddress v1)"
  have sms: "vdp_ok (updateDecodedCramEntry (k mod 32) (v1\<lparr>cram := (cram v1)[k mod 32 := x AND 0x3F]\<rparr>))"
    if "smsMode v1" using that by (intro vdp_ok_cram_write [OF 1]) simp
  have "k mod 64 < 64" by simp
  then have gg: "vdp_ok (updateDecodedCramEntry (k mod 64 div 2) (v1\<lparr>cram := (cram v1)[k mod 64 := x]\<rparr>))"
    "k mod 64 div 2 < 32"
    if "\<not> smsMode v1" using that by (auto intro!: vdp_ok_cram_write [OF 1])
  have vr: "vdp_ok (v1\<lparr>vram := (vram v1)[n := x], dataAddress := a\<rparr>)" for n a
    using 1 by (rule vdp_ok_frame) simp_all
  show ?thesis
    unfolding writeDataPort_def Let_def v1_def [symmetric] k_def [symmetric]
    using sms gg vr len addr by (simp add: k_def)
qed

section \<open>Scanline timing\<close>

text \<open>The cycle count and the horizontal counter ride along unread while lines are processed.\<close>

lemma frame_updates:
  "displayEnabled (v\<lparr>pendingCycles := p\<rparr>) = displayEnabled v"
  "activeDisplayLines (v\<lparr>pendingCycles := p\<rparr>) = activeDisplayLines v"
  "displayEnabled (v\<lparr>hCounter := h\<rparr>) = displayEnabled v"
  "activeDisplayLines (v\<lparr>hCounter := h\<rparr>) = activeDisplayLines v"
  by (simp_all add: displayEnabled_def activeDisplayLines_def mode4Enabled_def Let_def)

lemma samplePattern_updates:
  "samplePatternColor (v\<lparr>pendingCycles := p\<rparr>) = samplePatternColor v"
  "samplePatternColor (v\<lparr>hCounter := h\<rparr>) = samplePatternColor v"
  by (simp_all add: samplePatternColor_def fun_eq_iff Let_def)

lemma generator_updates:
  "spriteGeneratorBase (v\<lparr>pendingCycles := p\<rparr>) = spriteGeneratorBase v"
  "spriteGeneratorBase (v\<lparr>hCounter := h\<rparr>) = spriteGeneratorBase v"
  by (simp_all add: spriteGeneratorBase_def)

lemma spritePixels_updates:
  "spritePixels (v\<lparr>pendingCycles := p\<rparr>) = spritePixels v"
  "spritePixels (v\<lparr>hCounter := h\<rparr>) = spritePixels v"
  unfolding spritePixels_def fun_eq_iff samplePattern_updates generator_updates by simp_all

lemma sprite_mode_updates:
  "spriteAttributeTableBase (v\<lparr>pendingCycles := p\<rparr>) = spriteAttributeTableBase v"
  "spriteAttributeTableBase (v\<lparr>hCounter := h\<rparr>) = spriteAttributeTableBase v"
  "spriteZoomMode (v\<lparr>pendingCycles := p\<rparr>) = spriteZoomMode v"
  "spriteZoomMode (v\<lparr>hCounter := h\<rparr>) = spriteZoomMode v"
  "spriteTallMode (v\<lparr>pendingCycles := p\<rparr>) = spriteTallMode v"
  "spriteTallMode (v\<lparr>hCounter := h\<rparr>) = spriteTallMode v"
  by (simp_all add: spriteAttributeTableBase_def spriteZoomMode_def spriteTallMode_def)

lemma memory_updates:
  "vram (v\<lparr>pendingCycles := p\<rparr>) = vram v" "registers (v\<lparr>pendingCycles := p\<rparr>) = registers v"
  "vram (v\<lparr>hCounter := h\<rparr>) = vram v" "registers (v\<lparr>hCounter := h\<rparr>) = registers v"
  by simp_all

lemma scanSprites_updates:
  "scanSprites (v\<lparr>pendingCycles := p\<rparr>) l is a = scanSprites v l is a"
  "scanSprites (v\<lparr>hCounter := h\<rparr>) l is a = scanSprites v l is a"
proof (induction "is" arbitrary: a)
  case (Cons i "is")
  { case 1 show ?case
    by (simp only: scanSprites.simps spritePixels_updates frame_updates sprite_mode_updates memory_updates Cons.IH) }
  { case 2 show ?case
    by (simp only: scanSprites.simps spritePixels_updates frame_updates sprite_mode_updates memory_updates Cons.IH) }
qed simp_all

lemma evaluate_updates:
  "evaluateScanlineStatus l (v\<lparr>pendingCycles := p\<rparr>) = evaluateScanlineStatus l v\<lparr>pendingCycles := p\<rparr>"
  "evaluateScanlineStatus l (v\<lparr>hCounter := h\<rparr>) = evaluateScanlineStatus l v\<lparr>hCounter := h\<rparr>"
  by (simp_all add: evaluateScanlineStatus_def Let_def scanSprites_updates)

lemma line_parts_updates:
  "end_line on (v\<lparr>pendingCycles := p\<rparr>) = end_line on v\<lparr>pendingCycles := p\<rparr>"
  "end_line on (v\<lparr>hCounter := h\<rparr>) = end_line on v\<lparr>hCounter := h\<rparr>"
  "next_line (v\<lparr>pendingCycles := p\<rparr>) = next_line v\<lparr>pendingCycles := p\<rparr>"
  "next_line (v\<lparr>hCounter := h\<rparr>) = next_line v\<lparr>hCounter := h\<rparr>"
  "count_line n (v\<lparr>pendingCycles := p\<rparr>) = count_line n v\<lparr>pendingCycles := p\<rparr>"
  "count_line n (v\<lparr>hCounter := h\<rparr>) = count_line n v\<lparr>hCounter := h\<rparr>"
  by (simp_all add: end_line_def next_line_def count_line_def Let_def vCounterValue_def frame_updates
      evaluate_updates recomputeIrqAsserted_def)

lemma irq_updates:
  "recomputeIrqAsserted (v\<lparr>pendingCycles := p\<rparr>) = recomputeIrqAsserted v\<lparr>pendingCycles := p\<rparr>"
  "recomputeIrqAsserted (v\<lparr>hCounter := h\<rparr>) = recomputeIrqAsserted v\<lparr>hCounter := h\<rparr>"
  by (simp_all add: recomputeIrqAsserted_def Let_def)

lemma vdp_line_updates:
  "vdp_line on (v\<lparr>pendingCycles := p\<rparr>) = vdp_line on v\<lparr>pendingCycles := p - kCyclesPerScanline\<rparr>"
  "vdp_line on (v\<lparr>hCounter := h\<rparr>) = vdp_line on v\<lparr>hCounter := h\<rparr>"
proof -
  have p: "vdp_line on v = (let a = activeDisplayLines v; w = count_line a (next_line (end_line on v));
      w' = (if unat (scanline w) = a + 1
            then recomputeIrqAsserted (w\<lparr>vblankPending := True, frameInterruptPending := True\<rparr>) else w)
      in w'\<lparr>pendingCycles := pendingCycles v - kCyclesPerScanline\<rparr>)" for v
    by (simp add: vdp_line_def Let_def line_parts_updates frame_updates)
      (simp add: recomputeIrqAsserted_def Let_def)
  show "vdp_line on (v\<lparr>pendingCycles := p\<rparr>) = vdp_line on v\<lparr>pendingCycles := p - kCyclesPerScanline\<rparr>"
    by (simp add: p Let_def line_parts_updates frame_updates) (simp add: recomputeIrqAsserted_def Let_def)
  show "vdp_line on (v\<lparr>hCounter := h\<rparr>) = vdp_line on v\<lparr>hCounter := h\<rparr>"
    by (simp add: p Let_def line_parts_updates frame_updates) (simp add: recomputeIrqAsserted_def Let_def)
qed

lemma lines_updates:
  "(vdp_line on ^^ n) (v\<lparr>hCounter := h\<rparr>) = (vdp_line on ^^ n) v\<lparr>hCounter := h\<rparr>"
  "(vdp_line on ^^ n) (v\<lparr>pendingCycles := p\<rparr>) =
     (vdp_line on ^^ n) v\<lparr>pendingCycles := p - of_nat n * kCyclesPerScanline\<rparr>"
  by (induction n) (simp_all add: vdp_line_updates algebra_simps)

lemma vdp_lines_eq: "vdp_lines on v = (vdp_line on ^^ (unat (pendingCycles v) div 228)) v"
proof (induction on v rule: vdp_lines.induct)
  case (1 on v)
  show ?case
  proof (cases "pendingCycles v \<ge> kCyclesPerScanline")
    case True
    then have "unat (pendingCycles v) \<ge> 228"
      by (simp add: kCyclesPerScanline_def word_le_nat_alt)
    then have "unat (pendingCycles v) div 228 = Suc (unat (pendingCycles (vdp_line on v)) div 228)"
      using True by (simp add: unat_minus_scanline div_if)
    then show ?thesis
      using 1 [OF True] True by (simp add: vdp_lines.simps [of on v] funpow_Suc_right del: funpow.simps)
  next
    case False
    then have "unat (pendingCycles v) < 228" by (simp add: kCyclesPerScanline_def word_le_nat_alt)
    then show ?thesis using False by (simp add: vdp_lines.simps [of on v])
  qed
qed

text \<open>The horizontal counter of a residue of cycles.\<close>

definition line_position :: "nat \<Rightarrow> u8" where
  "line_position r = ucast ((of_nat r :: u32) * 256 div kCyclesPerScanline)"

theorem vdp_step_eq:
  assumes "unat (pendingCycles v) + unat n < 2 ^ 32"
  shows "vdp_step n v =
    (vdp_line (displayEnabled v) ^^ ((unat (pendingCycles v) + unat n) div 228)) v
      \<lparr>pendingCycles := of_nat ((unat (pendingCycles v) + unat n) mod 228),
       hCounter := line_position ((unat (pendingCycles v) + unat n) mod 228)\<rparr>"
proof -
  define t where "t = unat (pendingCycles v) + unat n"
  have t: "unat (pendingCycles v + n) = t" using assms by (simp add: t_def unat_word_ariths)
  have "pendingCycles v + n = of_nat t" by (simp add: t_def)
  moreover have "t = t mod 228 + t div 228 * 228" by simp
  ultimately have "pendingCycles v + n - of_nat (t div 228) * kCyclesPerScanline = of_nat (t mod 228)"
    by (metis add_diff_cancel_right' kCyclesPerScanline_def of_nat_add of_nat_mult of_nat_numeral)
  then show ?thesis
    unfolding vdp_step_def Let_def vdp_lines_eq
    by (simp add: t lines_updates t_def [symmetric] line_position_def)
qed

lemma line_keeps:
  "registers (vdp_line on v) = registers v" "smsMode (vdp_line on v) = smsMode v"
  by (simp_all add: vdp_line_def count_line_def next_line_def end_line_def recomputeIrqAsserted_def Let_def)

lemma lines_keep:
  "registers ((vdp_line on ^^ n) v) = registers v" "smsMode ((vdp_line on ^^ n) v) = smsMode v"
  by (induction n) (simp_all add: line_keeps)

lemma lines_modes:
  "displayEnabled ((vdp_line on ^^ n) v) = displayEnabled v"
  "activeDisplayLines ((vdp_line on ^^ n) v) = activeDisplayLines v"
  by (simp_all add: displayEnabled_def activeDisplayLines_def mode4Enabled_def lines_keep Let_def)

text \<open>Stepping the video processor by a cycles and then by b is stepping it once by a + b, whenever
  the cycle counter does not overflow: how the machine slices time into instructions does not show
  in any line status, interrupt, counter or picture state.\<close>

theorem vdp_step_additive:
  assumes "unat (pendingCycles v) + unat a + unat b < 2 ^ 32"
  shows "vdp_step b (vdp_step a v) = vdp_step (a + b) v"
proof -
  define p m n where "p = unat (pendingCycles v)" and "m = (p + unat a) div 228"
    and "n = ((p + unat a) mod 228 + unat b) div 228"
  have ab: "unat (a + b) = unat a + unat b" using assms by (simp add: unat_word_ariths)
  have r: "unat (of_nat ((p + unat a) mod 228) :: u32) = (p + unat a) mod 228"
    by (rule unat_of_nat_u32) (rule less_trans [of _ 228], simp_all)
  have s: "(p + (unat a + unat b)) div 228 = n + m" "(p + (unat a + unat b)) mod 228 = ((p + unat a) mod 228 + unat b) mod 228"
  proof -
    have "p + (unat a + unat b) = ((p + unat a) mod 228 + unat b) + 228 * m"
      unfolding m_def using mod_mult_div_eq [of "p + unat a" 228] by linarith
    then show "(p + (unat a + unat b)) div 228 = n + m" "(p + (unat a + unat b)) mod 228 = ((p + unat a) mod 228 + unat b) mod 228"
      by (simp_all add: n_def mod_add_left_eq add.assoc)
  qed
  have small: "(p + unat a) mod 228 + unat b < 2 ^ 32"
    using assms mod_less_eq_dividend [of "p + unat a" 228] by (simp add: p_def)
  have 1: "vdp_step a v = (vdp_line (displayEnabled v) ^^ m) v
      \<lparr>pendingCycles := of_nat ((p + unat a) mod 228), hCounter := line_position ((p + unat a) mod 228)\<rparr>"
    using assms by (simp add: vdp_step_eq p_def m_def)
  have "vdp_step b (vdp_step a v) = (vdp_line (displayEnabled v) ^^ n) ((vdp_line (displayEnabled v) ^^ m) v)
      \<lparr>pendingCycles := of_nat ((p + (unat a + unat b)) mod 228),
       hCounter := line_position ((p + (unat a + unat b)) mod 228)\<rparr>"
    using small by (simp add: vdp_step_eq 1 r n_def [symmetric] s lines_updates frame_updates lines_modes)
  also have "\<dots> = vdp_step (a + b) v"
    using assms by (simp add: vdp_step_eq ab p_def [symmetric] s funpow_add)
  finally show ?thesis .
qed

theorem vdp_step_additive_witness:
  "vdp_step 100 (vdp_step 200 (new_vdp\<lparr>scanline := 192\<rparr>)) = vdp_step 300 (new_vdp\<lparr>scanline := 192\<rparr>)"
  using vdp_step_additive [of "new_vdp\<lparr>scanline := 192\<rparr>" 200 100] by (simp add: new_vdp_def)

lemma activeDisplayLines_less: "activeDisplayLines v \<le> 240"
  by (simp add: activeDisplayLines_def Let_def)

lemma line_scanline:
  assumes "unat (scanline v) < 262"
  shows "unat (scanline (vdp_line on v)) = (unat (scanline v) + 1) mod 262"
    and "vblankPending (vdp_line on v) \<longleftrightarrow> vblankPending v \<or> (unat (scanline v) + 1) mod 262 = activeDisplayLines v + 1"
    and "frameInterruptPending (vdp_line on v) \<longleftrightarrow>
      frameInterruptPending v \<or> (unat (scanline v) + 1) mod 262 = activeDisplayLines v + 1"
proof -
  define w where "w = end_line on v"
  have w: "scanline w = scanline v" "vblankPending w = vblankPending v"
    "frameInterruptPending w = frameInterruptPending v"
    by (simp_all add: w_def end_line_def Let_def)
  have e: "scanline (count_line a u) = scanline u" "vblankPending (count_line a u) = vblankPending u"
    "frameInterruptPending (count_line a u) = frameInterruptPending u" for a u
    by (simp_all add: count_line_def recomputeIrqAsserted_def Let_def)
  have "vblankPending (next_line w) = vblankPending w" "frameInterruptPending (next_line w) = frameInterruptPending w"
    by (simp_all add: next_line_def Let_def)
  moreover have "unat (scanline (next_line w)) = (unat (scanline v) + 1) mod 262"
    using assms by (simp add: scanline_next_line w)
  ultimately show "unat (scanline (vdp_line on v)) = (unat (scanline v) + 1) mod 262"
    and "vblankPending (vdp_line on v) \<longleftrightarrow> vblankPending v \<or> (unat (scanline v) + 1) mod 262 = activeDisplayLines v + 1"
    and "frameInterruptPending (vdp_line on v) \<longleftrightarrow>
      frameInterruptPending v \<or> (unat (scanline v) + 1) mod 262 = activeDisplayLines v + 1"
    by (auto simp: vdp_line_def Let_def line_parts_updates frame_updates e w w_def [symmetric] recomputeIrqAsserted_def)
qed

lemma lines_scanline:
  assumes "unat (scanline v) < 262"
  shows "unat (scanline ((vdp_line on ^^ n) v)) = (unat (scanline v) + n) mod 262 \<and>
    (vblankPending ((vdp_line on ^^ n) v) \<longleftrightarrow>
       vblankPending v \<or> (\<exists>j \<in> {1..n}. (unat (scanline v) + j) mod 262 = activeDisplayLines v + 1)) \<and>
    (frameInterruptPending ((vdp_line on ^^ n) v) \<longleftrightarrow>
       frameInterruptPending v \<or> (\<exists>j \<in> {1..n}. (unat (scanline v) + j) mod 262 = activeDisplayLines v + 1))"
proof (induction n)
  case 0
  then show ?case using assms by simp
next
  case (Suc n)
  define w where "w = (vdp_line on ^^ n) v"
  have s: "unat (scanline w) < 262" "(unat (scanline w) + 1) mod 262 = (unat (scanline v) + Suc n) mod 262"
    using Suc.IH by (simp_all add: w_def [symmetric] mod_Suc_eq)
  have activeDisplayLines_w: "activeDisplayLines w = activeDisplayLines v" by (simp add: w_def lines_modes)
  have "{1..Suc n} = insert (Suc n) {1..n}" by auto
  then show ?case
    using line_scanline [OF s(1), of on] Suc.IH activeDisplayLines_w
    by (simp add: w_def [symmetric] s(2) del: One_nat_def) blast
qed

section \<open>Frame timing\<close>

lemma irq_of_ok:
  "vdp_ok v \<Longrightarrow> frameInterruptPending v \<Longrightarrow> registers v ! 1 AND 0x20 \<noteq> 0 \<Longrightarrow> irqAsserted v"
  by (simp add: vdp_ok_def irq_level_def)

lemma step_frame_facts:
  assumes "vdp_ok v" and "unat (pendingCycles v) + unat n < 2 ^ 32"
  defines "k \<equiv> (unat (pendingCycles v) + unat n) div 228"
  shows "unat (scanline (vdp_step n v)) = (unat (scanline v) + k) mod 262"
    and "vblankPending (vdp_step n v) \<longleftrightarrow>
      vblankPending v \<or> (\<exists>j \<in> {1..k}. (unat (scanline v) + j) mod 262 = activeDisplayLines v + 1)"
    and "frameInterruptPending (vdp_step n v) \<longleftrightarrow>
      frameInterruptPending v \<or> (\<exists>j \<in> {1..k}. (unat (scanline v) + j) mod 262 = activeDisplayLines v + 1)"
    and "registers (vdp_step n v) = registers v"
  using lines_scanline [of v k "displayEnabled v"] assms(1)
  by (simp_all add: vdp_step_eq [OF assms(2)] k_def [symmetric] lines_keep vdp_ok_def)

text \<open>C22: Frame timing is exact. After n cycles the scanline has advanced by the whole scanlines that fit,
  modulo 262, and the vertical blank is flagged exactly when the line after the first blanked one was
  reached on the way. So any 262 scanlines of cycles flag it, whatever the display mode, and the
  interrupt line is up if the frame interrupt is enabled.\<close>

theorem vdp_frame_timing:
  assumes "vdp_ok v" and "unat (pendingCycles v) + unat n < 2 ^ 32"
  shows "let k = (unat (pendingCycles v) + unat n) div 228; w = vdp_step n v in
    unat (scanline w) = (unat (scanline v) + k) mod 262 \<and>
    (vblankPending w \<longleftrightarrow>
       vblankPending v \<or> (\<exists>j \<in> {1..k}. (unat (scanline v) + j) mod 262 = activeDisplayLines v + 1)) \<and>
    (k \<ge> 262 \<longrightarrow> vblankPending w \<and> frameInterruptPending w \<and> (registers v ! 1 AND 0x20 \<noteq> 0 \<longrightarrow> irqAsserted w))"
proof -
  define k where "k = (unat (pendingCycles v) + unat n) div 228"
  note f = step_frame_facts [OF assms, folded k_def]
  have "\<exists>j \<in> {1..k}. (unat (scanline v) + j) mod 262 = activeDisplayLines v + 1" if "k \<ge> 262"
  proof -
    define s t where "s = unat (scanline v)" and "t = activeDisplayLines v + 1"
    have s: "s < 262" "t < 262"
      using assms(1) activeDisplayLines_less [of v] by (simp_all add: vdp_ok_def s_def t_def)
    define j where "j = (if s < t then t - s else 262 + t - s)"
    have "j \<in> {1..k}" "(s + j) mod 262 = t" using s that by (auto simp: j_def)
    then show ?thesis unfolding s_def t_def by blast
  qed
  moreover have "irqAsserted (vdp_step n v)"
    if "frameInterruptPending (vdp_step n v)" "registers v ! 1 AND 0x20 \<noteq> 0"
    using irq_of_ok [OF vdp_ok_step [OF assms(1)], of n] that f(4) by simp
  ultimately show ?thesis
    unfolding Let_def k_def [symmetric] using f by metis
qed

lemma power_on_vdp_ok: "vdp_ok (vdp_reset new_vdp)"
  by (rule vdp_ok_reset) (simp add: new_vdp_def vdp_sizes_def)

lemma cache_fields:
  "pendingCycles (recomputeDecodedCramCache v) = pendingCycles v" "scanline (recomputeDecodedCramCache v) = scanline v"
  "vblankPending (recomputeDecodedCramCache v) = vblankPending v" "smsMode (recomputeDecodedCramCache v) = smsMode v"
  "registers (recomputeDecodedCramCache v) = registers v"
  by (simp_all add: recompute_cache [OF refl])

lemma seed_fields:
  "pendingCycles (seedDefaultCram v) = pendingCycles v" "scanline (seedDefaultCram v) = scanline v"
  "vblankPending (seedDefaultCram v) = vblankPending v" "smsMode (seedDefaultCram v) = smsMode v"
  "registers (seedDefaultCram v) = registers v"
proof -
  have w: "pendingCycles (setWord i r g b v) = pendingCycles v" "vblankPending (setWord i r g b v) = vblankPending v"
    for i r g b v by (simp_all add: setWord_def Let_def)
  have f: "pendingCycles (fold (\<lambda>i. setWord i r g b) is v) = pendingCycles v"
    "vblankPending (fold (\<lambda>i. setWord i r g b) is v) = vblankPending v"
    "smsMode (fold (\<lambda>i. setWord i r g b) is v) = smsMode v" for r g b v "is"
    by (induction "is" arbitrary: v) (simp_all add: w)
  show "pendingCycles (seedDefaultCram v) = pendingCycles v" "scanline (seedDefaultCram v) = scanline v"
    "vblankPending (seedDefaultCram v) = vblankPending v" "smsMode (seedDefaultCram v) = smsMode v"
    "registers (seedDefaultCram v) = registers v"
    by (simp_all add: seedDefaultCram_def Let_def w f setWord_fold)
qed

lemma vdp_reset_fields:
  "pendingCycles (vdp_reset v) = 0" "scanline (vdp_reset v) = 0" "vblankPending (vdp_reset v) = False"
  "smsMode (vdp_reset v) = smsMode v"
  "registers (vdp_reset v) = (replicate (length (registers v)) 0)[2 := 0xFF, 5 := 0xFF, 6 := 0xFF, 7 := 0x00]"
  by (simp_all add: vdp_reset_def Let_def hideSprites_def cache_fields seed_fields)

theorem vdp_frame_timing_witness:
  "vblankPending (vdp_step 44004 (vdp_reset new_vdp)) \<and> \<not> vblankPending (vdp_step 44003 (vdp_reset new_vdp))"
proof -
  have a: "activeDisplayLines (vdp_reset new_vdp) = 192"
    by (simp add: activeDisplayLines_def vdp_reset_fields new_vdp_def)
  have "(\<exists>j \<in> {1..k}. j mod 262 = (193 :: nat)) \<longleftrightarrow> k \<ge> 193" if "k < 262" for k
    using that by (auto intro: bexI [of _ 193])
  from this [of 193] this [of 192] show ?thesis
    using vdp_frame_timing [OF power_on_vdp_ok, of 44004] vdp_frame_timing [OF power_on_vdp_ok, of 44003]
    by (simp add: vdp_reset_fields a Let_def)
qed

section \<open>Every operation\<close>

datatype vdp_op =
    VReset | VStep u32 | VSmsMode bool | VWriteVram u16 u8 | VWriteOam u16 u8 | VWriteRegister u16 u8
  | VReadData | VWriteData u8 | VWriteControl u8 | VReadControl | VLatchH | VTakeReady | VTakeVBlank
  | VImport "u8 list"

fun vdp_apply :: "vdp_op \<Rightarrow> vdp \<Rightarrow> vdp" where
  "vdp_apply VReset v = vdp_reset v"
| "vdp_apply (VStep n) v = vdp_step n v"
| "vdp_apply (VSmsMode b) v = setSmsMode b v"
| "vdp_apply (VWriteVram a x) v = vdp_writeVram a x v"
| "vdp_apply (VWriteOam a x) v = vdp_writeOam a x v"
| "vdp_apply (VWriteRegister a x) v = vdp_writeRegister a x v"
| "vdp_apply VReadData v = snd (readDataPort v)"
| "vdp_apply (VWriteData x) v = writeDataPort x v"
| "vdp_apply (VWriteControl x) v = writeControlPort x v"
| "vdp_apply VReadControl v = snd (readControlPort v)"
| "vdp_apply VLatchH v = latchHCounter v"
| "vdp_apply VTakeReady v = snd (takeScanlineReady v)"
| "vdp_apply VTakeVBlank v = snd (takeVBlankEntered v)"
| "vdp_apply (VImport bs) v = (case vdp_importState v bs of Inl e \<Rightarrow> v | Inr w \<Rightarrow> w)"

lemma vdp_bytes_E:
  assumes "rd_bind (vdp_bytes n) f cs = Inr y"
  obtains x rest where "length x = n" and "f x rest = Inr y"
proof -
  obtain x rest where x: "vdp_bytes n cs = Inr (x, rest)" "f x rest = Inr y"
    using assms by (rule rd_bind_Inr_E)
  moreover have "length x = n"
    using x(1) unfolding vdp_bytes_def
    by (auto elim!: rd_bind_Inr_E simp: rd_take_def split: if_splits)
  ultimately show thesis using that by blast
qed

lemma vdp_ok_restored:
  assumes "vdp_sizes v" and "unat (scanline v) < 262"
  shows "vdp_ok (recomputeIrqAsserted (recomputeDecodedCramCache v))"
proof -
  have "recomputeDecodedCramCache v = v\<lparr>decodedCram := map (decodeEntry v) [0..<32]\<rparr>"
    using assms(1) by (intro recompute_cache) (simp add: vdp_sizes_def)
  then show ?thesis
    using assms by (intro vdp_ok_recompute_irq) (simp_all add: vdp_sizes_def cache_ok_def
        decodeEntry_cong [of "v\<lparr>decodedCram := x\<rparr>" v for x])
qed

lemma vdp_import_ok:
  assumes "vdp_sizes v" and "vdp_importState v bs = Inr w"
  shows "vdp_ok w"
proof -
  obtain r where "vdp_reader v bs = Inr (w, r)"
    using assms(2) by (auto simp: vdp_importState_def rd_run_def split: sum.splits prod.splits)
  then obtain u where "w = recomputeIrqAsserted (recomputeDecodedCramCache u)" "vdp_sizes u" "scanline u < kTotalScanlines"
    unfolding vdp_reader_def Let_def
    apply (elim vdp_bytes_E rd_bind_Inr_E)
    using assms(1)
    apply (auto simp: vdp_sizes_def not_le split: if_splits)
    done
  then show ?thesis
    by (simp add: vdp_ok_restored kTotalScanlines_def word_less_nat_alt)
qed

lemma vdp_ok_sizes: "vdp_ok v \<Longrightarrow> vdp_sizes v"
  by (simp add: vdp_ok_def)

lemma vdp_ok_apply: "vdp_ok v \<Longrightarrow> vdp_ok (vdp_apply op v)"
  using vdp_import_ok [OF vdp_ok_sizes]
  by (cases op) (simp_all add: vdp_ok_reset [OF vdp_ok_sizes] vdp_ok_step vdp_ok_setSmsMode vdp_ok_writeVram
      vdp_ok_writeOam vdp_ok_writeRegister vdp_ok_readDataPort vdp_ok_writeDataPort vdp_ok_writeControlPort
      vdp_ok_readControlPort vdp_ok_latch vdp_ok_takes split: sum.split)

lemma vdp_ok_reachable: "vdp_ok (fold vdp_apply ops (vdp_reset new_vdp))"
proof -
  have "vdp_ok v \<Longrightarrow> vdp_ok (fold vdp_apply ops v)" for v
    by (induction ops arbitrary: v) (simp_all add: vdp_ok_apply)
  then show ?thesis using power_on_vdp_ok by blast
qed

text \<open>C21: From power-on, every sequence of operations (ports, windows, steps, resets, mode switches, accepted
  or rejected state imports) keeps the video processor consistent: its memories keep their sizes, the
  scanline stays below 262, the cached palette is what decoding the colour RAM afresh would give, and
  the interrupt line is exactly the enabled pending interrupts.\<close>

theorem vdp_ops_keep_ok:
  "vdp_ok (fold vdp_apply ops (vdp_reset new_vdp))"
  by (rule vdp_ok_reachable)

section \<open>The data port\<close>

text \<open>The cell the data port points at.\<close>

definition port_cell :: "vdp \<Rightarrow> nat" where
  "port_cell v = unat (dataAddress v) mod 0x4000"

fun readMany :: "nat \<Rightarrow> vdp \<Rightarrow> u8 list \<times> vdp" where
  "readMany 0 v = ([], v)"
| "readMany (Suc n) v =
     (let (x, v) = readDataPort v; (xs, v) = readMany n v in (x # xs, v))"

lemma port_cell_less: "port_cell v < 0x4000"
  by (simp add: port_cell_def)

lemma unat_and_3FFF: "unat ((a :: u16) AND 0x3FFF) = unat a mod 0x4000"
proof -
  have "a AND 0x3FFF = take_bit 14 a" by (rule and_low_mask) simp
  then show ?thesis by (simp add: unat_take_bit take_bit_nat_def)
qed

lemma next_address_cell: "unat (next_address a) mod 0x4000 = (unat a mod 0x4000 + 1) mod 0x4000"
proof -
  have "unat (a + 1) = (unat a + 1) mod 2 ^ 16" by (simp add: unat_word_ariths)
  then show ?thesis by (simp add: next_address_def unat_and_3FFF mod_mod_cancel mod_Suc_eq)
qed

lemma writeDataPort_vram:
  assumes "accessMode v \<noteq> CramWrite"
  shows "writeDataPort x v = v\<lparr>commandLatchPending := False, readBuffer := x,
      vram := (vram v)[port_cell v := x], dataAddress := next_address (dataAddress v)\<rparr>"
  using assms by (simp add: writeDataPort_def Let_def port_cell_def unat_and_3FFF)

lemma write_many:
  assumes "length (vram v) = 0x4000" and "accessMode v \<noteq> CramWrite" and "length xs \<le> 0x4000"
  shows "let w = fold writeDataPort xs v in
    length (vram w) = 0x4000 \<and> accessMode w = accessMode v \<and> registers w = registers v \<and>
    port_cell w = (port_cell v + length xs) mod 0x4000 \<and>
    (xs = [] \<or> \<not> commandLatchPending w) \<and>
    (\<forall>i < length xs. vram w ! ((port_cell v + i) mod 0x4000) = xs ! i)"
  using assms(3)
proof (induction xs rule: rev_induct)
  case Nil
  then show ?case using assms by (simp add: port_cell_def)
next
  case (snoc x xs)
  define w where "w = fold writeDataPort xs v"
  have w: "length (vram w) = 0x4000" "accessMode w = accessMode v" "registers w = registers v"
    "port_cell w = (port_cell v + length xs) mod 0x4000"
    "\<And>i. i < length xs \<Longrightarrow> vram w ! ((port_cell v + i) mod 0x4000) = xs ! i"
    using snoc by (simp_all add: w_def [symmetric] Let_def)
  have e: "writeDataPort x w = w\<lparr>commandLatchPending := False, readBuffer := x,
      vram := (vram w)[port_cell w := x], dataAddress := next_address (dataAddress w)\<rparr>"
    using w(2) assms(2) by (intro writeDataPort_vram) simp
  have c: "port_cell (writeDataPort x w) = (port_cell v + Suc (length xs)) mod 0x4000"
    unfolding e using w(4) by (simp add: port_cell_def next_address_cell mod_Suc_eq)
  have ne: "(port_cell v + i) mod 0x4000 \<noteq> (port_cell v + length xs) mod 0x4000" if "i < length xs" for i
  proof
    assume "(port_cell v + i) mod 0x4000 = (port_cell v + length xs) mod 0x4000"
    then have "0x4000 dvd length xs - i"
      using that mod_eq_dvd_iff_nat [of "port_cell v + i" "port_cell v + length xs" "0x4000"] by simp
    then show False using that snoc.prems by (auto dest: dvd_imp_le)
  qed
  show ?case
    using w ne ne [symmetric] c unfolding fold_append comp_apply w_def [symmetric] Let_def
    by (auto simp: e nth_append nth_list_update not_less less_Suc_eq)
qed

lemma readDataPort_simps:
  "fst (readDataPort v) = readBuffer v" "vram (snd (readDataPort v)) = vram v"
  "readBuffer (snd (readDataPort v)) = vram v ! port_cell v"
  "port_cell (snd (readDataPort v)) = (port_cell v + 1) mod 0x4000"
  by (simp_all add: readDataPort_def port_cell_def unat_and_3FFF next_address_cell)

lemma read_many:
  assumes "readBuffer v = vram v ! c" and "port_cell v = (c + 1) mod 0x4000" and "c < 0x4000"
  shows "fst (readMany n v) = map (\<lambda>i. vram v ! ((c + i) mod 0x4000)) [0..<n]"
  using assms
proof (induction n arbitrary: v c)
  case (Suc n)
  define w where "w = snd (readDataPort v)"
  have "fst (readMany n w) = map (\<lambda>i. vram w ! ((port_cell v + i) mod 0x4000)) [0..<n]"
    by (rule Suc.IH) (simp_all add: w_def readDataPort_simps port_cell_less)
  moreover have "map (\<lambda>i. vram v ! ((c + i) mod 0x4000)) [0..<Suc n] =
      vram v ! c # map (\<lambda>i. vram v ! ((port_cell v + i) mod 0x4000)) [0..<n]"
    using Suc.prems by (simp add: map_Suc_upt [symmetric] upt_conv_Cons mod_add_left_eq del: upt_Suc)
  ultimately show ?case
    using Suc.prems by (simp add: Let_def split_def w_def [symmetric] readDataPort_simps)
      (simp add: w_def readDataPort_simps)
qed simp

text \<open>The two control bytes that point the data port at an address, for writing and for reading.\<close>

definition set_write :: "u16 \<Rightarrow> vdp \<Rightarrow> vdp" where
  "set_write a v = writeControlPort (0x40 OR (hi a AND 0x3F)) (writeControlPort (lo a) v)"

definition set_read :: "u16 \<Rightarrow> vdp \<Rightarrow> vdp" where
  "set_read a v = writeControlPort (hi a AND 0x3F) (writeControlPort (lo a) v)"

lemma command_bits:
  "drop_bit 6 (0x40 OR (h AND 0x3F)) AND 0x03 = (1 :: u8)" "drop_bit 6 (h AND 0x3F) AND 0x03 = (0 :: u8)"
  "(0x40 OR (h AND 0x3F)) AND 0x3F = h AND (0x3F :: u8)"
proof -
  have m: "(w :: u8) AND 0x3F = take_bit 6 w" "(w :: u8) AND 0x03 = take_bit 2 w" for w
    by (rule and_low_mask; simp)+
  have b: "bit (0x40 :: u8) n \<longleftrightarrow> n = 6" for n
    using bit_push_bit_iff [of 6 "1 :: u8" n] by (auto simp: bit_1_iff)
  show "drop_bit 6 (0x40 OR (h AND 0x3F)) AND 0x03 = (1 :: u8)"
    unfolding m by (rule bit_word_eqI) (auto simp: bit_simps b)
  show "drop_bit 6 (h AND 0x3F) AND 0x03 = (0 :: u8)"
    unfolding m by (rule bit_word_eqI) (auto simp: bit_simps)
  show "(0x40 OR (h AND 0x3F)) AND 0x3F = h AND (0x3F :: u8)"
    unfolding m by (rule bit_word_eqI) (auto simp: bit_simps b)
qed

lemma command_address:
  "(push_bit 8 (ucast (hi a AND 0x3F)) OR ucast (lo a)) AND 0x3FFF = (a AND 0x3FFF :: u16)"
proof -
  have m: "(w :: u8) AND 0x3F = take_bit 6 w" for w by (rule and_low_mask) simp
  have n: "(w :: u16) AND 0x3FFF = take_bit 14 w" for w by (rule and_low_mask) simp
  show ?thesis unfolding m n
    by (rule bit_word_eqI) (auto simp: bit_simps hi_def lo_eq_ucast not_less)
qed

lemma set_write_eq:
  assumes "\<not> commandLatchPending v"
  shows "set_write a v = v\<lparr>commandLow := lo a, dataAddress := a AND 0x3FFF, commandLatchPending := False,
    accessMode := VramWrite\<rparr>"
  using assms command_address [of a]
  by (simp add: set_write_def writeControlPort_def Let_def command_bits access_mode_of_def)

lemma set_read_eq:
  assumes "\<not> commandLatchPending v" and "length (vram v) = 0x4000"
  shows "set_read a v = v\<lparr>commandLow := lo a, dataAddress := next_address (a AND 0x3FFF),
    commandLatchPending := False, accessMode := VramRead, readBuffer := vram v ! (unat a mod 0x4000)\<rparr>"
proof -
  have "vram v \<noteq> []" using assms(2) by auto
  moreover have "unat (a AND 0x3FFF AND 0x3FFF) = unat a mod 0x4000" by (simp add: unat_and_3FFF)
  ultimately show ?thesis
    using assms(1) command_address [of a]
    by (simp add: set_read_def writeControlPort_def Let_def command_bits access_mode_of_def)
qed

lemma seed_latch: "commandLatchPending (seedDefaultCram v) = commandLatchPending v"
proof -
  have w: "commandLatchPending (setWord i r g b v) = commandLatchPending v" for i r g b v
    by (simp add: setWord_def Let_def)
  then have "commandLatchPending (fold (\<lambda>i. setWord i r g b) is v) = commandLatchPending v" for r g b v "is"
    by (induction "is" arbitrary: v) simp_all
  then show ?thesis by (simp add: seedDefaultCram_def Let_def w)
qed

text \<open>The video processor once the sprites of the current line have been looked at, if they had not been.\<close>

definition polled :: "vdp \<Rightarrow> vdp" where
  "polled v =
     (let v = v\<lparr>commandLatchPending := False\<rparr>; line = readVCounter v
      in if unat line < activeDisplayLines v \<and> (\<not> statusScanlineConsumed v \<or> line \<noteq> lastStatusScanline v)
         then evaluateScanlineStatus line v else v)"

text \<open>The control and data ports make a memory of the video RAM: point the port at an address for
  writing, write up to 16384 bytes, point it there again for reading, and the data port returns
  exactly the bytes written, across the end of the memory and whatever the read buffer held.\<close>

theorem vram_port_roundtrip:
  assumes "vdp_ok v" and "\<not> commandLatchPending v" and "length xs \<le> 0x4000"
  shows "fst (readMany (length xs) (set_read a (fold writeDataPort xs (set_write a v)))) = xs"
proof -
  define w where "w = fold writeDataPort xs (set_write a v)"
  define c where "c = unat a mod 0x4000"
  have v: "length (vram (set_write a v)) = 0x4000" "accessMode (set_write a v) \<noteq> CramWrite"
    "port_cell (set_write a v) = c" "\<not> commandLatchPending (set_write a v)"
    using assms(1, 2) by (simp_all add: set_write_eq vdp_ok_def vdp_sizes_def port_cell_def unat_and_3FFF c_def)
  have w: "length (vram w) = 0x4000" "\<not> commandLatchPending w"
    "\<And>i. i < length xs \<Longrightarrow> vram w ! ((c + i) mod 0x4000) = xs ! i"
    using write_many [OF v(1,2) assms(3)] v(3,4) by (cases "xs = []", auto simp: w_def Let_def)
  define r where "r = set_read a w"
  have r: "readBuffer r = vram r ! c" "port_cell r = (c + 1) mod 0x4000" "vram r = vram w"
    using set_read_eq [OF w(2,1), of a]
    by (simp_all add: r_def c_def port_cell_def next_address_cell unat_and_3FFF)
  have "fst (readMany (length xs) r) = map (\<lambda>i. vram w ! ((c + i) mod 0x4000)) [0..<length xs]"
    using read_many [OF r(1,2)] by (simp add: r(3) c_def)
  also have "\<dots> = xs" using w(3) by (intro nth_equalityI) simp_all
  finally show ?thesis by (simp add: r_def w_def)
qed

theorem vram_port_roundtrip_witness:
  "fst (readMany 3 (set_read 0xFFFE (fold writeDataPort [1, 2, 3] (set_write 0xFFFE (vdp_reset new_vdp))))) = [1, 2, 3]"
proof -
  have "\<not> commandLatchPending (vdp_reset new_vdp)"
    by (simp add: vdp_reset_def Let_def hideSprites_def recompute_cache [OF refl] seed_latch)
  from vram_port_roundtrip [OF power_on_vdp_ok this, of "[1, 2, 3]" "0xFFFE"]
  show ?thesis by (simp add: numeral_3_eq_3 del: readMany.simps)
qed

section \<open>The status port\<close>

lemma activeDisplayLines_cong:
  "registers w = registers v \<Longrightarrow> smsMode w = smsMode v \<Longrightarrow> activeDisplayLines w = activeDisplayLines v"
  by (simp add: activeDisplayLines_def mode4Enabled_def Let_def)

lemma readVCounter_cong:
  assumes "registers w = registers v" "smsMode w = smsMode v" "scanline w = scanline v"
  shows "readVCounter w = readVCounter v"
  using activeDisplayLines_cong [OF assms(1,2)] assms(3) by (simp add: readVCounter_def vCounterValue_def)

lemma evaluate_consumed:
  "statusScanlineConsumed (evaluateScanlineStatus l v) = False" "lastStatusScanline (evaluateScanlineStatus l v) = l"
  "pendingCycles (evaluateScanlineStatus l v) = pendingCycles v"
  by (simp_all add: evaluateScanlineStatus_def Let_def)

lemma status_bits:
  fixes f ov c :: bool
  defines "s \<equiv> (if f then 0x80 else 0) OR (if ov then 0x40 else 0) OR (if c then 0x20 else (0 :: u8))"
  shows "bit s 7 = f" "bit s 6 = ov" "bit s 5 = c"
  unfolding s_def by (cases f; cases ov; cases c; simp)+

text \<open>Reading the status port reports the pending frame interrupt, sprite overflow and sprite collision
  in bits 7, 6 and 5 (the sprites of the current line evaluated first if that is due), and acknowledges: both interrupts are cleared, the interrupt line drops, a
  half-written command is forgotten, and a second read of the same scanline reports nothing.\<close>

theorem status_read_acknowledges:
  "let (s, w) = readControlPort v in
     (bit s 7 \<longleftrightarrow> frameInterruptPending v) \<and>
     (bit s 6 \<longleftrightarrow> spriteOverflowPending (polled v)) \<and> (bit s 5 \<longleftrightarrow> spriteCollisionPending (polled v)) \<and>
     \<not> frameInterruptPending w \<and> \<not> lineInterruptPending w \<and> \<not> irqAsserted w \<and> \<not> commandLatchPending w \<and>
     readControlPort w = (0, w)"
proof -
  define v1 where "v1 = v\<lparr>commandLatchPending := False\<rparr>"
  define line where "line = readVCounter v1"
  define v2 where "v2 = polled v"
  define s where "s = (if frameInterruptPending v2 then 0x80 else 0) OR (if spriteOverflowPending v2 then 0x40 else 0) OR
      (if spriteCollisionPending v2 then 0x20 else (0 :: u8))"
  define w where "w = recomputeIrqAsserted (v2\<lparr>frameInterruptPending := False, lineInterruptPending := False,
      spriteOverflowPending := False, spriteCollisionPending := False\<rparr>)\<lparr>lastStatusScanline := line, statusScanlineConsumed := True\<rparr>"
  have r: "readControlPort v = (s, w)"
    by (simp only: readControlPort_def polled_def Let_def v1_def line_def v2_def s_def w_def)
  have f: "frameInterruptPending v2 = frameInterruptPending v" "\<not> commandLatchPending v2"
    "registers v2 = registers v" "smsMode v2 = smsMode v" "scanline v2 = scanline v"
    by (simp_all add: v2_def polled_def Let_def)
  have wf: "\<not> frameInterruptPending w" "\<not> lineInterruptPending w" "\<not> irqAsserted w" "\<not> commandLatchPending w"
    "\<not> spriteOverflowPending w" "\<not> spriteCollisionPending w" "statusScanlineConsumed w" "lastStatusScanline w = line"
    "registers w = registers v" "smsMode w = smsMode v" "scanline w = scanline v"
    using f by (simp_all add: w_def recompute_irq irq_level_def)
  have m: "readVCounter w = line" "activeDisplayLines w = activeDisplayLines v"
    using wf(9-11) by (simp_all add: line_def v1_def readVCounter_cong [of w "v\<lparr>commandLatchPending := False\<rparr>"]
        activeDisplayLines_cong [of w v])
  have lw: "w\<lparr>commandLatchPending := False\<rparr> = w" using wf(4) by simp
  have cl: "w\<lparr>frameInterruptPending := False, lineInterruptPending := False,
      spriteOverflowPending := False, spriteCollisionPending := False\<rparr> = w" using wf by simp
  have irq: "recomputeIrqAsserted w = w" using wf by (simp add: recompute_irq irq_level_def)
  have "readControlPort w = (0, w\<lparr>lastStatusScanline := line, statusScanlineConsumed := True\<rparr>)"
    unfolding readControlPort_def Let_def lw m using wf by (simp add: cl irq)
  moreover have "w\<lparr>lastStatusScanline := line, statusScanlineConsumed := True\<rparr> = w" using wf by simp
  moreover have "bit s 7 \<longleftrightarrow> frameInterruptPending v" "bit s 6 \<longleftrightarrow> spriteOverflowPending v2"
    "bit s 5 \<longleftrightarrow> spriteCollisionPending v2"
    unfolding s_def status_bits f(1) by simp_all
  ultimately show ?thesis using wf unfolding r by (simp add: v2_def)
qed

section \<open>The state vector\<close>

lemma access_mode_code: "access_mode_of (access_mode_code m) = m" "access_mode_code m \<le> 3"
  by (cases m; simp add: access_mode_of_def access_mode_code_def)+

lemma vdp_bytes_bind:
  "length xs < 2 ^ 32 \<Longrightarrow> rd_bind (vdp_bytes (length xs)) f (put_bytes xs @ bs) = f xs bs"
  by (simp add: vdp_bytes_def put_bytes_def reader_steps unat_of_nat_u32 del: of_nat_numeral)

text \<open>What the receiver becomes: everything, for receiver and sender have memories of the same sizes.\<close>

lemma vdp_read_written:
  assumes ok: "vdp_ok s" and t: "vdp_sizes t"
  shows "vdp_importState t (vdp_exportState s) = Inr s"
proof -
  have len: "length (vram s) = length (vram t)" "length (oam s) = length (oam t)"
    "length (registers s) = length (registers t)" "length (cram s) = length (cram t)"
    "length (vram s) < 2 ^ 32" "length (oam s) < 2 ^ 32" "length (registers s) < 2 ^ 32" "length (cram s) < 2 ^ 32"
    "length (decodedCram t) = 32" "length (decodedCram s) = 32"
    using ok t by (simp_all add: vdp_ok_def vdp_sizes_def)
  have guard: "scanline s < kTotalScanlines" "(ucast (lastReadyScanline s) :: u16) < kTotalScanlines"
    using ok unat_u8_less [of "lastReadyScanline s"]
    by (simp_all add: vdp_ok_def kTotalScanlines_def word_less_nat_alt unsigned_ucast_eq take_bit_nat_eq_self)
  have cache: "recomputeIrqAsserted (recomputeDecodedCramCache (s\<lparr>decodedCram := decodedCram t\<rparr>)) = s"
  proof -
    have "map (decodeEntry (s\<lparr>decodedCram := decodedCram t\<rparr>)) [0..<32] = decodedCram s"
      using ok len(10) by (intro nth_equalityI)
        (simp_all add: vdp_ok_def cache_ok_def decodeEntry_cong [of "s\<lparr>decodedCram := x\<rparr>" s for x])
    moreover have "recomputeIrqAsserted s = s" using ok by (simp add: recompute_irq vdp_ok_def)
    ultimately show ?thesis using len(9) by (simp add: recompute_cache)
  qed
  have eq: "t\<lparr>vram := vram s, oam := oam s, registers := registers s, cram := cram s,
      pendingCycles := pendingCycles s, scanline := scanline s, lastReadyScanline := lastReadyScanline s,
      hCounter := hCounter s, latchedHCounter := latchedHCounter s,
      hCounterLatched := hCounterLatched s, scanlineReadyPending := scanlineReadyPending s,
      vblankPending := vblankPending s, frameInterruptPending := frameInterruptPending s,
      lineInterruptPending := lineInterruptPending s, irqAsserted := irqAsserted s,
      spriteOverflowPending := spriteOverflowPending s, spriteCollisionPending := spriteCollisionPending s,
      lastStatusScanline := lastStatusScanline s, statusScanlineConsumed := statusScanlineConsumed s,
      dataAddress := dataAddress s, commandLow := commandLow s, readBuffer := readBuffer s,
      lineCounter := lineCounter s, verticalScrollLatch := verticalScrollLatch s,
      accessMode := accessMode s, commandLatchPending := commandLatchPending s,
      smsMode := smsMode s\<rparr> = s\<lparr>decodedCram := decodedCram t\<rparr>"
    by simp
  show ?thesis
    unfolding vdp_importState_def vdp_exportState_def vdp_reader_def Let_def len(1-4) [symmetric]
    using guard access_mode_code(2) [of "accessMode s"]
    by (simp add: vdp_bytes_bind [OF len(5)] vdp_bytes_bind [OF len(6)] vdp_bytes_bind [OF len(7)]
        vdp_bytes_bind [OF len(8)] reader_steps access_mode_code eq cache not_le not_less)
qed

interpretation vdp_state: state_codec vdp_exportState vdp_importState vdp_ok "\<lambda>t _. vdp_sizes t" "\<lambda>_ s. s"
  by unfold_locales (simp_all add: vdp_read_written)

text \<open>Any reachable video processor, so one in the middle of a frame, of a command or of a line, is
  restored exactly by importing its exported state into any other; and nothing of it is lost, for
  exporting again gives the same bytes.\<close>

theorem vdp_state_roundtrip:
  "vdp_importState (fold vdp_apply ops' (vdp_reset new_vdp))
     (vdp_exportState (fold vdp_apply ops (vdp_reset new_vdp))) = Inr (fold vdp_apply ops (vdp_reset new_vdp))"
  by (intro vdp_state.import_export vdp_ok_sizes vdp_ok_reachable)

end
