(* ===== verification/GG_VDP_Render.thy ===== *)
theory GG_VDP_Render
  imports GG_VDP_Laws
begin

text \<open>
  \<open>GameGearVDP::renderFramePixels\<close> of \<open>src/cores/gamegear/GameGearVDP.cpp\<close>: the TMS path, the two Mode 4
  background paths (the one for unscrolled rows and the general one with its caches of decoded
  entries and pattern rows) and the sprite overlay. The parallel output arrays, with the sprite mask,
  are one list of pixels; \<open>collect\<close> is the template parameter, without which the resource fields
  keep their initial values. Timing and diagnostics are left out.
\<close>

section \<open>Frames\<close>

record render_pixel =
  colorIndex :: u8
  resourceTile :: u16
  resourceKind :: u8
  resourceX :: u8
  resourceY :: u8
  spriteMask :: u8

definition blank :: "u8 \<Rightarrow> render_pixel" where
  "blank c = \<lparr>colorIndex = c, resourceTile = 0xFFFF, resourceKind = 0, resourceX = 0, resourceY = 0, spriteMask = 0\<rparr>"

definition kSpriteMaskBackgroundPriority :: u8 where "kSpriteMaskBackgroundPriority = 0x01"
definition kSpriteMaskOccupied :: u8 where "kSpriteMaskOccupied = 0x02"
definition kTilesPerRow :: nat where "kTilesPerRow = 32"
definition kSpriteCount :: nat where "kSpriteCount = 40"

definition gameGearViewportXOffset :: "nat \<Rightarrow> nat" where
  "gameGearViewportXOffset frameWidth = (if frameWidth = 160 then 48 else 0)"

definition gameGearTmsViewportX :: "nat \<Rightarrow> nat \<Rightarrow> nat" where
  "gameGearTmsViewportX frameWidth lcdX = (if frameWidth = 160 then 8 + lcdX * 240 div 160 else lcdX)"

definition gameGearViewportYOffset :: "nat \<Rightarrow> nat" where
  "gameGearViewportYOffset frameHeight = (if frameHeight = 144 then 24 else 0)"

text \<open>What is computed once per frame.\<close>

record render =
  width :: nat
  height :: nat
  collect :: bool
  hasVisibleSprites :: bool

definition viewportX :: "render \<Rightarrow> nat" where "viewportX r = gameGearViewportXOffset (width r)"
definition viewportY :: "render \<Rightarrow> nat" where "viewportY r = gameGearViewportYOffset (height r)"

definition backdropIndex :: "vdp \<Rightarrow> u8" where
  "backdropIndex v = 16 + (registers v ! 7 AND 0x0F)"

definition wrapVram :: "vdp \<Rightarrow> nat \<Rightarrow> nat" where
  "wrapVram v i =
     (let n = length (vram v) in
      if n = 0 then 0
      else if and n (n - 1) = 0 then and i (n - 1)
      else i mod n)"

section \<open>Tiles\<close>

text \<open>The four bit planes of a pattern row and the colour of each of its pixels.\<close>

definition plane_color :: "u8 \<times> u8 \<times> u8 \<times> u8 \<Rightarrow> nat \<Rightarrow> u8" where
  "plane_color planes b = (case planes of (plane0, plane1, plane2, plane3) \<Rightarrow>
     push_bit 3 (drop_bit b plane3 AND 1) OR push_bit 2 (drop_bit b plane2 AND 1) OR
     push_bit 1 (drop_bit b plane1 AND 1) OR (drop_bit b plane0 AND 1))"

definition pattern_planes :: "vdp \<Rightarrow> nat \<Rightarrow> nat \<Rightarrow> u8 \<times> u8 \<times> u8 \<times> u8" where
  "pattern_planes v tileBase sampleY =
     (let rowBase = wrapVram v (wrapVram v tileBase + sampleY * 4)
      in (vram v ! rowBase, vram v ! wrapVram v (rowBase + 1), vram v ! wrapVram v (rowBase + 2),
          vram v ! wrapVram v (rowBase + 3)))"

definition row_colors :: "u8 \<times> u8 \<times> u8 \<times> u8 \<Rightarrow> u8 list" where
  "row_colors planes = map (\<lambda>px. plane_color planes (7 - px)) [0..<8]"

text \<open>The same, unrolled, in the path for unscrolled rows.\<close>

definition row_colors_unrolled :: "u8 \<times> u8 \<times> u8 \<times> u8 \<Rightarrow> u8 list" where
  "row_colors_unrolled planes = (case planes of (p0, p1, p2, p3) \<Rightarrow>
     [drop_bit 4 (p3 AND 0x80) OR drop_bit 5 (p2 AND 0x80) OR drop_bit 6 (p1 AND 0x80) OR drop_bit 7 (p0 AND 0x80),
      drop_bit 3 (p3 AND 0x40) OR drop_bit 4 (p2 AND 0x40) OR drop_bit 5 (p1 AND 0x40) OR drop_bit 6 (p0 AND 0x40),
      drop_bit 2 (p3 AND 0x20) OR drop_bit 3 (p2 AND 0x20) OR drop_bit 4 (p1 AND 0x20) OR drop_bit 5 (p0 AND 0x20),
      drop_bit 1 (p3 AND 0x10) OR drop_bit 2 (p2 AND 0x10) OR drop_bit 3 (p1 AND 0x10) OR drop_bit 4 (p0 AND 0x10),
      (p3 AND 0x08) OR drop_bit 1 (p2 AND 0x08) OR drop_bit 2 (p1 AND 0x08) OR drop_bit 3 (p0 AND 0x08),
      push_bit 1 (p3 AND 0x04) OR (p2 AND 0x04) OR drop_bit 1 (p1 AND 0x04) OR drop_bit 2 (p0 AND 0x04),
      push_bit 2 (p3 AND 0x02) OR push_bit 1 (p2 AND 0x02) OR (p1 AND 0x02) OR drop_bit 1 (p0 AND 0x02),
      push_bit 3 (p3 AND 0x01) OR push_bit 2 (p2 AND 0x01) OR push_bit 1 (p1 AND 0x01) OR (p0 AND 0x01)])"

record DecodedBgEntry =
  tileIndex :: u16
  flipH :: bool
  flipV :: bool
  palette1 :: bool
  priority :: bool

definition tile_word :: "vdp \<Rightarrow> nat \<Rightarrow> nat \<Rightarrow> u16" where
  "tile_word v rowNameBase tileX =
     (let entryIndex = rowNameBase + tileX * 2 in
      if entryIndex + 1 < length (vram v)
      then ucast (vram v ! entryIndex) OR push_bit 8 (ucast (vram v ! (entryIndex + 1)))
      else 0)"

definition decode_word :: "u16 \<Rightarrow> DecodedBgEntry" where
  "decode_word entry =
     \<lparr>tileIndex = entry AND 0x01FF, flipH = (entry AND 0x0200 \<noteq> 0), flipV = (entry AND 0x0400 \<noteq> 0),
      palette1 = (entry AND 0x0800 \<noteq> 0), priority = (entry AND 0x1000 \<noteq> 0)\<rparr>"

definition mode4ScrolledY :: "vdp \<Rightarrow> nat \<Rightarrow> u8 \<Rightarrow> nat" where
  "mode4ScrolledY v vdpY effectiveScrollY =
     (if activeDisplayLines v = 192
      then (let scrollBase = (if effectiveScrollY > 223 then unat (effectiveScrollY AND 0x1F) else unat effectiveScrollY);
                wrapHeight = (if effectiveScrollY > 223 then 256 else 224)
            in (vdpY + scrollBase) mod wrapHeight)
      else (vdpY + unat effectiveScrollY) mod 256)"

definition row_name_base :: "vdp \<Rightarrow> nat \<Rightarrow> nat" where
  "row_name_base v tileY =
     nameTableBase v + tileY mod (if activeDisplayLines v = 192 then 28 else 32) * kTilesPerRow * 2"

text \<open>Writing one background pixel.\<close>

definition bg_pixel :: "render \<Rightarrow> DecodedBgEntry \<Rightarrow> nat \<Rightarrow> nat \<Rightarrow> u8 \<Rightarrow> render_pixel \<Rightarrow> render_pixel" where
  "bg_pixel r e sampleX sampleY colorCode p =
     (let p = (if collect r then p\<lparr>resourceTile := tileIndex e, resourceX := of_nat sampleX, resourceY := of_nat sampleY\<rparr> else p);
          p = p\<lparr>colorIndex := (if palette1 e then 16 else 0) + colorCode\<rparr>
      in if hasVisibleSprites r
         then p\<lparr>spriteMask := (if priority e \<and> colorCode \<noteq> 0 then kSpriteMaskBackgroundPriority else 0)\<rparr>
         else p)"

definition put_pixel :: "nat \<Rightarrow> (render_pixel \<Rightarrow> render_pixel) \<Rightarrow> render_pixel list \<Rightarrow> render_pixel list" where
  "put_pixel i f ps = ps[i := f (ps ! i)]"

text \<open>The pixels of one tile row, from column \<open>pixelX\<close> on.\<close>

definition bg_run :: "render \<Rightarrow> DecodedBgEntry \<Rightarrow> u8 list \<Rightarrow> nat \<Rightarrow> nat \<Rightarrow> nat \<Rightarrow> nat \<Rightarrow> render_pixel list \<Rightarrow> render_pixel list" where
  "bg_run r e rowColors sampleY pixelX first runLength ps =
     fold (\<lambda>run. let tilePixelX = pixelX + run;
                     sampleX = (if flipH e then 7 - tilePixelX else tilePixelX)
                 in put_pixel (first + run) (bg_pixel r e sampleX sampleY (rowColors ! sampleX)))
       [0..<runLength] ps"

section \<open>The path for unscrolled rows\<close>

text \<open>Every run has at least one pixel.\<close>

lemma run_shrinks: "x < e \<Longrightarrow> e - (x + min (8 - k mod 8) (e - x)) < e - (x :: nat)"
proof -
  assume "x < e"
  moreover have "0 < 8 - k mod (8 :: nat)" by simp
  ultimately show ?thesis by linarith
qed

definition mode4SimpleBackgroundPathEligible :: "vdp \<Rightarrow> u8 \<Rightarrow> u8 \<Rightarrow> bool" where
  "mode4SimpleBackgroundPathEligible v scrollX scrollY \<longleftrightarrow>
     \<not> smsMode v \<and> scrollX AND 0x07 = 0 \<and> registers v ! 0 AND 0xA0 = 0 \<and> \<not> (activeDisplayLines v = 192 \<and> scrollY > 223)"

definition startingColumn :: "u8 \<Rightarrow> nat" where
  "startingColumn scrollX = unat ((32 - drop_bit 3 scrollX) AND 0x1F)"

function simple_loop :: "vdp \<Rightarrow> render \<Rightarrow> u8 \<Rightarrow> nat \<Rightarrow> nat \<Rightarrow> nat \<Rightarrow> nat \<Rightarrow> render_pixel list \<Rightarrow> render_pixel list" where
  "simple_loop v r scrollX rowOffset rowNameBase pixelY x ps =
     (if x < width r then
        (let scrolledX = (x + viewportX r) mod 256;
             tileX = (startingColumn scrollX + scrolledX div 8) mod 32;
             pixelX = scrolledX mod 8;
             runLength = min (8 - pixelX) (width r - x);
             e = decode_word (tile_word v rowNameBase tileX);
             sampleY = (if flipV e then 7 - pixelY else pixelY);
             rowColors = row_colors_unrolled (pattern_planes v (unat (tileIndex e) * 32) sampleY)
         in simple_loop v r scrollX rowOffset rowNameBase pixelY (x + runLength)
              (bg_run r e rowColors sampleY pixelX (rowOffset + x) runLength ps))
      else ps)"
  by pat_completeness auto
termination
proof (relation "measure (\<lambda>(v, r, scrollX, rowOffset, rowNameBase, pixelY, x, ps). width r - x)", goal_cases)
  case 2
  then show ?case by (simp only: in_measure prod.case run_shrinks)
qed simp

declare simple_loop.simps [simp del]

definition simple_row :: "vdp \<Rightarrow> render \<Rightarrow> u8 \<Rightarrow> u8 \<Rightarrow> nat \<Rightarrow> render_pixel list \<Rightarrow> render_pixel list" where
  "simple_row v r scrollX scrollY y ps =
     (let scrolledY = mode4ScrolledY v (y + viewportY r) scrollY
      in simple_loop v r scrollX (y * width r) (row_name_base v (scrolledY div 8)) (scrolledY mod 8) 0 ps)"

definition simple_background :: "vdp \<Rightarrow> render \<Rightarrow> u8 \<Rightarrow> u8 \<Rightarrow> render_pixel list \<Rightarrow> render_pixel list" where
  "simple_background v r scrollX scrollY ps = fold (simple_row v r scrollX scrollY) [0..<height r] ps"

section \<open>The general path\<close>

text \<open>The caches of one row of pixels, by tile column: the decoded entry with the tile row it is of, and the
  colours of a pattern row with the line it was decoded for, \<open>-1\<close> for none.\<close>

record bg_cache =
  decodedEntries :: "DecodedBgEntry list"
  decodedEntryRows :: "nat list"
  decodedValid :: "bool list"
  decodedPatternRows :: "u8 list list"
  decodedPatternRowY :: "int list"

definition new_cache :: bg_cache where
  "new_cache =
     \<lparr>decodedEntries = replicate 32 \<lparr>tileIndex = 0, flipH = False, flipV = False, palette1 = False, priority = False\<rparr>,
      decodedEntryRows = replicate 32 0, decodedValid = replicate 32 False,
      decodedPatternRows = replicate 32 (replicate 8 0), decodedPatternRowY = replicate 32 (- 1)\<rparr>"

definition cache_entry :: "vdp \<Rightarrow> nat \<Rightarrow> nat \<Rightarrow> nat \<Rightarrow> bg_cache \<Rightarrow> bg_cache" where
  "cache_entry v rowNameBase tileY tileX c =
     (if \<not> decodedValid c ! tileX \<or> decodedEntryRows c ! tileX \<noteq> tileY
      then c\<lparr>decodedEntries := (decodedEntries c)[tileX := decode_word (tile_word v rowNameBase tileX)],
             decodedEntryRows := (decodedEntryRows c)[tileX := tileY],
             decodedValid := (decodedValid c)[tileX := True]\<rparr>
      else c)"

definition cache_pattern :: "vdp \<Rightarrow> DecodedBgEntry \<Rightarrow> nat \<Rightarrow> nat \<Rightarrow> bg_cache \<Rightarrow> bg_cache" where
  "cache_pattern v e sampleY tileX c =
     (if decodedPatternRowY c ! tileX \<noteq> int sampleY
      then c\<lparr>decodedPatternRows := (decodedPatternRows c)[tileX := row_colors (pattern_planes v (unat (tileIndex e) * 32) sampleY)],
             decodedPatternRowY := (decodedPatternRowY c)[tileX := int sampleY]\<rparr>
      else c)"

function general_loop :: "vdp \<Rightarrow> render \<Rightarrow> u8 \<Rightarrow> nat \<Rightarrow> nat \<Rightarrow> nat \<Rightarrow> nat \<Rightarrow> nat \<Rightarrow> bg_cache \<Rightarrow> render_pixel list \<Rightarrow>
    bg_cache \<times> render_pixel list" where
  "general_loop v r scrollX rowOffset tileY pixelY xEnd x c ps =
     (if x < xEnd then
        (let scrolledX = nat ((int (x + viewportX r) - int (unat (scrollX AND 0x07))) mod 256);
             tileX = (startingColumn scrollX + scrolledX div 8) mod 32;
             pixelX = scrolledX mod 8;
             c = cache_entry v (row_name_base v tileY) tileY tileX c;
             e = decodedEntries c ! tileX;
             sampleY = (if flipV e then 7 - pixelY else pixelY);
             c = cache_pattern v e sampleY tileX c;
             runLength = min (8 - pixelX) (xEnd - x)
         in general_loop v r scrollX rowOffset tileY pixelY xEnd (x + runLength) c
              (bg_run r e (decodedPatternRows c ! tileX) sampleY pixelX (rowOffset + x) runLength ps))
      else (c, ps))"
  by pat_completeness auto
termination
proof (relation "measure (\<lambda>(v, r, scrollX, rowOffset, tileY, pixelY, xEnd, x, c, ps). xEnd - x)", goal_cases)
  case 2
  then show ?case by (simp only: in_measure prod.case run_shrinks)
qed simp

declare general_loop.simps [simp del]

definition visible_start :: "vdp \<Rightarrow> render \<Rightarrow> u8 \<Rightarrow> nat \<Rightarrow> nat" where
  "visible_start v r scrollX xStart =
     (let x = (if registers v ! 0 AND 0x20 \<noteq> 0 then max xStart (8 - viewportX r) else xStart)
      in if scrollX AND 0x07 \<noteq> 0 then max x (unat (scrollX AND 0x07) - viewportX r) else x)"

definition renderGeneralSegment :: "vdp \<Rightarrow> render \<Rightarrow> u8 \<Rightarrow> nat \<Rightarrow> nat \<Rightarrow> nat \<Rightarrow> u8 \<Rightarrow> bg_cache \<times> render_pixel list \<Rightarrow>
    bg_cache \<times> render_pixel list" where
  "renderGeneralSegment v r scrollX y xStart xEnd effectiveScrollY s =
     (if xStart \<ge> xEnd then s
      else
        (let scrolledY = mode4ScrolledY v (y + viewportY r) effectiveScrollY;
             visibleStart = visible_start v r scrollX xStart
         in if visibleStart \<ge> xEnd then s
            else general_loop v r scrollX (y * width r) (scrolledY div 8) (scrolledY mod 8) xEnd visibleStart (fst s) (snd s)))"

definition effective_scrollX :: "vdp \<Rightarrow> render \<Rightarrow> u8 \<Rightarrow> nat \<Rightarrow> u8" where
  "effective_scrollX v r scrollX y =
     (if smsMode v \<and> registers v ! 0 AND 0x40 \<noteq> 0 \<and> y + viewportY r < 16 then 0 else scrollX)"

definition split_column :: "render \<Rightarrow> nat" where
  "split_column r = min (192 - viewportX r) (width r)"

definition general_row :: "vdp \<Rightarrow> render \<Rightarrow> u8 \<Rightarrow> u8 \<Rightarrow> nat \<Rightarrow> render_pixel list \<Rightarrow> render_pixel list" where
  "general_row v r scrollX scrollY y ps =
     (let effectiveScrollX = effective_scrollX v r scrollX y in
      if registers v ! 0 AND 0x80 = 0
      then snd (renderGeneralSegment v r effectiveScrollX y 0 (width r) scrollY (new_cache, ps))
      else snd (renderGeneralSegment v r effectiveScrollX y (split_column r) (width r) 0
             (renderGeneralSegment v r effectiveScrollX y 0 (split_column r) scrollY (new_cache, ps))))"

definition general_background :: "vdp \<Rightarrow> render \<Rightarrow> u8 \<Rightarrow> u8 \<Rightarrow> render_pixel list \<Rightarrow> render_pixel list" where
  "general_background v r scrollX scrollY ps = fold (general_row v r scrollX scrollY) [0..<height r] ps"

section \<open>The TMS path\<close>

definition tms_pixel :: "vdp \<Rightarrow> render \<Rightarrow> nat \<Rightarrow> nat \<Rightarrow> u8" where
  "tms_pixel v r y x =
     (let nameBase = unat (registers v ! 2 AND 0x0E) * 2 ^ 10;
          patternBase = unat (registers v ! 4 AND 0x04) * 2 ^ 11;
          colorBase = unat (registers v ! 3 AND 0x80) * 2 ^ 6;
          vdpY = y + viewportY r;
          tileY = vdpY div 8 mod 24;
          bankOffset = (if registers v ! 0 AND 0x02 \<noteq> 0 then tileY div 8 * 0x0800 else 0);
          vdpX = gameGearTmsViewportX (width r) x;
          tile = unat (vram v ! wrapVram v (nameBase + tileY * 32 + vdpX div 8 mod 32));
          pattern = vram v ! wrapVram v (patternBase + bankOffset + tile * 8 + vdpY mod 8);
          color = vram v ! wrapVram v (colorBase + bankOffset + tile * 8 + vdpY mod 8);
          foreground = (drop_bit (7 - vdpX mod 8) pattern AND 0x01 \<noteq> 0);
          colorCode = (if foreground then drop_bit 4 color else color AND 0x0F)
      in if colorCode = 0 then backdropIndex v else 16 + (colorCode AND 0x0F))"

definition tms_background :: "vdp \<Rightarrow> render \<Rightarrow> render_pixel list \<Rightarrow> render_pixel list" where
  "tms_background v r ps =
     fold (\<lambda>y. fold (\<lambda>x. put_pixel (y * width r + x) (colorIndex_update (\<lambda>_. tms_pixel v r y x))) [0..<width r])
       [0..<height r] ps"

section \<open>Sprites\<close>

definition sprite_zoom :: "vdp \<Rightarrow> nat" where "sprite_zoom v = (if spriteZoomMode v then 2 else 1)"
definition sprite_height :: "vdp \<Rightarrow> nat" where "sprite_height v = (if spriteTallMode v then 16 else 8) * sprite_zoom v"

text \<open>Whether the attribute table holds a sprite that meets the visible rows; \<open>n\<close> counts those looked at.\<close>

fun probe_sprites :: "vdp \<Rightarrow> render \<Rightarrow> nat \<Rightarrow> nat list \<Rightarrow> bool" where
  "probe_sprites v r n [] = False"
| "probe_sprites v r n (sprite # rest) =
     (let yIndex = spriteAttributeTableBase v + sprite in
      if yIndex \<ge> length (vram v) then False
      else (let rawY = vram v ! yIndex in
        if activeDisplayLines v = 192 \<and> rawY = 0xD0 then False
        else if rawY = 0xE0 then probe_sprites v r n rest
        else if unat rawY + 1 + sprite_height v > viewportY r \<and> unat rawY + 1 < viewportY r + height r then True
        else if n + 1 \<ge> kSpriteCount then False
        else probe_sprites v r (n + 1) rest))"

text \<open>One opaque sprite pixel: it is drawn unless the background has priority there or another sprite was
  drawn before.\<close>

definition sprite_pixel :: "render \<Rightarrow> u16 \<Rightarrow> nat \<Rightarrow> nat \<Rightarrow> u8 \<Rightarrow> render_pixel \<Rightarrow> render_pixel" where
  "sprite_pixel r tile sampleX sampleY colorCode p =
     (if spriteMask p AND (kSpriteMaskBackgroundPriority OR kSpriteMaskOccupied) \<noteq> 0 then p
      else
        (let p = p\<lparr>colorIndex := 16 + (colorCode AND 0x0F)\<rparr>;
             p = (if collect r then p\<lparr>resourceTile := tile, resourceKind := 1, resourceX := of_nat sampleX, resourceY := of_nat sampleY\<rparr>
                  else p)
         in p\<lparr>spriteMask := spriteMask p OR kSpriteMaskOccupied\<rparr>))"

definition sprite_dot :: "render \<Rightarrow> nat \<Rightarrow> u16 \<Rightarrow> nat \<Rightarrow> nat \<Rightarrow> u8 \<Rightarrow> int \<Rightarrow> render_pixel list \<Rightarrow> render_pixel list" where
  "sprite_dot r screenY tile sampleX sampleY colorCode screenX ps =
     (if screenX < 0 \<or> screenX \<ge> int (width r) then ps
      else put_pixel (screenY * width r + nat screenX) (sprite_pixel r tile sampleX sampleY colorCode) ps)"

definition sprite_line :: "vdp \<Rightarrow> render \<Rightarrow> nat \<Rightarrow> int \<Rightarrow> u16 \<Rightarrow> nat \<Rightarrow> u8 list \<Rightarrow> render_pixel list \<Rightarrow> render_pixel list" where
  "sprite_line v r screenY spriteScreenX tile sampleY colors ps =
     fold (\<lambda>sampleX ps.
            if colors ! sampleX = 0 then ps
            else fold (\<lambda>rep. sprite_dot r screenY tile sampleX sampleY (colors ! sampleX)
                          (spriteScreenX + int sampleX * int (sprite_zoom v) + int rep)) [0..<sprite_zoom v] ps)
       [0..<8] ps"

type_synonym overlay = "u8 list \<times> render_pixel list"

text \<open>Line \<open>py\<close> of a sprite; the first component counts the sprites of every screen line.\<close>

definition sprite_row :: "vdp \<Rightarrow> render \<Rightarrow> int \<Rightarrow> int \<Rightarrow> u16 \<Rightarrow> nat \<Rightarrow> overlay \<Rightarrow> overlay" where
  "sprite_row v r spriteY spriteScreenX tile py s =
     (let (counts, ps) = s; screenY = spriteY + int py - int (viewportY r) in
      if screenY < 0 \<or> screenY \<ge> int (height r) then s
      else if nat screenY < length counts \<and> counts ! nat screenY \<ge> 8 then s
      else
        (let rowTileIndex = tile + (if spriteTallMode v \<and> py \<ge> 8 then 1 else 0);
             rowSampleY = py div sprite_zoom v mod 8;
             colors = row_colors (pattern_planes v (spriteGeneratorBase v + unat rowTileIndex * 32) rowSampleY);
             ps = sprite_line v r (nat screenY) spriteScreenX rowTileIndex rowSampleY colors ps
         in (if nat screenY < length counts then counts[nat screenY := counts ! nat screenY + 1] else counts, ps)))"

definition draw_sprite :: "vdp \<Rightarrow> render \<Rightarrow> u8 \<Rightarrow> int \<Rightarrow> u16 \<Rightarrow> overlay \<Rightarrow> overlay" where
  "draw_sprite v r rawY spriteScreenX tile s =
     fold (sprite_row v r (int (unat rawY) + 1) spriteScreenX tile) [0..<sprite_height v] s"

fun overlay_sprites :: "vdp \<Rightarrow> render \<Rightarrow> nat \<Rightarrow> nat list \<Rightarrow> overlay \<Rightarrow> overlay" where
  "overlay_sprites v r n [] s = s"
| "overlay_sprites v r n (sprite # rest) s =
     (let satBase = spriteAttributeTableBase v; yIndex = satBase + sprite in
      if yIndex \<ge> length (vram v) then s
      else (let rawY = vram v ! yIndex in
        if activeDisplayLines v = 192 \<and> rawY = 0xD0 then s
        else if rawY = 0xE0 then overlay_sprites v r n rest s
        else
          (let xyBase = wrapVram v (satBase + 0x80 + sprite * 2);
               spriteX = int (unat (vram v ! xyBase)) - (if registers v ! 0 AND 0x08 \<noteq> 0 then 8 else 0);
               tileByte = ucast (vram v ! wrapVram v (xyBase + 1));
               tile = (if spriteTallMode v then tileByte AND 0x00FE else tileByte);
               spriteScreenX = spriteX - int (viewportX r)
           in if spriteScreenX + int (8 * sprite_zoom v) \<le> 0 \<or> spriteScreenX \<ge> int (width r)
              then overlay_sprites v r n rest s
              else (let s = draw_sprite v r rawY spriteScreenX tile s
                    in if n + 1 \<ge> kSpriteCount then s else overlay_sprites v r (n + 1) rest s))))"

section \<open>A frame\<close>

record frame =
  frameWidth :: nat
  frameHeight :: nat
  frameDisplayEnabled :: bool
  frameInVBlank :: bool
  frameScanlineIndex :: u8
  framePalette :: "u32 list"
  framePixels :: "render_pixel list"

definition new_render :: "vdp \<Rightarrow> bool \<Rightarrow> int \<Rightarrow> int \<Rightarrow> render" where
  "new_render v semantics w h =
     (let r = \<lparr>width = nat (max w 1), height = nat (max h 1), collect = semantics, hasVisibleSprites = False\<rparr>
      in r\<lparr>hasVisibleSprites := probe_sprites v r 0 [0..<64]\<rparr>)"

definition mode4_pixels :: "vdp \<Rightarrow> render \<Rightarrow> render_pixel list" where
  "mode4_pixels v r =
     (let scrollX = vdp_readCompatRegister v 8; scrollY = verticalScrollLatch v;
          ps = (if mode4SimpleBackgroundPathEligible v scrollX scrollY
                then simple_background v r scrollX scrollY (replicate (width r * height r) (blank 0))
                else general_background v r scrollX scrollY (replicate (width r * height r) (blank (backdropIndex v))))
      in if hasVisibleSprites r then snd (overlay_sprites v r 0 [0..<64] (replicate 240 0, ps)) else ps)"

definition renderFramePixels :: "vdp \<Rightarrow> bool \<Rightarrow> int \<Rightarrow> int \<Rightarrow> frame" where
  "renderFramePixels v semantics w h =
     (let r = new_render v semantics w h in
      \<lparr>frameWidth = width r, frameHeight = height r, frameDisplayEnabled = displayEnabled v,
       frameInVBlank = (unat (scanline v) \<ge> activeDisplayLines v + 1), frameScanlineIndex = ucast (scanline v AND 0x00FF),
       framePalette = take 32 (decodedCram v),
       framePixels =
         (if \<not> displayEnabled v then replicate (width r * height r) (blank (backdropIndex v))
          else if \<not> mode4Enabled v \<and> registers v ! 0 AND 0x02 \<noteq> 0
          then tms_background v r (replicate (width r * height r) (blank 0))
          else mode4_pixels v r)\<rparr>)"

text \<open>The colours of the frame, as \<open>buildFrameModel\<close> looks them up.\<close>

definition argbPixels :: "frame \<Rightarrow> u32 list" where
  "argbPixels f = map (\<lambda>p. framePalette f ! unat (colorIndex p AND 0x1F)) (framePixels f)"

end
