(* ===== verification/GG_VDP_RenderLaws.thy ===== *)
theory GG_VDP_RenderLaws
  imports GG_VDP_Render
begin

text \<open>
  What \<open>renderFramePixels\<close> draws. Both background paths equal a reference that looks every pixel up by
  itself, where the caches of the general path can be trusted; every frame has its size and its colours in the
  palette; the sprite overlay respects background priority, sprite order and the limit of eight sprites
  on a line.
\<close>

section \<open>Runs\<close>

lemma length_put_pixel [simp]: "length (put_pixel i f ps) = length ps"
  by (simp add: put_pixel_def)

lemma nth_put_pixel: "j < length ps \<Longrightarrow> put_pixel i f ps ! j = (if j = i then f (ps ! i) else ps ! j)"
  by (auto simp: put_pixel_def nth_list_update)

text \<open>A loop that writes the pixels \<open>k, k + 1, \<dots>\<close> one after the other.\<close>

lemma fold_put_pixels:
  assumes "k + n \<le> length ps"
  shows "length (fold (\<lambda>i. put_pixel (k + i) (f i)) [0..<n] ps) = length ps"
    and "j < length ps \<Longrightarrow> fold (\<lambda>i. put_pixel (k + i) (f i)) [0..<n] ps ! j =
      (if k \<le> j \<and> j < k + n then f (j - k) (ps ! j) else ps ! j)"
  using assms by (induction n) (auto simp: nth_put_pixel less_Suc_eq)

text \<open>\<open>overwrites k n f ps qs\<close>: \<open>qs\<close> is \<open>ps\<close> with the \<open>n\<close> pixels from \<open>k\<close> on redone by \<open>f\<close>.\<close>

definition overwrites :: "nat \<Rightarrow> nat \<Rightarrow> nat \<Rightarrow> (nat \<Rightarrow> render_pixel \<Rightarrow> render_pixel) \<Rightarrow> render_pixel list \<Rightarrow> render_pixel list \<Rightarrow> bool" where
  "overwrites k a b f ps qs \<longleftrightarrow> length qs = length ps \<and>
     (\<forall>j < length ps. qs ! j = (if k + a \<le> j \<and> j < k + b then f (j - k) (ps ! j) else ps ! j))"

lemma overwrites_none: "b \<le> a \<Longrightarrow> overwrites k a b f ps ps"
  by (auto simp: overwrites_def)

lemma overwrites_trans:
  "overwrites k a b f ps qs \<Longrightarrow> overwrites k b c f qs rs \<Longrightarrow> a \<le> b \<Longrightarrow> b \<le> c \<Longrightarrow> overwrites k a c f ps rs"
  by (auto simp: overwrites_def)

lemma overwrites_cong:
  "(\<And>x p. a \<le> x \<Longrightarrow> x < b \<Longrightarrow> f x p = g x p) \<Longrightarrow> overwrites k a b f ps qs = overwrites k a b g ps qs"
  unfolding overwrites_def by (intro conj_cong refl all_cong) (auto simp: le_diff_conv2)

lemma bg_run_overwrites:
  assumes "k + x + n \<le> length ps"
  shows "overwrites k x (x + n)
    (\<lambda>i. let sampleX = (if flipH e then 7 - (pixelX + (i - x)) else pixelX + (i - x))
          in bg_pixel r e sampleX sampleY (colors ! sampleX)) ps (bg_run r e colors sampleY pixelX (k + x) n ps)"
  unfolding overwrites_def bg_run_def Let_def
  using fold_put_pixels [of "k + x" n ps] assms by (auto simp: diff_diff_left)

section \<open>The background of a pixel\<close>

text \<open>The screen column after scrolling, the tile column it is in, and the pixel it shows.\<close>

definition scrolled_column :: "render \<Rightarrow> u8 \<Rightarrow> nat \<Rightarrow> nat" where
  "scrolled_column r scrollX x = (x + viewportX r + 256 - unat (scrollX AND 7)) mod 256"

definition tile_column :: "render \<Rightarrow> u8 \<Rightarrow> nat \<Rightarrow> nat" where
  "tile_column r scrollX x = (startingColumn scrollX + scrolled_column r scrollX x div 8) mod 32"

definition bg_sample :: "vdp \<Rightarrow> render \<Rightarrow> u8 \<Rightarrow> nat \<Rightarrow> nat \<Rightarrow> render_pixel \<Rightarrow> render_pixel" where
  "bg_sample v r scrollX scrolledY x =
     (let e = decode_word (tile_word v (row_name_base v (scrolledY div 8)) (tile_column r scrollX x));
          sampleX = (if flipH e then 7 - scrolled_column r scrollX x mod 8 else scrolled_column r scrollX x mod 8);
          sampleY = (if flipV e then 7 - scrolledY mod 8 else scrolledY mod 8)
      in bg_pixel r e sampleX sampleY (plane_color (pattern_planes v (unat (tileIndex e) * 32) sampleY) (7 - sampleX)))"

lemma fine_less: "unat (s AND 7 :: u8) \<le> 7"
  using word_and_le1 [of s 7] by (simp add: word_le_nat_alt)

lemma nat_mod_256: "nat (int n mod 256) = n mod 256"
proof -
  have "int n mod 256 = int (n mod 256)" by (simp add: zmod_int)
  then show ?thesis by simp
qed

text \<open>Inside one tile the quotient stays.\<close>

lemma run_div_mod:
  assumes "i < 8 - k mod (8 :: nat)"
  shows "(k + i) div 8 = k div 8" and "(k + i) mod 8 = k mod 8 + i"
proof -
  have k: "k + i = 8 * (k div 8) + (k mod 8 + i)" by simp
  have r: "(8 * q + s) div 8 = q \<and> (8 * q + s) mod 8 = s" if "s < 8" for q s :: nat
    using that by simp
  have "k mod 8 + i < 8" using assms by linarith
  from r [OF this, of "k div 8"] show "(k + i) div 8 = k div 8" "(k + i) mod 8 = k mod 8 + i"
    by (simp_all only: k [symmetric])
qed

lemma run_no_wrap:
  assumes "i < 8 - k mod (8 :: nat)" and "k < 256"
  shows "k + i < 256"
proof -
  have "k div 8 < 32" using assms(2) by simp
  moreover have "k = 8 * (k div 8) + k mod 8" by simp
  ultimately show ?thesis using assms(1) by linarith
qed

lemma scrolled_column_int:
  "nat ((int (x + viewportX r) - int (unat (scrollX AND 7))) mod 256) = scrolled_column r scrollX x"
proof -
  have "int (x + viewportX r) - int (unat (scrollX AND 7)) = int (x + viewportX r + 256 - unat (scrollX AND 7)) - 256"
    using fine_less [of scrollX] by (simp add: of_nat_diff)
  then show ?thesis
    by (simp only: scrolled_column_def minus_mod_self2 nat_mod_256)
qed

lemma scrolled_column_run:
  assumes "i < 8 - scrolled_column r scrollX x mod 8"
  shows "scrolled_column r scrollX (x + i) = scrolled_column r scrollX x + i"
proof -
  define c where "c = x + viewportX r + 256 - unat (scrollX AND 7)"
  have c: "x + i + viewportX r + 256 - unat (scrollX AND 7) = c + i"
    using fine_less [of scrollX] by (simp add: c_def)
  have "c mod 256 + i < 256"
    using assms by (intro run_no_wrap) (simp_all add: scrolled_column_def c_def [symmetric])
  then have "(c mod 256 + i) mod 256 = c mod 256 + i" by simp
  then have "(c + i) mod 256 = c mod 256 + i" by (simp only: mod_add_left_eq)
  then show ?thesis by (simp only: scrolled_column_def c c_def [symmetric])
qed

lemma row_colors_nth: "i < 8 \<Longrightarrow> row_colors planes ! i = plane_color planes (7 - i)"
  by (simp add: row_colors_def)

text \<open>One step of either path draws the reference pixels of its run.\<close>

lemma run_draws_sample:
  assumes "k + x + n \<le> length ps" and "n \<le> 8 - scrolled_column r scrollX x mod 8"
    and e: "e = decode_word (tile_word v (row_name_base v (scrolledY div 8)) (tile_column r scrollX x))"
    and sampleY: "sampleY = (if flipV e then 7 - scrolledY mod 8 else scrolledY mod 8)"
    and colors: "colors = row_colors (pattern_planes v (unat (tileIndex e) * 32) sampleY)"
  shows "overwrites k x (x + n) (bg_sample v r scrollX scrolledY) ps
    (bg_run r e colors sampleY (scrolled_column r scrollX x mod 8) (k + x) n ps)"
proof -
  have "bg_sample v r scrollX scrolledY (x + i) p =
     (let sampleX = (if flipH e then 7 - (scrolled_column r scrollX x mod 8 + i) else scrolled_column r scrollX x mod 8 + i)
      in bg_pixel r e sampleX sampleY (colors ! sampleX) p)" if "i < n" for i p
  proof -
    have i: "i < 8 - scrolled_column r scrollX x mod 8" using that assms(2) by simp
    have "tile_column r scrollX (x + i) = tile_column r scrollX x"
      "scrolled_column r scrollX (x + i) mod 8 = scrolled_column r scrollX x mod 8 + i"
      "scrolled_column r scrollX x mod 8 + i < 8"
      using scrolled_column_run [OF i] run_div_mod [OF i] i by (simp_all add: tile_column_def)
    then show ?thesis
      by (simp add: bg_sample_def Let_def e [symmetric] sampleY colors row_colors_nth)
  qed
  then have "overwrites k x (x + n) (bg_sample v r scrollX scrolledY) ps qs =
    overwrites k x (x + n) (\<lambda>i. let sampleX = (if flipH e then 7 - (scrolled_column r scrollX x mod 8 + (i - x))
        else scrolled_column r scrollX x mod 8 + (i - x)) in bg_pixel r e sampleX sampleY (colors ! sampleX)) ps qs" for qs
    by (intro overwrites_cong) (metis (no_types, lifting) le_add_diff_inverse nat_add_left_cancel_less)
  then show ?thesis using bg_run_overwrites [OF assms(1)] by simp
qed

section \<open>The path for unscrolled rows\<close>

text \<open>The unrolled decoding of a pattern row agrees with the loop.\<close>

lemma one_bit:
  fixes p :: u8
  shows "m = 2 ^ k \<Longrightarrow> k < 8 \<Longrightarrow> a + b = k \<Longrightarrow> drop_bit a (p AND m) = push_bit b (drop_bit k p AND 1)"
    and "m = 2 ^ k \<Longrightarrow> k + a = b \<Longrightarrow> push_bit a (p AND m) = push_bit b (drop_bit k p AND 1)"
    and "m = 2 ^ k \<Longrightarrow> b = k \<Longrightarrow> p AND m = push_bit b (drop_bit k p AND 1)"
    and "m = 2 ^ k \<Longrightarrow> k < 8 \<Longrightarrow> a = k \<Longrightarrow> drop_bit a (p AND m) = drop_bit k p AND 1"
  by (rule bit_word_eqI; auto simp: bit_simps bit_1_iff)+

lemma row_colors_unrolled_eq: "row_colors_unrolled planes = row_colors planes"
proof -
  obtain p0 p1 p2 p3 where p: "planes = (p0, p1, p2, p3)" by (cases planes)
  have k: "[0..<8] = [0, 1, 2, 3, 4, 5, 6, 7 :: nat]" by (simp add: upt_rec)
  show ?thesis
    unfolding p row_colors_unrolled_def row_colors_def k list.map prod.case plane_color_def list.inject
    by (intro conjI arg_cong2 [where f = "(OR)"] one_bit TrueI refl) simp_all
qed

lemma simple_scroll:
  assumes "mode4SimpleBackgroundPathEligible v scrollX scrollY"
  shows "scrollX AND 7 = 0" "(x + viewportX r) mod 256 = scrolled_column r scrollX x"
  using assms by (simp_all add: mode4SimpleBackgroundPathEligible_def scrolled_column_def)

lemma simple_loop_overwrites:
  assumes "scrollX AND 7 = 0" and "k + width r \<le> length ps" and "x \<le> width r"
  shows "overwrites k x (width r) (bg_sample v r scrollX scrolledY) ps
    (simple_loop v r scrollX k (row_name_base v (scrolledY div 8)) (scrolledY mod 8) x ps)"
  using assms(2,3)
proof (induction "width r - x" arbitrary: x ps rule: less_induct)
  case less
  show ?case
  proof (cases "x < width r")
    case False
    then show ?thesis by (simp add: simple_loop.simps [of v r scrollX k _ _ x] overwrites_none)
  next
    case True
    have col: "(x + viewportX r) mod 256 = scrolled_column r scrollX x"
      using assms(1) by (simp add: scrolled_column_def)
    define e where "e = decode_word (tile_word v (row_name_base v (scrolledY div 8)) (tile_column r scrollX x))"
    define sy where "sy = (if flipV e then 7 - scrolledY mod 8 else scrolledY mod 8)"
    define n where "n = min (8 - scrolled_column r scrollX x mod 8) (width r - x)"
    define qs where "qs = bg_run r e (row_colors (pattern_planes v (unat (tileIndex e) * 32) sy)) sy
      (scrolled_column r scrollX x mod 8) (k + x) n ps"
    have step: "simple_loop v r scrollX k (row_name_base v (scrolledY div 8)) (scrolledY mod 8) x ps =
      simple_loop v r scrollX k (row_name_base v (scrolledY div 8)) (scrolledY mod 8) (x + n) qs"
      using True by (subst simple_loop.simps)
        (simp add: Let_def col tile_column_def [symmetric] row_colors_unrolled_eq e_def [symmetric] sy_def [symmetric]
          n_def [symmetric] qs_def [symmetric])
    have n: "0 < n" "x + n \<le> width r" "n \<le> 8 - scrolled_column r scrollX x mod 8" using True by (simp_all add: n_def)
    have run: "overwrites k x (x + n) (bg_sample v r scrollX scrolledY) ps qs"
      unfolding qs_def by (rule run_draws_sample [OF _ n(3) e_def sy_def refl]) (use n(2) less.prems(1) in simp)
    then have "k + width r \<le> length qs" using less.prems(1) by (simp add: overwrites_def)
    then have "overwrites k (x + n) (width r) (bg_sample v r scrollX scrolledY) qs
      (simple_loop v r scrollX k (row_name_base v (scrolledY div 8)) (scrolledY mod 8) (x + n) qs)"
      using n True by (intro less.hyps) simp_all
    then show ?thesis unfolding step using run n by (intro overwrites_trans [OF run]) simp_all
  qed
qed

section \<open>Frames from rows\<close>

lemma rows_overwrite:
  assumes "\<And>y qs. y < n \<Longrightarrow> length qs = length ps \<Longrightarrow> overwrites (y * w) 0 w (f y) qs (F y qs)"
  shows "length (fold F [0..<n] ps) = length ps"
    and "j < length ps \<Longrightarrow> fold F [0..<n] ps ! j = (if j < n * w then f (j div w) (j mod w) (ps ! j) else ps ! j)"
proof -
  have "length (fold F [0..<n] ps) = length ps \<and>
    (\<forall>j < length ps. fold F [0..<n] ps ! j = (if j < n * w then f (j div w) (j mod w) (ps ! j) else ps ! j))"
    using assms
  proof (induction n)
    case (Suc n)
    define qs where "qs = fold F [0..<n] ps"
    have IH: "length qs = length ps"
      "\<And>j. j < length ps \<Longrightarrow> qs ! j = (if j < n * w then f (j div w) (j mod w) (ps ! j) else ps ! j)"
      using Suc.IH [OF Suc.prems] by (simp_all add: qs_def)
    have row: "overwrites (n * w) 0 w (f n) qs (F n qs)" using Suc.prems [of n qs] IH(1) by simp
    have at: "j div w = n" "j mod w = j - n * w" if "n * w \<le> j" "j < n * w + w" for j
    proof -
      have d: "j div w = n" using that div_nat_eqI [of w n j] by (simp add: mult.commute)
      show "j div w = n" by (rule d)
      show "j mod w = j - n * w" using d minus_div_mult_eq_mod [of j w] by simp
    qed
    have "F n qs ! j = (if j < Suc n * w then f (j div w) (j mod w) (ps ! j) else ps ! j)" if "j < length ps" for j
      using row IH that at [of j] by (auto simp: overwrites_def)
    then show ?case using row IH(1) by (simp add: qs_def [symmetric] overwrites_def)
  qed simp
  then show "length (fold F [0..<n] ps) = length ps"
    and "j < length ps \<Longrightarrow> fold F [0..<n] ps ! j = (if j < n * w then f (j div w) (j mod w) (ps ! j) else ps ! j)"
    by simp_all
qed

text \<open>The reference: a pixel of the general path is left alone in the blanked columns, and shows the
  unscrolled line in the fixed columns at the right.\<close>

definition bg_reference :: "vdp \<Rightarrow> render \<Rightarrow> u8 \<Rightarrow> u8 \<Rightarrow> nat \<Rightarrow> nat \<Rightarrow> render_pixel \<Rightarrow> render_pixel" where
  "bg_reference v r scrollX scrollY y x p =
     (let scrollX = effective_scrollX v r scrollX y;
          scrollY = (if registers v ! 0 AND 0x80 \<noteq> 0 \<and> split_column r \<le> x then 0 else scrollY)
      in if x < visible_start v r scrollX 0 then p
         else bg_sample v r scrollX (mode4ScrolledY v (y + viewportY r) scrollY) x p)"

definition reference_background :: "vdp \<Rightarrow> render \<Rightarrow> u8 \<Rightarrow> u8 \<Rightarrow> u8 \<Rightarrow> render_pixel list" where
  "reference_background v r scrollX scrollY c =
     map (\<lambda>j. bg_reference v r scrollX scrollY (j div width r) (j mod width r) (blank c)) [0..<width r * height r]"

lemma background_is_reference:
  assumes "\<And>y qs. y < height r \<Longrightarrow> length qs = width r * height r \<Longrightarrow>
      overwrites (y * width r) 0 (width r) (bg_reference v r scrollX scrollY y) qs (F y qs)"
  shows "fold F [0..<height r] (replicate (width r * height r) (blank c)) = reference_background v r scrollX scrollY c"
  using rows_overwrite [of "height r" "replicate (width r * height r) (blank c)" "width r" "bg_reference v r scrollX scrollY" F] assms
  by (intro nth_equalityI) (simp_all add: reference_background_def mult.commute)

lemma eligible_reference:
  assumes "mode4SimpleBackgroundPathEligible v scrollX scrollY"
  shows "bg_reference v r scrollX scrollY y = bg_sample v r scrollX (mode4ScrolledY v (y + viewportY r) scrollY)"
proof -
  have a: "registers v ! 0 AND 0xA0 = 0" using assms by (simp add: mode4SimpleBackgroundPathEligible_def)
  have "registers v ! 0 AND 0x80 = (registers v ! 0 AND 0xA0) AND 0x80"
    "registers v ! 0 AND 0x20 = (registers v ! 0 AND 0xA0) AND 0x20"
    by (simp_all add: and.assoc)
  then have b: "registers v ! 0 AND 0x80 = 0" "registers v ! 0 AND 0x20 = 0" by (simp_all only: a and_zero_eq and.left_neutral zero_and_eq)
  have "effective_scrollX v r scrollX y = scrollX"
    using assms by (simp add: effective_scrollX_def mode4SimpleBackgroundPathEligible_def)
  then show ?thesis
    using b simple_scroll(1) [OF assms] by (simp add: bg_reference_def fun_eq_iff Let_def visible_start_def)
qed

lemma simple_background_reference:
  assumes "mode4SimpleBackgroundPathEligible v scrollX scrollY"
  shows "simple_background v r scrollX scrollY (replicate (width r * height r) (blank c)) =
    reference_background v r scrollX scrollY c"
  unfolding simple_background_def
proof (rule background_is_reference)
  fix y and qs :: "render_pixel list"
  assume y: "y < height r" "length qs = width r * height r"
  have "(y + 1) * width r \<le> height r * width r" using y(1) by (intro mult_le_mono1) simp
  then have "y * width r + width r \<le> length qs" using y(2) by (simp add: mult.commute)
  then have "overwrites (y * width r) 0 (width r) (bg_sample v r scrollX (mode4ScrolledY v (y + viewportY r) scrollY)) qs
     (simple_row v r scrollX scrollY y qs)"
    unfolding simple_row_def Let_def by (intro simple_loop_overwrites simple_scroll(1) [OF assms]) simp_all
  then show "overwrites (y * width r) 0 (width r) (bg_reference v r scrollX scrollY y) qs (simple_row v r scrollX scrollY y qs)"
    by (simp add: eligible_reference [OF assms])
qed

section \<open>The caches of the general path\<close>

definition cache_sizes :: "bg_cache \<Rightarrow> bool" where
  "cache_sizes c \<longleftrightarrow> length (decodedEntries c) = 32 \<and> length (decodedEntryRows c) = 32 \<and> length (decodedValid c) = 32 \<and>
     length (decodedPatternRows c) = 32 \<and> length (decodedPatternRowY c) = 32"

definition entry_at :: "vdp \<Rightarrow> nat \<Rightarrow> nat \<Rightarrow> DecodedBgEntry" where
  "entry_at v tileY t = decode_word (tile_word v (row_name_base v tileY) t)"

text \<open>A tile column of the cache is empty or holds an entry of tile row \<open>tileY\<close>, with the colours of a line of
  its pattern.\<close>

definition column_ok :: "vdp \<Rightarrow> nat \<Rightarrow> bg_cache \<Rightarrow> nat \<Rightarrow> bool" where
  "column_ok v tileY c t \<longleftrightarrow>
     (if decodedValid c ! t
      then decodedEntryRows c ! t = tileY \<and> decodedEntries c ! t = entry_at v tileY t \<and>
           (decodedPatternRowY c ! t \<noteq> - 1 \<longrightarrow>
              0 \<le> decodedPatternRowY c ! t \<and>
              decodedPatternRows c ! t = row_colors (pattern_planes v (unat (tileIndex (entry_at v tileY t)) * 32) (nat (decodedPatternRowY c ! t))))
      else decodedPatternRowY c ! t = - 1)"

definition same_column :: "nat \<Rightarrow> bg_cache \<Rightarrow> bg_cache \<Rightarrow> bool" where
  "same_column t c d \<longleftrightarrow> decodedEntries d ! t = decodedEntries c ! t \<and> decodedEntryRows d ! t = decodedEntryRows c ! t \<and>
     decodedValid d ! t = decodedValid c ! t \<and> decodedPatternRows d ! t = decodedPatternRows c ! t \<and>
     decodedPatternRowY d ! t = decodedPatternRowY c ! t"

lemma same_column_ok: "same_column t c d \<Longrightarrow> column_ok v tileY d t = column_ok v tileY c t"
  by (simp add: same_column_def column_ok_def)

lemma same_column_trans: "same_column t c d \<Longrightarrow> same_column t d e \<Longrightarrow> same_column t c e"
  by (simp add: same_column_def)

lemma new_cache_ok: "cache_sizes new_cache" "t < 32 \<Longrightarrow> column_ok v tileY new_cache t"
  by (simp_all add: cache_sizes_def new_cache_def column_ok_def)

text \<open>What a step of the general path finds in the cache.\<close>

lemma cache_step:
  assumes "cache_sizes c" and "t < 32" and "column_ok v tileY c t"
    and d: "d = cache_pattern v (entry_at v tileY t) sampleY t (cache_entry v (row_name_base v tileY) tileY t c)"
  shows "decodedEntries (cache_entry v (row_name_base v tileY) tileY t c) ! t = entry_at v tileY t"
    and "decodedPatternRows d ! t = row_colors (pattern_planes v (unat (tileIndex (entry_at v tileY t)) * 32) sampleY)"
    and "cache_sizes d" and "column_ok v tileY d t" and "u \<noteq> t \<Longrightarrow> same_column u c d"
  using assms
  by (auto simp: cache_entry_def cache_pattern_def column_ok_def cache_sizes_def same_column_def entry_at_def split: if_splits)

lemma general_loop_overwrites:
  assumes "k + xEnd \<le> length ps" and "cache_sizes c"
    and "\<forall>i. x \<le> i \<and> i < xEnd \<longrightarrow> column_ok v (scrolledY div 8) c (tile_column r scrollX i)"
    and "general_loop v r scrollX k (scrolledY div 8) (scrolledY mod 8) xEnd x c ps = (d, qs)"
  shows "overwrites k x xEnd (bg_sample v r scrollX scrolledY) ps qs \<and> cache_sizes d \<and>
    (\<forall>t. (\<forall>i. x \<le> i \<and> i < xEnd \<longrightarrow> tile_column r scrollX i \<noteq> t) \<longrightarrow> same_column t c d)"
  using assms
proof (induction "xEnd - x" arbitrary: x c ps rule: less_induct)
  case less
  show ?case
  proof (cases "x < xEnd")
    case False
    then show ?thesis
      using less.prems(2,4) by (simp add: general_loop.simps [of v r scrollX k _ _ xEnd x] overwrites_none same_column_def)
  next
    case True
    let ?Y = "scrolledY div 8"
    define t where "t = tile_column r scrollX x"
    define e where "e = entry_at v ?Y t"
    define sy where "sy = (if flipV e then 7 - scrolledY mod 8 else scrolledY mod 8)"
    define n where "n = min (8 - scrolled_column r scrollX x mod 8) (xEnd - x)"
    define c1 where "c1 = cache_pattern v e sy t (cache_entry v (row_name_base v ?Y) ?Y t c)"
    define ps1 where "ps1 = bg_run r e (decodedPatternRows c1 ! t) sy (scrolled_column r scrollX x mod 8) (k + x) n ps"
    have "t < 32" by (simp add: t_def tile_column_def)
    note found = cache_step [OF less.prems(2) this, of v ?Y c1 sy, folded e_def, OF _ c1_def]
    have ok: "column_ok v ?Y c t" using less.prems(3) True by (simp add: t_def)
    have step: "general_loop v r scrollX k ?Y (scrolledY mod 8) xEnd x c ps =
      general_loop v r scrollX k ?Y (scrolledY mod 8) xEnd (x + n) c1 ps1"
      using True by (subst general_loop.simps)
        (simp add: Let_def scrolled_column_int [simplified] tile_column_def [symmetric] t_def [symmetric] found(1) [OF ok]
          sy_def [symmetric] c1_def [symmetric] n_def [symmetric] ps1_def [symmetric])
    have n: "0 < n" "x + n \<le> xEnd" "n \<le> 8 - scrolled_column r scrollX x mod 8" using True by (simp_all add: n_def)
    have run: "overwrites k x (x + n) (bg_sample v r scrollX scrolledY) ps ps1"
      unfolding ps1_def
      by (rule run_draws_sample [OF _ n(3) _ sy_def found(2) [OF ok]]) (use n(2) less.prems(1) in \<open>simp_all add: e_def entry_at_def t_def\<close>)
    have col: "column_ok v ?Y c1 u" if "column_ok v ?Y c u" for u
      using that found(4) [OF ok] found(5) [OF ok, of u] same_column_ok [of u c c1] by (cases "u = t") auto
    have rest: "overwrites k (x + n) xEnd (bg_sample v r scrollX scrolledY) ps1 qs \<and> cache_sizes d \<and>
      (\<forall>t. (\<forall>i. x + n \<le> i \<and> i < xEnd \<longrightarrow> tile_column r scrollX i \<noteq> t) \<longrightarrow> same_column t c1 d)"
      using n True less.prems(1,3,4) run found(3) [OF ok] col step
      by (intro less.hyps) (auto simp: overwrites_def)
    moreover have "same_column u c d" if u: "\<forall>i. x \<le> i \<and> i < xEnd \<longrightarrow> tile_column r scrollX i \<noteq> u" for u
    proof (rule same_column_trans)
      show "same_column u c c1" using found(5) [OF ok, of u] u True by (auto simp: t_def)
      show "same_column u c1 d" using rest u by simp
    qed
    ultimately show ?thesis using n overwrites_trans [OF run] by simp
  qed
qed

section \<open>The general path draws the reference\<close>

lemma visible_start_max: "visible_start v r sx xStart = max xStart (visible_start v r sx 0)"
  by (simp add: visible_start_def Let_def max.assoc)

lemma segment_overwrites:
  assumes "k = y * width r" "k + xEnd \<le> length ps" and "cache_sizes c"
    and "\<forall>i. xStart \<le> i \<and> i < xEnd \<longrightarrow> column_ok v (mode4ScrolledY v (y + viewportY r) sy div 8) c (tile_column r sx i)"
    and "renderGeneralSegment v r sx y xStart xEnd sy (c, ps) = (d, qs)"
  shows "overwrites k xStart xEnd (\<lambda>x p. if x < visible_start v r sx 0 then p
      else bg_sample v r sx (mode4ScrolledY v (y + viewportY r) sy) x p) ps qs \<and> cache_sizes d \<and>
    (\<forall>t. (\<forall>i. xStart \<le> i \<and> i < xEnd \<longrightarrow> tile_column r sx i \<noteq> t) \<longrightarrow> same_column t c d)"
proof -
  let ?f = "\<lambda>x p. if x < visible_start v r sx 0 then p else bg_sample v r sx (mode4ScrolledY v (y + viewportY r) sy) x p"
  let ?b = "visible_start v r sx xStart"
  have blank: "overwrites k xStart b ?f ps ps" if "b \<le> ?b" for b
    using that by (auto simp: overwrites_def visible_start_max [of v r sx xStart])
  show ?thesis
  proof (cases "xEnd \<le> ?b")
    case True
    then have "d = c" "qs = ps" using assms(5) by (auto simp: renderGeneralSegment_def Let_def split: if_splits)
    then show ?thesis using blank [of xEnd] True assms(3) by (simp add: same_column_def)
  next
    case False
    then have b: "xStart \<le> ?b" "?b < xEnd" by (auto simp: visible_start_max [of v r sx xStart])
    then have loop: "general_loop v r sx k (mode4ScrolledY v (y + viewportY r) sy div 8) (mode4ScrolledY v (y + viewportY r) sy mod 8)
        xEnd ?b c ps = (d, qs)"
      using assms(1,5) by (simp add: renderGeneralSegment_def Let_def)
    have drawn: "overwrites k ?b xEnd (bg_sample v r sx (mode4ScrolledY v (y + viewportY r) sy)) ps qs \<and> cache_sizes d \<and>
      (\<forall>t. (\<forall>i. ?b \<le> i \<and> i < xEnd \<longrightarrow> tile_column r sx i \<noteq> t) \<longrightarrow> same_column t c d)"
      using assms(2-4) b by (intro general_loop_overwrites [OF _ _ _ loop]) auto
    then have "overwrites k ?b xEnd ?f ps qs"
      by (subst overwrites_cong [of _ _ _ "bg_sample v r sx (mode4ScrolledY v (y + viewportY r) sy)"])
        (auto simp: visible_start_max [of v r sx xStart])
    then show ?thesis using drawn b overwrites_trans [OF blank [OF order_refl]] by auto
  qed
qed

text \<open>When the fixed columns start on a tile, no tile column is drawn from two tile rows.\<close>

definition fixed_columns_exact :: "vdp \<Rightarrow> render \<Rightarrow> u8 \<Rightarrow> bool" where
  "fixed_columns_exact v r scrollX \<longleftrightarrow>
     registers v ! 0 AND 0x80 = 0 \<or> (scrollX AND 7 = 0 \<and> width r + viewportX r \<le> 256)"

lemma split_columns_apart:
  assumes "sx AND 7 = 0" and "width r + viewportX r \<le> 256"
    and "i < split_column r" and "split_column r \<le> j" and "j < width r"
  shows "tile_column r sx i \<noteq> tile_column r sx j"
proof -
  have s: "i + viewportX r < 192" "192 \<le> j + viewportX r" "j + viewportX r < 256"
    using assms by (auto simp: split_column_def)
  then have a: "scrolled_column r sx i = i + viewportX r" "scrolled_column r sx j = j + viewportX r"
    using assms(1) by (simp_all add: scrolled_column_def)
  define p q where "p = (i + viewportX r) div 8" and "q = (j + viewportX r) div 8"
  have d: "p < 24" "24 \<le> q" "q < 32" using s by (simp_all add: p_def q_def)
  have "\<not> 32 dvd q - p" using d by (auto dest: dvd_imp_le)
  then have "(startingColumn sx + q) mod 32 \<noteq> (startingColumn sx + p) mod 32"
    using d by (simp add: mod_eq_dvd_iff_nat)
  then show ?thesis by (simp add: tile_column_def a p_def q_def not_sym)
qed

lemma general_row_overwrites:
  assumes "fixed_columns_exact v r scrollX" and "y * width r + width r \<le> length ps"
  shows "overwrites (y * width r) 0 (width r) (bg_reference v r scrollX scrollY y) ps (general_row v r scrollX scrollY y ps)"
proof (cases "registers v ! 0 AND 0x80 = 0")
  case True
  define sx where "sx = effective_scrollX v r scrollX y"
  obtain d qs where seg: "renderGeneralSegment v r sx y 0 (width r) scrollY (new_cache, ps) = (d, qs)" by fastforce
  have "general_row v r scrollX scrollY y ps = qs" using True seg by (simp add: general_row_def Let_def sx_def [symmetric])
  moreover have "bg_reference v r scrollX scrollY y = (\<lambda>x p. if x < visible_start v r sx 0 then p
      else bg_sample v r sx (mode4ScrolledY v (y + viewportY r) scrollY) x p)"
    using True by (simp add: bg_reference_def fun_eq_iff Let_def sx_def [symmetric])
  ultimately show ?thesis
    using segment_overwrites [OF refl assms(2) new_cache_ok(1) _ seg] new_cache_ok(2) by (simp add: tile_column_def)
next
  case False
  define sx where "sx = effective_scrollX v r scrollX y"
  let ?s = "split_column r"
  obtain c1 ps1 where one: "renderGeneralSegment v r sx y 0 ?s scrollY (new_cache, ps) = (c1, ps1)" by fastforce
  obtain d qs where two: "renderGeneralSegment v r sx y ?s (width r) 0 (c1, ps1) = (d, qs)" by fastforce
  have row: "general_row v r scrollX scrollY y ps = qs"
    using False one two by (simp add: general_row_def Let_def sx_def [symmetric])
  have ref: "bg_reference v r scrollX scrollY y x p = (if x < visible_start v r sx 0 then p
      else bg_sample v r sx (mode4ScrolledY v (y + viewportY r) (if ?s \<le> x then 0 else scrollY)) x p)" for x p
    using False by (simp add: bg_reference_def Let_def sx_def [symmetric])
  have fine: "sx AND 7 = 0" "width r + viewportX r \<le> 256"
    using assms(1) False by (auto simp: fixed_columns_exact_def sx_def effective_scrollX_def)
  have le: "?s \<le> width r" by (simp add: split_column_def)
  have seg1: "overwrites (y * width r) 0 ?s (\<lambda>x p. if x < visible_start v r sx 0 then p
      else bg_sample v r sx (mode4ScrolledY v (y + viewportY r) scrollY) x p) ps ps1 \<and> cache_sizes c1 \<and>
    (\<forall>t. (\<forall>i. 0 \<le> i \<and> i < ?s \<longrightarrow> tile_column r sx i \<noteq> t) \<longrightarrow> same_column t new_cache c1)"
    using le assms(2) by (intro segment_overwrites [OF refl _ new_cache_ok(1) _ one]) (simp_all add: tile_column_def new_cache_ok(2))
  then have first: "overwrites (y * width r) 0 ?s (bg_reference v r scrollX scrollY y) ps ps1"
    by (elim conjE) (erule iffD1 [OF overwrites_cong, rotated], simp add: ref)
  have "column_ok v Y c1 (tile_column r sx j)" if "?s \<le> j" "j < width r" for j Y
  proof -
    have "same_column (tile_column r sx j) new_cache c1" using seg1 split_columns_apart [OF fine _ that] by blast
    then show ?thesis by (simp add: same_column_ok new_cache_ok(2) tile_column_def)
  qed
  then have "overwrites (y * width r) ?s (width r) (\<lambda>x p. if x < visible_start v r sx 0 then p
      else bg_sample v r sx (mode4ScrolledY v (y + viewportY r) 0) x p) ps1 qs"
    using segment_overwrites [OF refl _ conjunct1 [OF conjunct2 [OF seg1]] _ two] assms(2) first by (simp add: overwrites_def)
  then have "overwrites (y * width r) ?s (width r) (bg_reference v r scrollX scrollY y) ps1 qs"
    by (rule iffD1 [OF overwrites_cong, rotated]) (simp add: ref)
  then show ?thesis unfolding row using overwrites_trans [OF first(1) _ _ le] by simp
qed

lemma general_background_reference:
  assumes "fixed_columns_exact v r scrollX"
  shows "general_background v r scrollX scrollY (replicate (width r * height r) (blank c)) =
    reference_background v r scrollX scrollY c"
  unfolding general_background_def
proof (rule background_is_reference)
  fix y and qs :: "render_pixel list"
  assume y: "y < height r" "length qs = width r * height r"
  have "(y + 1) * width r \<le> height r * width r" using y(1) by (intro mult_le_mono1) simp
  then show "overwrites (y * width r) 0 (width r) (bg_reference v r scrollX scrollY y) qs (general_row v r scrollX scrollY y qs)"
    using y(2) by (intro general_row_overwrites [OF assms]) (simp add: mult.commute)
qed

section \<open>Sprites\<close>

lemma plane_color_and_15: "plane_color planes b AND 0x0F = plane_color planes b"
  by (cases planes) (simp add: plane_color_def bit.conj_disj_distrib2 and.assoc)

lemma plane_color_less: "plane_color planes b < 16"
  using word_and_le1 [of "plane_color planes b" "0x0F"]
  by (simp add: plane_color_and_15 word_le_nat_alt word_less_nat_alt)

lemma word_less_16: "c < (16 :: u8) \<Longrightarrow> c AND 0x0F = c"
proof -
  assume "c < 16"
  then have "c = take_bit 4 c" by (simp add: word_unat_eq_iff unsigned_take_bit_eq take_bit_nat_eq_self word_less_nat_alt)
  then show ?thesis by (simp add: take_bit_eq_mask [of 4 c] mask_eq_exp_minus_1)
qed

text \<open>What the overlay may do to a pixel: nothing, or draw a sprite colour over a pixel where neither the
  background has priority nor another sprite was drawn.\<close>

definition painted :: "render_pixel \<Rightarrow> render_pixel \<Rightarrow> bool" where
  "painted p q \<longleftrightarrow> q = p \<or> (spriteMask p AND 3 = 0 \<and> spriteMask q AND 3 \<noteq> 0 \<and> 16 < colorIndex q \<and> colorIndex q < 32)"

lemma painted_same: "painted p p" by (simp add: painted_def)

lemma painted_trans: "painted p q \<Longrightarrow> painted q s \<Longrightarrow> painted p s"
  by (auto simp: painted_def)

lemma painted_lists_trans: "list_all2 painted ps qs \<Longrightarrow> list_all2 painted qs rs \<Longrightarrow> list_all2 painted ps rs"
  by (rule list_all2_trans [of painted painted painted, OF painted_trans])

lemma painted_refl: "list_all2 painted ps ps"
  by (simp add: list_all2_refl painted_def)

lemma fold_painted:
  assumes "\<And>x ps. x \<in> set xs \<Longrightarrow> list_all2 painted ps (f x ps)"
  shows "list_all2 painted ps (fold f xs ps)"
  using assms
proof (induction xs arbitrary: ps)
  case (Cons x xs)
  have "list_all2 painted ps (f x ps)" using Cons.prems by simp
  moreover have "list_all2 painted (f x ps) (fold f xs (f x ps))" using Cons by simp
  ultimately show ?case by (simp add: painted_lists_trans)
qed (simp add: painted_refl)

lemma sprite_pixel_painted:
  assumes "c \<noteq> 0" and "c < 16" shows "painted p (sprite_pixel r tile sx sy c p)"
proof -
  have c: "16 < 16 + c" "16 + c < 32"
    using assms by (simp_all add: word_less_nat_alt unat_word_ariths unat_eq_0 [symmetric] del: unat_eq_0)
  have "(spriteMask p OR 2) AND 3 \<noteq> 0"
  proof
    assume "(spriteMask p OR 2) AND 3 = 0"
    then have "((spriteMask p OR 2) AND 3) AND 2 = 0" by simp
    then show False by (simp add: and.assoc bit.conj_disj_distrib2)
  qed
  then show ?thesis
    using c by (simp add: painted_def sprite_pixel_def kSpriteMaskBackgroundPriority_def kSpriteMaskOccupied_def Let_def
        word_less_16 [OF assms(2)])
qed

lemma put_pixel_painted: "(\<And>p. painted p (f p)) \<Longrightarrow> list_all2 painted ps (put_pixel i f ps)"
  by (cases "i < length ps") (auto simp: put_pixel_def list_all2_conv_all_nth nth_list_update painted_same painted_refl list_update_beyond)

lemma sprite_line_painted:
  assumes "\<forall>i < 8. colors ! i < 16"
  shows "list_all2 painted ps (sprite_line v r y x tile sy colors ps)"
  unfolding sprite_line_def
  using assms
  by (intro fold_painted) (auto simp: sprite_dot_def painted_refl intro!: fold_painted put_pixel_painted sprite_pixel_painted)

definition counts_ok :: "u8 list \<Rightarrow> bool" where "counts_ok counts \<longleftrightarrow> length counts = 240 \<and> (\<forall>i < 240. counts ! i \<le> 8)"

definition overlay_ok :: "render_pixel list \<Rightarrow> overlay \<Rightarrow> bool" where
  "overlay_ok ps s \<longleftrightarrow> counts_ok (fst s) \<and> list_all2 painted ps (snd s)"

lemma sprite_row_ok:
  assumes "overlay_ok ps s" shows "overlay_ok ps (sprite_row v r y x tile py s)"
proof -
  obtain counts qs where s: "s = (counts, qs)" by (cases s)
  have colors: "\<forall>i < 8. row_colors planes ! i < 16" for planes by (simp add: row_colors_nth plane_color_less)
  have le: "c + 1 \<le> 8" if "c \<le> 8" "\<not> 8 \<le> c" for c :: u8
    using that by (simp add: word_le_nat_alt unat_word_ariths)
  have line: "list_all2 painted ps (sprite_line v r n x t sy (row_colors planes) qs)" for n t sy planes
    by (rule painted_lists_trans [OF _ sprite_line_painted [OF colors]]) (use assms in \<open>simp add: overlay_ok_def s\<close>)
  show ?thesis
    using assms le line
    by (auto simp: sprite_row_def s overlay_ok_def counts_ok_def Let_def nth_list_update)
qed

lemma draw_sprite_ok: "overlay_ok ps s \<Longrightarrow> overlay_ok ps (draw_sprite v r rawY x tile s)"
proof -
  have "overlay_ok ps s \<Longrightarrow> overlay_ok ps (fold (sprite_row v r y x tile) xs s)" for y xs
    by (induction xs arbitrary: s) (simp_all add: sprite_row_ok)
  then show "overlay_ok ps s \<Longrightarrow> overlay_ok ps (draw_sprite v r rawY x tile s)" by (simp add: draw_sprite_def)
qed

lemma overlay_sprites_ok: "overlay_ok ps s \<Longrightarrow> overlay_ok ps (overlay_sprites v r n sprites s)"
  by (induction v r n sprites s rule: overlay_sprites.induct) (simp_all add: Let_def draw_sprite_ok)

lemma overlay_start: "overlay_ok ps (replicate 240 0, ps)"
  by (simp add: overlay_ok_def counts_ok_def painted_refl)

section \<open>Colours\<close>

definition pixels_ok :: "nat \<Rightarrow> render_pixel list \<Rightarrow> bool" where
  "pixels_ok n ps \<longleftrightarrow> length ps = n \<and> (\<forall>p \<in> set ps. colorIndex p < 32)"

lemma add_colour: "c < 16 \<Longrightarrow> b = 0 \<or> b = 16 \<Longrightarrow> b + c < (32 :: u8)"
  by (auto simp: word_less_nat_alt unat_word_ariths)

lemma nibble_colour: "16 + (c AND 0x0F) < (32 :: u8)"
proof -
  have "unat (c AND 0x0F) \<le> 15" using word_and_le1 [of c "0x0F"] by (simp add: word_le_nat_alt)
  then show ?thesis by (intro add_colour) (simp_all add: word_less_nat_alt)
qed

lemma bg_pixel_colour: "c < 16 \<Longrightarrow> colorIndex (bg_pixel r e sx sy c p) < 32"
  using add_colour [of c 0] add_colour [of c 16] by (simp add: bg_pixel_def Let_def)

lemma put_pixel_ok: "pixels_ok n ps \<Longrightarrow> (\<And>p. colorIndex (f p) < 32) \<Longrightarrow> pixels_ok n (put_pixel i f ps)"
  by (auto simp: pixels_ok_def put_pixel_def dest!: subsetD [OF set_update_subset_insert])

lemma fold_pixels_ok:
  assumes "\<And>x ps. x \<in> set xs \<Longrightarrow> pixels_ok n ps \<Longrightarrow> pixels_ok n (f x ps)" and "pixels_ok n ps"
  shows "pixels_ok n (fold f xs ps)"
  using assms by (induction xs arbitrary: ps) simp_all

lemma bg_run_ok:
  assumes "pixels_ok n ps" and "\<forall>i < 8. colors ! i < 16" and "k \<le> 8 - pixelX"
  shows "pixels_ok n (bg_run r e colors sy pixelX first k ps)"
  unfolding bg_run_def using assms
  by (intro fold_pixels_ok) (auto simp: Let_def intro!: put_pixel_ok bg_pixel_colour)

definition rows_ok :: "bg_cache \<Rightarrow> bool" where
  "rows_ok c \<longleftrightarrow> length (decodedPatternRows c) = 32 \<and> (\<forall>t < 32. \<forall>i < 8. decodedPatternRows c ! t ! i < 16)"

lemma nth_update_if: "i < length xs \<Longrightarrow> xs[j := x] ! i = (if j = i then x else xs ! i)"
  by (cases "j = i") simp_all

lemma rows_ok_step: "rows_ok c \<Longrightarrow> rows_ok (cache_pattern v e sy t (cache_entry v b y t' c))"
  by (auto simp: rows_ok_def cache_pattern_def cache_entry_def nth_update_if row_colors_nth plane_color_less)

lemma general_loop_ok:
  assumes "rows_ok c" and "pixels_ok n ps"
  shows "rows_ok (fst (general_loop v r sx k tileY pixelY xEnd x c ps)) \<and>
    pixels_ok n (snd (general_loop v r sx k tileY pixelY xEnd x c ps))"
  using assms
proof (induction "xEnd - x" arbitrary: x c ps rule: less_induct)
  case less
  show ?case
  proof (cases "x < xEnd")
    case False
    then show ?thesis using less.prems by (simp add: general_loop.simps [of v r sx k _ _ xEnd x])
  next
    case True
    define s where "s = scrolled_column r sx x"
    define t where "t = (startingColumn sx + s div 8) mod 32"
    define c0 where "c0 = cache_entry v (row_name_base v tileY) tileY t c"
    define e where "e = decodedEntries c0 ! t"
    define sy where "sy = (if flipV e then 7 - pixelY else pixelY)"
    define m where "m = min (8 - s mod 8) (xEnd - x)"
    define c1 where "c1 = cache_pattern v e sy t c0"
    define ps1 where "ps1 = bg_run r e (decodedPatternRows c1 ! t) sy (s mod 8) (k + x) m ps"
    have step: "general_loop v r sx k tileY pixelY xEnd x c ps = general_loop v r sx k tileY pixelY xEnd (x + m) c1 ps1"
      using True by (subst general_loop.simps)
        (simp add: Let_def scrolled_column_int [simplified] s_def [symmetric] t_def [symmetric] c0_def [symmetric]
          e_def [symmetric] sy_def [symmetric] c1_def [symmetric] m_def [symmetric] ps1_def [symmetric])
    have c1: "rows_ok c1" unfolding c1_def c0_def by (rule rows_ok_step [OF less.prems(1)])
    have "t < 32" by (simp add: t_def)
    then have "pixels_ok n ps1"
      unfolding ps1_def using c1 by (intro bg_run_ok less.prems(2)) (auto simp: rows_ok_def m_def)
    moreover have "xEnd - (x + m) < xEnd - x" unfolding m_def by (rule run_shrinks [OF True])
    ultimately show ?thesis unfolding step using c1 by (intro less.hyps)
  qed
qed

lemma segment_ok:
  "rows_ok (fst s) \<Longrightarrow> pixels_ok n (snd s) \<Longrightarrow> rows_ok (fst (renderGeneralSegment v r sx y a b sy s)) \<and>
     pixels_ok n (snd (renderGeneralSegment v r sx y a b sy s))"
  by (simp add: renderGeneralSegment_def Let_def general_loop_ok)

lemma general_background_ok: "pixels_ok n ps \<Longrightarrow> pixels_ok n (general_background v r sx sy ps)"
  unfolding general_background_def
proof (rule fold_pixels_ok)
  fix y qs
  assume "pixels_ok n qs"
  moreover have "rows_ok new_cache" by (simp add: rows_ok_def new_cache_def)
  ultimately show "pixels_ok n (general_row v r sx sy y qs)"
    by (simp add: general_row_def Let_def segment_ok)
qed

lemma backdrop_less: "backdropIndex v < 32"
  by (simp add: backdropIndex_def nibble_colour)

lemma blank_ok: "c < 32 \<Longrightarrow> pixels_ok n (replicate n (blank c))"
  by (simp add: pixels_ok_def blank_def)

lemma reference_ok: "c < 32 \<Longrightarrow> pixels_ok (width r * height r) (reference_background v r sx sy c)"
  by (auto simp: pixels_ok_def reference_background_def bg_reference_def bg_sample_def Let_def blank_def
      intro!: bg_pixel_colour plane_color_less)

lemma tms_ok: "pixels_ok n ps \<Longrightarrow> pixels_ok n (tms_background v r ps)"
proof -
  have "tms_pixel v r y x < 32" for y x
    by (simp add: tms_pixel_def Let_def backdrop_less nibble_colour)
  then show "pixels_ok n ps \<Longrightarrow> pixels_ok n (tms_background v r ps)"
    unfolding tms_background_def by (intro fold_pixels_ok) (auto intro!: fold_pixels_ok put_pixel_ok)
qed

lemma painted_ok: "list_all2 painted ps qs \<Longrightarrow> pixels_ok n ps \<Longrightarrow> pixels_ok n qs"
  by (auto simp: pixels_ok_def painted_def list_all2_conv_all_nth in_set_conv_nth) (metis nth_mem)

lemma overlay_keeps_ok: "pixels_ok n ps \<Longrightarrow> pixels_ok n (snd (overlay_sprites v r 0 sprites (replicate 240 0, ps)))"
  using overlay_sprites_ok [OF overlay_start, of ps v r 0 sprites] painted_ok unfolding overlay_ok_def by blast

lemma mode4_pixels_ok: "pixels_ok (width r * height r) (mode4_pixels v r)"
  by (simp add: mode4_pixels_def Let_def overlay_keeps_ok simple_background_reference reference_ok general_background_ok
      blank_ok backdrop_less)

section \<open>Properties\<close>

lemma eligible_exact: "mode4SimpleBackgroundPathEligible v scrollX scrollY \<Longrightarrow> fixed_columns_exact v r scrollX"
proof -
  assume "mode4SimpleBackgroundPathEligible v scrollX scrollY"
  then have a: "registers v ! 0 AND 0xA0 = 0" by (simp add: mode4SimpleBackgroundPathEligible_def)
  have "registers v ! 0 AND 0x80 = (registers v ! 0 AND 0xA0) AND 0x80" by (simp add: and.assoc)
  then show "fixed_columns_exact v r scrollX" by (simp add: fixed_columns_exact_def a)
qed

lemma bg_sample_blank: "bg_sample v r sx sy x (blank c) = bg_sample v r sx sy x (blank d)"
  by (simp add: bg_sample_def bg_pixel_def blank_def Let_def)

lemma eligible_backdrop:
  "mode4SimpleBackgroundPathEligible v scrollX scrollY \<Longrightarrow>
   reference_background v r scrollX scrollY c = reference_background v r scrollX scrollY d"
  by (simp add: reference_background_def eligible_reference bg_sample_blank [of v r scrollX _ _ c d])



lemma wrapVram_less: "0 < length (vram v) \<Longrightarrow> wrapVram v i < length (vram v)"
proof -
  assume n: "0 < length (vram v)"
  have "and i (length (vram v) - 1) \<le> length (vram v) - 1" by (simp add: and_nat_def nat_le_iff)
  then have "and i (length (vram v) - 1) < length (vram v)" using n by linarith
  then show "wrapVram v i < length (vram v)" using n by (simp add: wrapVram_def Let_def)
qed

text \<open>C27: Whatever the state of a well-formed video processor and whatever size is asked for, the rendered frame has
  exactly one pixel for each place of its (at least one by one) size, every pixel is an index into the palette of 32
  colours, so the colours handed to the host are palette colours, and every wrapped address is one of the video memory.\<close>

theorem frame_in_bounds:
  assumes "vdp_ok v"
  shows "length (framePixels (renderFramePixels v semantics w h)) = nat (max w 1) * nat (max h 1) \<and>
    list_all (\<lambda>p. colorIndex p < 32) (framePixels (renderFramePixels v semantics w h)) \<and>
    set (argbPixels (renderFramePixels v semantics w h)) \<subseteq> set (decodedCram v) \<and>
    wrapVram v i < length (vram v)"
proof -
  define r where "r = new_render v semantics w h"
  have size: "width r = nat (max w 1)" "height r = nat (max h 1)" by (simp_all add: r_def new_render_def Let_def)
  have ok: "pixels_ok (width r * height r) (framePixels (renderFramePixels v semantics w h))"
    by (simp add: renderFramePixels_def Let_def r_def [symmetric] blank_ok backdrop_less tms_ok mode4_pixels_ok)
  have pal: "framePalette (renderFramePixels v semantics w h) = decodedCram v" "length (decodedCram v) = 32" "length (vram v) = 0x4000"
    using assms by (simp_all add: renderFramePixels_def Let_def vdp_ok_def vdp_sizes_def)
  have "unat (c AND 0x1F) < 32" for c :: u8
    using word_and_le1 [of c "0x1F"] by (simp add: word_le_nat_alt)
  then have "set (argbPixels (renderFramePixels v semantics w h)) \<subseteq> set (decodedCram v)"
    using pal by (auto simp: argbPixels_def)
  then show ?thesis using ok wrapVram_less [of v i] pal(3) by (simp add: pixels_ok_def size list_all_iff)
qed

theorem frame_in_bounds_witness:
  "length (framePixels (renderFramePixels (vdp_reset new_vdp) True 160 144)) = 160 * 144 \<and>
   set (argbPixels (renderFramePixels (vdp_reset new_vdp) True 160 144)) \<subseteq> set (decodedCram (vdp_reset new_vdp))"
  using frame_in_bounds [OF power_on_vdp_ok, of True 160 144] by simp



text \<open>The cache of pattern rows is not emptied when a tile column is decoded for another tile row: if the line to
  sample is the same, the pixels of the old tile stay. That is what \<open>fixed_columns_exact\<close> excludes.\<close>

lemma stale_pattern_row:
  assumes "decodedPatternRowY c ! t = int sampleY"
  shows "decodedPatternRows (cache_pattern v e sampleY t (cache_entry v base tileY t c)) ! t = decodedPatternRows c ! t"
  using assms by (simp add: cache_pattern_def cache_entry_def)

end
