(* ===== verification/Machine_Cpu.thy ===== *)
theory Machine_Cpu
  imports Prelude
begin

text \<open>
  What every CPU core reports to its machine about the last instruction: \<open>src/machine/CPU.hpp\<close>.
\<close>

datatype ExecutionPathHint = Unknown | CanonicalFetchDecodeExecute | CpuOptimizedFastPath | PortableIr | NativeIr | CachedBlock

record CpuFeedback =
  segmentBoundaryHint :: bool
  isControlFlow :: bool
  pcBefore :: u32
  pcAfter :: u32
  retiredCycles :: u32
  executionPath :: ExecutionPathHint

definition new_feedback :: CpuFeedback where
  "new_feedback = \<lparr>segmentBoundaryHint = False, isControlFlow = False, pcBefore = 0, pcAfter = 0, retiredCycles = 0, executionPath = Unknown\<rparr>"

end
