(* ===== verification/GG_MemoryMap.thy ===== *)
theory GG_MemoryMap
  imports GG_Mappers GG_Input GG_PSG GG_VDP_Laws
begin

text \<open>
  \<open>src/cores/gamegear/GameGearMemoryMap.{hpp,cpp}\<close>: the address decoder in front of the boot ROM,
  the cartridge, the work RAM and the memory-mapped windows of the devices, the sixteen-bit port
  decoder, the guarded views the code caches use, and the state of the map. The debug engine and
  the analysis capture only observe accesses; both pointers are null here.
\<close>

section \<open>State\<close>

text \<open>
  The cartridge pointer is null, or points at the static fallback cartridge, or at a mapper the
  machine owns. The device pointers are null or point at the machine's devices, which live in the
  board behind them.
\<close>

datatype cart_ptr = NoCartridge | FallbackCartridge | Inserted mapper

record board =
  memoryControl :: u8
  ioControl :: u8
  ram :: "u8 list"
  bios :: "u8 list"
  codeMappingGeneration :: u64
  cartridge_ptr :: cart_ptr
  fallback :: cartridge
  input_ptr :: "input option"
  psg_ptr :: "psg option"
  vdp_ptr :: "vdp option"

definition kMemoryControlBiosDisabled :: u8 where "kMemoryControlBiosDisabled = 0x08"

definition new_board :: "cartridge \<Rightarrow> board" where
  "new_board fb =
     \<lparr>memoryControl = 0xFF, ioControl = 0xFF, ram = replicate 0x2000 0, bios = [],
      codeMappingGeneration = 1, cartridge_ptr = FallbackCartridge, fallback = fb, input_ptr = None,
      psg_ptr = None, vdp_ptr = None\<rparr>"

text \<open>The object behind the cartridge pointer, and an update of it in place.\<close>

definition cart_of :: "'a board_scheme \<Rightarrow> mapper option" where
  "cart_of b = (case cartridge_ptr b of NoCartridge \<Rightarrow> None
                | FallbackCartridge \<Rightarrow> Some (BaseCartridge (fallback b))
                | Inserted m \<Rightarrow> Some m)"

definition on_cart :: "(mapper \<Rightarrow> mapper) \<Rightarrow> 'a board_scheme \<Rightarrow> 'a board_scheme" where
  "on_cart f b = (case cartridge_ptr b of NoCartridge \<Rightarrow> b
                  | FallbackCartridge \<Rightarrow> b\<lparr>fallback := m_base (f (BaseCartridge (fallback b)))\<rparr>
                  | Inserted m \<Rightarrow> b\<lparr>cartridge_ptr := Inserted (f m)\<rparr>)"

definition on_input :: "(input \<Rightarrow> input) \<Rightarrow> 'a board_scheme \<Rightarrow> 'a board_scheme" where
  "on_input f b = b\<lparr>input_ptr := map_option f (input_ptr b)\<rparr>"

definition on_psg :: "(psg \<Rightarrow> psg) \<Rightarrow> 'a board_scheme \<Rightarrow> 'a board_scheme" where
  "on_psg f b = b\<lparr>psg_ptr := map_option f (psg_ptr b)\<rparr>"

definition on_vdp :: "(vdp \<Rightarrow> vdp) \<Rightarrow> 'a board_scheme \<Rightarrow> 'a board_scheme" where
  "on_vdp f b = b\<lparr>vdp_ptr := map_option f (vdp_ptr b)\<rparr>"

definition next_generation :: "'a board_scheme \<Rightarrow> 'a board_scheme" where
  "next_generation b = b\<lparr>codeMappingGeneration := codeMappingGeneration b + 1\<rparr>"

section \<open>Wiring\<close>

definition setCartridge :: "mapper option \<Rightarrow> 'a board_scheme \<Rightarrow> 'a board_scheme" where
  "setCartridge c b =
     next_generation (b\<lparr>cartridge_ptr := (case c of None \<Rightarrow> NoCartridge | Some m \<Rightarrow> Inserted m)\<rparr>)"

definition setInput :: "input option \<Rightarrow> 'a board_scheme \<Rightarrow> 'a board_scheme" where
  "setInput i b = b\<lparr>input_ptr := i\<rparr>"

definition setPsg :: "psg option \<Rightarrow> 'a board_scheme \<Rightarrow> 'a board_scheme" where
  "setPsg p b = b\<lparr>psg_ptr := p\<rparr>"

definition setVdp :: "vdp option \<Rightarrow> 'a board_scheme \<Rightarrow> 'a board_scheme" where
  "setVdp v b = b\<lparr>vdp_ptr := v\<rparr>"

definition mapRom :: "u8 list option \<Rightarrow> nat \<Rightarrow> 'a board_scheme \<Rightarrow> 'a board_scheme" where
  "mapRom data sz b =
     (let b = b\<lparr>fallback := snd (cart_load cart_reset data sz (fallback b))\<rparr>;
          b = (if cartridge_ptr b = NoCartridge then b\<lparr>cartridge_ptr := FallbackCartridge\<rparr> else b)
      in next_generation b)"

definition clearRom :: "'a board_scheme \<Rightarrow> 'a board_scheme" where
  "clearRom b = next_generation (b\<lparr>fallback := snd (cart_load cart_reset None 0 (fallback b))\<rparr>)"

definition mapBios :: "u8 list option \<Rightarrow> nat \<Rightarrow> 'a board_scheme \<Rightarrow> 'a board_scheme" where
  "mapBios data sz b =
     (let b = next_generation (b\<lparr>bios := []\<rparr>)
      in case data of None \<Rightarrow> b | Some bytes \<Rightarrow> if sz = 0 then b else b\<lparr>bios := take sz bytes\<rparr>)"

definition clearBios :: "'a board_scheme \<Rightarrow> 'a board_scheme" where
  "clearBios b = next_generation (b\<lparr>bios := []\<rparr>)"

definition hasBios :: "'a board_scheme \<Rightarrow> bool" where
  "hasBios b \<longleftrightarrow> bios b \<noteq> []"

definition mem_reset :: "'a board_scheme \<Rightarrow> 'a board_scheme" where
  "mem_reset b =
     (let b = b\<lparr>ram := replicate (length (ram b)) 0\<rparr>;
          b = b\<lparr>memoryControl := (if bios b = [] then 0xFF else 0xFF AND NOT kMemoryControlBiosDisabled),
                ioControl := 0xFF\<rparr>
      in next_generation (on_cart m_reset b))"

section \<open>Ports\<close>

definition readIoCanonical :: "u8 \<Rightarrow> 'a board_scheme \<Rightarrow> u8 \<times> 'a board_scheme" where
  "readIoCanonical port b =
     (if port \<le> 0x05 then
        (case input_ptr b of Some i \<Rightarrow> (readSystemPort port i, b) | None \<Rightarrow> (0xFF, b))
      else if port AND 0xC1 = 0x80 then
        (case vdp_ptr b of Some v \<Rightarrow> (let (x, v) = readDataPort v in (x, b\<lparr>vdp_ptr := Some v\<rparr>)) | None \<Rightarrow> (0xFF, b))
      else if port AND 0xC1 = 0x81 then
        (case vdp_ptr b of Some v \<Rightarrow> (let (x, v) = readControlPort v in (x, b\<lparr>vdp_ptr := Some v\<rparr>)) | None \<Rightarrow> (0xFF, b))
      else if port AND 0xC1 = 0x40 then
        (case vdp_ptr b of Some v \<Rightarrow> (readVCounter v, b) | None \<Rightarrow> (0xFF, b))
      else if port AND 0xC1 = 0x41 then
        (case vdp_ptr b of Some v \<Rightarrow> (readHCounter v, b) | None \<Rightarrow> (0xFF, b))
      else if port AND 0xFE = 0xC0 \<or> port AND 0xFE = 0xDC then
        (case input_ptr b of Some i \<Rightarrow> (readInputs i, b) | None \<Rightarrow> (0xFF, b))
      else (0xFF, b))"

definition writeIoCanonical :: "u8 \<Rightarrow> u8 \<Rightarrow> 'a board_scheme \<Rightarrow> 'a board_scheme" where
  "writeIoCanonical port v b =
     (if (port \<ge> 0x01 \<and> port \<le> 0x03) \<or> port = 0x05 \<or> port = 0x06 then
        (let b = on_input (writeSystemPort port v) b
         in if port = 0x06 then on_psg (psg_writeStereoControl v) b else b)
      else if port \<ge> 0x07 \<and> port \<le> 0x3F then
        (if port AND 0x01 = 0 then
           (let b = (if memoryControl b \<noteq> v then next_generation b else b) in b\<lparr>memoryControl := v\<rparr>)
         else
           (let b = (if vdp_ptr b \<noteq> None \<and> (ioControl b XOR v) AND 0xA0 \<noteq> 0 then on_vdp latchHCounter b else b)
            in b\<lparr>ioControl := v\<rparr>))
      else if port AND 0xC1 = 0x80 then on_vdp (writeDataPort v) b
      else if port AND 0xC1 = 0x81 then on_vdp (writeControlPort v) b
      else if port AND 0xC0 = 0x40 then on_psg (psg_writeData v) b
      else b)"

definition readEffectiveIoPort :: "u16 \<Rightarrow> 'a board_scheme \<Rightarrow> u8 \<times> 'a board_scheme" where
  "readEffectiveIoPort port b = readIoCanonical (ucast port) b"

definition writeEffectiveIoPort :: "u16 \<Rightarrow> u8 \<Rightarrow> 'a board_scheme \<Rightarrow> 'a board_scheme" where
  "writeEffectiveIoPort port v b = writeIoCanonical (ucast port) v b"

definition readIoPort :: "u8 \<Rightarrow> 'a board_scheme \<Rightarrow> u8 \<times> 'a board_scheme" where
  "readIoPort port b = readEffectiveIoPort (ucast port) b"

definition writeIoPort :: "u8 \<Rightarrow> u8 \<Rightarrow> 'a board_scheme \<Rightarrow> 'a board_scheme" where
  "writeIoPort port v b = writeEffectiveIoPort (ucast port) v b"

section \<open>Memory\<close>

definition biosActive :: "'a board_scheme \<Rightarrow> bool" where
  "biosActive b \<longleftrightarrow> bios b \<noteq> [] \<and> memoryControl b AND kMemoryControlBiosDisabled = 0"

definition romInserted :: "'a board_scheme \<Rightarrow> bool" where
  "romInserted b \<longleftrightarrow> (case cart_of b of Some m \<Rightarrow> m_loaded m | None \<Rightarrow> False)"

definition readCanonical :: "'a board_scheme \<Rightarrow> u16 \<Rightarrow> u8" where
  "readCanonical b addr =
     (if addr < 0x0400 \<and> biosActive b then bios b ! (unat addr mod length (bios b))
      else if addr = 0x00DC \<or> addr = 0x00DD then
        (case input_ptr b of Some i \<Rightarrow> readInputs i | None \<Rightarrow> 0xFF)
      else if addr < 0xC000 \<and> romInserted b then m_read (the (cart_of b)) addr
      else if addr \<ge> 0x8000 \<and> addr < 0xA000 \<and> vdp_ptr b \<noteq> None then vdp_readVram (the (vdp_ptr b)) addr
      else if addr \<ge> 0xFE00 \<and> addr < 0xFEA0 \<and> vdp_ptr b \<noteq> None then vdp_readOam (the (vdp_ptr b)) addr
      else if addr \<ge> 0xFF40 \<and> addr \<le> 0xFF4B \<and> vdp_ptr b \<noteq> None then vdp_readRegister (the (vdp_ptr b)) addr
      else if addr \<ge> 0xFF10 \<and> addr \<le> 0xFF26 \<and> psg_ptr b \<noteq> None then psg_readCompatRegister addr (the (psg_ptr b))
      else if addr \<ge> 0xFF30 \<and> addr \<le> 0xFF3F \<and> psg_ptr b \<noteq> None then psg_readWaveRam addr (the (psg_ptr b))
      else if addr = 0xFF00 then (case input_ptr b of Some i \<Rightarrow> readInputs i | None \<Rightarrow> 0xFF)
      else if addr \<ge> 0xC000 \<and> addr < 0xE000 then ram b ! (unat addr - 0xC000)
      else if addr \<ge> 0xE000 then ram b ! (unat addr - 0xE000)
      else if (addr \<ge> 0xDFFC \<and> addr \<le> 0xDFFF) \<or> addr \<ge> 0xFFFC then ram b ! (0x1FFC + unat (addr AND 0x3))
      else 0xFF)"

definition writeCanonical :: "u16 \<Rightarrow> u8 \<Rightarrow> 'a board_scheme \<Rightarrow> 'a board_scheme" where
  "writeCanonical addr v b =
     (if (case cart_of b of Some m \<Rightarrow> m_handlesControlWrite m addr | None \<Rightarrow> False) then
        (let b = next_generation (on_cart (m_write addr v) b)
         in if addr \<ge> 0xFFFC then b\<lparr>ram := (ram b)[0x1FFC + unat (addr AND 0x3) := v]\<rparr> else b)
      else if (case cart_of b of Some m \<Rightarrow> m_handlesMappedWrite m addr | None \<Rightarrow> False) then on_cart (m_write addr v) b
      else if addr \<ge> 0x8000 \<and> addr < 0xA000 \<and> vdp_ptr b \<noteq> None then on_vdp (vdp_writeVram addr v) b
      else if addr \<ge> 0xFE00 \<and> addr < 0xFEA0 \<and> vdp_ptr b \<noteq> None then on_vdp (vdp_writeOam addr v) b
      else if addr \<ge> 0xFF40 \<and> addr \<le> 0xFF4B \<and> vdp_ptr b \<noteq> None then on_vdp (vdp_writeRegister addr v) b
      else if addr \<ge> 0xFF10 \<and> addr \<le> 0xFF26 \<and> psg_ptr b \<noteq> None then on_psg (psg_writeCompatRegister addr v) b
      else if addr \<ge> 0xFF30 \<and> addr \<le> 0xFF3F \<and> psg_ptr b \<noteq> None then on_psg (psg_writeWaveRam addr v) b
      else if addr \<ge> 0xC000 \<and> addr < 0xE000 then b\<lparr>ram := (ram b)[unat addr - 0xC000 := v]\<rparr>
      else if addr \<ge> 0xE000 then b\<lparr>ram := (ram b)[unat addr - 0xE000 := v]\<rparr>
      else if addr \<ge> 0xDFFC \<and> addr \<le> 0xDFFF then b\<lparr>ram := (ram b)[0x1FFC + unat (addr AND 0x3) := v]\<rparr>
      else b)"

definition mem_read :: "'a board_scheme \<Rightarrow> u16 \<Rightarrow> u8" where
  "mem_read b addr = readCanonical b addr"

definition mem_write :: "u16 \<Rightarrow> u8 \<Rightarrow> 'a board_scheme \<Rightarrow> 'a board_scheme" where
  "mem_write addr v b = writeCanonical addr v b"

definition debugCommitRam :: "u16 \<Rightarrow> u8 \<Rightarrow> 'a board_scheme \<Rightarrow> 'a board_scheme" where
  "debugCommitRam addr v b = b\<lparr>ram := (ram b)[unat (addr AND 0x1FFF) := v]\<rparr>"

section \<open>Guarded views of code\<close>

definition peekCodeByte :: "'a board_scheme \<Rightarrow> u16 \<Rightarrow> u8 option" where
  "peekCodeByte b addr =
     (if addr = 0x00DC \<or> addr = 0x00DD \<or> addr \<ge> 0xFE00 \<or>
         (addr \<ge> 0x8000 \<and> addr < 0xA000 \<and> cartridge_ptr b = NoCartridge) then None
      else if addr < 0x0400 \<and> biosActive b then Some (bios b ! (unat addr mod length (bios b)))
      else if addr < 0xC000 then
        (if romInserted b then Some (m_read (the (cart_of b)) addr) else None)
      else if addr < 0xFE00 then
        Some (if addr < 0xE000 then ram b ! (unat addr - 0xC000) else ram b ! (unat addr - 0xE000))
      else None)"

text \<open>\<open>subspan\<close>, and the empty view, which makes the caller fall back on byte peeks.\<close>

definition subspan :: "nat \<Rightarrow> nat \<Rightarrow> u8 list \<Rightarrow> u8 list" where
  "subspan offset sz xs = take sz (drop offset xs)"

definition checkedCodeView :: "'a board_scheme \<Rightarrow> u16 \<Rightarrow> nat \<Rightarrow> u8 list" where
  "checkedCodeView b addr sz =
     (let a = unat addr; stop = a + sz in
      if sz = 0 \<or> sz > 0x10000 - a then []
      else if stop > 0xFE00 \<or> (a \<le> 0xDD \<and> stop > 0xDC) then []
      else if addr < 0x0400 \<and> biosActive b then
        (let offset = a mod length (bios b) in
         if stop > 0x400 \<or> sz > length (bios b) - offset then [] else subspan offset sz (bios b))
      else if addr < 0xC000 then
        (case cart_of b of
           Some (BaseCartridge c) \<Rightarrow>
             (if \<not> cart_loaded c then []
              else (case romBankForAddress c addr of
                 None \<Rightarrow> []
               | Some bank \<Rightarrow>
                   (let offset = (if a < 0x400 then a mod length (rom c) else bank * 0x4000 + a mod 0x4000);
                        boundary = (if a < 0x400 then 0x400 else (a div 0x4000 + 1) * 0x4000)
                    in if stop > boundary \<or> offset > length (rom c) \<or> sz > length (rom c) - offset then []
                       else subspan offset sz (rom c))))
         | _ \<Rightarrow> [])
      else
        (let base = (if addr < 0xE000 then 0xC000 else 0xE000) in
         if stop > (if base = 0xC000 then 0xE000 else 0xFE00) then []
         else subspan (a - base) sz (ram b)))"

section \<open>Locations for the analyser\<close>

definition location :: "u8 \<Rightarrow> u16 \<Rightarrow> u16 \<Rightarrow> u64" where
  "location space bank offset = push_bit 32 (ucast space) OR push_bit 16 (ucast bank) OR ucast offset"

text \<open>The window of a memory-mapped device an address falls in.\<close>

definition vdpWindow :: "'a board_scheme \<Rightarrow> u16 \<Rightarrow> bool" where
  "vdpWindow b a \<longleftrightarrow> vdp_ptr b \<noteq> None \<and>
     ((a \<ge> 0x8000 \<and> a < 0xA000) \<or> (a \<ge> 0xFE00 \<and> a < 0xFEA0) \<or> (a \<ge> 0xFF40 \<and> a \<le> 0xFF4B))"

definition psgWindow :: "'a board_scheme \<Rightarrow> u16 \<Rightarrow> bool" where
  "psgWindow b a \<longleftrightarrow> psg_ptr b \<noteq> None \<and> ((a \<ge> 0xFF10 \<and> a \<le> 0xFF26) \<or> (a \<ge> 0xFF30 \<and> a \<le> 0xFF3F))"

definition cart_bank :: "'a board_scheme \<Rightarrow> u16 \<Rightarrow> nat option" where
  "cart_bank b a = (case cart_of b of Some m \<Rightarrow> m_romBankForAddress m a | None \<Rightarrow> None)"

definition cart_ram :: "'a board_scheme \<Rightarrow> u16 \<Rightarrow> nat option" where
  "cart_ram b a = (case cart_of b of Some m \<Rightarrow> m_mappedRamOffsetV1 m a | None \<Rightarrow> None)"

definition analysisLocation :: "'a board_scheme \<Rightarrow> u16 \<Rightarrow> bool \<Rightarrow> u64" where
  "analysisLocation b a write =
     (if write \<and> (case cart_of b of Some m \<Rightarrow> m_handlesControlWrite m a | None \<Rightarrow> False) then location 1 0 a
      else if \<not> write \<and> a < 0x400 \<and> biosActive b then location 2 0 a
      else if \<not> write \<and> (a = 0xDC \<or> a = 0xDD \<or> a = 0xFF00) then location 6 0 a
      else if a < 0xC000 \<and> cart_ram b a \<noteq> None then
        location 3 (of_nat (1 + the (cart_ram b a) div 0x4000)) (of_nat (the (cart_ram b a)) AND 0x3FFF)
      else if \<not> write \<and> a < 0xC000 \<and> romInserted b then
        (case cart_bank b a of
           Some bank \<Rightarrow> location 1 (of_nat bank) (a AND 0x3FFF)
         | None \<Rightarrow> location 0 (ucast (codeMappingGeneration b)) a)
      else if vdpWindow b a then location 4 0 a
      else if psgWindow b a then location 5 0 a
      else if a \<ge> 0xC000 then location 3 0 (0xC000 + (a AND 0x1FFF))
      else (case cart_bank b a of
              Some bank \<Rightarrow> location 1 (of_nat bank) (a AND 0x3FFF)
            | None \<Rightarrow> location 0 0 a))"

definition analysisRam :: "'a board_scheme \<Rightarrow> u16 \<Rightarrow> bool" where
  "analysisRam b a \<longleftrightarrow>
     (let r = analysisLocation b a False; w = analysisLocation b a True in drop_bit 32 r = 3 \<and> r = w)"

definition analysisRamCapacity :: "'a board_scheme \<Rightarrow> nat" where
  "analysisRamCapacity b =
     65536 + (case cart_of b of Some m \<Rightarrow> m_physicalRamCapacityV1 m | None \<Rightarrow> 0)"

definition analysisPhysicalRamByte :: "'a board_scheme \<Rightarrow> nat \<Rightarrow> u8 option" where
  "analysisPhysicalRamByte b index =
     (if index < 65536 then
        (if index < 0xC000 \<or> index \<ge> 0xE000 then None else Some (ram b ! (index - 0xC000)))
      else (case cart_of b of Some m \<Rightarrow> m_physicalRamByteV1 m (index - 65536) | None \<Rightarrow> None))"

section \<open>State vector\<close>

definition mem_exportState :: "'a board_scheme \<Rightarrow> u8 list" where
  "mem_exportState b = [memoryControl b, ioControl b] @ put_bytes (ram b) @ put_bytes (bios b)"

definition mem_truncated :: exn where
  "mem_truncated = Invalid_argument ''Game Gear memory state truncated''"

definition mem_reader :: "nat \<Rightarrow> (u8 \<times> u8 \<times> u8 list \<times> u8 list) reader" where
  "mem_reader n =
     rd_bind (rd_u8 mem_truncated) (\<lambda>nextMemoryControl.
     rd_bind (rd_u8 mem_truncated) (\<lambda>nextIoControl.
     rd_bind (rd_u32 mem_truncated) (\<lambda>ramSize.
     rd_bind rd_remaining (\<lambda>left.
     rd_bind (rd_guard (\<not> (unat ramSize \<noteq> n \<or> left < unat ramSize + 4))
       (Invalid_argument ''Game Gear memory state RAM size mismatch'')) (\<lambda>_.
     rd_bind (rd_take mem_truncated n) (\<lambda>nextRam.
     rd_bind (rd_u32 mem_truncated) (\<lambda>biosSize.
     rd_bind rd_remaining (\<lambda>left.
     rd_bind (rd_guard (\<not> (unat biosSize > 0x4000 \<or> left \<noteq> unat biosSize))
       (Invalid_argument ''Game Gear memory state BIOS size invalid'')) (\<lambda>_.
     rd_bind (rd_take mem_truncated left) (\<lambda>nextBios.
     rd_return (nextMemoryControl, nextIoControl, nextRam, nextBios)))))))))))"

definition mem_importState :: "'a board_scheme \<Rightarrow> u8 list \<Rightarrow> 'a board_scheme result" where
  "mem_importState b state =
     (if length state < 10 then Inl (Invalid_argument ''Game Gear memory state too short'')
      else
        (case rd_run (mem_reader (length (ram b))) state of
           Inl e \<Rightarrow> Inl e
         | Inr (mc, ic, nextRam, nextBios) \<Rightarrow> Inr (next_generation
             (b\<lparr>memoryControl := mc, ioControl := ic, ram := nextRam, bios := nextBios\<rparr>))))"

section \<open>Peeks and views are reads\<close>

lemma peek_is_read: "peekCodeByte b a = Some x \<Longrightarrow> mem_read b a = x"
proof -
  assume x: "peekCodeByte b a = Some x"
  have dev: "\<not> (a = 0xDC \<or> a = 0xDD)" "\<not> 0xFE00 \<le> a"
    using x by (auto simp: peekCodeByte_def split: if_splits)
  consider "a < 0x400 \<and> biosActive b" | "\<not> (a < 0x400 \<and> biosActive b)" "a < 0xC000" | "0xC000 \<le> a" "\<not> a < 0x400"
    by (cases "a < 0x400 \<and> biosActive b"; cases "a < 0xC000") (auto simp: word_less_nat_alt word_le_nat_alt)
  then show ?thesis
  proof cases
    case 1 then show ?thesis using x by (auto simp: peekCodeByte_def mem_read_def readCanonical_def split: if_splits)
  next
    case 2
    then have "romInserted b" "x = m_read (the (cart_of b)) a"
      using x by (auto simp: peekCodeByte_def split: if_splits)
    then show ?thesis
      unfolding mem_read_def readCanonical_def if_not_P [OF 2(1)] if_not_P [OF dev(1)] using 2(2) by simp
  next
    case 3
    then have u: "0xC000 \<le> unat a" "unat a < 0xFE00" using dev(2) by (simp_all add: word_le_nat_alt)
    then have "x = (if unat a < 0xE000 then ram b ! (unat a - 0xC000) else ram b ! (unat a - 0xE000))"
      using x by (auto simp: peekCodeByte_def word_less_nat_alt word_le_nat_alt word_unat_eq_iff split: if_splits)
    then show ?thesis using u
      by (simp add: mem_read_def readCanonical_def word_less_nat_alt word_le_nat_alt word_unat_eq_iff)
  qed
qed

lemma unat_add_u16: "unat a + n < 0x10000 \<Longrightarrow> unat (a + of_nat n :: u16) = unat a + n"
  by (simp add: unat_word_ariths unat_of_nat take_bit_nat_def)

lemma mod_offset: "i < (n :: nat) \<Longrightarrow> n \<le> l - a mod l \<Longrightarrow> (a + i) mod l = a mod l + i"
proof -
  assume i: "i < n" "n \<le> l - a mod l"
  then have "a mod l + i < l" by linarith
  then show ?thesis by (metis mod_add_left_eq mod_less)
qed

lemma nth_subspan: "i < sz \<Longrightarrow> offset + sz \<le> length xs \<Longrightarrow> subspan offset sz xs ! i = xs ! (offset + i)"
  by (simp add: subspan_def)

lemma bios_view:
  assumes "addr < 0x400" "biosActive b" "unat addr + sz \<le> 0x400" "i < sz"
    and "sz \<le> length (bios b) - unat addr mod length (bios b)"
    and "unat addr > 0xDD \<or> unat addr + sz \<le> 0xDC"
  shows "peekCodeByte b (addr + of_nat i) = Some (subspan (unat addr mod length (bios b)) sz (bios b) ! i)"
proof -
  have u: "unat (addr + of_nat i) = unat addr + i" using assms by (intro unat_add_u16) simp
  have "bios b \<noteq> []" using assms(2) by (simp add: biosActive_def)
  then have "unat addr mod length (bios b) < length (bios b)" by simp
  then show ?thesis
    using assms u mod_offset [OF assms(4,5)]
    by (auto simp: peekCodeByte_def nth_subspan word_less_nat_alt word_le_nat_alt word_unat_eq_iff)
qed

lemma ram_view:
  assumes "0xC000 \<le> addr" "i < sz" "unat addr + sz \<le> (if addr < 0xE000 then 0xE000 else 0xFE00)"
    and "length (ram b) = 0x2000"
  shows "peekCodeByte b (addr + of_nat i) =
    Some (subspan (unat addr - (if addr < 0xE000 then 0xC000 else 0xE000)) sz (ram b) ! i)"
proof -
  have u: "unat (addr + of_nat i) = unat addr + i"
    using assms by (intro unat_add_u16) (simp split: if_splits)
  show ?thesis
    using assms u
    by (auto simp: peekCodeByte_def nth_subspan word_less_nat_alt word_le_nat_alt word_unat_eq_iff split: if_splits)
qed

lemma page_room:
  assumes "x + sz \<le> (x div p + 1) * p"
  shows "sz \<le> p - x mod (p :: nat)"
proof -
  have "x mod p + x div p * p + sz \<le> (x div p + 1) * p" using assms by (simp only: mod_div_mult_eq)
  moreover have "m + q * p + sz \<le> (q + 1) * p \<Longrightarrow> m + sz \<le> p" for m q by simp
  ultimately have "x mod p + sz \<le> p" by blast
  then show ?thesis by simp
qed

lemma rom_view:
  assumes cart: "cart_of b = Some (BaseCartridge c)" "cart_loaded c" and bank: "romBankForAddress c addr = Some bank"
    and a: "addr < 0xC000" "\<not> (addr < 0x400 \<and> biosActive b)" "i < sz" "unat addr > 0xDD \<or> unat addr + sz \<le> 0xDC"
  defines "offset \<equiv> (if unat addr < 0x400 then unat addr mod length (rom c) else bank * 0x4000 + unat addr mod 0x4000)"
  assumes fit: "unat addr + sz \<le> (if unat addr < 0x400 then 0x400 else (unat addr div 0x4000 + 1) * 0x4000)"
    "offset \<le> length (rom c)" "sz \<le> length (rom c) - offset"
  shows "peekCodeByte b (addr + of_nat i) = Some (subspan offset sz (rom c) ! i)"
proof -
  have page: "(unat addr div 0x4000 + 1) * 0x4000 \<le> 0xC000"
    using a(1) by (simp add: word_less_nat_alt)
  have u: "unat (addr + of_nat i) = unat addr + i"
    using fit(1) a page by (intro unat_add_u16) (simp split: if_splits)
  have plain: "\<not> (addr \<ge> 0x8000 \<and> sramEnabled c)" using bank a(1) by (auto simp: romBankForAddress_def split: if_splits)
  have below: "unat addr + i < 0xC000" using fit(1) a(3) page by (simp split: if_splits)
  have sect: "unat addr + i < 0x400" if "unat addr < 0x400" using that fit(1) a(3) by simp
  have same: "(unat addr + i) div 0x4000 = unat addr div 0x4000"
    "(unat addr + i) mod 0x4000 = unat addr mod 0x4000 + i" if "\<not> unat addr < 0x400"
  proof -
    have "unat addr + sz \<le> (unat addr div 0x4000 + 1) * 0x4000" using that fit(1) by simp
    then have "sz \<le> 0x4000 - unat addr mod 0x4000" by (rule page_room)
    then show m: "(unat addr + i) mod 0x4000 = unat addr mod 0x4000 + i" using a(3) by (intro mod_offset)
    have "(unat addr + i) div 0x4000 * 0x4000 = unat addr div 0x4000 * 0x4000"
      unfolding minus_mod_eq_div_mult [symmetric] m by simp
    then show "(unat addr + i) div 0x4000 = unat addr div 0x4000" by simp
  qed
  have sram: "\<not> (0x8000 \<le> unat addr + i \<and> sramEnabled c)"
  proof
    assume h: "0x8000 \<le> unat addr + i \<and> sramEnabled c"
    then have "unat addr < 0x8000" using plain by (auto simp: word_le_nat_alt)
    then have "unat addr div 0x4000 + 1 \<le> 2" by simp
    then have "(unat addr div 0x4000 + 1) * 0x4000 \<le> 0x8000" by simp
    then show False using h fit(1) a(3) by (simp split: if_splits)
  qed
  have "cart_read c (addr + of_nat i) = rom c ! (offset + i)"
  proof (cases "unat addr < 0x400")
    case True
    then have "(unat addr + i) mod length (rom c) = unat addr mod length (rom c) + i"
      using fit(3) a(3) by (intro mod_offset) (simp_all add: offset_def)
    then show ?thesis
      using True sect u cart(2) by (simp add: cart_read_def word_less_nat_alt word_le_nat_alt offset_def)
  next
    case False
    have "bank = pageBank c (unat addr div 0x4000)"
      using bank False a(1) cart(2) plain by (auto simp: romBankForAddress_def word_less_nat_alt cart_consts split: if_splits)
    moreover have "offset + i < length (rom c)" using fit(2,3) a(3) by simp
    ultimately have "bank * 0x4000 + (unat addr mod 0x4000 + i) < length (rom c)" "bank = pageBank c (unat addr div 0x4000)"
      using False by (simp_all add: offset_def)
    then show ?thesis
      using False same sram below u cart(2)
      by (auto simp: cart_read_def word_less_nat_alt word_le_nat_alt offset_def cart_consts Let_def add.assoc)
  qed
  moreover have "peekCodeByte b (addr + of_nat i) = Some (cart_read c (addr + of_nat i))"
    using cart below a(2,4) u sect a(3)
    by (auto simp: peekCodeByte_def romInserted_def m_loaded_def cart_of_def word_less_nat_alt word_le_nat_alt
        word_unat_eq_iff split: cart_ptr.splits)
  moreover have "subspan offset sz (rom c) ! i = rom c ! (offset + i)"
    using a(3) fit(2,3) by (intro nth_subspan) simp_all
  ultimately show ?thesis by simp
qed

lemma view_cases:
  assumes "checkedCodeView b addr sz \<noteq> []"
  obtains (Bios) "addr < 0x400" "biosActive b" "unat addr + sz \<le> 0x400"
      "sz \<le> length (bios b) - unat addr mod length (bios b)"
      "checkedCodeView b addr sz = subspan (unat addr mod length (bios b)) sz (bios b)"
    | (Rom) c bank where "\<not> (addr < 0x400 \<and> biosActive b)" "addr < 0xC000" "cart_of b = Some (BaseCartridge c)"
      "cart_loaded c" "romBankForAddress c addr = Some bank"
      "let offset = (if unat addr < 0x400 then unat addr mod length (rom c) else bank * 0x4000 + unat addr mod 0x4000)
       in unat addr + sz \<le> (if unat addr < 0x400 then 0x400 else (unat addr div 0x4000 + 1) * 0x4000) \<and>
         offset \<le> length (rom c) \<and> sz \<le> length (rom c) - offset \<and> checkedCodeView b addr sz = subspan offset sz (rom c)"
    | (Ram) "0xC000 \<le> addr" "unat addr + sz \<le> (if addr < 0xE000 then 0xE000 else 0xFE00)"
      "checkedCodeView b addr sz = subspan (unat addr - (if addr < 0xE000 then 0xC000 else 0xE000)) sz (ram b)"
proof -
  have g: "\<not> (sz = 0 \<or> sz > 0x10000 - unat addr)"
    "\<not> (unat addr + sz > 0xFE00 \<or> (unat addr \<le> 0xDD \<and> unat addr + sz > 0xDC))"
    using assms by (simp_all only: checkedCodeView_def Let_def split: if_splits) simp_all
  consider "addr < 0x400 \<and> biosActive b" | "\<not> (addr < 0x400 \<and> biosActive b)" "addr < 0xC000"
    | "\<not> (addr < 0x400 \<and> biosActive b)" "\<not> addr < 0xC000" by blast
  then show thesis
  proof cases
    case 1
    note v = checkedCodeView_def [of b addr sz, unfolded Let_def if_not_P [OF g(1)] if_not_P [OF g(2)] if_P [OF 1]]
    show thesis using assms 1 v by (intro that(1)) (auto split: if_splits)
  next
    case 2
    note v = checkedCodeView_def [of b addr sz, unfolded Let_def if_not_P [OF g(1)] if_not_P [OF g(2)]
      if_not_P [OF 2(1)] if_P [OF 2(2)]]
    obtain c where c: "cart_of b = Some (BaseCartridge c)"
      using assms v by (cases "cart_of b") (auto split: mapper.splits)
    note v = v [unfolded c option.case mapper.case]
    have l: "cart_loaded c" using assms v by (auto split: if_splits)
    obtain bank where bank: "romBankForAddress c addr = Some bank"
      using assms v l by (cases "romBankForAddress c addr") auto
    have nl: "\<not> \<not> cart_loaded c" using l by simp
    note v = v [unfolded if_not_P [OF nl] bank option.case]
    show thesis using assms v by (intro that(2) [OF 2 c l bank]) (auto simp: Let_def split: if_splits)
  next
    case 3
    note v = checkedCodeView_def [of b addr sz, unfolded Let_def if_not_P [OF g(1)] if_not_P [OF g(2)]
      if_not_P [OF 3(1)] if_not_P [OF 3(2)]]
    show thesis using assms 3(2) v by (intro that(3)) (auto simp: not_less split: if_splits)
  qed
qed

lemma view_length_guard:
  "checkedCodeView b addr sz \<noteq> [] \<Longrightarrow> unat addr > 0xDD \<or> unat addr + sz \<le> 0xDC"
  by (simp only: checkedCodeView_def Let_def split: if_splits) auto

lemma view_is_peek:
  assumes "length (ram b) = 0x2000" and "checkedCodeView b addr sz \<noteq> []" and "i < sz"
  shows "peekCodeByte b (addr + of_nat i) = Some (checkedCodeView b addr sz ! i)"
  using assms(2)
proof (cases rule: view_cases)
  case Bios
  then show ?thesis using bios_view [of addr b sz i] view_length_guard [OF assms(2)] assms(3) by simp
next
  case (Rom c bank)
  then show ?thesis using rom_view [of b c addr bank i sz] view_length_guard [OF assms(2)] assms(3)
    by (simp add: Let_def)
next
  case Ram
  then show ?thesis using ram_view [of addr i sz b] assms(1,3) by simp
qed

lemma view_length:
  assumes "length (ram b) = 0x2000" and "checkedCodeView b addr sz \<noteq> []"
  shows "length (checkedCodeView b addr sz) = sz"
  using assms(2)
proof (cases rule: view_cases)
  case Bios
  then have "bios b \<noteq> []" by (simp add: biosActive_def)
  then have "unat addr mod length (bios b) < length (bios b)" by simp
  then show ?thesis using Bios by (simp add: subspan_def)
next
  case (Rom c bank)
  then show ?thesis by (simp add: Let_def subspan_def)
next
  case Ram
  have "0xC000 \<le> unat addr" "addr < 0xE000 \<longleftrightarrow> unat addr < 0xE000" using Ram(1) by (simp_all add: word_le_nat_alt word_less_nat_alt)
  then show ?thesis using Ram(2,3) assms(1) by (auto simp: subspan_def split: if_splits)
qed

text \<open>C23: The guarded views the code caches execute from show what the CPU would fetch: a byte that can be
  peeked is the byte a read returns, and a non-empty view of a range has its length and holds, byte
  for byte, what reads of that range return, across boot ROM, cartridge banks and work RAM.\<close>

theorem code_view_sound:
  assumes "length (ram b) = 0x2000"
  shows "(case peekCodeByte b addr of Some x \<Rightarrow> mem_read b addr = x | None \<Rightarrow> True) \<and>
    (checkedCodeView b addr sz = [] \<or>
     checkedCodeView b addr sz = map (\<lambda>i. mem_read b (addr + of_nat i)) [0..<sz])"
proof (cases "checkedCodeView b addr sz = []")
  case False
  have "checkedCodeView b addr sz = map (\<lambda>i. mem_read b (addr + of_nat i)) [0..<sz]"
    using view_length [OF assms False] view_is_peek [OF assms False]
    by (intro nth_equalityI) (simp_all add: peek_is_read)
  then show ?thesis using peek_is_read [of b addr] by (simp split: option.split)
qed (use peek_is_read [of b addr] in \<open>simp split: option.split\<close>)

theorem code_view_sound_witness:
  "checkedCodeView (new_board new_cartridge\<lparr>ram := [7, 8, 9] @ replicate 0x1FFD 0\<rparr>) 0xE001 2 = [8, 9]"
proof -
  define b where "b = new_board new_cartridge\<lparr>ram := [7, 8, 9] @ replicate 0x1FFD 0\<rparr>"
  have r: "ram b = [7, 8, 9] @ replicate 0x1FFD 0" by (simp add: b_def)
  have "checkedCodeView b 0xE001 2 \<noteq> []"
    by (simp add: checkedCodeView_def Let_def r subspan_def)
  moreover have "[0..<2] = [0, 1 :: nat]" by (simp add: upt_rec)
  ultimately have "checkedCodeView b 0xE001 2 = [mem_read b 0xE001, mem_read b 0xE002]"
    using code_view_sound [of b "0xE001" 2] r by simp
  then have "checkedCodeView b 0xE001 2 = [8, 9]" by (simp add: mem_read_def readCanonical_def r)
  then show ?thesis unfolding b_def .
qed

section \<open>What a bus cycle changes\<close>

datatype bus_op = MemWrite u16 u8 | PortRead u16 | PortWrite u16 u8

fun bus_apply :: "bus_op \<Rightarrow> 'a board_scheme \<Rightarrow> 'a board_scheme" where
  "bus_apply (MemWrite a v) b = mem_write a v b"
| "bus_apply (PortRead p) b = snd (readEffectiveIoPort p b)"
| "bus_apply (PortWrite p v) b = writeEffectiveIoPort p v b"

lemma cart_of_on_cart:
  assumes "\<And>c. \<exists>d. f (BaseCartridge c) = BaseCartridge d"
  shows "cart_of (on_cart f b) = map_option f (cart_of b)"
  using assms by (cases "cartridge_ptr b") (auto simp: cart_of_def on_cart_def, metis m_base.simps(1))

lemma cart_of_write [simp]: "cart_of (on_cart (m_write a v) b) = map_option (m_write a v) (cart_of b)"
  by (rule cart_of_on_cart) simp

lemma cart_of_reset [simp]: "cart_of (on_cart m_reset b) = map_option m_reset (cart_of b)"
  by (rule cart_of_on_cart) simp

lemma cart_of_frame [simp]:
  "cart_of (b\<lparr>ram := x\<rparr>) = cart_of b" "cart_of (b\<lparr>memoryControl := y\<rparr>) = cart_of b"
  "cart_of (b\<lparr>ioControl := y\<rparr>) = cart_of b" "cart_of (b\<lparr>vdp_ptr := v\<rparr>) = cart_of b"
  "cart_of (b\<lparr>psg_ptr := p\<rparr>) = cart_of b" "cart_of (b\<lparr>input_ptr := i\<rparr>) = cart_of b"
  "cart_of (next_generation b) = cart_of b" "cart_of (on_vdp f b) = cart_of b"
  "cart_of (on_psg g b) = cart_of b" "cart_of (on_input h b) = cart_of b"
  by (simp_all add: cart_of_def next_generation_def on_vdp_def on_psg_def on_input_def split: cart_ptr.split)

text \<open>Everything below the second half of the cartridge space that a peek depends on.\<close>

definition low_code :: "'a board_scheme \<Rightarrow> u8 \<times> u8 list \<times> bool \<times> (u16 \<Rightarrow> u8)" where
  "low_code b = (memoryControl b, bios b, romInserted b,
     \<lambda>a. if romInserted b \<and> a < 0x8000 then m_read (the (cart_of b)) a else 0)"

lemma peek_low:
  assumes "a < 0x8000" and "low_code b = low_code b'"
  shows "peekCodeByte b a = peekCodeByte b' a"
proof -
  have "romInserted b = romInserted b'" "biosActive b = biosActive b'" "bios b = bios b'"
    using assms(2) by (simp_all add: low_code_def biosActive_def)
  moreover have "m_read (the (cart_of b)) a = m_read (the (cart_of b')) a" if "romInserted b"
    using assms that calculation(1) by (simp add: low_code_def fun_eq_iff) metis
  moreover have "\<not> 0x8000 \<le> a" "a < 0xC000" "\<not> 0xFE00 \<le> a"
    using assms(1) by (auto simp: word_less_nat_alt word_le_nat_alt)
  ultimately show ?thesis unfolding peekCodeByte_def by simp
qed

definition cart_ready :: "'a board_scheme \<Rightarrow> bool" where
  "cart_ready b \<longleftrightarrow> (case cart_of b of Some m \<Rightarrow> m_ok m | None \<Rightarrow> True)"

text \<open>One bus cycle either starts a new mapping generation or leaves all code below \<open>0x8000\<close> as it is.\<close>

definition guarded :: "'a board_scheme \<Rightarrow> 'a board_scheme \<Rightarrow> bool" where
  "guarded b b' \<longleftrightarrow> cart_ready b' \<and>
     (codeMappingGeneration b' = codeMappingGeneration b + 1 \<or>
      codeMappingGeneration b' = codeMappingGeneration b \<and> low_code b' = low_code b)"

lemma low_code_cong:
  assumes "cart_of b' = cart_of b" "memoryControl b' = memoryControl b" "bios b' = bios b"
  shows "low_code b' = low_code b"
  unfolding low_code_def romInserted_def assms ..

lemma guarded_frame:
  assumes "cart_ready b" and "cart_of b' = cart_of b" "memoryControl b' = memoryControl b" "bios b' = bios b"
    and "codeMappingGeneration b' = codeMappingGeneration b"
  shows "guarded b b'"
  using assms low_code_cong [OF assms(2-4)] by (simp add: guarded_def cart_ready_def)

lemma guarded_device:
  assumes "cart_ready b"
  shows "guarded b (on_vdp f b)" "guarded b (on_psg g b)" "guarded b (on_input h b)" "guarded b b"
    "guarded b (b\<lparr>ram := r\<rparr>)"
  by (rule guarded_frame [OF assms]; simp add: on_vdp_def on_psg_def on_input_def)+

lemma m_loaded_write: "m_loaded (m_write a v m) = m_loaded m"
  by (cases m) (simp_all add: m_loaded_def cart_loaded_def cartridge.truncate_def)

lemma guarded_control:
  assumes "cart_ready b"
  shows "guarded b (next_generation (on_cart (m_write a v) b))"
    "guarded b (next_generation (on_cart (m_write a v) b)\<lparr>ram := r\<rparr>)"
  using assms
  by (auto simp: guarded_def cart_ready_def next_generation_def on_cart_def m_ok_write cart_ok_write cart_of_def
      split: cart_ptr.splits option.splits)

lemma guarded_mapped:
  assumes ok: "cart_ready b" and m: "cart_of b = Some m" "m_handlesMappedWrite m a" "\<not> m_handlesControlWrite m a"
  shows "guarded b (on_cart (m_write a v) b)"
proof -
  have mok: "m_ok m" using ok m(1) by (simp add: cart_ready_def)
  have high: "a \<ge> 0x8000"
    using m(2,3) by (cases m)
      (auto simp: handlesMappedWrite_def cm_handlesMappedWrite_def cm_handlesControlWrite_def
        word_le_nat_alt split: if_splits)
  have keep: "memoryControl (on_cart f b) = memoryControl b" "bios (on_cart f b) = bios b"
    "codeMappingGeneration (on_cart f b) = codeMappingGeneration b" for f
    by (simp_all add: on_cart_def split: cart_ptr.split)
  have ins: "romInserted (on_cart (m_write a v) b) = romInserted b"
    by (simp add: romInserted_def m(1) m_loaded_write)
  have "m_read (m_write a v m) x = m_read m x" if "romInserted b" "x < 0x8000" for x
  proof -
    have "m_romData m \<noteq> []" using that(1) m(1) by (simp add: romInserted_def m_loaded_def cart_loaded_def m_romData_def)
    then show ?thesis using m_if.mapped_read [OF mok _ m(2,3), of v x] high that(2) by auto
  qed
  then have "low_code (on_cart (m_write a v) b) = low_code b"
    by (simp add: low_code_def keep ins m(1) fun_eq_iff)
  then show ?thesis using mok by (simp add: guarded_def cart_ready_def m(1) m_ok_write keep)
qed

lemma guarded_mem_write: "cart_ready b \<Longrightarrow> guarded b (mem_write a v b)"
  unfolding mem_write_def writeCanonical_def Let_def
  using guarded_device [of b] guarded_control [where a = a and v = v and b = b] guarded_mapped [where a = a and v = v and b = b]
  by (auto split: option.splits)

lemma guarded_port_read: "cart_ready b \<Longrightarrow> guarded b (snd (readEffectiveIoPort p b))"
  unfolding readEffectiveIoPort_def readIoCanonical_def Let_def
  by (auto simp: split_def guarded_device(4) intro!: guarded_frame split: option.split)

lemma low_code_updates [simp]:
  "low_code (on_psg g b) = low_code b" "low_code (on_input h b) = low_code b" "low_code (on_vdp f b) = low_code b"
  "codeMappingGeneration (on_psg g b) = codeMappingGeneration b"
  "codeMappingGeneration (on_input h b) = codeMappingGeneration b"
  "codeMappingGeneration (on_vdp f b) = codeMappingGeneration b"
  "cart_ready (on_psg g b) = cart_ready b" "cart_ready (on_input h b) = cart_ready b" "cart_ready (on_vdp f b) = cart_ready b"
  by (rule low_code_cong; simp add: on_psg_def on_input_def on_vdp_def | simp add: on_psg_def on_input_def on_vdp_def cart_ready_def)+

lemma guarded_io_control: "cart_ready b \<Longrightarrow> guarded b (b\<lparr>ioControl := v\<rparr>)" "cart_ready b \<Longrightarrow> guarded b (on_vdp f b\<lparr>ioControl := v\<rparr>)"
  by (rule guarded_frame; simp add: on_vdp_def)+

lemma gen_next: "codeMappingGeneration (next_generation b) = codeMappingGeneration b + 1"
  by (simp add: next_generation_def)

lemma guarded_memory_control:
  "cart_ready b \<Longrightarrow> guarded b ((if memoryControl b \<noteq> v then next_generation b else b)\<lparr>memoryControl := v\<rparr>)"
  by (auto simp: guarded_def cart_ready_def gen_next)

lemma guarded_port_write: "cart_ready b \<Longrightarrow> guarded b (writeEffectiveIoPort p v b)"
  unfolding writeEffectiveIoPort_def writeIoCanonical_def Let_def
  using guarded_device [of b] guarded_io_control [of b] guarded_memory_control [of b v]
  by (auto simp: guarded_def)

lemma guarded_op: "cart_ready b \<Longrightarrow> guarded b (bus_apply op b)"
  by (cases op) (simp_all add: guarded_mem_write guarded_port_read guarded_port_write)

lemma guarded_run:
  assumes "cart_ready b"
  shows "cart_ready (fold bus_apply ops b) \<and> (\<exists>k \<le> length ops.
    codeMappingGeneration (fold bus_apply ops b) = codeMappingGeneration b + of_nat k \<and>
    (k = 0 \<longrightarrow> low_code (fold bus_apply ops b) = low_code b))"
  using assms
proof (induction ops arbitrary: b)
  case (Cons op ops)
  have g: "guarded b (bus_apply op b)" using Cons.prems by (rule guarded_op)
  then obtain k where k: "k \<le> length ops" "cart_ready (fold bus_apply ops (bus_apply op b))"
    "codeMappingGeneration (fold bus_apply ops (bus_apply op b)) = codeMappingGeneration (bus_apply op b) + of_nat k"
    "k = 0 \<longrightarrow> low_code (fold bus_apply ops (bus_apply op b)) = low_code (bus_apply op b)"
    using Cons.IH [of "bus_apply op b"] by (auto simp: guarded_def)
  show ?case
  proof (cases "codeMappingGeneration (bus_apply op b) = codeMappingGeneration b \<and> low_code (bus_apply op b) = low_code b")
    case True
    then show ?thesis using k by (intro conjI exI [of _ k]) auto
  next
    case False
    then have "codeMappingGeneration (bus_apply op b) = codeMappingGeneration b + 1" using g by (auto simp: guarded_def)
    then show ?thesis using k by (intro conjI exI [of _ "Suc k"]) (simp_all add: algebra_simps)
  qed
qed simp

text \<open>The mapping generation guards translated code: after any sequence of memory and port cycles
  (fewer than 2^64) that leaves the generation number as it was, every byte of code below 0x8000 peeks
  exactly as before, so code guarded by the number alone is still the code in memory.\<close>

theorem generation_guards_code:
  assumes "cart_ready b" and "length ops < 2 ^ 64" and "addr < 0x8000"
    and "codeMappingGeneration (fold bus_apply ops b) = codeMappingGeneration b"
  shows "peekCodeByte (fold bus_apply ops b) addr = peekCodeByte b addr"
proof -
  obtain k where k: "k \<le> length ops" "codeMappingGeneration b + of_nat k = codeMappingGeneration b"
    "k = 0 \<longrightarrow> low_code (fold bus_apply ops b) = low_code b"
    using guarded_run [OF assms(1), of ops] assms(4) by metis
  have "unat (of_nat k :: u64) = k" using k(1) assms(2) by (simp add: unat_of_nat take_bit_nat_eq_self)
  then have "k = 0" using k(2) by auto
  then show ?thesis using k(3) by (intro peek_low [OF assms(3)]) simp
qed

theorem generation_guards_code_witness:
  "peekCodeByte (fold bus_apply [MemWrite 0xC123 5, PortWrite 0x7F 0x9F, PortRead 0xBE] (new_board new_cartridge)) 0x100 =
   peekCodeByte (new_board new_cartridge) 0x100"
proof (rule generation_guards_code)
  show "cart_ready (new_board new_cartridge)"
    by (simp add: cart_ready_def new_board_def cart_of_def cart_ok_new)
  show "codeMappingGeneration (fold bus_apply [MemWrite 0xC123 5, PortWrite 0x7F 0x9F, PortRead 0xBE] (new_board new_cartridge)) =
      codeMappingGeneration (new_board new_cartridge)"
    by (simp add: new_board_def mem_write_def writeCanonical_def cart_of_def handlesControlWrite_def handlesMappedWrite_def
        writeEffectiveIoPort_def writeIoCanonical_def readEffectiveIoPort_def readIoCanonical_def on_psg_def on_vdp_def)
qed simp_all

section \<open>The board stays consistent\<close>

definition board_ok :: "'a board_scheme \<Rightarrow> bool" where
  "board_ok b \<longleftrightarrow> length (ram b) = 0x2000 \<and> cart_ready b \<and>
     pred_option vdp_ok (vdp_ptr b) \<and> pred_option psg_inv (psg_ptr b)"

lemma board_ok_on_vdp: "board_ok b \<Longrightarrow> (\<And>v. vdp_ok v \<Longrightarrow> vdp_ok (f v)) \<Longrightarrow> board_ok (on_vdp f b)"
  unfolding board_ok_def by (cases "vdp_ptr b") (simp_all add: on_vdp_def cart_ready_def)

lemma board_ok_on_psg: "board_ok b \<Longrightarrow> (\<And>p. psg_inv p \<Longrightarrow> psg_inv (f p)) \<Longrightarrow> board_ok (on_psg f b)"
  unfolding board_ok_def by (cases "psg_ptr b") (simp_all add: on_psg_def cart_ready_def)

lemma board_ok_on_input: "board_ok b \<Longrightarrow> board_ok (on_input f b)"
  by (simp add: board_ok_def on_input_def cart_ready_def)

lemma board_ok_control: "board_ok b \<Longrightarrow> board_ok (b\<lparr>ioControl := x\<rparr>)" "board_ok b \<Longrightarrow> board_ok (b\<lparr>memoryControl := x\<rparr>)"
  "board_ok b \<Longrightarrow> board_ok (b\<lparr>ram := (ram b)[i := x]\<rparr>)"
  by (simp_all add: board_ok_def cart_ready_def)

lemma board_ok_generation: "board_ok b \<Longrightarrow> board_ok (next_generation b)"
  by (simp add: board_ok_def cart_ready_def) (simp add: next_generation_def)

lemma on_cart_fields [simp]:
  "ram (on_cart f b) = ram b" "vdp_ptr (on_cart f b) = vdp_ptr b" "psg_ptr (on_cart f b) = psg_ptr b"
  "input_ptr (on_cart f b) = input_ptr b" "bios (on_cart f b) = bios b"
  by (simp_all add: on_cart_def split: cart_ptr.split)

lemma board_ok_write_cart: "board_ok b \<Longrightarrow> board_ok (on_cart (m_write a v) b)"
  by (auto simp: board_ok_def cart_ready_def m_ok_write split: option.splits)

lemma board_ok_reset_cart: "board_ok b \<Longrightarrow> board_ok (on_cart m_reset b)"
  by (auto simp: board_ok_def cart_ready_def m_ok_reset split: option.splits)

lemmas board_steps = board_ok_control board_ok_generation board_ok_write_cart board_ok_on_input
  board_ok_on_vdp [OF _ vdp_ok_writeVram] board_ok_on_vdp [OF _ vdp_ok_writeOam]
  board_ok_on_vdp [OF _ vdp_ok_writeRegister] board_ok_on_vdp [OF _ vdp_ok_latch]
  board_ok_on_vdp [OF _ vdp_ok_writeDataPort] board_ok_on_vdp [OF _ vdp_ok_writeControlPort]
  board_ok_on_psg [OF _ psg_inv_writeCompat] board_ok_on_psg [OF _ psg_inv_writeWave]
  board_ok_on_psg [OF _ psg_inv_writeData] board_ok_on_psg [OF _ psg_inv_writeStereo]

lemma board_ok_mem_write: "board_ok b \<Longrightarrow> board_ok (mem_write a v b)"
  unfolding mem_write_def writeCanonical_def Let_def
  by (simp add: board_steps board_ok_control(3) [of "next_generation (on_cart (m_write a v) b)"])

lemma board_ok_port_write: "board_ok b \<Longrightarrow> board_ok (writeEffectiveIoPort p v b)"
  unfolding writeEffectiveIoPort_def writeIoCanonical_def Let_def
  by (simp add: board_steps)

lemma board_ok_set_vdp: "board_ok b \<Longrightarrow> vdp_ok v \<Longrightarrow> board_ok (b\<lparr>vdp_ptr := Some v\<rparr>)"
  by (simp add: board_ok_def cart_ready_def)

lemma board_ok_port_read: "board_ok b \<Longrightarrow> board_ok (snd (readEffectiveIoPort p b))"
proof -
  assume ok: "board_ok b"
  then have "vdp_ok v" if "vdp_ptr b = Some v" for v using that by (simp add: board_ok_def)
  then show ?thesis
    using ok unfolding readEffectiveIoPort_def readIoCanonical_def Let_def
    by (simp add: split_def board_ok_set_vdp vdp_ok_readDataPort vdp_ok_readControlPort split: option.split)
qed

lemma board_ok_op: "board_ok b \<Longrightarrow> board_ok (bus_apply op b)"
  by (cases op) (simp_all add: board_ok_mem_write board_ok_port_write board_ok_port_read)

section \<open>Work RAM\<close>

text \<open>The cells of the work RAM the CPU can address without meeting a device window.\<close>

definition ram_address :: "u16 \<Rightarrow> bool" where
  "ram_address a \<longleftrightarrow> 0xC000 \<le> a \<and> a < 0xFE00"

definition ram_cell :: "u16 \<Rightarrow> nat" where
  "ram_cell a = unat a mod 0x2000"

lemma ram_cell_eq:
  assumes "ram_address a"
  shows "ram_cell a = (if a < 0xE000 then unat a - 0xC000 else unat a - 0xE000)"
proof (cases "a < 0xE000")
  case True
  then have "unat a = (unat a - 0xC000) + 6 * 0x2000" "unat a - 0xC000 < 0x2000"
    using assms by (simp_all add: ram_address_def word_le_nat_alt word_less_nat_alt)
  then show ?thesis using True unfolding ram_cell_def by (metis mod_mult_self1 mod_less)
next
  case False
  then have "unat a = (unat a - 0xE000) + 7 * 0x2000" "unat a - 0xE000 < 0x2000"
    using assms by (simp_all add: ram_address_def word_le_nat_alt word_less_nat_alt)
  then show ?thesis using False unfolding ram_cell_def by (metis mod_mult_self1 mod_less)
qed

lemma ram_read: "ram_address a \<Longrightarrow> mem_read b a = ram b ! ram_cell a"
  by (simp add: ram_cell_eq mem_read_def readCanonical_def ram_address_def word_le_nat_alt word_less_nat_alt
      word_unat_eq_iff)

lemma ram_not_cart:
  assumes "ram_address a" shows "\<not> m_handlesControlWrite m a" "\<not> m_handlesMappedWrite m a"
proof -
  have a: "0xC000 \<le> unat a" "unat a < 0xFE00" using assms by (simp_all add: ram_address_def word_le_nat_alt word_less_nat_alt)
  show "\<not> m_handlesControlWrite m a" using a by (cases m)
    (simp_all add: handlesControlWrite_def cm_handlesControlWrite_def word_le_nat_alt word_less_nat_alt)
  show "\<not> m_handlesMappedWrite m a" using a by (cases m)
    (simp_all add: handlesMappedWrite_def cm_handlesMappedWrite_def cm_handlesControlWrite_def word_le_nat_alt word_less_nat_alt)
qed

lemma ram_write: "ram_address a \<Longrightarrow> mem_write a v b = b\<lparr>ram := (ram b)[ram_cell a := v]\<rparr>"
  using ram_not_cart [of a]
  by (auto simp: ram_cell_eq mem_write_def writeCanonical_def ram_address_def word_le_nat_alt word_less_nat_alt
      word_unat_eq_iff split: option.split)

section \<open>Stores to the work RAM\<close>

lemma ram_cell_less: "ram_cell a < 0x2000"
  by (simp add: ram_cell_def)

lemma ram_writes:
  assumes "length (ram b) = 0x2000" and "\<forall>(a, v) \<in> set ws. ram_address a"
  shows "ram (fold (\<lambda>(a, v). mem_write a v) ws b) ! i =
      (case map_of (rev (map (\<lambda>(a, v). (ram_cell a, v)) ws)) i of Some v \<Rightarrow> v | None \<Rightarrow> ram b ! i)"
  using assms
proof (induction ws arbitrary: b)
  case (Cons w ws)
  obtain a v where w: "w = (a, v)" by (cases w)
  have "ram (fold (\<lambda>(a, v). mem_write a v) ws (mem_write a v b)) ! i =
      (case map_of (rev (map (\<lambda>(a, v). (ram_cell a, v)) ws)) i of Some v \<Rightarrow> v | None \<Rightarrow> ram (mem_write a v b) ! i)"
    using Cons.prems w by (intro Cons.IH) (auto simp: ram_write)
  then show ?case
    using Cons.prems w ram_cell_less [of a]
    by (auto simp: ram_write map_add_def nth_list_update split: option.splits)
qed simp

text \<open>The work RAM is one memory seen twice: below the device windows, after any stores, a read at either
  of its two mappings returns the last byte stored to that cell through either of them, and what it
  returned before if there was none; no store there reaches the cartridge or a device.\<close>

theorem ram_last_write_wins:
  assumes "length (ram b) = 0x2000" and "\<forall>(a, v) \<in> set ws. ram_address a" and "ram_address a"
  shows "mem_read (fold (\<lambda>(a, v). mem_write a v) ws b) a =
      (case map_of (rev (map (\<lambda>(a, v). (ram_cell a, v)) ws)) (ram_cell a) of Some v \<Rightarrow> v | None \<Rightarrow> mem_read b a) \<and>
    (fold (\<lambda>(a, v). mem_write a v) ws b)\<lparr>ram := ram b\<rparr> = b"
proof -
  have "fold (\<lambda>(a, v). mem_write a v) ws c\<lparr>ram := r\<rparr> = c\<lparr>ram := r\<rparr>" for c :: "'a board_scheme" and r
    using assms(2) by (induction ws arbitrary: c) (auto simp: ram_write)
  then show ?thesis
    using ram_writes [OF assms(1,2)] by (simp add: ram_read [OF assms(3)] split: option.split)
qed

theorem ram_last_write_wins_witness:
  "mem_read (fold (\<lambda>(a, v). mem_write a v) [(0xC010, 1), (0xE010, 2)] (new_board new_cartridge)) 0xC010 = 2"
  using ram_last_write_wins [of "new_board new_cartridge" "[(0xC010, 1), (0xE010, 2)]" "0xC010"]
  by (simp add: new_board_def ram_address_def ram_cell_def)

section \<open>The state vector\<close>

definition mem_savable :: "'a board_scheme \<Rightarrow> bool" where
  "mem_savable b \<longleftrightarrow> length (ram b) = 0x2000 \<and> length (bios b) \<le> 0x4000"

definition mem_restored :: "'a board_scheme \<Rightarrow> 'a board_scheme \<Rightarrow> 'a board_scheme" where
  "mem_restored t s = next_generation
     (t\<lparr>memoryControl := memoryControl s, ioControl := ioControl s, ram := ram s, bios := bios s\<rparr>)"

lemma mem_import_export:
  assumes "mem_savable s" and "length (ram t) = 0x2000"
  shows "mem_importState t (mem_exportState s) = Inr (mem_restored t s)"
proof -
  have u: "unat (of_nat (length (bios s)) :: u32) = length (bios s)"
    using assms(1) by (intro unat_of_nat_u32) (simp add: mem_savable_def)
  have l: "length (ram s) = 0x2000" "length (bios s) \<le> 0x4000" using assms(1) by (simp_all add: mem_savable_def)
  have "rd_run (mem_reader 0x2000) (mem_exportState s) = Inr (memoryControl s, ioControl s, ram s, bios s)"
    unfolding mem_reader_def mem_exportState_def put_bytes_def append_assoc append_Cons append_Nil
    using l by (simp add: reader_steps u)
  moreover have "\<not> length (mem_exportState s) < 10" by (simp add: mem_exportState_def put_bytes_def)
  ultimately show ?thesis using assms(2) by (simp add: mem_importState_def mem_restored_def)
qed

interpretation mem_state: state_codec mem_exportState mem_importState mem_savable "\<lambda>t _. length (ram t) = 0x2000" mem_restored
  by unfold_locales (simp_all add: mem_import_export, simp add: mem_exportState_def mem_restored_def next_generation_def)

end
