(* ===== verification/GG_SaveManager.thy ===== *)
theory GG_SaveManager
  imports SaveState GG_Mappers
begin

text \<open>
  \<open>src/cores/gamegear/GameGearSaveManager.hpp\<close> and the save schedule of \<open>GameGearMachine::Impl\<close>:
  which file a ROM's battery save lives in, loading it, writing it through a temporary file, and
  handing snapshots of it to the background service, which may refuse a job at any time.
\<close>

section \<open>Paths\<close>

text \<open>\<open>std::filesystem::path\<close> with the separator \<open>/\<close>.\<close>

definition path_filename :: "string \<Rightarrow> string" where
  "path_filename p = rev (takeWhile (\<lambda>c. c \<noteq> CHR ''/'') (rev p))"

definition path_extension :: "string \<Rightarrow> string" where
  "path_extension p =
     (let f = path_filename p; ext = rev (takeWhile (\<lambda>c. c \<noteq> CHR ''.'') (rev f)) in
      if f = ''.'' \<or> f = ''..'' \<or> length ext + 1 \<ge> length f then [] else CHR ''.'' # ext)"

definition replace_extension :: "string \<Rightarrow> string \<Rightarrow> string" where
  "replace_extension ext p = take (length p - length (path_extension p)) p @ ext"

definition lower_char :: "char \<Rightarrow> char" where
  "lower_char c = (let n = of_char c :: nat in if 65 \<le> n \<and> n \<le> 90 then char_of (n + 32) else c)"

definition romPathAllowsSaveBinding :: "string option \<Rightarrow> bool" where
  "romPathAllowsSaveBinding path =
     (case path of
        None \<Rightarrow> False
      | Some p \<Rightarrow> path_filename p \<noteq> [] \<and> map lower_char (path_extension p) \<noteq> ''.sms'')"

section \<open>Files\<close>

definition sm_writeFileAtomic :: "io_faults \<Rightarrow> string \<Rightarrow> string \<Rightarrow> u8 list \<Rightarrow> filesystem \<Rightarrow> unit result \<times> filesystem" where
  "sm_writeFileAtomic io path tempPath bytes fs =
     (if open_fails io then
        (Inl (Runtime_error (''Unable to open temporary save file: '' @ tempPath)), fs)
      else if (bytes \<noteq> [] \<and> write_fails io) \<or> close_fails io then
        (Inl (Runtime_error (''Unable to write temporary save file: '' @ tempPath)), fs(tempPath \<mapsto> left_behind io))
      else if rename_fails io then
        (Inl (Runtime_error (''Unable to replace save file: '' @ path)),
         if remove_fails io then fs(tempPath \<mapsto> bytes) else fs(tempPath := None))
      else (Inr (), fs(tempPath := None, path \<mapsto> bytes)))"

record SaveSnapshot =
  snapPath :: string
  snapTempPath :: string
  snapData :: "u8 list"

text \<open>The manager's state is the path it is bound to, if any.\<close>

definition bindRomPath :: "string \<Rightarrow> string option" where
  "bindRomPath romPath = Some (replace_extension ''.sav'' romPath)"

text \<open>A file that exists but cannot be read is a fault of \<open>open_fails\<close>.\<close>

definition sm_load :: "io_faults \<Rightarrow> filesystem \<Rightarrow> string option \<Rightarrow> mapper \<Rightarrow> mapper result" where
  "sm_load io fs bound cart =
     (case bound of
        None \<Rightarrow> Inr (m_markSaveClean cart)
      | Some path \<Rightarrow>
          if \<not> m_supportsSaveData cart then Inr (m_markSaveClean cart)
          else (case fs path of
                  None \<Rightarrow> Inr (m_markSaveClean cart)
                | Some bytes \<Rightarrow>
                    if open_fails io then Inl (Runtime_error (''Unable to open save file: '' @ path))
                    else Inr (m_importSaveData bytes cart)))"

definition needsFlush :: "string option \<Rightarrow> mapper \<Rightarrow> bool" where
  "needsFlush bound cart \<longleftrightarrow> bound \<noteq> None \<and> m_supportsSaveData cart \<and> m_hasDirtySaveData cart"

definition sm_flush :: "io_faults \<Rightarrow> string option \<Rightarrow> mapper \<Rightarrow> filesystem \<Rightarrow> bool result \<times> mapper \<times> filesystem" where
  "sm_flush io bound cart fs =
     (if \<not> needsFlush bound cart then (Inr False, cart, fs)
      else (case sm_writeFileAtomic io (the bound) (the bound @ ''.tmp'') (m_exportSaveData cart) fs of
              (Inl e, fs) \<Rightarrow> (Inl e, cart, fs)
            | (Inr _, fs) \<Rightarrow> (Inr True, m_markSaveClean cart, fs)))"

definition extractDirtySaveSnapshot :: "string option \<Rightarrow> mapper \<Rightarrow> SaveSnapshot option \<times> mapper" where
  "extractDirtySaveSnapshot bound cart =
     (if \<not> needsFlush bound cart then (None, cart)
      else (Some \<lparr>snapPath = the bound, snapTempPath = the bound @ ''.tmp'', snapData = m_exportSaveData cart\<rparr>,
            m_markSaveClean cart))"

definition flushSnapshot :: "io_faults \<Rightarrow> SaveSnapshot \<Rightarrow> filesystem \<Rightarrow> unit result \<times> filesystem" where
  "flushSnapshot io s fs = sm_writeFileAtomic io (snapPath s) (snapTempPath s) (snapData s) fs"

section \<open>The schedule\<close>

text \<open>
  What the machine holds of its saves: the cartridge, the binding, the snapshot that could not be
  queued, the jobs the background service has accepted and not yet run (oldest first), and the
  files.
\<close>

record saves =
  cart :: mapper
  boundPath :: "string option"
  pendingSaveSnapshot :: "SaveSnapshot option"
  jobs :: "SaveSnapshot list"
  files :: filesystem

text \<open>\<open>service\<close> is the background service: absent, or its answers to the submissions of this call.\<close>

definition flushCartridgeSave :: "io_faults \<Rightarrow> saves \<Rightarrow> bool result \<times> saves" where
  "flushCartridgeSave io s =
     (let (r, c, fs) = sm_flush io (boundPath s) (cart s) (files s) in (r, s\<lparr>cart := c, files := fs\<rparr>))"

definition queueSnapshot :: "bool \<Rightarrow> saves \<Rightarrow> saves" where
  "queueSnapshot queued s =
     (let (extracted, c) = extractDirtySaveSnapshot (boundPath s) (cart s); s = s\<lparr>cart := c\<rparr>
      in case extracted of
           None \<Rightarrow> s
         | Some shared \<Rightarrow> if queued then s\<lparr>jobs := jobs s @ [shared]\<rparr> else s\<lparr>pendingSaveSnapshot := Some shared\<rparr>)"

definition flushCartridgeSaveOnSchedule :: "io_faults \<Rightarrow> (bool \<times> bool) option \<Rightarrow> saves \<Rightarrow> unit result \<times> saves" where
  "flushCartridgeSaveOnSchedule io service s =
     (case service of
        None \<Rightarrow> (case flushCartridgeSave io s of (Inl e, s) \<Rightarrow> (Inl e, s) | (Inr _, s) \<Rightarrow> (Inr (), s))
      | Some (first, second) \<Rightarrow>
          (Inr (),
           case pendingSaveSnapshot s of
             None \<Rightarrow> queueSnapshot second s
           | Some shared \<Rightarrow>
               if first then queueSnapshot second (s\<lparr>jobs := jobs s @ [shared], pendingSaveSnapshot := None\<rparr>)
               else s))"

definition flushPendingBackgroundWork :: "io_faults \<Rightarrow> saves \<Rightarrow> unit result \<times> saves" where
  "flushPendingBackgroundWork io s =
     (let (r, s) = (case pendingSaveSnapshot s of
              None \<Rightarrow> (Inr (), s)
            | Some snapshot \<Rightarrow>
                (case flushSnapshot io snapshot (files s) of
                   (Inl e, fs) \<Rightarrow> (Inl e, s\<lparr>files := fs\<rparr>)
                 | (Inr _, fs) \<Rightarrow> (Inr (), s\<lparr>files := fs, pendingSaveSnapshot := None\<rparr>)))
      in case r of
           Inl e \<Rightarrow> (Inl e, s)
         | Inr _ \<Rightarrow> (case flushCartridgeSave io s of (Inl e, s) \<Rightarrow> (Inl e, s) | (Inr _, s) \<Rightarrow> (Inr (), s)))"

text \<open>The service runs its oldest job; an exception in a job is the service's.\<close>

definition runJob :: "io_faults \<Rightarrow> saves \<Rightarrow> saves" where
  "runJob io s =
     (case jobs s of
        [] \<Rightarrow> s
      | j # js \<Rightarrow> s\<lparr>jobs := js, files := snd (flushSnapshot io j (files s))\<rparr>)"

section \<open>Nothing is lost on the way to the file\<close>

text \<open>The save data as the player should find it: the newest of cartridge, pending snapshot, last
  accepted job and file.\<close>

definition latest :: "saves \<Rightarrow> u8 list option" where
  "latest s =
     (if needsFlush (boundPath s) (cart s) then Some (m_exportSaveData (cart s))
      else case pendingSaveSnapshot s of
        Some p \<Rightarrow> Some (snapData p)
      | None \<Rightarrow> if jobs s \<noteq> [] then Some (snapData (last (jobs s)))
                else Option.bind (boundPath s) (files s))"

text \<open>Snapshots are of the bound file, and there are none without a service to take them.\<close>

definition snapshot_of :: "string option \<Rightarrow> SaveSnapshot \<Rightarrow> bool" where
  "snapshot_of bound p \<longleftrightarrow> bound = Some (snapPath p) \<and> snapTempPath p = snapPath p @ ''.tmp''"

definition saves_ok :: "saves \<Rightarrow> bool" where
  "saves_ok s \<longleftrightarrow> (\<forall>j \<in> set (jobs s). snapshot_of (boundPath s) j) \<and>
     (case pendingSaveSnapshot s of Some p \<Rightarrow> snapshot_of (boundPath s) p | None \<Rightarrow> True)"

lemma clean_dirty [simp]: "m_hasDirtySaveData (m_markSaveClean m) = False"
  by (cases m) (simp_all add: cart_markSaveClean_def cart_hasDirtySaveData_def cm_markSaveClean_def cm_hasDirtySaveData_def)

lemma clean_export [simp]: "m_exportSaveData (m_markSaveClean m) = m_exportSaveData m"
  by (cases m) (simp_all add: cart_markSaveClean_def cm_markSaveClean_def cart_exportSaveData_def cm_exportSaveData_def)

lemma clean_supports [simp]: "m_supportsSaveData (m_markSaveClean m) = m_supportsSaveData m"
proof (cases m)
  case (CodemastersMapper c)
  show ?thesis unfolding CodemastersMapper
    by (simp add: cm_markSaveClean_def cart_markSaveClean_def cm_supportsSaveData_def cart_supportsSaveData_def)
next
  case (Sega3155365Mapper c)
  show ?thesis unfolding Sega3155365Mapper
    by (simp add: cart_markSaveClean_def sega5365_supportsSaveData_def)
qed (simp_all add: cart_markSaveClean_def cart_supportsSaveData_def)

lemma needsFlush_clean [simp]: "needsFlush b (m_markSaveClean m) = False"
  by (simp add: needsFlush_def)

lemma queueSnapshot_ok:
  assumes ok: "saves_ok s" and p: "pendingSaveSnapshot s = None"
  shows "saves_ok (queueSnapshot q s) \<and> latest (queueSnapshot q s) = latest s \<and> files (queueSnapshot q s) = files s \<and>
    boundPath (queueSnapshot q s) = boundPath s"
proof (cases "needsFlush (boundPath s) (cart s)")
  case True
  then obtain path where path: "boundPath s = Some path" by (auto simp: needsFlush_def)
  define snap where "snap = \<lparr>snapPath = path, snapTempPath = path @ ''.tmp'', snapData = m_exportSaveData (cart s)\<rparr>"
  have e: "extractDirtySaveSnapshot (boundPath s) (cart s) = (Some snap, m_markSaveClean (cart s))"
    using True path by (simp add: extractDirtySaveSnapshot_def snap_def)
  have f: "snapshot_of (Some path) snap" "snapData snap = m_exportSaveData (cart s)"
    by (simp_all add: snapshot_of_def snap_def)
  have l: "latest s = Some (snapData snap)" using True by (simp add: latest_def f)
  have q: "queueSnapshot q s = (if q then s\<lparr>cart := m_markSaveClean (cart s), jobs := jobs s @ [snap]\<rparr>
      else s\<lparr>cart := m_markSaveClean (cart s), pendingSaveSnapshot := Some snap\<rparr>)"
    by (simp add: queueSnapshot_def e)
  show ?thesis unfolding l q using ok p f(1) path by (auto simp: saves_ok_def latest_def)
next
  case False
  then show ?thesis using ok by (simp add: queueSnapshot_def extractDirtySaveSnapshot_def)
qed

lemma schedule_service:
  assumes "saves_ok s"
  shows "let s' = snd (flushCartridgeSaveOnSchedule io (Some q) s) in
    saves_ok s' \<and> latest s' = latest s \<and> files s' = files s \<and> boundPath s' = boundPath s"
proof (cases "pendingSaveSnapshot s")
  case None
  then show ?thesis using queueSnapshot_ok [OF assms None, of "snd q"]
    by (simp add: flushCartridgeSaveOnSchedule_def split_def Let_def)
next
  case (Some p)
  define t where "t = s\<lparr>jobs := jobs s @ [p], pendingSaveSnapshot := None\<rparr>"
  have t: "saves_ok t" "latest t = latest s" "pendingSaveSnapshot t = None" "files t = files s" "boundPath t = boundPath s"
    using assms Some by (auto simp: t_def saves_ok_def latest_def)
  show ?thesis using queueSnapshot_ok [OF t(1,3), of "snd q"] assms t Some
    by (simp add: flushCartridgeSaveOnSchedule_def split_def Let_def t_def [symmetric])
qed

text \<open>Without a service the file is written in place, and a failed write leaves the cartridge dirty.\<close>

lemma tmp_neq: "p \<noteq> p @ ''.tmp''" "p @ ''.tmp'' \<noteq> p"
  by simp_all

lemma write_atomic:
  "sm_writeFileAtomic io p (p @ ''.tmp'') bs fs = (r, fs') \<Longrightarrow>
     fs' p = (if r = Inr () then Some bs else fs p)"
  by (auto simp: sm_writeFileAtomic_def split: if_splits)

lemma flush_latest:
  assumes "pendingSaveSnapshot s = None" and "jobs s = []"
  shows "latest (snd (flushCartridgeSave io s)) = latest s"
proof (cases "needsFlush (boundPath s) (cart s)")
  case True
  then obtain p where p: "boundPath s = Some p" by (auto simp: needsFlush_def)
  obtain r fs' where w: "sm_writeFileAtomic io p (p @ ''.tmp'') (m_exportSaveData (cart s)) (files s) = (r, fs')"
    by (metis prod.exhaust)
  show ?thesis using True p w write_atomic [OF w] assms
    by (cases r) (auto simp: flushCartridgeSave_def sm_flush_def latest_def Let_def)
next
  case False
  then show ?thesis by (simp add: flushCartridgeSave_def sm_flush_def latest_def Let_def)
qed

lemma runJob_latest:
  assumes "saves_ok s" and "\<not> open_fails io" "\<not> write_fails io" "\<not> close_fails io" "\<not> rename_fails io"
  shows "saves_ok (runJob io s) \<and> latest (runJob io s) = latest s \<and> boundPath (runJob io s) = boundPath s"
proof (cases "jobs s")
  case (Cons j js)
  then have j: "boundPath s = Some (snapPath j)" "snapTempPath j = snapPath j @ ''.tmp''"
    using assms(1) by (auto simp: saves_ok_def snapshot_of_def)
  have "snd (flushSnapshot io j (files s)) (snapPath j) = Some (snapData j)"
    using assms(2-5) by (simp add: flushSnapshot_def sm_writeFileAtomic_def j(2))
  then show ?thesis using Cons j assms(1)
    by (auto simp: runJob_def saves_ok_def latest_def split: option.splits)
qed (use assms(1) in \<open>simp add: runJob_def\<close>)

text \<open>What happens between two looks at the save file: the schedule runs, with some answers of the
  service, or the service runs a job.\<close>

datatype save_event = Schedule bool bool | RunJob

definition no_io_faults :: "io_faults \<Rightarrow> bool" where
  "no_io_faults io \<longleftrightarrow> \<not> open_fails io \<and> \<not> write_fails io \<and> \<not> close_fails io \<and> \<not> rename_fails io"

fun save_step :: "io_faults \<Rightarrow> save_event \<Rightarrow> saves \<Rightarrow> saves" where
  "save_step io (Schedule a b) s = snd (flushCartridgeSaveOnSchedule io (Some (a, b)) s)"
| "save_step io RunJob s = runJob io s"

lemma save_step_ok:
  "saves_ok s \<Longrightarrow> no_io_faults io \<Longrightarrow>
     saves_ok (save_step io e s) \<and> latest (save_step io e s) = latest s \<and> boundPath (save_step io e s) = boundPath s"
  using schedule_service [of s io] runJob_latest [of s io]
  by (cases e) (simp_all add: no_io_faults_def Let_def)

lemma save_steps_ok:
  "saves_ok s \<Longrightarrow> no_io_faults io \<Longrightarrow> saves_ok (fold (save_step io) es s) \<and>
     latest (fold (save_step io) es s) = latest s \<and> boundPath (fold (save_step io) es s) = boundPath s"
  by (induction es arbitrary: s) (simp_all add: save_step_ok)


definition dirty_cart :: mapper where
  "dirty_cart = BaseCartridge (new_cartridge\<lparr>rom := [0], sram := [1, 2, 3], saveDirty := True\<rparr>)"

definition dirty_saves :: saves where
  "dirty_saves = \<lparr>cart = dirty_cart, boundPath = bindRomPath ''roms/Sonic.gg'', pendingSaveSnapshot = None,
     jobs = [], files = Map.empty\<rparr>"


text \<open>
  A write past the queue breaks this: \<open>flushCartridgeSave\<close>, which \<open>loadRom\<close> calls, writes the
  cartridge but leaves an older pending snapshot in place, and the next scheduled run then writes
  the older data over the newer.
\<close>

theorem direct_flush_then_stale:
  fixes s
  assumes "needsFlush (boundPath s) (cart s)" and "boundPath s = Some path" and "pendingSaveSnapshot s = Some old"
    and "snapshot_of (boundPath s) old" and "jobs s = []" and "no_io_faults io"
  shows "let s1 = snd (flushCartridgeSave io s);
             s2 = runJob io (snd (flushCartridgeSaveOnSchedule io (Some (True, True)) s1))
         in files s1 path = Some (m_exportSaveData (cart s)) \<and> files s2 path = Some (snapData old)"
  using assms
  by (simp add: flushCartridgeSave_def sm_flush_def sm_writeFileAtomic_def no_io_faults_def Let_def
      flushCartridgeSaveOnSchedule_def queueSnapshot_def extractDirtySaveSnapshot_def runJob_def flushSnapshot_def snapshot_of_def)

end
