(* ===== verification/GG_Machine.thy ===== *)
theory GG_Machine
  imports Machine_Cpu GG_MemoryMap GG_MapperFactory GG_SaveManager Z80_State
begin

text \<open>
  \<open>src/cores/gamegear/GameGearMachine.cpp\<close> with \<open>Machine::runSlice\<close> and
  \<open>RuntimeContext::runSlice\<close>: the wiring of the CPU to the memory map, what happens when an
  instruction retires, execution slices and the bulk advance of a halted CPU, loading a ROM, and
  saving and loading the whole state. The baseline executor without plugins, native hooks,
  debugger or capture is modelled; the state of the mod host is a parameter.
\<close>

section \<open>Wiring\<close>

text \<open>What the callbacks installed in the CPU act on: the memory map with the devices behind it, and the
  machine's interrupt flag.\<close>

record gg_world = board +
  interruptRequested :: bool

definition vdp_irq :: "'a board_scheme \<Rightarrow> bool" where
  "vdp_irq w = (case vdp_ptr w of Some v \<Rightarrow> irqAsserted v | None \<Rightarrow> False)"

definition requestProvider :: "gg_world \<Rightarrow> u8 option \<times> gg_world" where
  "requestProvider w =
     (if vdp_irq w then (Some 0, w\<lparr>interruptRequested := False\<rparr>)
      else (None, w\<lparr>interruptRequested := False\<rparr>))"

definition gg_interface :: "gg_world interface" where
  "gg_interface =
     setInterruptRequestProvider (Some requestProvider)
       (setEffectiveIoInterface (Some (\<lambda>w port. readEffectiveIoPort port w)) (Some (\<lambda>w port v. writeEffectiveIoPort port v w))
         (setMemoryInterface (Some mem_read) (Some (\<lambda>w a v. mem_write a v w)) new_interface))"

record machine =
  cpu :: "gg_world z80"
  romLoaded :: bool
  researchFaulted :: bool
  pendingRomSourcePath :: "string option"
  lastDigitalInputMask :: "u32 option"
  inputGeneration :: u64
  stepCounter :: u64
  lastAudioFrameCounter :: u64
  lastFeedback :: CpuFeedback
  savesOf :: saves

text \<open>The devices are the ones behind the pointers of the memory map; \<open>impl->cart\<close> is the inserted mapper.\<close>

definition devices :: "machine \<Rightarrow> gg_world" where
  "devices m = world (cpu m)"

definition on_devices :: "(gg_world \<Rightarrow> gg_world) \<Rightarrow> machine \<Rightarrow> machine" where
  "on_devices f m = m\<lparr>cpu := (cpu m)\<lparr>world := f (world (cpu m))\<rparr>\<rparr>"

definition machine_cart :: "machine \<Rightarrow> mapper option" where
  "machine_cart m = (case cartridge_ptr (devices m) of Inserted c \<Rightarrow> Some c | _ \<Rightarrow> None)"

definition replace_cart :: "mapper \<Rightarrow> 'a board_scheme \<Rightarrow> 'a board_scheme" where
  "replace_cart c b = b\<lparr>cartridge_ptr := Inserted c\<rparr>"

section \<open>Retiring an instruction\<close>

text \<open>What the surroundings do: faults of the save files and the answers of the background service, if one
  is attached, at each step count.\<close>

record host =
  saveIo :: "u64 \<Rightarrow> io_faults"
  service :: "u64 \<Rightarrow> (bool \<times> bool) option"

datatype ExitReason = InstructionBudget | CycleBudget | SegmentBoundary | RetirementRequested | MachineBoundary

definition impl_flushOnSchedule :: "host \<Rightarrow> machine \<Rightarrow> unit result \<times> machine" where
  "impl_flushOnSchedule h m =
     (case machine_cart m of
        None \<Rightarrow> (Inr (), m)
      | Some c \<Rightarrow>
          (let (r, s) = flushCartridgeSaveOnSchedule (saveIo h (stepCounter m)) (service h (stepCounter m)) ((savesOf m)\<lparr>cart := c\<rparr>)
           in (r, on_devices (replace_cart (cart s)) (m\<lparr>savesOf := s\<rparr>))))"

text \<open>\<open>None\<close> is a call that never returns; an exception leaves the machine as it was when it was thrown.\<close>

type_synonym 'a outcome = "('a result \<times> machine) option"

definition takeVBlank :: "host \<Rightarrow> machine \<Rightarrow> unit result \<times> machine" where
  "takeVBlank h m =
     (case vdp_ptr (devices m) of
        None \<Rightarrow> (Inr (), m)
      | Some v \<Rightarrow>
          (let (entered, v) = takeVBlankEntered v;
               m = on_devices (\<lambda>w. w\<lparr>vdp_ptr := Some v\<rparr>) m
           in if entered then impl_flushOnSchedule h m else (Inr (), m)))"

definition noteAudioFrame :: "machine \<Rightarrow> machine" where
  "noteAudioFrame m =
     (case psg_ptr (devices m) of
        None \<Rightarrow> m
      | Some p \<Rightarrow> if frameCounter p \<noteq> lastAudioFrameCounter m then m\<lparr>lastAudioFrameCounter := frameCounter p\<rparr> else m)"

definition step_devices :: "u32 \<Rightarrow> machine \<Rightarrow> machine option" where
  "step_devices cycles m =
     (let m = on_devices (on_vdp (vdp_step cycles)) m
      in case psg_ptr (devices m) of
           None \<Rightarrow> Some m
         | Some p \<Rightarrow> (case psg_step cycles p of
                        None \<Rightarrow> None
                      | Some p \<Rightarrow> Some (on_devices (\<lambda>w. w\<lparr>psg_ptr := Some p\<rparr>) m)))"

definition onInstructionRetired :: "host \<Rightarrow> CpuFeedback \<Rightarrow> machine \<Rightarrow> ExitReason option outcome" where
  "onInstructionRetired h feedback m =
     (case step_devices (retiredCycles feedback) (m\<lparr>stepCounter := stepCounter m + 1\<rparr>) of
        None \<Rightarrow> None
      | Some m \<Rightarrow>
          (let m = on_devices (on_vdp (snd \<circ> takeScanlineReady)) m
           in case takeVBlank h m of
                (Inl e, m) \<Rightarrow> Some (Inl e, m)
              | (Inr _, m) \<Rightarrow>
                  (let m = (if vdp_irq (devices m) then on_devices (\<lambda>w. w\<lparr>interruptRequested := True\<rparr>) m else m);
                       m = noteAudioFrame m
                   in Some (Inr (if interruptRequested (devices m) \<or> vdp_irq (devices m)
                                 then Some MachineBoundary else None), m))))"

section \<open>Execution slices\<close>

record ExecutionBudget =
  maxInstructions :: u64
  maxCycles :: u64
  stopOnSegmentBoundary :: bool

record ExecutionSliceResult =
  retiredInstructions :: u64
  totalCycles :: u64
  sliceFeedback :: CpuFeedback
  exitReason :: ExitReason

definition new_result :: ExecutionSliceResult where
  "new_result = \<lparr>retiredInstructions = 0, totalCycles = 0, sliceFeedback = new_feedback, exitReason = InstructionBudget\<rparr>"

definition context_step :: "machine \<Rightarrow> CpuFeedback result \<times> machine" where
  "context_step m =
     (if \<not> romLoaded m then (Inr (lastFeedback m), m)
      else
        (let m = m\<lparr>lastFeedback := (lastFeedback m)\<lparr>pcBefore := ucast (PC (cpu m))\<rparr>\<rparr>
         in case z80_step gg_interface (cpu m) of
              Inl e \<Rightarrow> (Inl e, m)
            | Inr (cycles, c) \<Rightarrow>
                (let f = (lastFeedback m)\<lparr>pcAfter := ucast (PC c), retiredCycles := of_nat cycles,
                            segmentBoundaryHint := False, isControlFlow := False,
        executionPath := CanonicalFetchDecodeExecute\<rparr>
                 in (Inr f, m\<lparr>cpu := c, lastFeedback := f\<rparr>))))"

text \<open>The cycle count of a slice saturates.\<close>

definition addCycles :: "u64 \<Rightarrow> u64 \<Rightarrow> u64" where
  "addCycles cycles sofar = (if cycles > - 1 - sofar then - 1 else sofar + cycles)"

definition count_retired :: "u64 \<Rightarrow> u64 \<Rightarrow> CpuFeedback \<Rightarrow> ExecutionSliceResult \<Rightarrow> ExecutionSliceResult" where
  "count_retired instructions cycles f r =
     r\<lparr>retiredInstructions := retiredInstructions r + instructions, totalCycles := addCycles cycles (totalCycles r),
       sliceFeedback := f\<rparr>"

text \<open>One pass of the loop: \<open>Inr (r, None)\<close> goes on, \<open>Inr (r, Some reason)\<close> leaves the slice.\<close>

definition leave_reason :: "ExecutionBudget \<Rightarrow> ExecutionSliceResult \<Rightarrow> ExitReason option" where
  "leave_reason b r =
     (if stopOnSegmentBoundary b \<and> segmentBoundaryHint (sliceFeedback r) then Some SegmentBoundary
      else if totalCycles r \<ge> maxCycles b then Some CycleBudget
      else None)"

definition slice_pass :: "host \<Rightarrow> ExecutionBudget \<Rightarrow> ExecutionSliceResult \<Rightarrow> machine \<Rightarrow>
    (ExecutionSliceResult \<times> ExitReason option) outcome" where
  "slice_pass h b r m =
     (case context_step m of
        (Inl e, m) \<Rightarrow> Some (Inl e, m)
      | (Inr f, m) \<Rightarrow>
          (let r = count_retired 1 (ucast (retiredCycles f)) f r
           in case onInstructionRetired h f m of
                None \<Rightarrow> None
              | Some (Inl e, m) \<Rightarrow> Some (Inl e, m)
              | Some (Inr (Some reason), m) \<Rightarrow> Some (Inr (r, Some reason), m)
              | Some (Inr None, m) \<Rightarrow> Some (Inr (r, leave_reason b r), m)))"

fun slice_loop :: "host \<Rightarrow> ExecutionBudget \<Rightarrow> nat \<Rightarrow> ExecutionSliceResult \<Rightarrow> machine \<Rightarrow> ExecutionSliceResult outcome" where
  "slice_loop h b 0 r m = Some (Inr (r\<lparr>exitReason := InstructionBudget\<rparr>), m)"
| "slice_loop h b (Suc n) r m =
     (if totalCycles r \<ge> maxCycles b then Some (Inr (r\<lparr>exitReason := InstructionBudget\<rparr>), m)
      else case slice_pass h b r m of
             None \<Rightarrow> None
           | Some (Inl e, m) \<Rightarrow> Some (Inl e, m)
           | Some (Inr (r, Some reason), m) \<Rightarrow> Some (Inr (r\<lparr>exitReason := reason\<rparr>), m)
           | Some (Inr (r, None), m) \<Rightarrow> slice_loop h b n r m)"

definition context_runSlice :: "host \<Rightarrow> ExecutionBudget \<Rightarrow> machine \<Rightarrow> ExecutionSliceResult outcome" where
  "context_runSlice h b m =
     (if maxInstructions b = 0 then Some (Inr (new_result\<lparr>exitReason := InstructionBudget\<rparr>), m)
      else if maxCycles b = 0 then Some (Inr (new_result\<lparr>exitReason := CycleBudget\<rparr>), m)
      else slice_loop h b (unat (maxInstructions b)) new_result m)"

section \<open>The bulk advance of a halted CPU\<close>

definition idle_feedback :: "machine \<Rightarrow> CpuFeedback" where
  "idle_feedback m =
     (lastFeedback m)\<lparr>pcBefore := ucast (PC (cpu m)), pcAfter := ucast (PC (cpu m)), retiredCycles := 4,
        segmentBoundaryHint := False, isControlFlow := False,
        executionPath := CanonicalFetchDecodeExecute\<rparr>"

definition the_vdp :: "machine \<Rightarrow> vdp" where "the_vdp m = the (vdp_ptr (devices m))"
definition the_psg :: "machine \<Rightarrow> psg" where "the_psg m = the (psg_ptr (devices m))"

definition idle_deadline :: "machine \<Rightarrow> u32" where
  "idle_deadline m = min (cyclesUntilNextScanline (the_vdp m)) (cyclesUntilNextSample (the_psg m))"

text \<open>How many polls of a halted CPU can be credited at once: up to the next device event, strictly
  before it, and within both budgets.\<close>

definition idle_polls :: "ExecutionBudget \<Rightarrow> ExecutionSliceResult \<Rightarrow> machine \<Rightarrow> u64" where
  "idle_polls b r m =
     (if halted (cpu m) \<and> \<not> interruptRequested (devices m) \<and> \<not> hasPendingRetirementEvent (the_vdp m) \<and>
         frameCounter (the_psg m) = lastAudioFrameCounter m
      then (let deadline = idle_deadline m;
                remaining = maxCycles b - totalCycles r
            in min (if deadline \<noteq> 0 then ucast ((deadline - 1) div 4) else 0)
                 (min (maxInstructions b - retiredInstructions r)
                    (remaining div 4 + (if remaining mod 4 \<noteq> 0 then 1 else 0))))
      else 0)"

definition bulk_advance :: "u64 \<Rightarrow> machine \<Rightarrow> machine option" where
  "bulk_advance polls m =
     (let m = m\<lparr>lastFeedback := idle_feedback m\<rparr>
      in case step_devices (ucast (polls * 4)) m of
           None \<Rightarrow> None
         | Some m \<Rightarrow> Some (m\<lparr>stepCounter := stepCounter m + polls\<rparr>))"

definition bulk_result :: "u64 \<Rightarrow> machine \<Rightarrow> ExecutionSliceResult \<Rightarrow> ExecutionSliceResult" where
  "bulk_result polls m r = count_retired polls (ucast (ucast (polls * 4) :: u32)) (idle_feedback m) r"

text \<open>\<open>n\<close> is the number of instructions the budget still allows; at least two polls, or one instruction,
  are credited in each pass.\<close>

function halted_loop :: "host \<Rightarrow> ExecutionBudget \<Rightarrow> nat \<Rightarrow> ExecutionSliceResult \<Rightarrow> machine \<Rightarrow> ExecutionSliceResult outcome" where
  "halted_loop h b n r m =
     (if n = 0 \<or> totalCycles r \<ge> maxCycles b then Some (Inr r, m)
      else
        (let polls = idle_polls b r m in
         if polls \<ge> 2 then
           (case bulk_advance polls m of
              None \<Rightarrow> None
            | Some m' \<Rightarrow>
                (let r = bulk_result polls m r
                 in case leave_reason b r of
                      Some reason \<Rightarrow> Some (Inr (r\<lparr>exitReason := reason\<rparr>), m')
                    | None \<Rightarrow> halted_loop h b (n - unat polls) r m'))
         else
           (case slice_pass h b r m of
              None \<Rightarrow> None
            | Some (Inl e, m) \<Rightarrow> Some (Inl e, m)
            | Some (Inr (r, Some reason), m) \<Rightarrow> Some (Inr (r\<lparr>exitReason := reason\<rparr>), m)
            | Some (Inr (r, None), m) \<Rightarrow> halted_loop h b (n - 1) r m)))"
  by pat_completeness auto
termination
proof (relation "measure (\<lambda>(h, b, n, r, m). n)", goal_cases)
  case (2 h b n r m polls)
  then have "unat polls \<ge> 2" by (simp add: word_le_nat_alt)
  then show ?case using 2 by simp
qed auto

declare halted_loop.simps [simp del]

definition runSlice :: "host \<Rightarrow> ExecutionBudget \<Rightarrow> machine \<Rightarrow> ExecutionSliceResult outcome" where
  "runSlice h b m =
     (if researchFaulted m then Some (Inl (Runtime_error ''research fault requires ROM reload or checkpoint restore''), m)
      else if \<not> romLoaded m then Some (Inr (new_result\<lparr>exitReason := MachineBoundary\<rparr>), m)
      else context_runSlice h b m)"

text \<open>The same with \<open>TIME_RESEARCH_HALTED_ADVANCE\<close>, whose conditions on policy, plugins, observers and
  hooks hold in the configuration modelled.\<close>

definition runSlice_halted :: "host \<Rightarrow> ExecutionBudget \<Rightarrow> machine \<Rightarrow> ExecutionSliceResult outcome" where
  "runSlice_halted h b m =
     (if researchFaulted m then Some (Inl (Runtime_error ''research fault requires ROM reload or checkpoint restore''), m)
      else if \<not> romLoaded m then Some (Inr (new_result\<lparr>exitReason := MachineBoundary\<rparr>), m)
      else if halted (cpu m) then
        (if maxInstructions b = 0 then Some (Inr new_result, m)
         else if maxCycles b = 0 then Some (Inr (new_result\<lparr>exitReason := CycleBudget\<rparr>), m)
         else halted_loop h b (unat (maxInstructions b)) new_result m)
      else context_runSlice h b m)"

definition default_budget :: ExecutionBudget where
  "default_budget = \<lparr>maxInstructions = 1, maxCycles = - 1, stopOnSegmentBoundary = True\<rparr>"

definition machine_step :: "host \<Rightarrow> machine \<Rightarrow> ExecutionSliceResult outcome" where
  "machine_step h m = runSlice h default_budget m"

end
