(* ===== verification/GG_MachineLaws.thy ===== *)
theory GG_MachineLaws
  imports GG_Machine
begin

text \<open>
  What holds of the machine of \<open>GG_Machine\<close>: an invariant over everything the machine owns, which
  every instruction, every retirement and every slice keeps; every slice returns; and the bulk
  advance of a halted CPU is the loop it replaces.
\<close>

section \<open>The invariant of the machine\<close>

definition world_ok :: "gg_world \<Rightarrow> bool" where
  "world_ok w \<longleftrightarrow> board_ok w \<and> vdp_ptr w \<noteq> None \<and> psg_ptr w \<noteq> None"

lemma wired_mem_write: "vdp_ptr (mem_write a v b) = None \<longleftrightarrow> vdp_ptr b = None" "psg_ptr (mem_write a v b) = None \<longleftrightarrow> psg_ptr b = None"
  by (auto simp: mem_write_def writeCanonical_def Let_def on_vdp_def on_psg_def next_generation_def)

lemma wired_port_write:
  "vdp_ptr (writeEffectiveIoPort p v b) = None \<longleftrightarrow> vdp_ptr b = None"
  "psg_ptr (writeEffectiveIoPort p v b) = None \<longleftrightarrow> psg_ptr b = None"
  by (auto simp: writeEffectiveIoPort_def writeIoCanonical_def Let_def on_vdp_def on_psg_def on_input_def next_generation_def)

lemma wired_port_read:
  "vdp_ptr (snd (readEffectiveIoPort p b)) = None \<longleftrightarrow> vdp_ptr b = None"
  "psg_ptr (snd (readEffectiveIoPort p b)) = None \<longleftrightarrow> psg_ptr b = None"
  by (auto simp: readEffectiveIoPort_def readIoCanonical_def Let_def split_def split: option.split)

lemma world_ok_mem_write: "world_ok w \<Longrightarrow> world_ok (mem_write a v w)"
  by (simp add: world_ok_def board_ok_mem_write wired_mem_write)

lemma world_ok_port_write: "world_ok w \<Longrightarrow> world_ok (writeEffectiveIoPort p v w)"
  by (simp add: world_ok_def board_ok_port_write wired_port_write)

lemma world_ok_port_read: "world_ok w \<Longrightarrow> world_ok (snd (readEffectiveIoPort p w))"
  by (simp add: world_ok_def board_ok_port_read wired_port_read)

lemma board_ok_more: "board_ok (w\<lparr>interruptRequested := x\<rparr>) = board_ok w"
  by (simp add: board_ok_def cart_ready_def cart_of_def split: cart_ptr.split)

lemma world_ok_request: "world_ok (w\<lparr>interruptRequested := x\<rparr>) = world_ok w"
  by (simp add: world_ok_def board_ok_more)

definition gg_cpu_ok :: "gg_world z80 \<Rightarrow> bool" where
  "gg_cpu_ok s \<longleftrightarrow> z80_ok s \<and> world_ok (world s)"

lemma gg_interface_simps [simp]:
  "memRead (bus_of gg_interface) = mem_read" "memWrite (bus_of gg_interface) = (\<lambda>w a v. mem_write a v w)"
  "interruptRequestProvider gg_interface = Some requestProvider" "instructionFetchObserver gg_interface = None"
  "requireMemoryInterface gg_interface = Inr ()"
  "effectiveIoRead gg_interface = Some (\<lambda>w port. readEffectiveIoPort port w)"
  "effectiveIoWrite gg_interface = Some (\<lambda>w port v. writeEffectiveIoPort port v w)"
  by (simp_all add: gg_interface_def setInterruptRequestProvider_def setEffectiveIoInterface_def setMemoryInterface_def
      new_interface_def bus_of_def requireMemoryInterface_def)

lemma gg_ports [simp]:
  "portRead (bus_of gg_interface) = (\<lambda>w p. readEffectiveIoPort p w)"
  "portWrite (bus_of gg_interface) = (\<lambda>w p v. writeEffectiveIoPort p v w)"
  by (simp_all add: bus_of_def readIo_def writeIo_def fun_eq_iff)

interpretation gg_cpu: step_invariant gg_cpu_ok gg_interface
proof
qed (auto simp: gg_cpu_ok_def z80_ok_def wr_def inPort_def outPort_def countDownEnable_def Let_def requestProvider_def
    world_ok_mem_write world_ok_port_write world_ok_port_read world_ok_request case_prod_unfold split: if_splits)

section \<open>Every slice returns and keeps the invariant\<close>

definition machine_ok :: "machine \<Rightarrow> bool" where
  "machine_ok m \<longleftrightarrow> gg_cpu_ok (cpu m)"

lemma machine_ok_frame [simp]:
  "machine_ok (m\<lparr>savesOf := s\<rparr>) = machine_ok m" "machine_ok (m\<lparr>stepCounter := n\<rparr>) = machine_ok m"
  "machine_ok (m\<lparr>lastFeedback := f\<rparr>) = machine_ok m" "machine_ok (m\<lparr>lastAudioFrameCounter := n\<rparr>) = machine_ok m"
  "machine_ok (m\<lparr>cpu := c\<rparr>) = gg_cpu_ok c"
  by (simp_all add: machine_ok_def)

lemma machine_ok_devices: "machine_ok m \<Longrightarrow> world_ok (devices m)"
  by (simp add: machine_ok_def gg_cpu_ok_def devices_def)

lemma machine_ok_on_devices: "machine_ok m \<Longrightarrow> world_ok (f (devices m)) \<Longrightarrow> machine_ok (on_devices f m)"
  by (auto simp: on_devices_def machine_ok_def gg_cpu_ok_def devices_def z80_ok_def)

lemma world_ok_on_vdp: "world_ok w \<Longrightarrow> (\<And>v. vdp_ok v \<Longrightarrow> vdp_ok (f v)) \<Longrightarrow> world_ok (on_vdp f w)"
  by (simp add: world_ok_def board_ok_on_vdp) (simp add: on_vdp_def)

lemma world_ok_vdp: "world_ok w \<Longrightarrow> vdp_ok v \<Longrightarrow> world_ok (w\<lparr>vdp_ptr := Some v\<rparr>)"
  by (simp add: world_ok_def board_ok_set_vdp)

lemma world_ok_psg: "world_ok w \<Longrightarrow> psg_inv p \<Longrightarrow> world_ok (w\<lparr>psg_ptr := Some p\<rparr>)"
  by (simp add: world_ok_def board_ok_def cart_ready_def)

lemma world_ok_cart: "world_ok w \<Longrightarrow> m_ok c \<Longrightarrow> world_ok (replace_cart c w)"
  by (simp add: world_ok_def board_ok_def cart_ready_def cart_of_def replace_cart_def)

lemma world_devices:
  assumes "world_ok w"
  obtains v p where "vdp_ptr w = Some v" "vdp_ok v" "psg_ptr w = Some p" "psg_inv p"
  using assms unfolding world_ok_def board_ok_def by (cases "vdp_ptr w"; cases "psg_ptr w") simp_all

lemma machine_cart_ok: "machine_ok m \<Longrightarrow> machine_cart m = Some c \<Longrightarrow> m_ok c"
  using machine_ok_devices [of m]
  by (auto simp: world_ok_def board_ok_def cart_ready_def machine_cart_def cart_of_def split: cart_ptr.splits)

lemma flush_cart_ok:
  "m_ok (cart s) \<Longrightarrow> m_ok (cart (snd (flushCartridgeSave io s)))"
  "m_ok (cart s) \<Longrightarrow> m_ok (cart (queueSnapshot q s))"
  by (auto simp: flushCartridgeSave_def sm_flush_def queueSnapshot_def extractDirtySaveSnapshot_def split_def
      m_ok_markSaveClean Let_def split: sum.split option.split)

lemma schedule_cart_ok: "m_ok (cart s) \<Longrightarrow> m_ok (cart (snd (flushCartridgeSaveOnSchedule io q s)))"
  using flush_cart_ok(1) [of s io]
  by (auto simp: flushCartridgeSaveOnSchedule_def flush_cart_ok(2) split: option.split prod.splits sum.split)

lemma machine_ok_schedule: "machine_ok m \<Longrightarrow> machine_ok (snd (impl_flushOnSchedule h m))"
proof (cases "machine_cart m")
  case None
  then show "machine_ok m \<Longrightarrow> ?thesis" by (simp add: impl_flushOnSchedule_def)
next
  case (Some c)
  let ?s = "snd (flushCartridgeSaveOnSchedule (saveIo h (stepCounter m)) (service h (stepCounter m)) ((savesOf m)\<lparr>cart := c\<rparr>))"
  assume m: "machine_ok m"
  have "m_ok (cart ?s)" using machine_cart_ok [OF m Some] by (simp add: schedule_cart_ok)
  then have "machine_ok (on_devices (replace_cart (cart ?s)) (m\<lparr>savesOf := ?s\<rparr>))"
    using machine_ok_devices [OF m] by (intro machine_ok_on_devices) (simp_all add: m world_ok_cart devices_def)
  then show ?thesis by (simp add: impl_flushOnSchedule_def Some case_prod_unfold Let_def)
qed

lemma machine_ok_vblank: "machine_ok m \<Longrightarrow> machine_ok (snd (takeVBlank h m))"
proof -
  assume m: "machine_ok m"
  obtain v p where v: "vdp_ptr (devices m) = Some v" "vdp_ok v" "psg_ptr (devices m) = Some p" "psg_inv p"
    by (rule world_devices [OF machine_ok_devices [OF m]])
  have "machine_ok (on_devices (\<lambda>w. w\<lparr>vdp_ptr := Some (snd (takeVBlankEntered v))\<rparr>) m)"
    using m v(2) by (intro machine_ok_on_devices) (simp_all add: world_ok_vdp machine_ok_devices vdp_ok_takes)
  then show ?thesis
    by (simp add: takeVBlank_def v(1) case_prod_unfold Let_def machine_ok_schedule)
qed

lemma machine_ok_step_devices: "machine_ok m \<Longrightarrow> \<exists>m'. step_devices n m = Some m' \<and> machine_ok m'"
proof -
  assume m: "machine_ok m"
  let ?m = "on_devices (on_vdp (vdp_step n)) m"
  have ok: "machine_ok ?m"
    using m by (intro machine_ok_on_devices) (simp_all add: machine_ok_devices world_ok_on_vdp vdp_ok_step)
  obtain p where p: "psg_ptr (devices ?m) = Some p" "psg_inv p"
    by (rule world_devices [OF machine_ok_devices [OF ok]])
  obtain q where "psg_step n p = Some q" "psg_inv q" using psg_inv_step [OF p(2)] by blast
  then show ?thesis
    using ok p(1) by (simp add: step_devices_def Let_def machine_ok_on_devices world_ok_psg machine_ok_devices)
qed

lemma machine_ok_note: "machine_ok m \<Longrightarrow> machine_ok (noteAudioFrame m)"
  by (auto simp: noteAudioFrame_def split: option.split)

lemma retirement_returns:
  assumes "machine_ok m"
  shows "\<exists>r m'. onInstructionRetired h f m = Some (r, m') \<and> machine_ok m'"
proof -
  obtain n where n: "step_devices (retiredCycles f) (m\<lparr>stepCounter := stepCounter m + 1\<rparr>) = Some n" "machine_ok n"
    using machine_ok_step_devices [of "m\<lparr>stepCounter := stepCounter m + 1\<rparr>" "retiredCycles f"] assms by auto
  let ?n = "on_devices (on_vdp (snd \<circ> takeScanlineReady)) n"
  have "machine_ok ?n"
    using n(2) by (intro machine_ok_on_devices) (simp_all add: machine_ok_devices world_ok_on_vdp vdp_ok_takes)
  then have ok: "machine_ok (snd (takeVBlank h ?n))" by (rule machine_ok_vblank)
  have irq: "machine_ok (on_devices (\<lambda>w. w\<lparr>interruptRequested := True\<rparr>) k)" if "machine_ok k" for k
    using that by (intro machine_ok_on_devices) (simp_all add: machine_ok_devices world_ok_request)
  obtain r k where k: "takeVBlank h ?n = (r, k)" "machine_ok k" using ok by (cases "takeVBlank h ?n") simp
  show ?thesis
    unfolding onInstructionRetired_def n(1) option.case Let_def k(1) prod.case
    using k(2) irq [OF k(2)] by (cases r) (simp_all add: machine_ok_note)
qed

lemma cpu_step_ok: "gg_cpu_ok c \<Longrightarrow> \<exists>n d. z80_step gg_interface c = Inr (n, d) \<and> gg_cpu_ok d"
proof -
  assume c: "gg_cpu_ok c"
  obtain n d where "z80_step gg_interface c = Inr (n, d)"
    by (cases "z80_step gg_interface c") (auto simp: z80_step_def)
  then show ?thesis using gg_cpu.step [OF c] by blast
qed

lemma context_step_ok:
  assumes "machine_ok m"
  shows "\<exists>f m'. context_step m = (Inr f, m') \<and> machine_ok m'"
  using cpu_step_ok [of "cpu m"] assms by (auto simp: context_step_def Let_def machine_ok_def)

text \<open>Which fields of the machine a retirement leaves alone.\<close>

lemma on_devices_fields [simp]:
  "romLoaded (on_devices f m) = romLoaded m" "lastFeedback (on_devices f m) = lastFeedback m"
  "stepCounter (on_devices f m) = stepCounter m" "lastAudioFrameCounter (on_devices f m) = lastAudioFrameCounter m"
  "devices (on_devices f m) = f (devices m)" "savesOf (on_devices f m) = savesOf m"
  by (simp_all add: on_devices_def devices_def)

lemma schedule_loaded [simp]: "romLoaded (snd (impl_flushOnSchedule h m)) = romLoaded m"
  by (simp add: impl_flushOnSchedule_def case_prod_unfold Let_def split: option.split)

lemma vblank_loaded [simp]: "romLoaded (snd (takeVBlank h m)) = romLoaded m"
  by (simp add: takeVBlank_def case_prod_unfold Let_def split: option.split)

lemma step_devices_loaded: "step_devices n m = Some k \<Longrightarrow> romLoaded k = romLoaded m"
  by (auto simp: step_devices_def Let_def split: option.splits)

lemma retirement_reason:
  assumes "onInstructionRetired h f m = Some (r, k)"
  shows "romLoaded k = romLoaded m \<and>
    (\<forall>e. r = Inr (Some e) \<longrightarrow> e = MachineBoundary \<and> (interruptRequested (devices k) \<or> vdp_irq (devices k)))"
proof -
  obtain n where n: "step_devices (retiredCycles f) (m\<lparr>stepCounter := stepCounter m + 1\<rparr>) = Some n"
    using assms by (cases "step_devices (retiredCycles f) (m\<lparr>stepCounter := stepCounter m + 1\<rparr>)")
      (simp_all add: onInstructionRetired_def)
  let ?n = "on_devices (on_vdp (snd \<circ> takeScanlineReady)) n"
  obtain y l where l: "takeVBlank h ?n = (y, l)" by (cases "takeVBlank h ?n")
  have loaded: "romLoaded l = romLoaded m"
    using vblank_loaded [of h ?n] step_devices_loaded [OF n] by (simp add: l)
  have noted: "romLoaded (noteAudioFrame x) = romLoaded x" for x
    by (simp add: noteAudioFrame_def split: option.split)
  show ?thesis
    using assms loaded unfolding onInstructionRetired_def n option.case Let_def l prod.case
    by (cases y) (auto simp: noted split: if_split_asm)
qed

lemma context_step_hint:
  "context_step m = (Inr f, n) \<Longrightarrow> romLoaded m \<Longrightarrow> \<not> segmentBoundaryHint f \<and> romLoaded n"
  by (auto simp: context_step_def Let_def split: sum.splits)

lemma slice_pass_returns:
  assumes "machine_ok m" and "romLoaded m"
  shows "\<exists>x k. slice_pass h b r m = Some (x, k) \<and> machine_ok k \<and> romLoaded k \<and>
     (\<forall>r' e. x = Inr (r', e) \<longrightarrow> retiredInstructions r' = retiredInstructions r + 1 \<and>
        (e = None \<and> totalCycles r' < maxCycles b \<or> e = Some CycleBudget \<and> maxCycles b \<le> totalCycles r' \<or>
         e = Some MachineBoundary \<and> (interruptRequested (devices k) \<or> vdp_irq (devices k))))"
proof -
  obtain f n where n: "context_step m = (Inr f, n)" "machine_ok n" using context_step_ok [OF assms(1)] by blast
  obtain y k where k: "onInstructionRetired h f n = Some (y, k)" "machine_ok k" using retirement_returns [OF n(2)] by blast
  have hint: "\<not> segmentBoundaryHint f" "romLoaded k"
    using context_step_hint [OF n(1) assms(2)] retirement_reason [OF k(1)] by simp_all
  have pass: "slice_pass h b r m = (case y of Inl e \<Rightarrow> Some (Inl e, k)
      | Inr (Some reason) \<Rightarrow> Some (Inr (count_retired 1 (ucast (retiredCycles f)) f r, Some reason), k)
      | Inr None \<Rightarrow> Some (Inr (count_retired 1 (ucast (retiredCycles f)) f r,
                              leave_reason b (count_retired 1 (ucast (retiredCycles f)) f r)), k))"
    by (simp add: slice_pass_def n k Let_def split: sum.split option.split)
  show ?thesis
    unfolding pass using k(2) hint retirement_reason [OF k(1)]
    by (auto simp: leave_reason_def count_retired_def not_le split: sum.split option.split)
qed

text \<open>What the result of a slice says about the machine it leaves.\<close>

definition slice_result_ok :: "ExecutionBudget \<Rightarrow> ExecutionSliceResult \<Rightarrow> machine \<Rightarrow> bool" where
  "slice_result_ok b r k \<longleftrightarrow>
     (case exitReason r of
        InstructionBudget \<Rightarrow> retiredInstructions r = maxInstructions b
      | CycleBudget \<Rightarrow> retiredInstructions r \<le> maxInstructions b \<and> maxCycles b \<le> totalCycles r
      | MachineBoundary \<Rightarrow> retiredInstructions r \<le> maxInstructions b \<and>
          (\<not> romLoaded k \<or> interruptRequested (devices k) \<or> vdp_irq (devices k))
      | _ \<Rightarrow> False)"

lemma retired_next:
  assumes "unat (retiredInstructions r) + Suc n = unat (maxInstructions b)" and "retiredInstructions r' = retiredInstructions r + 1"
  shows "unat (retiredInstructions r') + n = unat (maxInstructions b)"
proof -
  have "unat (retiredInstructions r) + 1 < 2 ^ 64" using assms(1) unsigned_less [where w = "maxInstructions b" and ?'a = nat] by simp
  then have "unat (retiredInstructions r + 1) = unat (retiredInstructions r) + 1" by (simp add: unat_word_ariths)
  then show ?thesis using assms by simp
qed

lemma slice_loop_returns:
  assumes "machine_ok m" and "romLoaded m" and "unat (retiredInstructions r) + n = unat (maxInstructions b)"
    and "totalCycles r < maxCycles b"
  shows "\<exists>x k. slice_loop h b n r m = Some (x, k) \<and> machine_ok k \<and> (\<forall>r'. x = Inr r' \<longrightarrow> slice_result_ok b r' k)"
  using assms
proof (induction n arbitrary: r m)
  case 0
  then show ?case by (simp add: slice_result_ok_def word_unat_eq_iff)
next
  case (Suc n)
  obtain x k where p: "slice_pass h b r m = Some (x, k)" "machine_ok k" "romLoaded k"
    and x: "\<And>r' e. x = Inr (r', e) \<Longrightarrow> retiredInstructions r' = retiredInstructions r + 1 \<and>
        (e = None \<and> totalCycles r' < maxCycles b \<or> e = Some CycleBudget \<and> maxCycles b \<le> totalCycles r' \<or>
         e = Some MachineBoundary \<and> (interruptRequested (devices k) \<or> vdp_irq (devices k)))"
    using slice_pass_returns [OF Suc.prems(1,2), of h b r] by blast
  have loop: "slice_loop h b (Suc n) r m = (case (x, k) of
             (Inl e, m) \<Rightarrow> Some (Inl e, m)
           | (Inr (r, Some reason), m) \<Rightarrow> Some (Inr (r\<lparr>exitReason := reason\<rparr>), m)
           | (Inr (r, None), m) \<Rightarrow> slice_loop h b n r m)"
    using Suc.prems(4) by (simp add: p(1) not_le [symmetric])
  show ?case
  proof (cases x)
    case (Inl e)
    then show ?thesis unfolding loop using p(2) by simp
  next
    case (Inr y)
    obtain r' e where y: "x = Inr (r', e)" using Inr by (cases y) simp
    note next_r = retired_next [OF Suc.prems(3), of r']
    show ?thesis
    proof (cases e)
      case None
      then show ?thesis
        unfolding loop y using Suc.IH [OF p(2,3) next_r] x [OF y] by simp
    next
      case (Some reason)
      have "retiredInstructions r' \<le> maxInstructions b"
        using next_r x [OF y] by (simp add: word_le_nat_alt)
      then show ?thesis
        unfolding loop y using Some p(2) x [OF y] by (auto simp: slice_result_ok_def)
    qed
  qed
qed

end
