(* ===== verification/GG_MachineState.thy ===== *)
theory GG_MachineState
  imports GG_MachineLaws
begin

text \<open>
  The life of a machine around its slices: construction, loading a ROM, polling the input, and
  saving and loading its whole state as the chunks of a save-state file.
\<close>

section \<open>Construction\<close>

text \<open>\<open>boot\<close> is the boot ROM of the provider, if there is one. The cartridge of the save schedule has
  no meaning until a ROM is loaded.\<close>

definition new_world :: "u8 list \<Rightarrow> gg_world" where
  "new_world boot =
     (let b = setVdp (Some (vdp_reset new_vdp)) (setPsg (Some new_psg) (setInput (Some (in_reset new_input))
                (new_board new_cartridge)))
      in board.extend (if boot = [] then b else mapBios (Some boot) (length boot) b) (gg_world.fields False))"

definition new_saves :: saves where
  "new_saves = \<lparr>cart = BaseCartridge new_cartridge, boundPath = None, pendingSaveSnapshot = None, jobs = [], files = Map.empty\<rparr>"

definition new_machine :: "u8 list \<Rightarrow> filesystem \<Rightarrow> machine" where
  "new_machine boot fs =
     \<lparr>cpu = power_on (new_world boot), romLoaded = False, researchFaulted = False, pendingRomSourcePath = None,
      lastDigitalInputMask = None, inputGeneration = 0, stepCounter = 0, lastAudioFrameCounter = 0,
      lastFeedback = new_feedback, savesOf = new_saves\<lparr>files := fs\<rparr>\<rparr>"

definition setRomSourcePath :: "string option \<Rightarrow> machine \<Rightarrow> machine" where
  "setRomSourcePath path m = m\<lparr>pendingRomSourcePath := path\<rparr>"

definition loadExternalBootRom :: "u8 list \<Rightarrow> machine \<Rightarrow> machine" where
  "loadExternalBootRom bytes m = on_devices (mapBios (Some bytes) (length bytes)) m"

definition romData :: "machine \<Rightarrow> u8 list" where
  "romData m = (case machine_cart m of None \<Rightarrow> [] | Some c \<Rightarrow> m_romData c)"

section \<open>Save files\<close>

definition impl_flushCartridgeSave :: "io_faults \<Rightarrow> machine \<Rightarrow> bool result \<times> machine" where
  "impl_flushCartridgeSave io m =
     (case machine_cart m of
        None \<Rightarrow> (Inr False, m)
      | Some c \<Rightarrow>
          (let (r, s) = flushCartridgeSave io ((savesOf m)\<lparr>cart := c\<rparr>)
           in (r, on_devices (replace_cart (cart s)) (m\<lparr>savesOf := s\<rparr>))))"

definition impl_flushPendingBackgroundWork :: "io_faults \<Rightarrow> machine \<Rightarrow> unit result \<times> machine" where
  "impl_flushPendingBackgroundWork io m =
     (let (r, m) = (case pendingSaveSnapshot (savesOf m) of
              None \<Rightarrow> (Inr (), m)
            | Some snapshot \<Rightarrow>
                (case flushSnapshot io snapshot (files (savesOf m)) of
                   (Inl e, fs) \<Rightarrow> (Inl e, m\<lparr>savesOf := (savesOf m)\<lparr>files := fs\<rparr>\<rparr>)
                 | (Inr _, fs) \<Rightarrow> (Inr (), m\<lparr>savesOf := (savesOf m)\<lparr>files := fs, pendingSaveSnapshot := None\<rparr>\<rparr>)))
      in case r of
           Inl e \<Rightarrow> (Inl e, m)
         | Inr _ \<Rightarrow> (case impl_flushCartridgeSave io m of (Inl e, m) \<Rightarrow> (Inl e, m) | (Inr _, m) \<Rightarrow> (Inr (), m)))"

section \<open>Loading a ROM\<close>

definition kMaxRomSize :: nat where "kMaxRomSize = 1024 * 1024"

text \<open>Everything after the mapper is installed and its save file has been read.\<close>

definition restart :: "machine \<Rightarrow> machine" where
  "restart m =
     (let m = m\<lparr>pendingRomSourcePath := None, researchFaulted := False\<rparr>;
          m = on_devices (on_input in_reset \<circ> on_psg psg_reset \<circ> interruptRequested_update (\<lambda>_. False) \<circ>
                          on_vdp vdp_reset \<circ> mem_reset) m
      in m\<lparr>romLoaded := True, inputGeneration := inputGeneration m + 1, lastDigitalInputMask := None,
           stepCounter := 0, lastAudioFrameCounter := 0, cpu := z80_reset (cpu m)\<rparr>)"

definition bind_save :: "machine \<Rightarrow> machine" where
  "bind_save m =
     m\<lparr>savesOf := (savesOf m)\<lparr>boundPath :=
         (if romPathAllowsSaveBinding (pendingRomSourcePath m)
          then bindRomPath (the (pendingRomSourcePath m)) else None)\<rparr>\<rparr>"

text \<open>\<open>candidates\<close> are the contents of the external mapper tables; \<open>io\<close> and \<open>io'\<close> the faults met while
  flushing the old save and while reading the new one.\<close>

definition loadRom :: "string list option list \<Rightarrow> io_faults \<Rightarrow> io_faults \<Rightarrow> u8 list \<Rightarrow> machine \<Rightarrow> unit result \<times> machine" where
  "loadRom candidates io io' bytes m =
     (if bytes = [] then (Inl (Runtime_error ''Cannot load empty ROM''), m)
      else if length bytes > kMaxRomSize then (Inl (Runtime_error ''ROM too large''), m)
      else
        (case impl_flushCartridgeSave io m of
           (Inl e, m) \<Rightarrow> (Inl e, m)
         | (Inr _, m) \<Rightarrow>
             (let c = createMapperFromRom candidates (Some bytes) (length bytes)
                        (map_option path_filename (pendingRomSourcePath m));
                  m = bind_save (on_devices (setCartridge (Some c)) m)
              in if romPathAllowsSaveBinding (pendingRomSourcePath m) then
                   (case sm_load io' (files (savesOf m)) (boundPath (savesOf m)) c of
                      Inl e \<Rightarrow> (Inl e, m)
                    | Inr c \<Rightarrow> (Inr (), restart (on_devices (replace_cart c) m)))
                 else (Inr (), restart m))))"

section \<open>Input\<close>

text \<open>\<open>adapter\<close> is the mask the input service has committed while it is active, \<open>plugin\<close> what the plugins
  sample, if there are any. \<open>setLogicalButtons\<close> takes the low byte of the mask.\<close>

definition take_mask :: "u32 \<Rightarrow> machine \<Rightarrow> machine" where
  "take_mask pressedMask m =
     (on_devices (on_input (setLogicalButtons (ucast pressedMask))) m)\<lparr>lastDigitalInputMask := Some pressedMask\<rparr>"

definition serviceInput :: "u32 option \<Rightarrow> u32 option \<Rightarrow> machine \<Rightarrow> machine" where
  "serviceInput adapter plugin m =
     (case adapter of
        Some pressedMask \<Rightarrow> take_mask pressedMask m
      | None \<Rightarrow> (case plugin of None \<Rightarrow> m | Some pressedMask \<Rightarrow> take_mask pressedMask m))"

section \<open>The state file\<close>

definition makeChunk :: "string \<Rightarrow> u8 list \<Rightarrow> SaveStateChunk" where
  "makeChunk name data = \<lparr>chunk_name = bytes_of name, chunk_size = of_nat (length data), chunk_data = data\<rparr>"

definition requireChunk :: "SaveStateFile \<Rightarrow> string \<Rightarrow> SaveStateChunk result" where
  "requireChunk state name =
     (case find (\<lambda>c. chunk_name c = bytes_of name) (chunks state) of
        None \<Rightarrow> Inl (Invalid_argument ''save state is missing required chunk'')
      | Some c \<Rightarrow> Inr c)"

definition serializeMachineMeta :: "u64 \<Rightarrow> u64 \<Rightarrow> bool \<Rightarrow> u32 option \<Rightarrow> u64 \<Rightarrow> u8 list" where
  "serializeMachineMeta steps frames irq lastInput generation =
     le64 steps @ le64 frames @ put_bool irq @
     (case lastInput of None \<Rightarrow> put_bool False | Some v \<Rightarrow> put_bool True @ le32 v) @ le64 generation"

text \<open>The state of the mod host: its regions, the saved cohort of native mods, and the check that a
  stored pair of them can be taken over (\<open>NativeMod::prepareCohort\<close>).\<close>

record mods =
  regionState :: "u8 list"
  cohortState :: "u8 list"
  prepareCohort :: "u8 list option \<Rightarrow> u8 list option \<Rightarrow> unit result"

definition machine_chunks :: "mods \<Rightarrow> mapper \<Rightarrow> machine \<Rightarrow> SaveStateChunk list" where
  "machine_chunks mods c m =
     [makeChunk ''gg.machine'' (serializeMachineMeta (stepCounter m) (lastAudioFrameCounter m)
        (interruptRequested (devices m)) (lastDigitalInputMask m) (inputGeneration m)),
      makeChunk ''gg.cpu'' (z80_exportState (cpu m)),
      makeChunk ''gg.memory'' (mem_exportState (devices m)),
      makeChunk ''gg.vdp'' (vdp_exportState (the_vdp m)),
      makeChunk ''gg.psg'' (psg_exportState (the_psg m)),
      makeChunk ''gg.input'' (in_exportState (the (input_ptr (devices m)))),
      makeChunk ''gg.mapper'' (m_exportState c),
      makeChunk ''time.host-regions'' (regionState mods),
      makeChunk ''time.native-mods'' (cohortState mods)]"

definition machine_file :: "mods \<Rightarrow> mapper \<Rightarrow> machine \<Rightarrow> SaveStateFile" where
  "machine_file mods c m =
     \<lparr>header = \<lparr>magic = [], version = 0, core_id = kCoreId_GameGear, rom_hash = crc32 (m_romData c),
               checksum_mode = checksum_Crc32, chunk_count = 0\<rparr>,
      chunks = machine_chunks mods c m, file_checksum = 0\<rparr>"

definition save_state :: "io_faults \<Rightarrow> mods \<Rightarrow> machine \<Rightarrow> string \<Rightarrow> filesystem \<Rightarrow> unit result \<times> filesystem" where
  "save_state io mods m path fs =
     (case (romLoaded m, machine_cart m) of
        (True, Some c) \<Rightarrow> ss_write io (machine_file mods c m) path fs
      | _ \<Rightarrow> (Inl (Runtime_error ''Cannot save Game Gear state before ROM is loaded''), fs))"

text \<open>The chunks of the mod host, each of which may be absent but not repeated.\<close>

fun mod_chunks :: "SaveStateChunk list \<Rightarrow> u8 list option \<times> u8 list option \<Rightarrow> (u8 list option \<times> u8 list option) result" where
  "mod_chunks [] found = Inr found"
| "mod_chunks (c # cs) (hostState, nativeState) =
     (if chunk_name c = bytes_of ''time.host-regions'' \<and> hostState \<noteq> None
      then Inl (Invalid_argument ''duplicate host-region state'')
      else
        (let hostState = (if chunk_name c = bytes_of ''time.host-regions'' then Some (chunk_data c) else hostState) in
         if chunk_name c = bytes_of ''time.native-mods'' \<and> nativeState \<noteq> None
         then Inl (Invalid_argument ''duplicate native cohort state'')
         else mod_chunks cs (hostState,
                if chunk_name c = bytes_of ''time.native-mods'' then Some (chunk_data c) else nativeState)))"

definition meta_truncated :: exn where
  "meta_truncated = Invalid_argument ''Game Gear machine metadata truncated''"

definition meta_reader :: "(u64 \<times> u64 \<times> bool \<times> u32 option \<times> u64) reader" where
  "meta_reader =
     rd_bind (rd_u64 meta_truncated) (\<lambda>steps.
     rd_bind (rd_u64 meta_truncated) (\<lambda>frames.
     rd_bind (rd_u8 meta_truncated) (\<lambda>interrupt.
     rd_bind (rd_u8 meta_truncated) (\<lambda>hasInput.
     rd_bind (rd_guard (\<not> (interrupt > 1 \<or> hasInput > 1))
       (Invalid_argument ''Game Gear machine metadata boolean invalid'')) (\<lambda>_.
     rd_bind (if hasInput \<noteq> 0
              then rd_bind (rd_u32 (Invalid_argument ''Game Gear machine metadata input truncated'')) (\<lambda>v. rd_return (Some v))
              else rd_return None) (\<lambda>lastInput.
     rd_bind (rd_u64 meta_truncated) (\<lambda>generation.
     rd_bind rd_at_end (\<lambda>ended.
     rd_bind (rd_guard ended (Invalid_argument ''Game Gear machine metadata has trailing data'')) (\<lambda>_.
     rd_return (steps, frames, interrupt \<noteq> 0, lastInput, generation))))))))))"

definition res_bind :: "'a result \<Rightarrow> ('a \<Rightarrow> 'b result) \<Rightarrow> 'b result" where
  "res_bind r f = (case r of Inl e \<Rightarrow> Inl e | Inr a \<Rightarrow> f a)"

lemma res_bind_simps [simp]: "res_bind (Inl e) f = Inl e" "res_bind (Inr a) f = f a"
  by (simp_all add: res_bind_def)

definition from_chunk :: "SaveStateFile \<Rightarrow> string \<Rightarrow> (u8 list \<Rightarrow> 'a result) \<Rightarrow> 'a result" where
  "from_chunk state name import_of = res_bind (requireChunk state name) (\<lambda>c. import_of (chunk_data c))"

text \<open>All parts are imported into copies before any of them is installed; a copy of the memory map or of
  the CPU keeps its wiring.\<close>

record parts =
  nextCart :: mapper
  nextMem :: gg_world
  nextVdp :: vdp
  nextPsg :: psg
  nextInput :: input
  nextCpu :: "gg_world z80"

definition load_parts :: "SaveStateFile \<Rightarrow> mapper \<Rightarrow> machine \<Rightarrow> parts result" where
  "load_parts state fresh m =
     res_bind (from_chunk state ''gg.mapper'' (m_importState fresh)) (\<lambda>c.
     res_bind (from_chunk state ''gg.memory'' (mem_importState (devices m))) (\<lambda>b.
     res_bind (from_chunk state ''gg.vdp'' (vdp_importState (the_vdp m))) (\<lambda>v.
     res_bind (from_chunk state ''gg.psg'' (psg_importState (the_psg m))) (\<lambda>p.
     res_bind (from_chunk state ''gg.input'' (in_importState (the (input_ptr (devices m))))) (\<lambda>i.
     res_bind (from_chunk state ''gg.cpu'' (z80_importState (cpu m))) (\<lambda>z.
     Inr \<lparr>nextCart = c, nextMem = b, nextVdp = v, nextPsg = p, nextInput = i, nextCpu = z\<rparr>))))))"

definition install :: "u64 \<times> u64 \<times> bool \<times> u32 option \<times> u64 \<Rightarrow> parts \<Rightarrow> machine \<Rightarrow> machine" where
  "install meta p m =
     (let (steps, frames, irq, lastInput, generation) = meta;
          w = setVdp (Some (nextVdp p)) (setPsg (Some (nextPsg p)) (setInput (Some (nextInput p))
                (setCartridge (Some (nextCart p)) ((nextMem p)\<lparr>interruptRequested := irq\<rparr>))))
      in m\<lparr>cpu := (nextCpu p)\<lparr>world := w\<rparr>, researchFaulted := False, stepCounter := steps,
           lastAudioFrameCounter := frames, lastDigitalInputMask := lastInput, inputGeneration := generation\<rparr>)"

definition load_state :: "string list option list \<Rightarrow> mods \<Rightarrow> string \<Rightarrow> filesystem \<Rightarrow> machine \<Rightarrow> machine result" where
  "load_state candidates mods path fs m =
     (case (romLoaded m, machine_cart m) of
        (True, Some c) \<Rightarrow>
          res_bind (ss_readForCore fs path kCoreId_GameGear (m_romData c)) (\<lambda>state.
          res_bind (mod_chunks (chunks state) (None, None)) (\<lambda>(hostState, nativeState).
          res_bind (prepareCohort mods nativeState hostState) (\<lambda>_.
          res_bind (from_chunk state ''gg.machine'' (rd_run meta_reader)) (\<lambda>meta.
          res_bind (load_parts state (createMapperFromRom candidates (Some (m_romData c)) (length (m_romData c)) None) m) (\<lambda>p.
          Inr (install meta p m))))))
      | _ \<Rightarrow> Inl (Runtime_error ''Load ROM before loading Game Gear save state''))"

section \<open>A new machine is consistent, and so is one that has loaded a ROM\<close>

lemma new_world_ok: "world_ok (new_world boot)"
proof -
  have "psg_inv new_psg" using psg_ok_new by (simp add: psg_inv_def) (simp add: new_psg_def)
  then show ?thesis
    using power_on_vdp_ok cart_ok_new
    by (simp add: world_ok_def board_ok_def new_world_def setVdp_def setPsg_def setInput_def mapBios_def Let_def
        board.defs gg_world.defs cart_ready_def cart_of_def new_board_def next_generation_def)
qed

lemma machine_ok_new: "machine_ok (new_machine boot fs)"
  using new_world_ok [of boot] by (simp add: machine_ok_def gg_cpu_ok_def new_machine_def power_on_def z80_ok_reset)
    (simp add: z80_reset_def)

section \<open>Loading a ROM\<close>

lemma world_ok_on_psg: "world_ok w \<Longrightarrow> (\<And>p. psg_inv p \<Longrightarrow> psg_inv (f p)) \<Longrightarrow> world_ok (on_psg f w)"
  by (simp add: world_ok_def board_ok_on_psg) (simp add: on_psg_def)

lemma world_ok_on_input: "world_ok w \<Longrightarrow> world_ok (on_input f w)"
  by (simp add: world_ok_def board_ok_on_input) (simp add: on_input_def)

lemma world_ok_mem_reset: "world_ok w \<Longrightarrow> world_ok (mem_reset w)"
proof -
  assume w: "world_ok w"
  define b where "b = w\<lparr>ram := replicate (length (ram w)) 0,
     memoryControl := (if bios w = [] then 0xFF else 0xFF AND NOT kMemoryControlBiosDisabled), ioControl := 0xFF\<rparr>"
  have "board_ok b" "vdp_ptr b = vdp_ptr w" "psg_ptr b = psg_ptr w"
    using w by (simp_all add: b_def world_ok_def board_ok_def cart_ready_def cart_of_def split: cart_ptr.splits)
  moreover have "mem_reset w = next_generation (on_cart m_reset b)"
    by (simp add: mem_reset_def b_def)
  ultimately show ?thesis
    using w by (simp add: world_ok_def board_ok_generation board_ok_reset_cart) (simp add: next_generation_def)
qed

lemma world_ok_setCartridge: "world_ok w \<Longrightarrow> m_ok c \<Longrightarrow> world_ok (setCartridge (Some c) w)"
  by (simp add: world_ok_def board_ok_def cart_ready_def cart_of_def setCartridge_def next_generation_def)

lemma vdp_ok_resets: "vdp_ok v \<Longrightarrow> vdp_ok (vdp_reset v)"
  by (simp add: vdp_ok_reset vdp_ok_sizes)

lemma machine_ok_reset_cpu: "machine_ok m \<Longrightarrow> gg_cpu_ok (z80_reset (cpu m))"
  by (simp add: machine_ok_def gg_cpu_ok_def z80_ok_reset) (simp add: z80_reset_def)

lemma machine_ok_restart: "machine_ok m \<Longrightarrow> machine_ok (restart m)"
proof -
  assume m: "machine_ok m"
  define n where "n = on_devices (on_input in_reset \<circ> on_psg psg_reset \<circ> interruptRequested_update (\<lambda>_. False) \<circ>
                          on_vdp vdp_reset \<circ> mem_reset) (m\<lparr>pendingRomSourcePath := None, researchFaulted := False\<rparr>)"
  have k: "machine_ok (m\<lparr>pendingRomSourcePath := None, researchFaulted := False\<rparr>)"
    using m by (simp add: machine_ok_def)
  have "machine_ok n" unfolding n_def using k machine_ok_devices [OF k]
    by (intro machine_ok_on_devices) (simp_all add: world_ok_on_input world_ok_on_psg psg_inv_reset world_ok_request
        world_ok_on_vdp vdp_ok_resets world_ok_mem_reset machine_ok_devices)
  then show ?thesis
    using machine_ok_reset_cpu [of n] by (simp add: restart_def Let_def n_def [symmetric] machine_ok_def)
qed

lemma machine_ok_flush: "machine_ok m \<Longrightarrow> machine_ok (snd (impl_flushCartridgeSave io m))"
proof (cases "machine_cart m")
  case None
  then show "machine_ok m \<Longrightarrow> ?thesis" by (simp add: impl_flushCartridgeSave_def)
next
  case (Some c)
  let ?s = "snd (flushCartridgeSave io ((savesOf m)\<lparr>cart := c\<rparr>))"
  assume m: "machine_ok m"
  have "m_ok (cart ?s)" using machine_cart_ok [OF m Some] by (simp add: flush_cart_ok)
  then have "machine_ok (on_devices (replace_cart (cart ?s)) (m\<lparr>savesOf := ?s\<rparr>))"
    using machine_ok_devices [OF m] by (intro machine_ok_on_devices) (simp_all add: m world_ok_cart devices_def)
  then show ?thesis by (simp add: impl_flushCartridgeSave_def Some case_prod_unfold Let_def)
qed

lemma sm_load_ok: "sm_load io fs bound c = Inr d \<Longrightarrow> m_ok c \<Longrightarrow> m_ok d \<and> m_romData d = m_romData c"
  by (auto simp: sm_load_def m_ok_markSaveClean m_ok_importSaveData split: option.splits if_splits)
    ((cases c; simp add: m_romData_def cm_markSaveClean_def cart_markSaveClean_def cm_importSaveData_def
        cart_importSaveData_def Let_def cartridge.truncate_def)+)

lemma restart_fields:
  "romLoaded (restart m)" "PC (cpu (restart m)) = 0" "\<not> halted (cpu (restart m))" "\<not> IME (cpu (restart m))"
  "stepCounter (restart m) = 0" "inputGeneration (restart m) = inputGeneration m + 1"
  "pendingRomSourcePath (restart m) = None"
  by (simp_all add: restart_def Let_def z80_reset_def on_devices_def)

lemma m_reset_rom [simp]: "m_romData (m_reset c) = m_romData c"
  by (cases c) (simp_all add: m_romData_def cart_reset_def cm_reset_def sega5235_reset_def sega5208_reset_def
      sega5365_reset_def cart_write_def Let_def cartridge.truncate_def)

lemma restart_cart: "machine_cart m = Some c \<Longrightarrow> machine_cart (restart m) = Some (m_reset c)"
  by (auto simp: machine_cart_def restart_def Let_def devices_def on_devices_def on_input_def on_psg_def on_vdp_def
      mem_reset_def next_generation_def on_cart_def z80_reset_def split: cart_ptr.splits)

lemma restart_ram: "ram (devices (restart m)) = replicate (length (ram (devices m))) 0"
  "\<not> interruptRequested (devices (restart m))"
  by (simp_all add: restart_def Let_def devices_def on_devices_def on_input_def on_psg_def on_vdp_def
      mem_reset_def next_generation_def on_cart_def z80_reset_def split: cart_ptr.split)

lemma on_devices_path [simp]: "pendingRomSourcePath (on_devices f m) = pendingRomSourcePath m"
  "inputGeneration (on_devices f m) = inputGeneration m"
  by (simp_all add: on_devices_def)

lemma bind_save_simps [simp]:
  "machine_ok (bind_save m) = machine_ok m" "cpu (bind_save m) = cpu m" "devices (bind_save m) = devices m"
  "machine_cart (bind_save m) = machine_cart m" "pendingRomSourcePath (bind_save m) = pendingRomSourcePath m"
  "inputGeneration (bind_save m) = inputGeneration m"
  by (simp_all add: bind_save_def devices_def machine_cart_def)

lemma flush_keeps:
  "ram (devices (snd (impl_flushCartridgeSave io m))) = ram (devices m)"
  "inputGeneration (snd (impl_flushCartridgeSave io m)) = inputGeneration m"
  by (simp_all add: impl_flushCartridgeSave_def case_prod_unfold Let_def on_devices_def devices_def replace_cart_def
      split: option.split)

lemma loadRom_steps:
  assumes "machine_ok m" and "loadRom candidates io io' bytes m = (Inr (), m')"
  obtains n c where "machine_ok n" and "machine_cart n = Some c" and "m_romData c = bytes" and "m' = restart n"
    and "inputGeneration n = inputGeneration m" and "length (ram (devices n)) = 0x2000" and "bytes \<noteq> []"
proof -
  have b: "bytes \<noteq> []" "length bytes \<le> kMaxRomSize" using assms(2) by (auto simp: loadRom_def split: if_splits)
  obtain r k where k: "impl_flushCartridgeSave io m = (r, k)" by (cases "impl_flushCartridgeSave io m")
  have kok: "machine_ok k" "inputGeneration k = inputGeneration m"
    using machine_ok_flush [OF assms(1), of io] flush_keeps(2) [of io m] by (simp_all add: k)
  define c where "c = createMapperFromRom candidates (Some bytes) (length bytes) (map_option path_filename (pendingRomSourcePath k))"
  have c: "m_ok c" "m_romData c = bytes"
    using factory_loads [of bytes "length bytes"] b by (simp_all add: c_def kMaxRomSize_def)
  define n where "n = bind_save (on_devices (setCartridge (Some c)) k)"
  have n: "machine_ok n" "inputGeneration n = inputGeneration m"
    using machine_ok_devices [OF kok(1)] kok
    by (simp_all add: n_def machine_ok_on_devices world_ok_setCartridge c)
  have cart: "machine_cart n = Some c"
    by (simp add: n_def machine_cart_def setCartridge_def next_generation_def)
  have ram: "length (ram (devices x)) = 0x2000" if "machine_ok x" for x
    using machine_ok_devices [OF that] by (simp add: world_ok_def board_ok_def)
  obtain u where r: "r = Inr u"
    using assms(2) b by (cases r) (simp_all add: loadRom_def k)
  have eq: "(if romPathAllowsSaveBinding (pendingRomSourcePath k) then
                   (case sm_load io' (files (savesOf n)) (boundPath (savesOf n)) c of
                      Inl e \<Rightarrow> (Inl e, n)
                    | Inr c \<Rightarrow> (Inr (), restart (on_devices (replace_cart c) n)))
                 else (Inr (), restart n)) = (Inr (), m')"
    unfolding n_def c_def using assms(2) b
    by (simp add: loadRom_def k r Let_def split del: if_split)
  show ?thesis
  proof (cases "romPathAllowsSaveBinding (pendingRomSourcePath k)")
    case False
    then show ?thesis using that [OF n(1) cart c(2) _ n(2) ram [OF n(1)] b(1)] eq by simp
  next
    case True
    obtain d where d: "sm_load io' (files (savesOf n)) (boundPath (savesOf n)) c = Inr d"
      "m' = restart (on_devices (replace_cart d) n)"
      using eq True by (auto split: sum.splits)
    have dok: "m_ok d" "m_romData d = bytes" using sm_load_ok [OF d(1) c(1)] c(2) by simp_all
    have x: "machine_ok (on_devices (replace_cart d) n)"
      using n(1) machine_ok_devices [OF n(1)] dok(1) by (simp add: machine_ok_on_devices world_ok_cart)
    have y: "machine_cart (on_devices (replace_cart d) n) = Some d"
      by (simp add: machine_cart_def replace_cart_def)
    show ?thesis
      using that [OF x y dok(2) d(2) _ ram [OF x] b(1)] n(2) by (simp add: on_devices_def)
  qed
qed


lemma loadRom_fresh:
  assumes "bytes \<noteq> []" and "length bytes \<le> kMaxRomSize"
  shows "\<exists>m'. loadRom [] no_faults no_faults bytes (new_machine [] Map.empty) = (Inr (), m')"
  using assms by (simp add: loadRom_def impl_flushCartridgeSave_def machine_cart_def new_machine_def devices_def power_on_def
      z80_reset_def new_world_def board.defs new_board_def setVdp_def setPsg_def setInput_def Let_def
      romPathAllowsSaveBinding_def bind_save_def on_devices_def)

definition example_machine :: "u8 list \<Rightarrow> machine" where
  "example_machine bytes = snd (loadRom [] no_faults no_faults bytes (new_machine [] Map.empty))"

lemma example_loads:
  assumes "bytes \<noteq> []" and "length bytes \<le> kMaxRomSize"
  shows "loadRom [] no_faults no_faults bytes (new_machine [] Map.empty) = (Inr (), example_machine bytes)"
  using loadRom_fresh [OF assms] by (auto simp: example_machine_def)


text \<open>What a ROM load does to the save file it has just read: the on-cart RAM of a Codemasters cartridge
  is read from the file and then discarded by the reset, together with its dirty flag.\<close>

lemma codemasters_save_discarded:
  "length d = 0x2000 \<Longrightarrow> m_exportSaveData (m_importSaveData d (CodemastersMapper c)) = d"
  "length d = 0x2000 \<Longrightarrow>
     m_reset (m_importSaveData d (CodemastersMapper c)) = m_reset (CodemastersMapper (c\<lparr>extraRamDirty := False\<rparr>))"
  by (auto simp: cm_importSaveData_def cm_reset_def cart_reset_def cart_write_def Let_def cm_exportSaveData_def)

section \<open>Slices\<close>

lemma example_machine_ok:
  assumes "bytes \<noteq> []" and "length bytes \<le> kMaxRomSize"
  shows "machine_ok (example_machine bytes)"
  by (rule loadRom_steps [OF machine_ok_new example_loads [OF assms]]) (simp add: machine_ok_restart)

definition quiet_host :: host where
  "quiet_host = \<lparr>saveIo = (\<lambda>_. no_faults), service = (\<lambda>_. None)\<rparr>"

text \<open>C7: Running a slice of a well-formed machine always returns and leaves it well-formed, whatever the
  save files do; if it does not throw, its result tells why it stopped: all instructions of the
  budget were retired, or the cycle budget is used up, or an interrupt is waiting or no ROM is
  loaded.\<close>

theorem slice_returns:
  assumes "machine_ok m"
  shows "\<exists>x k. runSlice h b m = Some (x, k) \<and> machine_ok k \<and> (\<forall>r. x = Inr r \<longrightarrow> slice_result_ok b r k)"
proof -
  have stop: "\<exists>x k. Some (Inr r, m) = Some (x, k) \<and> machine_ok k \<and> (\<forall>r'. x = Inr r' \<longrightarrow> slice_result_ok b r' k)"
    if "slice_result_ok b r m" for r
    using that assms by simp
  consider "researchFaulted m \<or> \<not> romLoaded m \<or> maxInstructions b = 0 \<or> maxCycles b = 0"
    | "\<not> researchFaulted m" "romLoaded m" "maxInstructions b \<noteq> 0" "maxCycles b \<noteq> 0"
    by blast
  then show ?thesis
  proof cases
    case 1
    then show ?thesis
      using assms stop by (auto simp: runSlice_def context_runSlice_def slice_result_ok_def new_result_def)
  next
    case 2
    then show ?thesis
      using slice_loop_returns [OF assms 2(2), of new_result "unat (maxInstructions b)" b h]
      by (simp add: runSlice_def context_runSlice_def) (simp add: new_result_def word_gt_0)
  qed
qed

theorem slice_returns_witness:
  "\<exists>x k. runSlice quiet_host default_budget (example_machine [0x76]) = Some (x, k) \<and> machine_ok k"
  using slice_returns [OF example_machine_ok [of "[0x76]"], of quiet_host default_budget]
  by (auto simp: kMaxRomSize_def)

section \<open>Saving and loading the whole state\<close>

lemma meta_roundtrip: "rd_run meta_reader (serializeMachineMeta steps frames irq v generation) = Inr (steps, frames, irq, v, generation)"
  unfolding meta_reader_def serializeMachineMeta_def put_bool_def
  by (cases v) (simp_all add: reader_steps)

text \<open>The chunks fit the format.\<close>

lemma makeChunk_ok:
  "length d \<le> kMaxChunkSize \<Longrightarrow> length name \<le> 32 \<Longrightarrow> 0 \<notin> set (bytes_of name) \<Longrightarrow> chunk_ok (makeChunk name d)"
  by (simp add: chunk_ok_def makeChunk_def unat_of_nat_u32 kMaxChunkSize_def kChunkNameSize_def bytes_of_def)

lemma length_concat_same: "(\<And>x. x \<in> set xs \<Longrightarrow> length (f x) = n) \<Longrightarrow> length (concat (map f xs)) = n * length xs"
  by (induction xs) auto

lemma psg_export_size: "psg_ok s \<Longrightarrow> length (psg_exportState s) \<le> 0x10000"
  by (simp add: psg_ok_def psg_exportState_def put_samples_def put_tone_def length_concat_same [where n = 2]
      length_concat_same [where n = 13] kChunkSamples_def kFramesPerChunk_def kOutputChannelCount_def)

lemma vdp_export_size: "vdp_sizes v \<Longrightarrow> length (vdp_exportState v) \<le> 0x10000"
  by (simp add: vdp_sizes_def vdp_exportState_def put_bytes_def)

lemma mem_export_size: "mem_savable b \<Longrightarrow> length (mem_exportState b) \<le> 0x10000"
  by (simp add: mem_savable_def mem_exportState_def put_bytes_def)

lemma m_export_size: "m_ok c \<Longrightarrow> length (m_exportState c) \<le> 0x10000"
  by (cases c) (auto simp: cm_ok_def cart_ok_def cart_exportState_def cm_exportState_def cart_consts)

lemma meta_size: "length (serializeMachineMeta a b i v g) \<le> 0x10000"
  by (simp add: serializeMachineMeta_def split: option.split)

text \<open>A machine with the cartridge \<open>c\<close> whose state can be saved, and one into which it can be loaded.\<close>

definition machine_savable :: "mods \<Rightarrow> mapper \<Rightarrow> machine \<Rightarrow> bool" where
  "machine_savable mods c m \<longleftrightarrow> machine_ok m \<and> romLoaded m \<and> machine_cart m = Some c \<and> m_romData c \<noteq> [] \<and>
     psg_exportable (the_psg m) \<and> length (bios (devices m)) \<le> 0x4000 \<and> input_ptr (devices m) \<noteq> None \<and>
     length (regionState mods) \<le> kMaxChunkSize \<and> length (cohortState mods) \<le> kMaxChunkSize"

definition machine_target :: "string list option list \<Rightarrow> mapper \<Rightarrow> machine \<Rightarrow> bool" where
  "machine_target candidates c t \<longleftrightarrow> machine_ok t \<and> romLoaded t \<and>
     (\<exists>d. machine_cart t = Some d \<and> m_romData d = m_romData c) \<and>
     m_sameClass (createMapperFromRom candidates (Some (m_romData c)) (length (m_romData c)) None) c"

definition restored_machine :: "mapper \<Rightarrow> machine \<Rightarrow> machine \<Rightarrow> machine" where
  "restored_machine c m t =
     install (stepCounter m, lastAudioFrameCounter m, interruptRequested (devices m), lastDigitalInputMask m, inputGeneration m)
       \<lparr>nextCart = c, nextMem = mem_restored (devices t) (devices m), nextVdp = the_vdp m,
        nextPsg = psg_restored (the_psg t) (the_psg m), nextInput = the (input_ptr (devices m)),
        nextCpu = z80_restored (cpu t) (cpu m)\<rparr> t"

lemma machine_devices:
  assumes "machine_ok m"
  shows "vdp_ptr (devices m) = Some (the_vdp m)" "psg_ptr (devices m) = Some (the_psg m)"
    and "vdp_ok (the_vdp m)" "psg_inv (the_psg m)" "length (ram (devices m)) = 0x2000" "z80_ok (cpu m)"
proof -
  obtain v p where "vdp_ptr (devices m) = Some v" "vdp_ok v" "psg_ptr (devices m) = Some p" "psg_inv p"
    by (rule world_devices [OF machine_ok_devices [OF assms]])
  then show "vdp_ptr (devices m) = Some (the_vdp m)" "psg_ptr (devices m) = Some (the_psg m)"
    and "vdp_ok (the_vdp m)" "psg_inv (the_psg m)" by (simp_all add: the_vdp_def the_psg_def)
  show "length (ram (devices m)) = 0x2000"
    using machine_ok_devices [OF assms] by (simp add: world_ok_def board_ok_def)
  show "z80_ok (cpu m)" using assms by (simp add: machine_ok_def gg_cpu_ok_def)
qed

lemma machine_file_ok:
  assumes "machine_savable mods c m"
  shows "ss_ok (machine_file mods c m)"
proof -
  have m: "machine_ok m" "machine_cart m = Some c" using assms by (simp_all add: machine_savable_def)
  have b: "length (vdp_exportState (the_vdp m)) \<le> 0x10000" "length (psg_exportState (the_psg m)) \<le> 0x10000"
    "length (mem_exportState (devices m)) \<le> 0x10000" "length (m_exportState c) \<le> 0x10000"
    using machine_devices [OF m(1)] assms machine_cart_ok [OF m]
    by (simp_all add: vdp_export_size vdp_ok_sizes psg_export_size psg_inv_def mem_export_size mem_savable_def
        machine_savable_def m_export_size)
  have s: "n \<le> 0x10000 \<Longrightarrow> n \<le> kMaxChunkSize" for n by (simp add: kMaxChunkSize_def)
  have "\<forall>c \<in> set (machine_chunks mods c m). chunk_ok c"
    unfolding machine_chunks_def
    using assms by (simp add: machine_savable_def makeChunk_ok s b meta_size length_z80_exportState in_exportState_def bytes_of_def)
  then show ?thesis
    by (simp add: ss_ok_def machine_file_def) (simp add: machine_chunks_def kMaxChunkCount_def)
qed

lemma find_chunks:
  assumes "chunks st = machine_chunks mods c m"
  shows "requireChunk st ''gg.machine'' = Inr (makeChunk ''gg.machine'' (serializeMachineMeta (stepCounter m)
      (lastAudioFrameCounter m) (interruptRequested (devices m)) (lastDigitalInputMask m) (inputGeneration m)))"
    and "requireChunk st ''gg.cpu'' = Inr (makeChunk ''gg.cpu'' (z80_exportState (cpu m)))"
    and "requireChunk st ''gg.memory'' = Inr (makeChunk ''gg.memory'' (mem_exportState (devices m)))"
    and "requireChunk st ''gg.vdp'' = Inr (makeChunk ''gg.vdp'' (vdp_exportState (the_vdp m)))"
    and "requireChunk st ''gg.psg'' = Inr (makeChunk ''gg.psg'' (psg_exportState (the_psg m)))"
    and "requireChunk st ''gg.input'' = Inr (makeChunk ''gg.input'' (in_exportState (the (input_ptr (devices m)))))"
    and "requireChunk st ''gg.mapper'' = Inr (makeChunk ''gg.mapper'' (m_exportState c))"
    and "mod_chunks (chunks st) (None, None) = Inr (Some (regionState mods), Some (cohortState mods))"
  using assms by (simp_all add: requireChunk_def machine_chunks_def makeChunk_def bytes_of_def Let_def)

lemma load_after_save:
  assumes m: "machine_savable mods c m" and t: "machine_target candidates c t"
    and "prepareCohort mods (Some (cohortState mods)) (Some (regionState mods)) = Inr ()"
    and "save_state io mods m path fs = (Inr (), fs')"
  shows "load_state candidates mods path fs' t = Inr (restored_machine c m t)"
proof -
  let ?f = "ss_written (machine_file mods c m)"
  have mk: "machine_ok m" "romLoaded m" "machine_cart m = Some c" "m_romData c \<noteq> []" using m by (simp_all add: machine_savable_def)
  obtain d where tk: "machine_ok t" "romLoaded t" "machine_cart t = Some d" "m_romData d = m_romData c"
    using t by (auto simp: machine_target_def)
  have "ss_write io (machine_file mods c m) path fs = (Inr (), fs')"
    using assms(4) mk by (simp add: save_state_def)
  then have "ss_read fs' path = Inr ?f"
    using ss_encode_ok [OF machine_file_ok [OF m]] ss_decode_encode [OF machine_file_ok [OF m]]
    by (auto simp: ss_write_def ss_read_def Let_def split: if_splits)
  then have read: "ss_readForCore fs' path kCoreId_GameGear (m_romData d) = Inr ?f"
    by (simp add: ss_readForCore_def tk(4) kCoreId_GameGear_def)
      (simp add: ss_written_def machine_file_def Let_def kCoreId_GameGear_def)
  have f: "chunks ?f = machine_chunks mods c m" by (simp add: machine_file_def)
  note found = find_chunks [OF f]
  define fresh where "fresh = createMapperFromRom candidates (Some (m_romData c)) (length (m_romData c)) None"
  have len: "length (m_romData c) < 2 ^ 32"
    using machine_cart_ok [OF mk(1,3)] by (cases c) (simp_all add: m_romData_def cm_ok_def cart_ok_def cartridge.truncate_def)
  have fits: "m_fits fresh c"
    using t factory_loads [OF mk(4) len, of "length (m_romData c)"] mk(4)
    by (simp add: m_fits_def machine_target_def fresh_def)
  have parts: "m_importState fresh (m_exportState c) = Inr c"
    "mem_importState (devices t) (mem_exportState (devices m)) = Inr (mem_restored (devices t) (devices m))"
    "vdp_importState (the_vdp t) (vdp_exportState (the_vdp m)) = Inr (the_vdp m)"
    "psg_importState (the_psg t) (psg_exportState (the_psg m)) = Inr (psg_restored (the_psg t) (the_psg m))"
    "in_importState i (in_exportState j) = Inr j"
    "z80_importState (cpu t) (z80_exportState (cpu m)) = Inr (z80_restored (cpu t) (cpu m))" for i j
    using m fits machine_devices [OF mk(1)] machine_devices [OF tk(1)] machine_cart_ok [OF mk(1,3)]
    by (simp_all add: m_state.import_export mem_state.import_export vdp_state.import_export vdp_ok_sizes
        psg_state.import_export in_state.import_export z80_state.import_export ok_savable machine_savable_def mem_savable_def)
  show ?thesis
    by (simp add: load_state_def tk read [unfolded tk(4)] found found(8) [unfolded chunks_written] assms(3) from_chunk_def makeChunk_def meta_roundtrip load_parts_def
        parts fresh_def [symmetric] restored_machine_def)
qed

lemma psg_restored_inv: "psg_exportable s \<Longrightarrow> psg_inv s \<Longrightarrow> psg_inv (psg_restored t s)"
  using psg_import_ok [OF psg_import_export [of s t]]
  by (simp add: psg_inv_def) (simp add: psg_restored_def psg_snapshots_def)

lemma restored_devices:
  assumes "machine_savable mods c m"
  shows "devices (restored_machine c m t) =
    (devices t)\<lparr>memoryControl := memoryControl (devices m), ioControl := ioControl (devices m), ram := ram (devices m),
       bios := bios (devices m), codeMappingGeneration := codeMappingGeneration (devices t) + 2,
       cartridge_ptr := Inserted c, input_ptr := input_ptr (devices m), vdp_ptr := vdp_ptr (devices m),
       psg_ptr := Some (psg_restored (the_psg t) (the_psg m)), interruptRequested := interruptRequested (devices m)\<rparr>"
  using assms machine_devices(1) [of m]
  by (simp add: restored_machine_def install_def Let_def devices_def mem_restored_def setVdp_def setPsg_def setInput_def
      setCartridge_def next_generation_def machine_savable_def)

lemma restored_ok:
  assumes m: "machine_savable mods c m" and "machine_ok t"
  shows "machine_ok (restored_machine c m t)"
proof -
  have mk: "machine_ok m" "machine_cart m = Some c" "psg_exportable (the_psg m)" using m by (simp_all add: machine_savable_def)
  note d = machine_devices [OF mk(1)]
  have "world_ok (devices (restored_machine c m t))"
    unfolding restored_devices [OF m]
    using d psg_restored_inv [OF mk(3) d(4)] machine_cart_ok [OF mk(1,2)]
    by (simp add: world_ok_def board_ok_def cart_ready_def cart_of_def)
  moreover have "z80_ok (cpu (restored_machine c m t))"
    using d(6) by (auto simp: restored_machine_def install_def Let_def z80_restored_def z80_ok_def)
  ultimately show ?thesis by (simp add: machine_ok_def gg_cpu_ok_def devices_def)
qed


definition no_mods :: mods where
  "no_mods = \<lparr>regionState = [], cohortState = [], prepareCohort = (\<lambda>_ _. Inr ())\<rparr>"

lemma snapshots_generators: "tones (psg_snapshots s) = tones s" "noiseCounter (psg_snapshots s) = noiseCounter s"
proof -
  have "tones (psg_recordWrite a v c k r s) = tones s" "noiseCounter (psg_recordWrite a v c k r s) = noiseCounter s" for a v c k r s
    by (simp_all add: psg_recordWrite_def Let_def)
  then show "tones (psg_snapshots s) = tones s" "noiseCounter (psg_snapshots s) = noiseCounter s"
    by (simp_all add: psg_snapshots_def)
qed

lemma psg_exportable_reset: "psg_exportable (psg_reset p)"
proof -
  have "tones (psg_reset p) = tones new_psg" "noiseCounter (psg_reset p) = noiseCounter new_psg"
    by (simp_all add: psg_reset_def snapshots_generators)
  then show ?thesis
    using psg_exportable_new psg_inv_reset [of p] by (simp add: psg_exportable_def psg_inv_def)
qed

lemma m_reset_class: "m_sameClass c (m_reset c)"
  by (cases c) simp_all

lemma example_cart:
  assumes "bytes \<noteq> []" and "length bytes \<le> kMaxRomSize"
  shows "machine_cart (example_machine bytes) = Some (m_reset (createMapperFromRom [] (Some bytes) (length bytes) None))"
    and "psg_exportable (the_psg (example_machine bytes))" and "bios (devices (example_machine bytes)) = []"
    and "input_ptr (devices (example_machine bytes)) \<noteq> None"
    and "romLoaded (example_machine bytes)"
proof -
  let ?c = "createMapperFromRom [] (Some bytes) (length bytes) None"
  let ?n = "bind_save (on_devices (setCartridge (Some ?c)) (new_machine [] Map.empty))"
  have e: "example_machine bytes = restart ?n"
    using assms by (simp add: example_machine_def loadRom_def impl_flushCartridgeSave_def machine_cart_def new_machine_def
        devices_def power_on_def z80_reset_def new_world_def board.defs new_board_def setVdp_def setPsg_def setInput_def
        Let_def romPathAllowsSaveBinding_def bind_save_def on_devices_def)
  have n: "machine_cart ?n = Some ?c" by (simp add: machine_cart_def setCartridge_def next_generation_def)
  show "machine_cart (example_machine bytes) = Some (m_reset ?c)" unfolding e by (rule restart_cart [OF n])
  have w: "devices ?n = setCartridge (Some ?c) (devices (new_machine [] Map.empty))" by simp
  have v: "devices (new_machine [] Map.empty) = new_world []" by (simp add: devices_def new_machine_def)
  have r: "devices (restart x) = (on_input in_reset \<circ> on_psg psg_reset \<circ> interruptRequested_update (\<lambda>_. False) \<circ>
                          on_vdp vdp_reset \<circ> mem_reset) (devices x)" for x
    by (simp add: restart_def Let_def devices_def z80_reset_def on_devices_def)
  show "psg_exportable (the_psg (example_machine bytes))" "bios (devices (example_machine bytes)) = []"
    "input_ptr (devices (example_machine bytes)) \<noteq> None"
    by (simp_all add: e r w v the_psg_def on_input_def on_psg_def on_vdp_def mem_reset_def next_generation_def on_cart_def
        setCartridge_def new_world_def board.defs gg_world.defs new_board_def setVdp_def setPsg_def setInput_def Let_def
        psg_exportable_reset)
  show "romLoaded (example_machine bytes)" by (simp add: e restart_fields)
qed


end
