(* ===== verification/GG_Idle.thy ===== *)
theory GG_Idle
  imports GG_MachineState
begin

text \<open>
  The bulk advance of a halted CPU (\<open>GameGearMachine::runSlice\<close> with \<open>TIME_RESEARCH_HALTED_ADVANCE\<close>)
  against the plain slice loop: what \<open>k\<close> polls do to a machine in which no device event falls due,
  why the polls credited at once are never too many, and the equality of the two loops.
\<close>

section \<open>Time in which nothing happens\<close>

definition quiet_vdp :: "nat \<Rightarrow> vdp \<Rightarrow> vdp" where
  "quiet_vdp n v = v\<lparr>pendingCycles := of_nat (unat (pendingCycles v) + n), hCounter := line_position (unat (pendingCycles v) + n)\<rparr>"

definition quiet_psg :: "nat \<Rightarrow> psg \<Rightarrow> psg" where
  "quiet_psg n p = p\<lparr>samplePhase := of_nat (unat (samplePhase p) + n * kSampleRate)\<rparr>"

lemma vdp_step_quiet:
  assumes "unat (pendingCycles v) + n < 228" shows "vdp_step (of_nat n) v = quiet_vdp n v"
proof -
  have "unat (of_nat n :: u32) = n" using assms by (intro unat_of_nat_u32) simp
  then show ?thesis using assms by (simp add: vdp_step_eq quiet_vdp_def)
qed

lemma psg_step_quiet:
  assumes "unat (samplePhase p) + n * kSampleRate < kClockHz" shows "psg_step (of_nat n) p = Some (quiet_psg n p)"
proof -
  have n: "n * kSampleRate < kClockHz" using assms by simp
  then have "unat (of_nat n :: u32) = n" by (intro unat_of_nat_u32) (simp add: kClockHz_def kSampleRate_def)
  then have u: "(ucast (of_nat n :: u32) :: u64) = of_nat n" by (metis of_nat_unat)
  have s: "samplePhase p + of_nat n * of_nat kSampleRate = of_nat (unat (samplePhase p) + n * kSampleRate)"
    by simp
  have "unat (of_nat (unat (samplePhase p) + n * kSampleRate) :: u64) = unat (samplePhase p) + n * kSampleRate"
    using assms by (intro unat_of_nat_u64) (simp add: kClockHz_def)
  moreover have "unat (of_nat kClockHz :: u64) = kClockHz" by (simp add: kClockHz_def)
  ultimately have "\<not> (of_nat kClockHz :: u64) \<le> of_nat (unat (samplePhase p) + n * kSampleRate)"
    using assms by (simp only: word_le_nat_alt not_le)
  then show ?thesis
    unfolding psg_step_def u s psg_run.simps [of "p\<lparr>samplePhase := of_nat (unat (samplePhase p) + n * kSampleRate)\<rparr>"]
    by (simp add: quiet_psg_def)
qed

lemma quiet_again:
  "unat (pendingCycles v) + a < 228 \<Longrightarrow> quiet_vdp b (quiet_vdp a v) = quiet_vdp (a + b) v"
  "unat (samplePhase p) + a * kSampleRate < kClockHz \<Longrightarrow> quiet_psg b (quiet_psg a p) = quiet_psg (a + b) p"
proof -
  assume "unat (pendingCycles v) + a < 228"
  then have "unat (of_nat (unat (pendingCycles v) + a) :: u32) = unat (pendingCycles v) + a"
    by (intro unat_of_nat_u32) simp
  then show "quiet_vdp b (quiet_vdp a v) = quiet_vdp (a + b) v"
    unfolding quiet_vdp_def by (simp add: add.assoc del: of_nat_add)
next
  assume "unat (samplePhase p) + a * kSampleRate < kClockHz"
  then have "unat (of_nat (unat (samplePhase p) + a * kSampleRate) :: u64) = unat (samplePhase p) + a * kSampleRate"
    by (intro unat_of_nat_u64) (simp add: kClockHz_def)
  then show "quiet_psg b (quiet_psg a p) = quiet_psg (a + b) p"
    unfolding quiet_psg_def by (simp add: add.assoc distrib_right del: of_nat_add)
qed

text \<open>A halted machine of which \<open>k\<close> polls go by without any device event.\<close>

definition idle_for :: "nat \<Rightarrow> machine \<Rightarrow> bool" where
  "idle_for k m \<longleftrightarrow> romLoaded m \<and> halted (cpu m) \<and> \<not> interruptRequested (devices m) \<and>
     vdp_ptr (devices m) = Some (the_vdp m) \<and> psg_ptr (devices m) = Some (the_psg m) \<and>
     \<not> hasPendingRetirementEvent (the_vdp m) \<and> frameCounter (the_psg m) = lastAudioFrameCounter m \<and>
     unat (pendingCycles (the_vdp m)) + 4 * k < 228 \<and>
     unat (samplePhase (the_psg m)) + 4 * k * kSampleRate < kClockHz"

definition idle_at :: "nat \<Rightarrow> machine \<Rightarrow> machine" where
  "idle_at k m = on_devices (\<lambda>w. w\<lparr>vdp_ptr := Some (quiet_vdp (4 * k) (the_vdp m)), psg_ptr := Some (quiet_psg (4 * k) (the_psg m))\<rparr>)
     (m\<lparr>lastFeedback := idle_feedback m, stepCounter := stepCounter m + of_nat k\<rparr>)"

lemma step_devices_quiet:
  assumes "vdp_ptr (devices m) = Some v" and "psg_ptr (devices m) = Some p"
    and "unat (pendingCycles v) + n < 228" and "unat (samplePhase p) + n * kSampleRate < kClockHz"
  shows "step_devices (of_nat n) m =
    Some (on_devices (\<lambda>w. w\<lparr>vdp_ptr := Some (quiet_vdp n v), psg_ptr := Some (quiet_psg n p)\<rparr>) m)"
proof -
  have v: "on_vdp (vdp_step (of_nat n)) (devices m) = (devices m)\<lparr>vdp_ptr := Some (quiet_vdp n v)\<rparr>"
    using assms by (simp add: on_vdp_def vdp_step_quiet)
  show ?thesis
    using assms(2,4) v by (simp add: step_devices_def Let_def psg_step_quiet) (simp add: on_devices_def devices_def)
qed

lemma idle_context_step:
  assumes "idle_for k m"
  shows "context_step m = (Inr (idle_feedback m), m\<lparr>lastFeedback := idle_feedback m\<rparr>)"
proof -
  have irq: "requestProvider (world (cpu m)) = (None, world (cpu m))"
    using assms by (simp add: requestProvider_def idle_for_def vdp_irq_def devices_def hasPendingRetirementEvent_def)
  have "handleInterrupts gg_interface (bus_of gg_interface) (cpu m) = (0, cpu m)"
    by (simp add: handleInterrupts_def irq)
  then have "z80_step gg_interface (cpu m) = Inr (4, cpu m)"
    using assms by (simp add: z80_step_def idle_for_def)
  then show ?thesis
    using assms by (simp add: context_step_def idle_for_def idle_feedback_def Let_def)
qed

lemma on_devices_same: "f (devices m) = devices m \<Longrightarrow> on_devices f m = m"
  by (simp add: on_devices_def devices_def)

lemma quiet_flags:
  "scanlineReadyPending (quiet_vdp n v) = scanlineReadyPending v" "vblankPending (quiet_vdp n v) = vblankPending v"
  "irqAsserted (quiet_vdp n v) = irqAsserted v" "frameCounter (quiet_psg n p) = frameCounter p"
  by (simp_all add: quiet_vdp_def quiet_psg_def)

lemma vdp_flag_same: "\<not> scanlineReadyPending v \<Longrightarrow> v\<lparr>scanlineReadyPending := False\<rparr> = v"
  "\<not> vblankPending v \<Longrightarrow> v\<lparr>vblankPending := False\<rparr> = v"
  by simp_all

lemma world_vdp_same: "vdp_ptr w = Some v \<Longrightarrow> (w :: gg_world)\<lparr>vdp_ptr := Some v\<rparr> = w"
  by simp

lemma idle_retires:
  assumes "idle_for (Suc 0) m"
  shows "onInstructionRetired h (idle_feedback m) (m\<lparr>lastFeedback := idle_feedback m\<rparr>) = Some (Inr None, idle_at (Suc 0) m)"
proof -
  let ?n = "idle_at (Suc 0) m"
  have c: "retiredCycles (idle_feedback m) = of_nat 4" by (simp add: idle_feedback_def)
  have s: "step_devices (retiredCycles (idle_feedback m))
      ((m\<lparr>lastFeedback := idle_feedback m\<rparr>)\<lparr>stepCounter := stepCounter (m\<lparr>lastFeedback := idle_feedback m\<rparr>) + 1\<rparr>) = Some ?n"
    using assms unfolding c
    by (subst step_devices_quiet [where v = "the_vdp m" and p = "the_psg m"])
      (simp_all add: idle_for_def devices_def idle_at_def)
  have d: "vdp_ptr (devices ?n) = Some (quiet_vdp 4 (the_vdp m))" "psg_ptr (devices ?n) = Some (quiet_psg 4 (the_psg m))"
    "interruptRequested (devices ?n) = interruptRequested (devices m)" "lastAudioFrameCounter ?n = lastAudioFrameCounter m"
    by (simp_all add: idle_at_def) (simp add: devices_def)
  have f: "\<not> scanlineReadyPending (the_vdp m)" "\<not> vblankPending (the_vdp m)" "\<not> irqAsserted (the_vdp m)"
    "\<not> interruptRequested (devices m)" "frameCounter (the_psg m) = lastAudioFrameCounter m"
    using assms by (simp_all add: idle_for_def hasPendingRetirementEvent_def)
  have 1: "on_devices (on_vdp (snd \<circ> takeScanlineReady)) ?n = ?n"
    by (rule on_devices_same) (simp add: on_vdp_def d takeScanlineReady_def vdp_flag_same quiet_flags f world_vdp_same)
  have 2: "takeVBlank h ?n = (Inr (), ?n)"
    by (simp add: takeVBlank_def d takeVBlankEntered_def quiet_flags f vdp_flag_same on_devices_same world_vdp_same)
  have 3: "\<not> vdp_irq (devices ?n)" by (simp add: vdp_irq_def d quiet_flags f)
  have 4: "noteAudioFrame ?n = ?n" by (simp add: noteAudioFrame_def d quiet_flags f)
  show ?thesis
    unfolding onInstructionRetired_def s option.case Let_def 1 2 prod.case sum.case
    using 3 4 d(3) f(4) by simp
qed

section \<open>Many polls at once\<close>

lemma idle_at_fields:
  "romLoaded (idle_at k m) = romLoaded m" "halted (cpu (idle_at k m)) = halted (cpu m)" "PC (cpu (idle_at k m)) = PC (cpu m)"
  "interruptRequested (devices (idle_at k m)) = interruptRequested (devices m)"
  "the_vdp (idle_at k m) = quiet_vdp (4 * k) (the_vdp m)" "the_psg (idle_at k m) = quiet_psg (4 * k) (the_psg m)"
  "vdp_ptr (devices (idle_at k m)) = Some (quiet_vdp (4 * k) (the_vdp m))"
  "psg_ptr (devices (idle_at k m)) = Some (quiet_psg (4 * k) (the_psg m))"
  "lastAudioFrameCounter (idle_at k m) = lastAudioFrameCounter m"
  by (simp_all add: idle_at_def the_vdp_def the_psg_def) (simp_all add: on_devices_def devices_def)

lemma idle_feedback_at [simp]: "idle_feedback (idle_at k m) = idle_feedback m"
  unfolding idle_feedback_def idle_at_fields by (simp add: idle_at_def idle_feedback_def)

lemma idle_pending:
  assumes "idle_for k m" and "j \<le> k"
  shows "unat (pendingCycles (quiet_vdp (4 * j) (the_vdp m))) = unat (pendingCycles (the_vdp m)) + 4 * j"
    and "unat (samplePhase (quiet_psg (4 * j) (the_psg m))) = unat (samplePhase (the_psg m)) + 4 * j * kSampleRate"
proof -
  have "unat (pendingCycles (the_vdp m)) + 4 * j < 228" using assms by (simp add: idle_for_def)
  then show "unat (pendingCycles (quiet_vdp (4 * j) (the_vdp m))) = unat (pendingCycles (the_vdp m)) + 4 * j"
    unfolding quiet_vdp_def by (simp add: unat_of_nat_u32 del: of_nat_add)
  have "4 * j * kSampleRate \<le> 4 * k * kSampleRate" using assms(2) by simp
  then have "unat (samplePhase (the_psg m)) + 4 * j * kSampleRate < kClockHz"
    using assms(1) unfolding idle_for_def by linarith
  then have "unat (samplePhase (the_psg m)) + 4 * j * kSampleRate < 2 ^ 64" by (simp add: kClockHz_def)
  then show "unat (samplePhase (quiet_psg (4 * j) (the_psg m))) = unat (samplePhase (the_psg m)) + 4 * j * kSampleRate"
    unfolding quiet_psg_def by (simp add: unat_of_nat_u64 del: of_nat_add of_nat_mult)
qed

lemma idle_for_less: "idle_for k m \<Longrightarrow> j \<le> k \<Longrightarrow> idle_for j m"
proof -
  assume k: "idle_for k m" and j: "j \<le> k"
  have "4 * j * kSampleRate \<le> 4 * k * kSampleRate" using j by simp
  then have "unat (samplePhase (the_psg m)) + 4 * j * kSampleRate < kClockHz"
    using k unfolding idle_for_def by linarith
  then show "idle_for j m" using k j by (simp add: idle_for_def)
qed

lemma idle_for_rest:
  assumes "idle_for (j + k) m"
  shows "idle_for k (idle_at j m)"
  using assms idle_pending [OF assms, of j]
  by (simp add: idle_for_def idle_at_fields hasPendingRetirementEvent_def quiet_flags algebra_simps)

lemma idle_at_idle_at:
  assumes "idle_for j m"
  shows "idle_at k (idle_at j m) = idle_at (j + k) m"
proof -
  have "quiet_vdp (4 * k) (quiet_vdp (4 * j) (the_vdp m)) = quiet_vdp (4 * (j + k)) (the_vdp m)"
    "quiet_psg (4 * k) (quiet_psg (4 * j) (the_psg m)) = quiet_psg (4 * (j + k)) (the_psg m)"
    using assms by (simp_all add: quiet_again idle_for_def distrib_left)
  then show ?thesis
    by (simp add: idle_at_def [of k] idle_at_fields) (simp add: idle_at_def on_devices_def add.assoc)
qed

lemma unat_top_u64: "unat (- 1 :: u64) = 2 ^ 64 - 1"
  by (simp add: unsigned_minus_1_eq_mask mask_eq_exp_minus_1)

lemma unat_u64_less: "unat (w :: u64) < 2 ^ 64"
proof -
  have "unat w < 2 ^ LENGTH(64)" by (rule unsigned_less)
  then show ?thesis by simp
qed

lemma count_saturates: "unat (addCycles c s) = min (2 ^ 64 - 1) (unat c + unat s)"
proof -
  have b: "unat s < 2 ^ 64" "unat c < 2 ^ 64" by (rule unat_u64_less)+
  then have "unat (- 1 - s) = 2 ^ 64 - 1 - unat s"
    by (simp add: unat_sub_if' unat_top_u64)
  then show ?thesis
    using b by (auto simp: addCycles_def word_less_nat_alt unat_top_u64 unat_word_ariths)
qed

lemma addCycles_more:
  assumes "unat s + n < 2 ^ 64" and "n + 4 < 2 ^ 64"
  shows "addCycles 4 (addCycles (of_nat n) s) = addCycles (of_nat (n + 4)) s"
proof -
  have u: "unat (of_nat n :: u64) = n" "unat (of_nat (n + 4) :: u64) = n + 4"
    using assms by (simp_all only: unat_of_nat_u64)
  show ?thesis
    using assms by (simp add: word_unat_eq_iff count_saturates u del: of_nat_add)
qed

text \<open>\<open>k\<close> polls counted one by one.\<close>

definition counted :: "nat \<Rightarrow> CpuFeedback \<Rightarrow> ExecutionSliceResult \<Rightarrow> ExecutionSliceResult" where
  "counted k f r = count_retired (of_nat k) (of_nat (4 * k)) f r"

lemma counted_Suc:
  assumes "unat (totalCycles r) + 4 * k < 2 ^ 64" and "4 * Suc k < 2 ^ 64"
  shows "count_retired 1 4 f (counted k f r) = counted (Suc k) f r"
  using addCycles_more [of "totalCycles r" "4 * k"] assms
  by (simp add: counted_def count_retired_def ac_simps)

lemma idle_pass:
  assumes "idle_for (Suc 0) m"
  shows "slice_pass h b r m = Some (Inr (count_retired 1 4 (idle_feedback m) r,
     leave_reason b (count_retired 1 4 (idle_feedback m) r)), idle_at (Suc 0) m)"
proof -
  have c: "(ucast (retiredCycles (idle_feedback m)) :: u64) = 4" by (simp add: idle_feedback_def)
  show ?thesis
    unfolding slice_pass_def idle_context_step [OF assms] prod.case sum.case idle_retires [OF assms] option.case Let_def c
    by simp
qed

lemma counted_facts:
  "segmentBoundaryHint (sliceFeedback (counted k (idle_feedback m) r)) = False"
  "exitReason (counted k f r) = exitReason r"
  "retiredInstructions (counted k f r) = retiredInstructions r + of_nat k"
  by (simp_all add: counted_def count_retired_def idle_feedback_def)

lemma counted_total:
  assumes "unat (totalCycles r) + 4 * k < 2 ^ 64"
  shows "unat (totalCycles (counted k f r)) = unat (totalCycles r) + 4 * k"
proof -
  have "unat (of_nat (4 * k) :: u64) = 4 * k" using assms by (intro unat_of_nat_u64) simp
  then show ?thesis using assms by (simp add: counted_def count_retired_def count_saturates del: of_nat_mult)
qed

lemma leave_counted:
  assumes "unat (totalCycles r) + 4 * k < unat (maxCycles b)"
  shows "leave_reason b (counted k (idle_feedback m) r) = None" "totalCycles (counted k (idle_feedback m) r) < maxCycles b"
proof -
  have "unat (totalCycles r) + 4 * k < 2 ^ 64" using assms unat_u64_less [of "maxCycles b"] by simp
  then show "totalCycles (counted k (idle_feedback m) r) < maxCycles b"
    using assms by (simp add: word_less_nat_alt counted_total)
  then show "leave_reason b (counted k (idle_feedback m) r) = None"
    by (simp add: leave_reason_def counted_facts not_le)
qed

lemma slice_loop_idle:
  assumes "idle_for (Suc 0) m" and "totalCycles r < maxCycles b"
  shows "slice_loop h b (Suc n) r m =
    (let r = count_retired 1 4 (idle_feedback m) r in
     case leave_reason b r of
       Some reason \<Rightarrow> Some (Inr (r\<lparr>exitReason := reason\<rparr>), idle_at (Suc 0) m)
     | None \<Rightarrow> slice_loop h b n r (idle_at (Suc 0) m))"
  using assms(2) by (simp add: idle_pass [OF assms(1)] not_le [symmetric] Let_def split: option.split)

lemma idle_run:
  assumes "idle_for k m" and "0 < k" and "k \<le> n" and "totalCycles r < maxCycles b"
    and "unat (totalCycles r) + 4 * (k - 1) < unat (maxCycles b)"
  shows "slice_loop h b n r m =
    (case leave_reason b (counted k (idle_feedback m) r) of
       Some reason \<Rightarrow> Some (Inr ((counted k (idle_feedback m) r)\<lparr>exitReason := reason\<rparr>), idle_at k m)
     | None \<Rightarrow> slice_loop h b (n - k) (counted k (idle_feedback m) r) (idle_at k m))"
  using assms
proof (induction k)
  case (Suc k)
  show ?case
  proof (cases "k = 0")
    case True
    obtain n' where n: "n = Suc n'" using Suc.prems(3) by (cases n) auto
    have "counted (Suc 0) f r = count_retired 1 4 f r" for f by (simp add: counted_def)
    then show ?thesis
      using slice_loop_idle [of m r b h n'] Suc.prems by (simp add: True n Let_def del: slice_loop.simps cong: option.case_cong)
  next
    case False
    let ?r = "counted k (idle_feedback m) r" and ?m = "idle_at k m"
    have k: "idle_for k m" "unat (totalCycles r) + 4 * k < unat (maxCycles b)" "4 * Suc k < 2 ^ 64"
      using Suc.prems(1,5) idle_for_less [OF Suc.prems(1), of k] by (simp_all add: idle_for_def)
    obtain n' where n: "n - k = Suc n'" "n - Suc k = n'" using Suc.prems(3) by (cases "n - k") auto
    have one: "idle_for (Suc 0) ?m" using idle_for_rest [of k "Suc 0" m] Suc.prems(1) by simp
    have next_r: "count_retired 1 4 (idle_feedback ?m) ?r = counted (Suc k) (idle_feedback m) r"
      using counted_Suc [of r k] k unat_u64_less [of "maxCycles b"] by simp
    have next_m: "idle_at (Suc 0) ?m = idle_at (Suc k) m" using idle_at_idle_at [OF k(1), of "Suc 0"] by simp
    have "slice_loop h b n r m = slice_loop h b (n - k) ?r ?m"
      using Suc.IH [OF k(1)] False Suc.prems(3-5) leave_counted(1) [OF k(2), of m] by simp
    also have "\<dots> = (case leave_reason b (counted (Suc k) (idle_feedback m) r) of
       Some reason \<Rightarrow> Some (Inr ((counted (Suc k) (idle_feedback m) r)\<lparr>exitReason := reason\<rparr>), idle_at (Suc k) m)
     | None \<Rightarrow> slice_loop h b (n - Suc k) (counted (Suc k) (idle_feedback m) r) (idle_at (Suc k) m))"
      using slice_loop_idle [OF one leave_counted(2) [OF k(2), of m], of h n']
      unfolding n next_r next_m by (simp add: Let_def)
    finally show ?thesis .
  qed
qed simp

section \<open>The bulk advance does the same\<close>

lemma div_bound:
  assumes "k \<le> (d - 1) div c" and "0 < d" shows "c * k < (d :: nat)"
proof -
  have "c * k \<le> c * ((d - 1) div c)" using assms(1) by simp
  also have "\<dots> \<le> d - 1" by (rule times_div_less_eq_dividend)
  finally show ?thesis using assms(2) by simp
qed

lemma ceiling_bound:
  assumes "0 < c" and "(k :: nat) < (x + (c - 1)) div c" shows "c * k < x"
proof -
  have "c * Suc k \<le> c * ((x + (c - 1)) div c)" using assms(2) by (intro mult_le_mono2) simp
  also have "\<dots> \<le> x + (c - 1)" by (rule times_div_less_eq_dividend)
  finally show ?thesis using assms(1) by simp
qed

lemma scanline_room: "n < unat (cyclesUntilNextScanline v) \<Longrightarrow> unat (pendingCycles v) + n < 228"
  by (auto simp: cyclesUntilNextScanline_def kCyclesPerScanline_def unat_sub_if' word_less_nat_alt word_le_nat_alt split: if_splits)

lemma sample_room:
  assumes "n < unat (cyclesUntilNextSample p)"
  shows "unat (samplePhase p) + n * kSampleRate < kClockHz"
proof -
  have c: "unat (of_nat kClockHz :: u64) = kClockHz" "unat (of_nat kSampleRate :: u64) = kSampleRate"
    by (simp_all add: kClockHz_def kSampleRate_def)
  have l: "samplePhase p < of_nat kClockHz" using assms by (auto simp: cyclesUntilNextSample_def split: if_splits)
  then have lt: "unat (samplePhase p) < kClockHz" by (simp add: word_less_nat_alt c)
  define x where "x = kClockHz - unat (samplePhase p)"
  have "unat (of_nat kClockHz - samplePhase p + of_nat kSampleRate - 1) = x + (kSampleRate - 1)"
    using l lt by (simp add: x_def kClockHz_def kSampleRate_def unat_sub_if' unat_word_ariths word_less_nat_alt word_le_nat_alt)
  then have "unat ((of_nat kClockHz - samplePhase p + of_nat kSampleRate - 1) div of_nat kSampleRate) = (x + (kSampleRate - 1)) div kSampleRate"
    by (simp add: unat_div c)
  then have "unat (cyclesUntilNextSample p) \<le> (x + (kSampleRate - 1)) div kSampleRate"
    using l by (simp add: cyclesUntilNextSample_def unsigned_ucast_eq take_bit_nat_less_eq_self)
  then have "n < (x + (kSampleRate - 1)) div kSampleRate" using assms by simp
  then have "kSampleRate * n < x" by (intro ceiling_bound) (simp_all add: kSampleRate_def)
  then show ?thesis using lt by (simp add: x_def mult.commute)
qed

lemma cycle_room:
  fixes rest polls :: u64
  assumes "polls \<le> rest div 4 + (if rest mod 4 \<noteq> 0 then 1 else 0)" and "0 < polls"
  shows "4 * (unat polls - 1) < unat rest"
proof -
  have "unat (rest div 4 + (if rest mod 4 \<noteq> 0 then 1 else 0)) = unat rest div 4 + (if unat rest mod 4 \<noteq> 0 then 1 else 0)"
    using unat_u64_less [of rest] by (simp add: word_unat_eq_iff unat_word_ariths unat_mod)
  then have p: "unat polls \<le> unat rest div 4 + (if unat rest mod 4 \<noteq> 0 then 1 else 0)"
    using assms(1) by (simp add: word_le_nat_alt)
  have room: "0 < k \<Longrightarrow> k \<le> x div 4 + (if x mod 4 \<noteq> 0 then 1 else 0) \<Longrightarrow> 4 * (k - 1) < x" for k x :: nat
    by presburger
  have "0 < unat polls" using assms(2) by (simp add: word_less_nat_alt)
  then show ?thesis using p by (rule room)
qed

lemma idle_polls_room:
  assumes "machine_ok m" and "romLoaded m" and "totalCycles r < maxCycles b"
    and "unat (retiredInstructions r) + n = unat (maxInstructions b)" and "2 \<le> idle_polls b r m"
  shows "idle_for (unat (idle_polls b r m)) m" and "unat (idle_polls b r m) \<le> n"
    and "unat (totalCycles r) + 4 * (unat (idle_polls b r m) - 1) < unat (maxCycles b)"
proof -
  define k where "k = idle_polls b r m"
  have pos: "0 < k" "0 < unat k" using assms(5) by (simp_all add: k_def word_less_nat_alt word_le_nat_alt)
  have conds: "halted (cpu m)" "\<not> interruptRequested (devices m)" "\<not> hasPendingRetirementEvent (the_vdp m)"
    "frameCounter (the_psg m) = lastAudioFrameCounter m"
    using pos by (auto simp: k_def idle_polls_def split: if_splits)
  then have k: "k = min (if idle_deadline m \<noteq> 0 then ucast ((idle_deadline m - 1) div 4) else 0)
     (min (maxInstructions b - retiredInstructions r)
        ((maxCycles b - totalCycles r) div 4 + (if (maxCycles b - totalCycles r) mod 4 \<noteq> 0 then 1 else 0)))"
    by (simp add: k_def idle_polls_def Let_def)
  let ?d = "idle_deadline m"
  have d: "?d \<noteq> 0" using k pos by (cases "?d = 0") auto
  have "k \<le> ucast ((?d - 1) div 4)" using d by (simp add: k min.coboundedI1)
  then have "unat k \<le> unat ((?d - 1) div 4)"
    using take_bit_nat_less_eq_self [of 64 "unat ((?d - 1) div 4)"]
    by (simp only: word_le_nat_alt unsigned_ucast_eq) (simp add: order_trans)
  then have "unat k \<le> (unat ?d - 1) div 4"
    using d by (simp add: unat_div unat_sub_if' word_le_nat_alt unat_gt_0 Suc_leI)
  moreover have "0 < unat ?d" using d by (simp add: unat_gt_0)
  ultimately have room: "4 * unat k < unat ?d" by (rule div_bound)
  have p: "unat (pendingCycles (the_vdp m)) + 4 * unat k < 228"
    using scanline_room [of "4 * unat k" "the_vdp m"] room
    by (simp add: idle_deadline_def min_def word_le_nat_alt split: if_splits)
  have q: "unat (samplePhase (the_psg m)) + 4 * unat k * kSampleRate < kClockHz"
    using sample_room [of "4 * unat k" "the_psg m"] room
    by (simp add: idle_deadline_def min_def word_le_nat_alt split: if_splits)
  show "idle_for (unat (idle_polls b r m)) m"
    using conds p q assms(2) machine_devices [OF assms(1)] by (simp add: idle_for_def k_def)
  have le: "retiredInstructions r \<le> maxInstructions b" "totalCycles r \<le> maxCycles b"
    using assms(3,4) by (simp_all add: word_le_nat_alt word_less_nat_alt)
  have "k \<le> maxInstructions b - retiredInstructions r" by (simp add: k min.coboundedI2 min.coboundedI1)
  then show "unat (idle_polls b r m) \<le> n"
    using assms(4) le by (simp add: k_def [symmetric] word_le_nat_alt unat_sub_if')
  have "k \<le> (maxCycles b - totalCycles r) div 4 + (if (maxCycles b - totalCycles r) mod 4 \<noteq> 0 then 1 else 0)"
    by (simp only: k min.coboundedI2 min.cobounded2)
  then have "4 * (unat k - 1) < unat (maxCycles b - totalCycles r)" using pos(1) by (rule cycle_room)
  then show "unat (totalCycles r) + 4 * (unat (idle_polls b r m) - 1) < unat (maxCycles b)"
    using le(2) by (simp add: k_def [symmetric] word_le_nat_alt unat_sub_if')
qed

lemma small_polls:
  fixes polls :: u64
  assumes "idle_for (unat polls) m"
  shows "polls = of_nat (unat polls)" "(ucast (polls * 4) :: u32) = of_nat (4 * unat polls)"
    "(ucast (ucast (polls * 4) :: u32) :: u64) = of_nat (4 * unat polls)"
proof -
  have b: "4 * unat polls < 228" using assms by (simp add: idle_for_def)
  have p: "polls * 4 = of_nat (4 * unat polls)" by simp
  have u: "unat (polls * 4) = 4 * unat polls" using b by (simp add: unat_word_ariths)
  show "polls = of_nat (unat polls)" by simp
  show 1: "(ucast (polls * 4) :: u32) = of_nat (4 * unat polls)"
    using u by (metis of_nat_unat)
  have "unat (of_nat (4 * unat polls) :: u32) = 4 * unat polls" using b by (intro unat_of_nat_u32) simp
  then show "(ucast (ucast (polls * 4) :: u32) :: u64) = of_nat (4 * unat polls)"
    unfolding 1 by (metis of_nat_unat)
qed

lemma bulk_is_idle:
  assumes "idle_for (unat polls) m"
  shows "bulk_advance polls m = Some (idle_at (unat polls) m)"
    and "bulk_result polls m r = counted (unat polls) (idle_feedback m) r"
proof -
  have s: "step_devices (of_nat (4 * unat polls)) (m\<lparr>lastFeedback := idle_feedback m\<rparr>) = Some (on_devices
      (\<lambda>w. w\<lparr>vdp_ptr := Some (quiet_vdp (4 * unat polls) (the_vdp m)), psg_ptr := Some (quiet_psg (4 * unat polls) (the_psg m))\<rparr>)
      (m\<lparr>lastFeedback := idle_feedback m\<rparr>))"
    using assms by (intro step_devices_quiet) (simp_all add: idle_for_def devices_def)
  show "bulk_advance polls m = Some (idle_at (unat polls) m)"
    unfolding bulk_advance_def Let_def small_polls(2) [OF assms] s
    by (simp add: idle_at_def) (simp add: on_devices_def)
  show "bulk_result polls m r = counted (unat polls) (idle_feedback m) r"
    unfolding bulk_result_def small_polls(3) [OF assms] by (simp add: counted_def)
qed

lemma bulk_ok:
  assumes "machine_ok m" and "bulk_advance polls m = Some k" shows "machine_ok k"
  using assms(2) machine_ok_step_devices [of "m\<lparr>lastFeedback := idle_feedback m\<rparr>" "ucast (polls * 4)"] assms(1)
  by (auto simp: bulk_advance_def Let_def)

lemma pass_keeps_reason:
  "slice_pass h b r m = Some (Inr (r', e), k) \<Longrightarrow> exitReason r' = exitReason r"
  by (auto simp: slice_pass_def count_retired_def Let_def split: prod.splits sum.splits option.splits)

lemma leave_bound: "leave_reason b r = None \<Longrightarrow> totalCycles r < maxCycles b"
  by (auto simp: leave_reason_def not_le split: if_splits)

theorem halted_loop_eq:
  assumes "machine_ok m" and "romLoaded m" and "unat (retiredInstructions r) + n = unat (maxInstructions b)"
    and "totalCycles r < maxCycles b" and "exitReason r = InstructionBudget"
  shows "halted_loop h b n r m = slice_loop h b n r m"
  using assms
proof (induction n arbitrary: r m rule: less_induct)
  case (less n)
  show ?case
  proof (cases n)
    case 0
    have "r\<lparr>exitReason := InstructionBudget\<rparr> = r" using less.prems(5) by (cases r) simp
    then show ?thesis by (simp add: 0 halted_loop.simps [of h b 0])
  next
    case (Suc n')
    define polls where "polls = idle_polls b r m"
    have start: "\<not> (n = 0 \<or> maxCycles b \<le> totalCycles r)" using Suc less.prems(4) by (simp add: not_le)
    show ?thesis
    proof (cases "2 \<le> polls")
      case True
      let ?k = "unat polls"
      let ?r = "counted ?k (idle_feedback m) r"
      note room = idle_polls_room [OF less.prems(1,2,4,3), folded polls_def, OF True]
      have k: "0 < ?k" "2 \<le> ?k" using True by (simp_all add: word_le_nat_alt)
      note bulk = bulk_is_idle [OF room(1)]
      have "halted_loop h b n r m = (case leave_reason b ?r of
          Some reason \<Rightarrow> Some (Inr (?r\<lparr>exitReason := reason\<rparr>), idle_at ?k m)
        | None \<Rightarrow> halted_loop h b (n - ?k) ?r (idle_at ?k m))"
        using start True by (simp add: halted_loop.simps [of h b n] polls_def [symmetric] bulk Let_def)
      also have "\<dots> = (case leave_reason b ?r of
          Some reason \<Rightarrow> Some (Inr (?r\<lparr>exitReason := reason\<rparr>), idle_at ?k m)
        | None \<Rightarrow> slice_loop h b (n - ?k) ?r (idle_at ?k m))"
      proof (cases "leave_reason b ?r")
        case None
        have "unat (retiredInstructions r) + ?k < 2 ^ 64"
          using less.prems(3) room(2) unat_u64_less [of "maxInstructions b"] by linarith
        then have retired: "unat (retiredInstructions ?r) + (n - ?k) = unat (maxInstructions b)"
          using less.prems(3) room(2) by (simp add: counted_facts unat_word_ariths)
        have "halted_loop h b (n - ?k) ?r (idle_at ?k m) = slice_loop h b (n - ?k) ?r (idle_at ?k m)"
          using k room(2) bulk_ok [OF less.prems(1) bulk(1)] less.prems(2,5) retired leave_bound [OF None]
          by (intro less.IH) (simp_all add: idle_at_fields counted_facts)
        then show ?thesis using None by simp
      qed simp
      also have "\<dots> = slice_loop h b n r m"
        using idle_run [OF room(1) k(1) room(2) less.prems(4) room(3)] by simp
      finally show ?thesis .
    next
      case False
      have "halted_loop h b n r m = (case slice_pass h b r m of
              None \<Rightarrow> None
            | Some (Inl e, m) \<Rightarrow> Some (Inl e, m)
            | Some (Inr (r, Some reason), m) \<Rightarrow> Some (Inr (r\<lparr>exitReason := reason\<rparr>), m)
            | Some (Inr (r, None), m) \<Rightarrow> halted_loop h b n' r m)"
        using start False by (simp add: halted_loop.simps [of h b "Suc n'", unfolded diff_Suc_1] polls_def [symmetric] Let_def Suc)
      moreover have "halted_loop h b n' r' k = slice_loop h b n' r' k"
        if p: "slice_pass h b r m = Some (Inr (r', None), k)" for r' k
      proof (rule less.IH)
        show "n' < n" by (simp add: Suc)
        have q: "machine_ok k \<and> romLoaded k \<and> retiredInstructions r' = retiredInstructions r + 1 \<and> totalCycles r' < maxCycles b"
          using slice_pass_returns [OF less.prems(1,2), of h b r] p by auto
        then show "machine_ok k" "romLoaded k" "totalCycles r' < maxCycles b" by simp_all
        show "unat (retiredInstructions r') + n' = unat (maxInstructions b)"
          using retired_next [of r n' b r'] less.prems(3) q by (simp add: Suc)
        show "exitReason r' = InstructionBudget" using pass_keeps_reason [OF p] less.prems(5) by simp
      qed
      ultimately show ?thesis
        using start by (simp add: Suc split: option.split sum.split prod.split)
    qed
  qed
qed

text \<open>C5: The bulk advance of a halted CPU is an optimisation and nothing else: for every well-formed
  machine, every budget and every host, running a slice with it gives the same result, the same
  machine and the same error as polling instruction by instruction, although it steps the devices
  once instead of up to 56 times.\<close>

theorem halted_advance_equivalent:
  assumes "machine_ok m"
  shows "runSlice_halted h b m = runSlice h b m"
proof (cases "researchFaulted m \<or> \<not> romLoaded m \<or> \<not> halted (cpu m) \<or> maxInstructions b = 0 \<or> maxCycles b = 0")
  case True
  have "new_result\<lparr>exitReason := InstructionBudget\<rparr> = new_result" by (simp add: new_result_def)
  then show ?thesis using True by (auto simp: runSlice_halted_def runSlice_def context_runSlice_def)
next
  case False
  have "halted_loop h b (unat (maxInstructions b)) new_result m = slice_loop h b (unat (maxInstructions b)) new_result m"
    using False by (intro halted_loop_eq assms) (simp_all add: new_result_def word_gt_0)
  then show ?thesis using False by (simp add: runSlice_halted_def runSlice_def context_runSlice_def)
qed

theorem halted_advance_equivalent_witness:
  "let m = (example_machine [0x76])\<lparr>cpu := (cpu (example_machine [0x76]))\<lparr>halted := True\<rparr>\<rparr>;
       b = default_budget\<lparr>maxInstructions := 1000\<rparr>
   in runSlice_halted quiet_host b m = runSlice quiet_host b m"
proof -
  have "gg_cpu_ok (cpu (example_machine [0x76]))"
    using example_machine_ok [of "[0x76]"] by (simp add: machine_ok_def kMaxRomSize_def)
  then have "machine_ok ((example_machine [0x76])\<lparr>cpu := (cpu (example_machine [0x76]))\<lparr>halted := True\<rparr>\<rparr>)"
    by (auto simp: gg_cpu_ok_def z80_ok_def)
  then show ?thesis unfolding Let_def by (rule halted_advance_equivalent)
qed

end
