(* ===== verification/GB_Cartridge.thy ===== *)
theory GB_Cartridge
  imports Prelude
begin

text \<open>
  The Game Boy cartridge of \<open>src/cores/gameboy/cartridge/GameBoyCartridge.hpp\<close>: header, memory bank
  controllers with their external RAM and clock registers, save data and state. A span that is read into is the
  list of the bytes stored there.
\<close>

section \<open>Header\<close>

datatype CartridgeMapper = MapperNone | MBC1 | MBC2 | MBC3 | MBC5

record CartridgeMetadata =
  title :: "u8 list"
  mapperKind :: CartridgeMapper
  cartridgeType :: u8
  romSizeCode :: u8
  ramSizeCode :: u8
  romBankCount :: nat
  externalRamSize :: nat
  hasBattery :: bool
  hasRtc :: bool

definition ramSizeForHeader :: "u8 \<Rightarrow> CartridgeMapper \<Rightarrow> nat" where
  "ramSizeForHeader ramSize mapper =
     (if mapper = MBC2 then 0x0200
      else if ramSize = 0x00 then 0
      else if ramSize = 0x01 then 0x0800
      else if ramSize = 0x02 then 0x2000
      else if ramSize = 0x03 then 0x8000
      else if ramSize = 0x04 then 0x20000
      else if ramSize = 0x05 then 0x10000
      else 0)"

definition mapperForType :: "u8 \<Rightarrow> CartridgeMapper" where
  "mapperForType t =
     (if t = 0x00 then MapperNone
      else if t \<in> {0x01, 0x02, 0x03} then MBC1
      else if t \<in> {0x05, 0x06} then MBC2
      else if t \<in> {0x0F, 0x10, 0x11, 0x12, 0x13} then MBC3
      else if t \<in> {0x19, 0x1A, 0x1B, 0x1C, 0x1D, 0x1E} then MBC5
      else MapperNone)"

definition typeHasBattery :: "u8 \<Rightarrow> bool" where
  "typeHasBattery t \<longleftrightarrow> t \<in> {0x03, 0x06, 0x09, 0x0F, 0x10, 0x13, 0x1B, 0x1E}"

definition typeHasRtc :: "u8 \<Rightarrow> bool" where
  "typeHasRtc t \<longleftrightarrow> t = 0x0F \<or> t = 0x10"

text \<open>\<open>std::toupper\<close> in the C locale.\<close>

definition toupper :: "u8 \<Rightarrow> u8" where
  "toupper c = (if 0x61 \<le> c \<and> c \<le> 0x7A then c - 0x20 else c)"

definition parseCartridgeMetadata :: "u8 list \<Rightarrow> CartridgeMetadata" where
  "parseCartridgeMetadata bytes =
     (let at = (\<lambda>i. if length bytes > i then bytes ! i else 0x00); mapper = mapperForType (at 0x147) in
      \<lparr>title = map toupper (takeWhile (\<lambda>c. c \<noteq> 0) (take (0x144 - 0x134) (drop 0x134 bytes))),
       mapperKind = mapper, cartridgeType = at 0x147, romSizeCode = at 0x148, ramSizeCode = at 0x149,
       romBankCount = (length bytes + 0x3FFF) div 0x4000, externalRamSize = ramSizeForHeader (at 0x149) mapper,
       hasBattery = typeHasBattery (at 0x147), hasRtc = typeHasRtc (at 0x147)\<rparr>)"

section \<open>The cartridge\<close>

record gb_cart =
  metadata :: CartridgeMetadata
  cartRom :: "u8 list"
  externalRam :: "u8 list"
  currentRomBank :: nat
  currentRamBank :: nat
  ramEnabled :: bool
  selectedRtcRegister :: u8
  rtcLatched :: bool
  rtcRegisters :: "u8 list"
  mbc1LowBankBits :: u8
  mbc1UpperBankBits :: u8
  mbc1BankingModeSelect :: bool
  saveDirty :: bool

definition new_gb_cart :: gb_cart where
  "new_gb_cart =
     \<lparr>metadata = \<lparr>title = [], mapperKind = MapperNone, cartridgeType = 0, romSizeCode = 0, ramSizeCode = 0,
                 romBankCount = 0, externalRamSize = 0, hasBattery = False, hasRtc = False\<rparr>,
      cartRom = [], externalRam = [], currentRomBank = 1, currentRamBank = 0, ramEnabled = False,
      selectedRtcRegister = 0xFF, rtcLatched = False, rtcRegisters = replicate 5 0, mbc1LowBankBits = 1,
      mbc1UpperBankBits = 0, mbc1BankingModeSelect = False, saveDirty = False\<rparr>"

text \<open>The header read, with MBC1 forced on a large ROM of unknown type.\<close>

definition load_metadata :: "u8 list \<Rightarrow> CartridgeMetadata" where
  "load_metadata bytes =
     (let m = parseCartridgeMetadata bytes;
          m = (if mapperKind m = MapperNone \<and> length bytes > 0x8000 \<and> length bytes > 0x147 \<and> bytes ! 0x147 \<noteq> 0x00
               then m\<lparr>mapperKind := MBC1, romBankCount := (length bytes + 0x3FFF) div 0x4000\<rparr> else m)
      in if romBankCount m = 0 then m\<lparr>romBankCount := 1\<rparr> else m)"

definition gb_load :: "u8 list \<Rightarrow> gb_cart \<Rightarrow> gb_cart result" where
  "gb_load bytes c =
     (if bytes = [] then Inl (Invalid_argument ''ROM must not be empty'')
      else
        (let m = load_metadata bytes in
         Inr (c\<lparr>metadata := m, cartRom := bytes, currentRomBank := (if romBankCount m > 1 then 1 else 0), currentRamBank := 0,
                ramEnabled := False, selectedRtcRegister := 0xFF, rtcLatched := False, rtcRegisters := replicate 5 0,
                externalRam := replicate (externalRamSize m) 0x00, mbc1LowBankBits := 1, mbc1UpperBankBits := 0,
                mbc1BankingModeSelect := False, saveDirty := False\<rparr>)))"

definition supportsBatterySave :: "gb_cart \<Rightarrow> bool" where "supportsBatterySave c = hasBattery (metadata c)"
definition supportsRtc :: "gb_cart \<Rightarrow> bool" where "supportsRtc c = hasRtc (metadata c)"
definition hasDirtySaveData :: "gb_cart \<Rightarrow> bool" where "hasDirtySaveData c = saveDirty c"
definition markSaveClean :: "gb_cart \<Rightarrow> gb_cart" where "markSaveClean c = c\<lparr>saveDirty := False\<rparr>"

abbreviation kind_of :: "gb_cart \<Rightarrow> CartridgeMapper" where "kind_of c \<equiv> mapperKind (metadata c)"
abbreviation banks :: "gb_cart \<Rightarrow> nat" where "banks c \<equiv> romBankCount (metadata c)"

section \<open>External RAM\<close>

definition ramBankSize :: "gb_cart \<Rightarrow> nat" where
  "ramBankSize c = (if kind_of c = MBC2 then 0x0200 else 0x2000)"

definition selectedRamBankIndex :: "gb_cart \<Rightarrow> nat" where
  "selectedRamBankIndex c =
     (if externalRam c = [] then 0
      else
        (let bankCount = max 1 (length (externalRam c) div ramBankSize c) in
         case kind_of c of
           MBC1 \<Rightarrow> if mbc1BankingModeSelect c then unat (mbc1UpperBankBits c) mod bankCount else 0
         | MBC3 \<Rightarrow> currentRamBank c mod bankCount
         | MBC5 \<Rightarrow> currentRamBank c mod bankCount
         | MBC2 \<Rightarrow> 0
         | MapperNone \<Rightarrow> 0))"

definition rtcRegisterSelected :: "gb_cart \<Rightarrow> bool" where
  "rtcRegisterSelected c \<longleftrightarrow> supportsRtc c \<and> selectedRtcRegister c \<ge> 0x08 \<and> selectedRtcRegister c \<le> 0x0C"

definition rtcIndex :: "gb_cart \<Rightarrow> nat" where "rtcIndex c = unat (selectedRtcRegister c - 0x08)"

definition markDirtyIfPersistent :: "gb_cart \<Rightarrow> gb_cart" where
  "markDirtyIfPersistent c = (if supportsBatterySave c then c\<lparr>saveDirty := True\<rparr> else c)"

text \<open>The bytes stored in a span of \<open>n\<close> bytes, \<open>None\<close> when the address is not the cartridge's.\<close>

definition readSpan :: "gb_cart \<Rightarrow> u16 \<Rightarrow> nat \<Rightarrow> u8 list option" where
  "readSpan c address n =
     (if address < 0xA000 \<or> address \<ge> 0xC000 \<or> kind_of c = MapperNone then None
      else if \<not> ramEnabled c then Some (replicate n 0xFF)
      else if rtcRegisterSelected c then Some (replicate n (rtcRegisters c ! rtcIndex c))
      else if externalRam c = [] then Some (replicate n 0xFF)
      else
        (let bankSize = ramBankSize c; bankIndex = selectedRamBankIndex c; baseOffset = unat (address - 0xA000)
         in Some (map (\<lambda>i. let localOffset = (if kind_of c = MBC2 then and (baseOffset + i) 0x01FF else (baseOffset + i) mod bankSize);
                               ramIndex = bankIndex * bankSize + localOffset
                           in if ramIndex \<ge> length (externalRam c) then 0xFF
                              else if kind_of c = MBC2 then 0xF0 OR (externalRam c ! ramIndex AND 0x0F)
                              else externalRam c ! ramIndex) [0..<n])))"

definition gb_read :: "gb_cart \<Rightarrow> u16 \<Rightarrow> u8" where
  "gb_read c address = (case readSpan c address 1 of None \<Rightarrow> 0xFF | Some bs \<Rightarrow> bs ! 0)"

text \<open>One byte of a span written to external RAM.\<close>

definition write_cell :: "nat \<Rightarrow> u8 \<Rightarrow> gb_cart \<Rightarrow> gb_cart" where
  "write_cell localOffset byte c =
     (let ramIndex = selectedRamBankIndex c * ramBankSize c + localOffset;
          storedValue = (if kind_of c = MBC2 then byte AND 0x0F else byte)
      in if ramIndex \<ge> length (externalRam c) then c
         else if externalRam c ! ramIndex \<noteq> storedValue
         then markDirtyIfPersistent (c\<lparr>externalRam := (externalRam c)[ramIndex := storedValue]\<rparr>)
         else c)"

definition writeExternalArea :: "u16 \<Rightarrow> u8 list \<Rightarrow> gb_cart \<Rightarrow> bool \<times> gb_cart" where
  "writeExternalArea address value c =
     (if address < 0xA000 \<or> address \<ge> 0xC000 \<or> kind_of c = MapperNone then (False, c)
      else if \<not> ramEnabled c then (True, c)
      else if rtcRegisterSelected c then
        (case value of
           [] \<Rightarrow> (False, c)
         | b # _ \<Rightarrow>
             if rtcRegisters c ! rtcIndex c \<noteq> b
             then (True, markDirtyIfPersistent (c\<lparr>rtcRegisters := (rtcRegisters c)[rtcIndex c := b]\<rparr>))
             else (True, c))
      else if externalRam c = [] then (True, c)
      else
        (True, fold (\<lambda>i c. write_cell (if kind_of c = MBC2 then and (unat (address - 0xA000) + i) 0x01FF
                                       else unat (address - 0xA000) + i) (value ! i) c) [0..<length value] c))"

section \<open>Bank registers\<close>

text \<open>The flags are \<open>handled\<close> and \<open>romBankChanged\<close>.\<close>

definition writeControl :: "u16 \<Rightarrow> u8 \<Rightarrow> gb_cart \<Rightarrow> (bool \<times> bool) \<times> gb_cart" where
  "writeControl address d c =
     (if address \<ge> 0x8000 \<or> kind_of c = MapperNone then ((False, False), c)
      else case kind_of c of
        MBC1 \<Rightarrow>
          (if address < 0x2000 then ((True, False), c\<lparr>ramEnabled := (d AND 0x0F = 0x0A)\<rparr>)
           else if address < 0x4000 then
             ((True, True), c\<lparr>mbc1LowBankBits := (if d AND 0x1F = 0 then 1 else d AND 0x1F)\<rparr>)
           else if address < 0x6000 then ((True, True), c\<lparr>mbc1UpperBankBits := d AND 0x03\<rparr>)
           else ((True, True), c\<lparr>mbc1BankingModeSelect := (d AND 0x01 \<noteq> 0)\<rparr>))
      | MBC2 \<Rightarrow>
          (if address < 0x4000 then
             (if address AND 0x0100 = 0 then ((True, False), c\<lparr>ramEnabled := (d AND 0x0F = 0x0A)\<rparr>)
              else ((True, True), c\<lparr>currentRomBank := (if d AND 0x0F = 0 then 1 else unat (d AND 0x0F))\<rparr>))
           else ((True, False), c))
      | MBC3 \<Rightarrow>
          (if address < 0x2000 then ((True, False), c\<lparr>ramEnabled := (d AND 0x0F = 0x0A)\<rparr>)
           else if address < 0x4000 then
             ((True, True), c\<lparr>currentRomBank := (if d AND 0x7F = 0 then 1 else unat (d AND 0x7F))\<rparr>)
           else if address < 0x6000 then
             ((True, False),
              if d \<le> 0x03 then c\<lparr>currentRamBank := unat (d AND 0x03), selectedRtcRegister := 0xFF\<rparr>
              else if supportsRtc c \<and> d \<ge> 0x08 \<and> d \<le> 0x0C then c\<lparr>selectedRtcRegister := d\<rparr>
              else c)
           else
             ((True, False),
              if rtcLatched c \<noteq> (d AND 0x01 \<noteq> 0)
              then (let c = c\<lparr>rtcLatched := (d AND 0x01 \<noteq> 0)\<rparr> in if supportsRtc c then markDirtyIfPersistent c else c)
              else c))
      | MBC5 \<Rightarrow>
          (if address < 0x2000 then ((True, False), c\<lparr>ramEnabled := (d AND 0x0F = 0x0A)\<rparr>)
           else if address < 0x3000 then
             ((True, True), c\<lparr>currentRomBank := or (and (currentRomBank c) 0x100) (unat d)\<rparr>)
           else if address < 0x4000 then
             ((True, True), c\<lparr>currentRomBank := or (push_bit 8 (unat (d AND 0x01))) (and (currentRomBank c) 0xFF)\<rparr>)
           else if address < 0x6000 then ((True, False), c\<lparr>currentRamBank := unat (d AND 0x0F)\<rparr>)
           else ((True, False), c))
      | MapperNone \<Rightarrow> ((False, False), c))"

definition gb_write :: "u16 \<Rightarrow> u8 \<Rightarrow> gb_cart \<Rightarrow> (bool \<times> bool) \<times> gb_cart" where
  "gb_write address d c =
     (if address \<ge> 0xA000 \<and> address < 0xC000
      then (case writeExternalArea address [d] c of (handled, c) \<Rightarrow> ((handled, False), c))
      else if address < 0x8000 then writeControl address d c
      else ((False, False), c))"

definition writeSpan :: "u16 \<Rightarrow> u8 list \<Rightarrow> gb_cart \<Rightarrow> bool \<times> gb_cart" where
  "writeSpan address value c =
     (if address \<ge> 0xA000 \<and> address < 0xC000 then writeExternalArea address value c
      else if length value = 1 \<and> address < 0x8000
      then (case writeControl address (value ! 0) c of ((handled, _), c) \<Rightarrow> (handled, c))
      else (False, c))"

definition fixedBankIndex :: "gb_cart \<Rightarrow> nat" where
  "fixedBankIndex c =
     (if kind_of c = MBC1 \<and> mbc1BankingModeSelect c then push_bit 5 (unat (mbc1UpperBankBits c)) mod banks c else 0)"

definition switchableBankIndex :: "gb_cart \<Rightarrow> nat" where
  "switchableBankIndex c =
     (if banks c \<le> 1 then 0
      else case kind_of c of
        MapperNone \<Rightarrow> if banks c > 1 then 1 else 0
      | MBC1 \<Rightarrow>
          (let bank = and (or (push_bit 5 (unat (mbc1UpperBankBits c))) (unat (mbc1LowBankBits c AND 0x1F))) 0x7F;
               bank = bank mod banks c;
               bank = (if and bank 0x1F = 0 then (bank + 1) mod banks c else bank)
           in if bank = 0 then 1 mod banks c else bank)
      | MBC2 \<Rightarrow> currentRomBank c mod banks c
      | MBC3 \<Rightarrow> if currentRomBank c mod banks c = 0 then 1 mod banks c else currentRomBank c mod banks c
      | MBC5 \<Rightarrow> currentRomBank c mod banks c)"

text \<open>A window of \<open>n\<close> bytes on a bank, padded with 0xFF.\<close>

definition rom_window :: "u8 list \<Rightarrow> nat \<Rightarrow> nat \<Rightarrow> u8 list" where
  "rom_window rom bank n = (let bs = take n (drop (bank * 0x4000) rom) in bs @ replicate (n - length bs) 0xFF)"

definition gb_copyRomBankWindow :: "gb_cart \<Rightarrow> nat \<Rightarrow> nat \<Rightarrow> u8 list" where
  "gb_copyRomBankWindow c bankIndex n = rom_window (cartRom c) bankIndex n"

section \<open>Inspection\<close>

definition analysisRamBank :: "gb_cart \<Rightarrow> u16" where "analysisRamBank c = of_nat (selectedRamBankIndex c)"
definition analysisRtcSelected :: "gb_cart \<Rightarrow> bool" where
  "analysisRtcSelected c \<longleftrightarrow> selectedRtcRegister c \<ge> 8 \<and> selectedRtcRegister c \<le> 12"

definition analysisRamOffset :: "gb_cart \<Rightarrow> u16 \<Rightarrow> nat option" where
  "analysisRamOffset c address =
     (if address < 0xA000 \<or> address \<ge> 0xC000 \<or> kind_of c = MapperNone \<or> \<not> ramEnabled c \<or> analysisRtcSelected c \<or>
         externalRam c = [] then None
      else
        (let offset = selectedRamBankIndex c * ramBankSize c + unat (address - 0xA000) mod ramBankSize c
         in if offset < length (externalRam c) then Some offset else None))"

definition analysisRamByte :: "gb_cart \<Rightarrow> nat \<Rightarrow> u8 option" where
  "analysisRamByte c offset =
     (if offset \<ge> length (externalRam c) then None
      else Some (if kind_of c = MBC2 then 0xF0 OR (externalRam c ! offset AND 0x0F) else externalRam c ! offset))"

section \<open>Save data and state\<close>

record RtcSaveData =
  savedRegisters :: "u8 list"
  savedLatched :: bool

record CartridgeSaveData =
  savedRam :: "u8 list"
  savedRtc :: "RtcSaveData option"

definition gb_exportSaveData :: "gb_cart \<Rightarrow> CartridgeSaveData" where
  "gb_exportSaveData c =
     \<lparr>savedRam = externalRam c,
      savedRtc = (if supportsRtc c then Some \<lparr>savedRegisters = rtcRegisters c, savedLatched = rtcLatched c\<rparr> else None)\<rparr>"

definition gb_importSaveData :: "CartridgeSaveData \<Rightarrow> gb_cart \<Rightarrow> gb_cart" where
  "gb_importSaveData save c =
     (let n = length (externalRam c);
          c = (if externalRam c \<noteq> []
               then (let bs = take n (savedRam save) in c\<lparr>externalRam := bs @ replicate (n - length bs) 0x00\<rparr>) else c);
          c = (case savedRtc save of
                 Some r \<Rightarrow> if supportsRtc c then c\<lparr>rtcRegisters := savedRegisters r, rtcLatched := savedLatched r\<rparr> else c
               | None \<Rightarrow> c)
      in markSaveClean c)"

record cart_state =
  stRomSize :: nat
  stRomBankCount :: nat
  stCurrentRomBank :: nat
  stCurrentRamBank :: nat
  stRamEnabled :: bool
  stSelectedRtcRegister :: u8
  stRtc :: "RtcSaveData option"
  stMbc1BankingModeSelect :: bool
  stMbc1UpperBankBits :: nat
  stMbc1LowBankBits :: nat
  stDirty :: bool
  stExternalRam :: "u8 list"

definition gb_exportState :: "gb_cart \<Rightarrow> cart_state" where
  "gb_exportState c =
     \<lparr>stRomSize = length (cartRom c), stRomBankCount = banks c, stCurrentRomBank = currentRomBank c,
      stCurrentRamBank = currentRamBank c, stRamEnabled = ramEnabled c, stSelectedRtcRegister = selectedRtcRegister c,
      stRtc = (if hasRtc (metadata c) then Some \<lparr>savedRegisters = rtcRegisters c, savedLatched = rtcLatched c\<rparr> else None),
      stMbc1BankingModeSelect = mbc1BankingModeSelect c, stMbc1UpperBankBits = unat (mbc1UpperBankBits c),
      stMbc1LowBankBits = unat (mbc1LowBankBits c AND 0x1F), stDirty = saveDirty c, stExternalRam = externalRam c\<rparr>"

definition rom_bank_refused :: "gb_cart \<Rightarrow> nat \<Rightarrow> bool" where
  "rom_bank_refused c b \<longleftrightarrow>
     (if banks c = 1 then b \<noteq> 0
      else case kind_of c of
        MBC3 \<Rightarrow> b < 1 \<or> b > 0x7F
      | MBC5 \<Rightarrow> b > 0x1FF
      | MBC2 \<Rightarrow> b < 1 \<or> b > 0x0F
      | MBC1 \<Rightarrow> b = 0 \<or> b \<ge> 0x80
      | MapperNone \<Rightarrow> b = 0 \<or> b \<ge> 0x80)"

definition ram_bank_refused :: "gb_cart \<Rightarrow> nat \<Rightarrow> bool" where
  "ram_bank_refused c b \<longleftrightarrow>
     (case kind_of c of MBC3 \<Rightarrow> b \<ge> 4 | MBC5 \<Rightarrow> b \<ge> 0x10 | MBC1 \<Rightarrow> b \<noteq> 0 | MBC2 \<Rightarrow> b \<noteq> 0 | MapperNone \<Rightarrow> b \<noteq> 0)"

definition gb_importState :: "cart_state \<Rightarrow> gb_cart \<Rightarrow> gb_cart result" where
  "gb_importState st c =
     (if stRomSize st \<noteq> length (cartRom c) \<or> stRomBankCount st \<noteq> banks c
        then Inl (Invalid_argument ''cartridge save state does not match loaded ROM'')
      else if length (stExternalRam st) \<noteq> length (externalRam c)
        then Inl (Invalid_argument ''cartridge save state external RAM size mismatch'')
      else if rom_bank_refused c (stCurrentRomBank st)
        then Inl (Invalid_argument ''cartridge save state ROM bank out of range'')
      else if ram_bank_refused c (stCurrentRamBank st)
        then Inl (Invalid_argument ''cartridge save state RAM bank out of range'')
      else if stSelectedRtcRegister st \<noteq> 0xFF \<and>
              (\<not> hasRtc (metadata c) \<or> stSelectedRtcRegister st < 0x08 \<or> stSelectedRtcRegister st > 0x0C)
        then Inl (Invalid_argument ''cartridge save state RTC selector invalid'')
      else if (stRtc st \<noteq> None) \<noteq> hasRtc (metadata c)
        then Inl (Invalid_argument ''cartridge save state RTC presence mismatch'')
      else
        (let bits = (of_nat (stMbc1LowBankBits st) AND 0x1F :: u8);
             c = c\<lparr>currentRomBank := stCurrentRomBank st, currentRamBank := stCurrentRamBank st, ramEnabled := stRamEnabled st,
                   selectedRtcRegister := stSelectedRtcRegister st, mbc1BankingModeSelect := stMbc1BankingModeSelect st,
                   mbc1UpperBankBits := of_nat (stMbc1UpperBankBits st), mbc1LowBankBits := (if bits = 0 then 1 else bits),
                   saveDirty := stDirty st, externalRam := stExternalRam st\<rparr>
         in Inr (case stRtc st of
                   Some r \<Rightarrow> c\<lparr>rtcRegisters := savedRegisters r, rtcLatched := savedLatched r\<rparr>
                 | None \<Rightarrow> c)))"

end
