(* ===== verification/GB_Mapper.thy ===== *)
theory GB_Mapper
  imports GB_Cartridge
begin

text \<open>
  The memory bank controller \<open>GameBoyMapper\<close> of \<open>src/cores/gameboy/GameBoyMapper.cpp\<close>, which decides
  the ROM banks the memory map shows, its window copies, its own external RAM and its state. The machine
  keeps the cartridge of \<open>GB_Cartridge\<close> beside it for the external RAM and the saves.
\<close>

record gb_mapper =
  mapperType :: CartridgeMapper
  romData :: "u8 list"
  romSize :: nat
  mbRomBankCount :: nat
  mbExternalRamSize :: nat
  mbExternalRam :: "u8 list"
  romBankLow :: u16
  effectiveRomBank :: nat
  ramBankSelect :: u8
  ramBankMode :: u8
  mbRamEnabled :: bool
  mbDirty :: bool
  mbHasBattery :: bool

definition new_mapper :: gb_mapper where
  "new_mapper =
     \<lparr>mapperType = MapperNone, romData = [], romSize = 0, mbRomBankCount = 0, mbExternalRamSize = 0, mbExternalRam = [],
      romBankLow = 1, effectiveRomBank = 1, ramBankSelect = 0, ramBankMode = 0, mbRamEnabled = False, mbDirty = False,
      mbHasBattery = False\<rparr>"

definition mb_reset :: "gb_mapper \<Rightarrow> gb_mapper" where
  "mb_reset m = m\<lparr>romBankLow := 1, effectiveRomBank := 1, ramBankSelect := 0, ramBankMode := 0, mbRamEnabled := False,
                  mbDirty := False\<rparr>"

definition mb_load :: "u8 list \<Rightarrow> gb_mapper \<Rightarrow> gb_mapper" where
  "mb_load bytes m =
     (let meta = parseCartridgeMetadata bytes;
          count = length bytes div 0x4000;
          m = m\<lparr>romData := bytes, romSize := length bytes, mapperType := mapperKind meta, mbHasBattery := hasBattery meta,
                mbRomBankCount := (if count < 2 then 2 else count), mbExternalRamSize := externalRamSize meta\<rparr>;
          m = (if mbExternalRamSize m > 0 then m\<lparr>mbExternalRam := replicate (mbExternalRamSize m) 0xFF\<rparr> else m)
      in mb_reset m)"

definition updateMbc1Banking :: "gb_mapper \<Rightarrow> gb_mapper" where
  "updateMbc1Banking m =
     (let bank = or (push_bit 5 (unat (ramBankSelect m AND 0x03))) (unat (romBankLow m AND 0x1F));
          bank = and bank 0x7F mod mbRomBankCount m;
          bank = (if and bank 0x1F = 0 then (bank + 1) mod mbRomBankCount m else bank)
      in m\<lparr>effectiveRomBank := (if bank = 0 then 1 mod mbRomBankCount m else bank)\<rparr>)"

definition currentFixedRomBank :: "gb_mapper \<Rightarrow> nat" where
  "currentFixedRomBank m =
     (if mapperType m \<noteq> MBC1 \<or> ramBankMode m = 0 \<or> mbRomBankCount m = 0 then 0
      else push_bit 5 (unat (ramBankSelect m AND 0x03)) mod mbRomBankCount m)"

definition updateMbc5Banking :: "gb_mapper \<Rightarrow> gb_mapper" where
  "updateMbc5Banking m =
     (let bank = unat (romBankLow m AND 0x01FF)
      in m\<lparr>effectiveRomBank := (if bank \<ge> mbRomBankCount m then mbRomBankCount m - 1 else bank)\<rparr>)"

record WriteResult =
  handled :: bool
  romBankChanged :: bool
  fixedRomBankChanged :: bool

definition not_handled :: WriteResult where
  "not_handled = \<lparr>handled = False, romBankChanged = False, fixedRomBankChanged = False\<rparr>"

definition was_handled :: WriteResult where
  "was_handled = \<lparr>handled = True, romBankChanged = False, fixedRomBankChanged = False\<rparr>"

text \<open>A change of the MBC1 registers that may also move the fixed window.\<close>

definition mbc1_upper :: "gb_mapper \<Rightarrow> gb_mapper \<Rightarrow> WriteResult \<times> gb_mapper" where
  "mbc1_upper old m =
     (let m = updateMbc1Banking m
      in (\<lparr>handled = True, romBankChanged = True, fixedRomBankChanged = (currentFixedRomBank m \<noteq> currentFixedRomBank old)\<rparr>, m))"

definition mb_write :: "u16 \<Rightarrow> u8 \<Rightarrow> gb_mapper \<Rightarrow> WriteResult \<times> gb_mapper" where
  "mb_write address val m =
     (let changed = was_handled\<lparr>romBankChanged := True\<rparr>; enable = m\<lparr>mbRamEnabled := (val AND 0x0F = 0x0A)\<rparr> in
      case mapperType m of
        MapperNone \<Rightarrow> if address \<ge> 0xA000 \<and> address < 0xC000 then (was_handled, m) else (not_handled, m)
      | MBC1 \<Rightarrow>
          (if address < 0x2000 then (was_handled, enable)
           else if address < 0x4000 then
             (changed, updateMbc1Banking (m\<lparr>romBankLow := (if val AND 0x1F = 0 then 1 else ucast (val AND 0x1F))\<rparr>))
           else if address < 0x6000 then mbc1_upper m (m\<lparr>ramBankSelect := val AND 0x03\<rparr>)
           else if address < 0x8000 then mbc1_upper m (m\<lparr>ramBankMode := val AND 0x01\<rparr>)
           else (not_handled, m))
      | MBC2 \<Rightarrow>
          (if address < 0x4000 then
             (if address AND 0x0100 \<noteq> 0 then
                (let bank = (if val AND 0x0F = 0 then 1 else val AND 0x0F)
                 in (changed, m\<lparr>romBankLow := ucast bank, effectiveRomBank := unat bank mod mbRomBankCount m\<rparr>))
              else (was_handled, enable))
           else (not_handled, m))
      | MBC3 \<Rightarrow>
          (if address < 0x2000 then (was_handled, enable)
           else if address < 0x4000 then
             (let bank = (if val AND 0x7F = 0 then 1 else val AND 0x7F)
              in (changed, m\<lparr>romBankLow := ucast bank,
                    effectiveRomBank := (if unat bank \<ge> mbRomBankCount m then mbRomBankCount m - 1 else unat bank)\<rparr>))
           else if address < 0x6000 then (was_handled, m\<lparr>ramBankSelect := val\<rparr>)
           else if address < 0x8000 then (was_handled, m)
           else (not_handled, m))
      | MBC5 \<Rightarrow>
          (if address < 0x2000 then (was_handled, enable)
           else if address < 0x3000 then
             (changed, updateMbc5Banking (m\<lparr>romBankLow := (romBankLow m AND 0x0100) OR ucast val\<rparr>))
           else if address < 0x4000 then
             (changed, updateMbc5Banking (m\<lparr>romBankLow := (romBankLow m AND 0x00FF) OR push_bit 8 (ucast (val AND 0x01))\<rparr>))
           else if address < 0x6000 then (was_handled, m\<lparr>ramBankSelect := val AND 0x0F\<rparr>)
           else if address < 0x8000 then (was_handled, m)
           else (not_handled, m)))"

text \<open>External RAM, which the mapper does not bank.\<close>

definition isRamAddress :: "gb_mapper \<Rightarrow> u16 \<Rightarrow> bool" where
  "isRamAddress m addr \<longleftrightarrow> mapperType m \<noteq> MapperNone \<and> mbRamEnabled m \<and> addr \<ge> 0xA000 \<and> addr < 0xC000"

definition mb_ramRead :: "gb_mapper \<Rightarrow> u16 \<Rightarrow> nat \<Rightarrow> u8 list option" where
  "mb_ramRead m addr n =
     (if \<not> isRamAddress m addr \<or> mbExternalRam m = [] then None
      else
        (let offset = unat (addr - 0xA000) in
         if offset \<ge> mbExternalRamSize m \<or> min n (mbExternalRamSize m - offset) = 0 then None
         else Some (take (min n (mbExternalRamSize m - offset)) (drop offset (mbExternalRam m)))))"

definition mb_ramWrite :: "u16 \<Rightarrow> u8 list \<Rightarrow> gb_mapper \<Rightarrow> bool \<times> gb_mapper" where
  "mb_ramWrite addr value m =
     (if \<not> isRamAddress m addr \<or> mbExternalRam m = [] then (False, m)
      else
        (let offset = unat (addr - 0xA000); n = min (length value) (mbExternalRamSize m - offset) in
         if offset \<ge> mbExternalRamSize m \<or> n = 0 then (False, m)
         else (True, m\<lparr>mbExternalRam := take offset (mbExternalRam m) @ take n value @ drop (offset + n) (mbExternalRam m),
                       mbDirty := True\<rparr>)))"

definition mb_copyRomBankWindow :: "gb_mapper \<Rightarrow> nat \<Rightarrow> nat \<Rightarrow> u8 list" where
  "mb_copyRomBankWindow m bankIndex n =
     (if bankIndex \<ge> mbRomBankCount m then replicate n 0xFF
      else
        (let start = bankIndex * 0x4000 in
         if start \<ge> length (romData m) then replicate n 0xFF
         else
           (let count = min n (length (romData m) - start)
            in take count (drop start (romData m)) @ replicate (n - count) 0xFF)))"

section \<open>State\<close>

record mb_state =
  msRomSize :: nat
  msRomBankCount :: nat
  msRomBankLow :: u16
  msEffectiveRomBank :: nat
  msRamBankSelect :: u8
  msRamBankMode :: u8
  msRamEnabled :: bool
  msDirty :: bool
  msHasBattery :: bool
  msExternalRamValid :: bool
  msExternalRam :: "u8 list"

definition mb_exportState :: "gb_mapper \<Rightarrow> mb_state" where
  "mb_exportState m =
     \<lparr>msRomSize = romSize m, msRomBankCount = mbRomBankCount m, msRomBankLow = romBankLow m,
      msEffectiveRomBank = effectiveRomBank m, msRamBankSelect = ramBankSelect m, msRamBankMode = ramBankMode m,
      msRamEnabled = mbRamEnabled m, msDirty = mbDirty m, msHasBattery = mbHasBattery m,
      msExternalRamValid = (mbDirty m \<and> mbExternalRam m \<noteq> []), msExternalRam = mbExternalRam m\<rparr>"

definition mb_importState :: "mb_state \<Rightarrow> gb_mapper \<Rightarrow> gb_mapper result" where
  "mb_importState st m =
     (if msRomSize st \<noteq> romSize m \<or> msRomBankCount st \<noteq> mbRomBankCount m
        then Inl (Invalid_argument ''mapper save state does not match loaded ROM'')
      else if msEffectiveRomBank st \<ge> mbRomBankCount m
        then Inl (Invalid_argument ''mapper save state ROM bank out of range'')
      else if msRamBankMode st > 1
        then Inl (Invalid_argument ''mapper save state banking mode invalid'')
      else if mbExternalRam m \<noteq> [] \<and> length (msExternalRam st) \<noteq> length (mbExternalRam m)
        then Inl (Invalid_argument ''mapper save state external RAM size mismatch'')
      else if mbExternalRam m = [] \<and> msExternalRam st \<noteq> []
        then Inl (Invalid_argument ''mapper save state unexpectedly contains external RAM'')
      else
        (let m = m\<lparr>romBankLow := (if msRomBankLow st = 0 then 1 else msRomBankLow st), effectiveRomBank := msEffectiveRomBank st,
                   ramBankSelect := msRamBankSelect st, ramBankMode := msRamBankMode st, mbRamEnabled := msRamEnabled st,
                   mbDirty := msDirty st, mbHasBattery := msHasBattery st\<rparr>
         in Inr (if msExternalRam st \<noteq> [] then m\<lparr>mbExternalRam := msExternalRam st\<rparr> else m)))"

section \<open>Banks in range\<close>

text \<open>The mapper of a loaded ROM.\<close>

definition mb_ok :: "gb_mapper \<Rightarrow> bool" where
  "mb_ok m \<longleftrightarrow> 2 \<le> mbRomBankCount m \<and> effectiveRomBank m < mbRomBankCount m \<and> romSize m = length (romData m)"

lemma mb_load_ok: "mb_ok (mb_load bytes m)"
  by (simp add: mb_ok_def mb_load_def mb_reset_def Let_def)

lemma banks_facts [simp]:
  "mbRomBankCount (updateMbc1Banking m) = mbRomBankCount m" "romData (updateMbc1Banking m) = romData m"
  "romSize (updateMbc1Banking m) = romSize m" "mapperType (updateMbc1Banking m) = mapperType m"
  "mbRomBankCount (updateMbc5Banking m) = mbRomBankCount m" "romData (updateMbc5Banking m) = romData m"
  "romSize (updateMbc5Banking m) = romSize m" "mapperType (updateMbc5Banking m) = mapperType m"
  by (simp_all add: updateMbc1Banking_def updateMbc5Banking_def Let_def)

lemma bank_less:
  "2 \<le> k \<Longrightarrow> mbRomBankCount m = k \<Longrightarrow> effectiveRomBank (updateMbc1Banking m) < k"
  "2 \<le> k \<Longrightarrow> mbRomBankCount m = k \<Longrightarrow> effectiveRomBank (updateMbc5Banking m) < k"
  by (auto simp: updateMbc1Banking_def updateMbc5Banking_def Let_def)

lemma mb_write_rom:
  "mbRomBankCount (snd (mb_write a val m)) = mbRomBankCount m" "romData (snd (mb_write a val m)) = romData m"
  "romSize (snd (mb_write a val m)) = romSize m" "mapperType (snd (mb_write a val m)) = mapperType m"
  by (simp_all add: mb_write_def mbc1_upper_def Let_def split: CartridgeMapper.split)

lemma mb_write_ok: "mb_ok m \<Longrightarrow> mb_ok (snd (mb_write a val m))"
  by (auto simp: mb_ok_def mb_write_def mbc1_upper_def Let_def bank_less split: CartridgeMapper.split)

lemma fixed_bank_less: "mb_ok m \<Longrightarrow> currentFixedRomBank m < mbRomBankCount m"
  by (simp add: mb_ok_def currentFixedRomBank_def)

text \<open>The flags tell the memory map every change of a bank it shows.\<close>

lemma mb_write_flags:
  assumes "mb_write a val m = (r, m')"
  shows "\<not> romBankChanged r \<Longrightarrow> effectiveRomBank m' = effectiveRomBank m"
    and "\<not> fixedRomBankChanged r \<Longrightarrow> currentFixedRomBank m' = currentFixedRomBank m"
  using assms
  by (auto simp: mb_write_def mbc1_upper_def Let_def was_handled_def not_handled_def currentFixedRomBank_def
      updateMbc1Banking_def updateMbc5Banking_def split: CartridgeMapper.splits if_splits)

text \<open>A window on a bank that exists is the ROM, padded where the ROM ends.\<close>

lemma mb_copyRomBankWindow_eq:
  "bankIndex < mbRomBankCount m \<Longrightarrow> mb_copyRomBankWindow m bankIndex n = rom_window (romData m) bankIndex n"
  by (auto simp: mb_copyRomBankWindow_def rom_window_def Let_def min_def)

lemma length_rom_window [simp]: "length (rom_window rom b n) = n"
  by (simp add: rom_window_def Let_def)

lemma nth_rom_window:
  "i < n \<Longrightarrow> rom_window rom b n ! i = (if b * 0x4000 + i < length rom then rom ! (b * 0x4000 + i) else 0xFF)"
  by (auto simp: rom_window_def Let_def nth_append min_def)

lemma length_copyRomBankWindow [simp]: "length (mb_copyRomBankWindow m b n) = n"
  by (simp add: mb_copyRomBankWindow_def Let_def)

end
