(* ===== verification/GB_MemoryMap.thy ===== *)
theory GB_MemoryMap
  imports GB_Mapper SaveState
begin

text \<open>
  The Game Boy bus of \<open>src/cores/gameboy/GameBoyMemoryMap.cpp\<close>: memories, boot ROM overlay, the two ROM
  windows the mapper installs, cartridge RAM, registers with OAM DMA, code views and the state vector. The
  pointers to mapper and cartridge are optional fields. Capture, debugger and snapshot hooks only observe and are
  left out; the write observer is a function of the machine and a parameter of \<open>bus_write\<close>.
\<close>

record rom_slot =
  slotData :: "u8 list"
  slotActive :: bool

definition no_window :: rom_slot where "no_window = \<lparr>slotData = [], slotActive = False\<rparr>"

record gb_map =
  vramGb :: "u8 list"
  wram :: "u8 list"
  oamGb :: "u8 list"
  ioRegs :: "u8 list"
  hram :: "u8 list"
  bootRom :: "u8 list"
  bootRomActive :: bool
  window0 :: rom_slot
  window4 :: rom_slot
  mapperOf :: "gb_mapper option"
  cartOf :: "gb_cart option"

definition new_map :: gb_map where
  "new_map =
     \<lparr>vramGb = replicate 0x2000 0, wram = replicate 0x2000 0, oamGb = replicate 0xA0 0xFF, ioRegs = replicate 0x80 0xFF,
      hram = replicate 0x80 0xFF, bootRom = [], bootRomActive = False, window0 = no_window, window4 = no_window,
      mapperOf = None, cartOf = None\<rparr>"

definition clearBootRom :: "gb_map \<Rightarrow> gb_map" where "clearBootRom m = m\<lparr>bootRom := [], bootRomActive := False\<rparr>"

definition mapBootRom :: "u8 list \<Rightarrow> gb_map \<Rightarrow> gb_map" where
  "mapBootRom d m = m\<lparr>bootRom := take 0x100 d, bootRomActive := True\<rparr>"

definition installRomWindow :: "u16 \<Rightarrow> u8 list \<Rightarrow> gb_map \<Rightarrow> gb_map" where
  "installRomWindow base d m =
     (if base = 0x0000 then m\<lparr>window0 := \<lparr>slotData = d, slotActive = True\<rparr>\<rparr>
      else if base = 0x4000 then m\<lparr>window4 := \<lparr>slotData = d, slotActive = True\<rparr>\<rparr>
      else m)"

definition clearRomWindow :: "u16 \<Rightarrow> gb_map \<Rightarrow> gb_map" where
  "clearRomWindow base m =
     (if base = 0x0000 then m\<lparr>window0 := no_window\<rparr> else if base = 0x4000 then m\<lparr>window4 := no_window\<rparr> else m)"

definition map_reset :: "gb_map \<Rightarrow> gb_map" where
  "map_reset m =
     clearRomWindow 0x4000 (clearRomWindow 0x0000 (clearBootRom
       (m\<lparr>vramGb := replicate 0x2000 0x00, wram := replicate 0x2000 0xFF, oamGb := replicate 0xA0 0xFF,
          ioRegs := replicate 0x80 0xFF, hram := replicate 0x80 0xFF, bootRomActive := False\<rparr>)))"

definition resolveEchoAddress :: "u16 \<Rightarrow> u16" where
  "resolveEchoAddress address = (if address \<ge> 0xE000 \<and> address \<le> 0xFDFF then address - 0x2000 else address)"

section \<open>Reading\<close>

definition handleCartridgeRamRead :: "gb_map \<Rightarrow> u16 \<Rightarrow> u8 option" where
  "handleCartridgeRamRead m addr =
     (case mapperOf m of
        None \<Rightarrow> None
      | Some mb \<Rightarrow> (case mb_ramRead mb addr 1 of Some (b # _) \<Rightarrow> Some b | _ \<Rightarrow> None))"

definition readRaw :: "gb_map \<Rightarrow> u16 \<Rightarrow> u8" where
  "readRaw m addr =
     (let a = unat addr in
      if bootRomActive m \<and> a < length (bootRom m) then bootRom m ! a
      else if addr < 0x4000 \<and> slotActive (window0 m) then
        (if a < length (slotData (window0 m)) then slotData (window0 m) ! a else 0xFF)
      else if addr \<ge> 0x4000 \<and> addr < 0x8000 \<and> slotActive (window4 m) then
        (if a - 0x4000 < length (slotData (window4 m)) then slotData (window4 m) ! (a - 0x4000) else 0xFF)
      else if addr \<ge> 0x8000 \<and> addr < 0xA000 then vramGb m ! (a - 0x8000)
      else if addr \<ge> 0xA000 \<and> addr < 0xC000 then
        (case cartOf m of
           Some c \<Rightarrow> gb_read c addr
         | None \<Rightarrow> (case handleCartridgeRamRead m addr of Some b \<Rightarrow> b | None \<Rightarrow> 0xFF))
      else if addr \<ge> 0xC000 \<and> addr < 0xE000 then wram m ! (a - 0xC000)
      else if addr \<ge> 0xE000 \<and> addr \<le> 0xFDFF then wram m ! (a - 0xE000)
      else if addr \<ge> 0xFE00 \<and> addr < 0xFEA0 then oamGb m ! (a - 0xFE00)
      else if addr \<ge> 0xFEA0 \<and> addr < 0xFF00 then 0xFF
      else if addr \<ge> 0xFF00 \<and> addr < 0xFF80 then ioRegs m ! (a - 0xFF00)
      else if addr \<ge> 0xFF80 \<and> addr < 0xFFFF then hram m ! (a - 0xFF80)
      else if addr = 0xFFFF then hram m ! 0x7F
      else 0xFF)"

definition peek :: "gb_map \<Rightarrow> u16 \<Rightarrow> u8" where "peek m addr = readRaw m (resolveEchoAddress addr)"
definition bus_read :: "gb_map \<Rightarrow> u16 \<Rightarrow> u8" where "bus_read m addr = peek m addr"

definition bus_read_span :: "gb_map \<Rightarrow> nat \<Rightarrow> u16 \<Rightarrow> u8 list" where
  "bus_read_span m n address = map (\<lambda>i. bus_read m (address + of_nat i)) [0..<n]"

definition handleBootRomRead :: "gb_map \<Rightarrow> u16 \<Rightarrow> nat \<Rightarrow> u8 list option" where
  "handleBootRomRead m addr n =
     (if \<not> bootRomActive m \<or> unat addr \<ge> length (bootRom m) then None
      else Some (take (min n (length (bootRom m) - unat addr)) (drop (unat addr) (bootRom m))))"

definition peekExecutableByte :: "gb_map \<Rightarrow> u16 \<Rightarrow> u8 option" where
  "peekExecutableByte m address =
     (let stableRom = address < 0x8000; stableWram = (address \<ge> 0xC000 \<and> address < 0xE000);
          stableHram = (address \<ge> 0xFF80 \<and> address < 0xFFFF)
      in if stableRom \<or> stableWram \<or> stableHram then Some (readRaw m address) else None)"

text \<open>The empty list is the empty span.\<close>

definition gb_checkedCodeView :: "gb_map \<Rightarrow> u16 \<Rightarrow> nat \<Rightarrow> u8 list" where
  "gb_checkedCodeView m address sz =
     (let a = unat address; stop = a + sz in
      if sz = 0 \<or> sz > 0x10000 - a then []
      else if bootRomActive m \<and> a < length (bootRom m) then
        (if stop > length (bootRom m) \<or> stop > 0x4000 then [] else take sz (drop a (bootRom m)))
      else if address < 0x8000 then
        (let base = (if address < 0x4000 then 0 else 0x4000);
             slot = (if base = 0 then window0 m else window4 m);
             offset = a - base
         in if stop > base + 0x4000 \<or> \<not> slotActive slot \<or> offset > length (slotData slot) \<or>
               sz > length (slotData slot) - offset then []
            else take sz (drop offset (slotData slot)))
      else if address \<ge> 0xC000 \<and> stop \<le> 0xE000 then take sz (drop (a - 0xC000) (wram m))
      else if address \<ge> 0xFF80 \<and> stop \<le> 0xFFFF then take sz (drop (a - 0xFF80) (hram m))
      else [])"

section \<open>Writing\<close>

definition performOamDma :: "u8 \<Rightarrow> gb_map \<Rightarrow> gb_map" where
  "performOamDma sourceHighByte m =
     (let sourceBase = push_bit 8 (ucast sourceHighByte) :: u16
      in fold (\<lambda>i m. m\<lparr>oamGb := (oamGb m)[i := readRaw m (sourceBase + of_nat i)]\<rparr>) [0..<length (oamGb m)] m)"

definition set_io :: "u16 \<Rightarrow> u8 \<Rightarrow> gb_map \<Rightarrow> gb_map" where
  "set_io addr val m = m\<lparr>ioRegs := (ioRegs m)[unat (addr - 0xFF00) := val]\<rparr>"

definition writeRaw :: "u16 \<Rightarrow> u8 \<Rightarrow> gb_map \<Rightarrow> gb_map" where
  "writeRaw addr val m =
     (if addr = 0xFF50 then m
      else if addr < 0x4000 \<and> slotActive (window0 m) then m
      else if addr \<ge> 0x4000 \<and> addr < 0x8000 \<and> slotActive (window4 m) then m
      else if addr \<ge> 0x8000 \<and> addr < 0xA000 then m\<lparr>vramGb := (vramGb m)[unat (addr - 0x8000) := val]\<rparr>
      else if addr \<ge> 0xA000 \<and> addr < 0xC000 then m
      else if addr \<ge> 0xC000 \<and> addr < 0xE000 then m\<lparr>wram := (wram m)[unat (addr - 0xC000) := val]\<rparr>
      else if addr \<ge> 0xE000 \<and> addr \<le> 0xFDFF then m\<lparr>wram := (wram m)[unat (addr - 0xE000) := val]\<rparr>
      else if addr \<ge> 0xFE00 \<and> addr < 0xFEA0 then m\<lparr>oamGb := (oamGb m)[unat (addr - 0xFE00) := val]\<rparr>
      else if addr \<ge> 0xFEA0 \<and> addr < 0xFF00 then m
      else if addr = 0xFFFF then m\<lparr>hram := (hram m)[0x7F := val]\<rparr>
      else if addr \<ge> 0xFF00 \<and> addr < 0xFF80 then
        (if addr = 0xFF46 \<and> val \<noteq> 0xFF then performOamDma val (set_io addr val m)
         else if addr = 0xFF41 then set_io addr ((ioRegs m ! unat (addr - 0xFF00) AND 0x07) OR (val AND 0x78)) m
         else if addr = 0xFF44 then set_io addr 0x00 m
         else set_io addr val m)
      else if addr \<ge> 0xFF80 \<and> addr < 0xFFFF then m\<lparr>hram := (hram m)[unat (addr - 0xFF80) := val]\<rparr>
      else m)"

definition setIoRegisterRaw :: "u16 \<Rightarrow> u8 \<Rightarrow> gb_map \<Rightarrow> gb_map" where
  "setIoRegisterRaw address val m =
     (if address \<ge> 0xFF00 \<and> address < 0xFF80 then set_io address val m
      else if address = 0xFFFF then m\<lparr>hram := (hram m)[0x7F := val]\<rparr>
      else m)"

definition handleCartridgeRamWrite :: "u16 \<Rightarrow> u8 \<Rightarrow> gb_map \<Rightarrow> bool \<times> gb_map" where
  "handleCartridgeRamWrite addr val m =
     (case cartOf m of
        Some c \<Rightarrow> (True, m\<lparr>cartOf := Some (snd (gb_write addr val c))\<rparr>)
      | None \<Rightarrow>
          (case mapperOf m of
             None \<Rightarrow> (False, m)
           | Some mb \<Rightarrow> (case mb_ramWrite addr [val] mb of (done, mb) \<Rightarrow> (done, m\<lparr>mapperOf := Some mb\<rparr>))))"

text \<open>A control write to the mapper, with the windows it moves.\<close>

definition mapper_control :: "gb_mapper \<Rightarrow> u16 \<Rightarrow> u8 \<Rightarrow> gb_map \<Rightarrow> bool \<times> gb_map" where
  "mapper_control mb addr val m =
     (let (r, mb) = mb_write addr val mb; m = m\<lparr>mapperOf := Some mb\<rparr>;
          m = (if romBankChanged r then installRomWindow 0x4000 (mb_copyRomBankWindow mb (effectiveRomBank mb) 0x4000) m else m);
          m = (if fixedRomBankChanged r then installRomWindow 0x0000 (mb_copyRomBankWindow mb (currentFixedRomBank mb) 0x4000) m
               else m)
      in (handled r, m))"

definition handleSpecialWrite :: "u16 \<Rightarrow> u8 \<Rightarrow> gb_map \<Rightarrow> bool \<times> gb_map" where
  "handleSpecialWrite addr val m =
     (if addr < 0x8000 \<and> mapperOf m \<noteq> None then mapper_control (the (mapperOf m)) addr val m
      else if addr = 0xFF50 \<and> val \<noteq> 0 then (True, setIoRegisterRaw 0xFF50 val (m\<lparr>bootRomActive := False\<rparr>))
      else if addr \<ge> 0xA000 \<and> addr < 0xC000 then handleCartridgeRamWrite addr val m
      else (False, m))"

text \<open>\<open>write\<close> up to the observer, which is then called with the resolved address.\<close>

definition store :: "u16 \<Rightarrow> u8 \<Rightarrow> gb_map \<Rightarrow> gb_map" where
  "store resolved val m =
     (case handleSpecialWrite resolved val m of (done, m) \<Rightarrow> if done then m else writeRaw resolved val m)"

definition bus_write :: "(u16 \<Rightarrow> u8 \<Rightarrow> gb_map \<Rightarrow> gb_map) \<Rightarrow> u16 \<Rightarrow> u8 \<Rightarrow> gb_map \<Rightarrow> gb_map" where
  "bus_write observer addr val m =
     (let resolved = resolveEchoAddress addr in observer resolved val (store resolved val m))"

definition bus_write_span :: "(u16 \<Rightarrow> u8 \<Rightarrow> gb_map \<Rightarrow> gb_map) \<Rightarrow> u8 list \<Rightarrow> u16 \<Rightarrow> gb_map \<Rightarrow> gb_map" where
  "bus_write_span observer value address m =
     fold (\<lambda>i. bus_write observer (address + of_nat i) (value ! i)) [0..<length value] m"

text \<open>What the machine's write observer does to the map: control and RAM writes reach the cartridge.\<close>

definition cartridge_observer :: "u16 \<Rightarrow> u8 \<Rightarrow> gb_map \<Rightarrow> gb_map" where
  "cartridge_observer address val m =
     (if address < 0x8000 \<or> address \<ge> 0xA000 \<and> address < 0xC000
      then m\<lparr>cartOf := map_option (\<lambda>c. snd (gb_write address val c)) (cartOf m)\<rparr> else m)"

definition gb_debugCommitRam :: "u16 \<Rightarrow> u8 \<Rightarrow> gb_map \<Rightarrow> gb_map" where
  "gb_debugCommitRam address val m =
     (let address = resolveEchoAddress address in
      if address \<ge> 0xC000 \<and> address < 0xE000 then m\<lparr>wram := (wram m)[unat (address - 0xC000) := val]\<rparr>
      else if address \<ge> 0xFF80 \<and> address < 0xFFFF then m\<lparr>hram := (hram m)[unat (address - 0xFF80) := val]\<rparr>
      else m)"

section \<open>State\<close>

definition put_vector :: "u8 list \<Rightarrow> u8 list" where "put_vector bs = le32 (of_nat (length bs)) @ bs"

definition map_payload :: "gb_map \<Rightarrow> u8 list" where
  "map_payload m =
     put_bool (bootRomActive m) @ put_vector (bootRom m) @
     put_bool (slotActive (window0 m)) @ put_vector (slotData (window0 m)) @
     put_bool (slotActive (window4 m)) @ put_vector (slotData (window4 m)) @
     vramGb m @ wram m @ oamGb m @ ioRegs m @ hram m"

definition map_exportState :: "gb_map \<Rightarrow> u8 list" where
  "map_exportState m = (let state = map_payload m in state @ le32 (crc32 state))"

abbreviation map_error :: "string \<Rightarrow> exn" where "map_error s \<equiv> Invalid_argument (''Memory map state '' @ s)"

definition map_flag :: "bool reader" where
  "map_flag = rd_bool (map_error ''is truncated'') (map_error ''contains invalid flag'')"

definition map_vector :: "nat \<Rightarrow> u8 list reader" where
  "map_vector maxSize =
     rd_bind (rd_u32 (map_error ''is truncated'')) (\<lambda>n.
     rd_bind (rd_guard (unat n \<le> maxSize) (map_error ''section is too large'')) (\<lambda>_.
     rd_take (map_error ''is truncated'') (unat n)))"

definition map_array :: "nat \<Rightarrow> u8 list reader" where "map_array n = rd_take (map_error ''is truncated'') n"

definition map_reader :: "gb_map \<Rightarrow> gb_map reader" where
  "map_reader m =
     rd_bind map_flag (\<lambda>bootActive.
     rd_bind (map_vector 0x100) (\<lambda>boot.
     rd_bind (rd_guard (\<not> (bootActive \<and> boot = [])) (Invalid_argument ''Active boot ROM state has no boot ROM data'')) (\<lambda>_.
     rd_bind map_flag (\<lambda>win0Active.
     rd_bind (map_vector 0x4000) (\<lambda>win0.
     rd_bind map_flag (\<lambda>win4Active.
     rd_bind (map_vector 0x4000) (\<lambda>win4.
     rd_bind (rd_guard (\<not> (win0Active \<and> length win0 \<noteq> 0x4000 \<or> win4Active \<and> length win4 \<noteq> 0x4000))
        (Invalid_argument ''Active ROM window state has wrong size'')) (\<lambda>_.
     rd_bind (map_array (length (vramGb m))) (\<lambda>v.
     rd_bind (map_array (length (wram m))) (\<lambda>w.
     rd_bind (map_array (length (oamGb m))) (\<lambda>o'.
     rd_bind (map_array (length (ioRegs m))) (\<lambda>io.
     rd_bind (map_array (length (hram m))) (\<lambda>h.
     rd_bind rd_at_end (\<lambda>at_end.
     rd_bind (rd_guard at_end (map_error ''contains trailing payload data'')) (\<lambda>_.
     rd_return (m\<lparr>bootRom := boot, bootRomActive := bootActive,
                  window0 := \<lparr>slotData = (if win0Active then win0 else []), slotActive = win0Active\<rparr>,
                  window4 := \<lparr>slotData = (if win4Active then win4 else []), slotActive = win4Active\<rparr>,
                  vramGb := v, wram := w, oamGb := o', ioRegs := io, hram := h\<rparr>))))))))))))))))"

definition map_importState :: "u8 list \<Rightarrow> gb_map \<Rightarrow> gb_map result" where
  "map_importState state m =
     (let fixedPayloadSize = length (vramGb m) + length (wram m) + length (oamGb m) + length (ioRegs m) + length (hram m) in
      if length state < 4 + 15 + fixedPayloadSize then Inl (map_error ''too short'')
      else
        (let crcPos = length state - 4; payload = take crcPos state;
             storedCrc = mk32 (state ! crcPos) (state ! (crcPos + 1)) (state ! (crcPos + 2)) (state ! (crcPos + 3))
         in if storedCrc \<noteq> crc32 payload then Inl (map_error ''checksum mismatch'')
            else rd_run (map_reader m) payload))"

end
