(* ===== verification/GB_MemoryLaws.thy ===== *)
theory GB_MemoryLaws
  imports GB_MemoryMap
begin

text \<open>
  What the Game Boy bus promises. \<open>windows_ok\<close> is the invariant that the two ROM windows show the banks the mapper
  selects; it survives every bus write. RAM is an instance of the locale \<open>cell_memory\<close>, whose contract is that a
  cell keeps the byte written last; the cells of the bus are the addresses with the echo resolved. The last section
  says that code views, which translation reads, agree with the bus.
\<close>

section \<open>Well-formed maps\<close>

definition map_sizes :: "gb_map \<Rightarrow> bool" where
  "map_sizes m \<longleftrightarrow> length (vramGb m) = 0x2000 \<and> length (wram m) = 0x2000 \<and> length (oamGb m) = 0xA0 \<and>
     length (ioRegs m) = 0x80 \<and> length (hram m) = 0x80 \<and> length (bootRom m) \<le> 0x100"

text \<open>The windows show the banks the mapper selects.\<close>

definition windows_ok :: "gb_map \<Rightarrow> bool" where
  "windows_ok m \<longleftrightarrow>
     (case mapperOf m of
        None \<Rightarrow> False
      | Some mb \<Rightarrow> mb_ok mb \<and>
          window0 m = \<lparr>slotData = rom_window (romData mb) (currentFixedRomBank mb) 0x4000, slotActive = True\<rparr> \<and>
          window4 m = \<lparr>slotData = rom_window (romData mb) (effectiveRomBank mb) 0x4000, slotActive = True\<rparr>)"

text \<open>A transfer only changes the object memory.\<close>

lemma dma_frame: "\<exists>bs. length bs = length (oamGb m) \<and> performOamDma val m = m\<lparr>oamGb := bs\<rparr>"
proof -
  have "\<exists>bs. length bs = length (oamGb m) \<and>
    fold (\<lambda>i m. m\<lparr>oamGb := (oamGb m)[i := readRaw m (b + of_nat i)]\<rparr>) xs m = m\<lparr>oamGb := bs\<rparr>" for b xs
  proof (induction xs arbitrary: m)
    case Nil
    have "m = m\<lparr>oamGb := oamGb m\<rparr>" by simp
    then show ?case by (intro exI [of _ "oamGb m"]) simp
  next
    case (Cons i xs)
    from Cons.IH [of "m\<lparr>oamGb := (oamGb m)[i := readRaw m (b + of_nat i)]\<rparr>"] show ?case by auto
  qed
  then show ?thesis by (simp add: performOamDma_def Let_def)
qed

lemma dma_facts:
  "bootRom (performOamDma val m) = bootRom m" "bootRomActive (performOamDma val m) = bootRomActive m"
  "window0 (performOamDma val m) = window0 m" "window4 (performOamDma val m) = window4 m"
  "mapperOf (performOamDma val m) = mapperOf m" "cartOf (performOamDma val m) = cartOf m"
  "vramGb (performOamDma val m) = vramGb m" "wram (performOamDma val m) = wram m" "ioRegs (performOamDma val m) = ioRegs m"
  "hram (performOamDma val m) = hram m" "length (oamGb (performOamDma val m)) = length (oamGb m)"
  using dma_frame [of m val] by auto

lemma set_io_facts [simp]:
  "bootRom (set_io a val m) = bootRom m" "bootRomActive (set_io a val m) = bootRomActive m"
  "window0 (set_io a val m) = window0 m" "window4 (set_io a val m) = window4 m"
  "mapperOf (set_io a val m) = mapperOf m" "cartOf (set_io a val m) = cartOf m"
  "vramGb (set_io a val m) = vramGb m" "wram (set_io a val m) = wram m" "oamGb (set_io a val m) = oamGb m"
  "hram (set_io a val m) = hram m" "length (ioRegs (set_io a val m)) = length (ioRegs m)"
  by (simp_all add: set_io_def)

lemma writeRaw_sizes: "map_sizes m \<Longrightarrow> map_sizes (writeRaw a val m)"
  by (simp add: map_sizes_def writeRaw_def dma_facts split del: if_split) (simp add: dma_facts split: if_split)

lemma writeRaw_windows:
  "window0 (writeRaw a val m) = window0 m" "window4 (writeRaw a val m) = window4 m" "mapperOf (writeRaw a val m) = mapperOf m"
  "bootRom (writeRaw a val m) = bootRom m" "bootRomActive (writeRaw a val m) = bootRomActive m" "cartOf (writeRaw a val m) = cartOf m"
  by (simp_all add: writeRaw_def dma_facts)

lemma install_facts [simp]:
  "mapperOf (installRomWindow b d m) = mapperOf m" "cartOf (installRomWindow b d m) = cartOf m"
  "vramGb (installRomWindow b d m) = vramGb m" "wram (installRomWindow b d m) = wram m" "oamGb (installRomWindow b d m) = oamGb m"
  "ioRegs (installRomWindow b d m) = ioRegs m" "hram (installRomWindow b d m) = hram m" "bootRom (installRomWindow b d m) = bootRom m"
  "bootRomActive (installRomWindow b d m) = bootRomActive m"
  "window4 (installRomWindow 0 d m) = window4 m" "window0 (installRomWindow 0x4000 d m) = window0 m"
  "window0 (installRomWindow 0 d m) = \<lparr>slotData = d, slotActive = True\<rparr>"
  "window4 (installRomWindow 0x4000 d m) = \<lparr>slotData = d, slotActive = True\<rparr>"
  by (simp_all add: installRomWindow_def)

text \<open>A control write installs the windows of the new banks, and no others.\<close>

lemma mapper_control_windows:
  assumes "windows_ok m" and "mapperOf m = Some mb"
  shows "windows_ok (snd (mapper_control mb a val m))"
    and "map_option romData (mapperOf (snd (mapper_control mb a val m))) = Some (romData mb)"
proof -
  obtain r mb' where w: "mb_write a val mb = (r, mb')" by fastforce
  have ok: "mb_ok mb" using assms by (simp add: windows_ok_def)
  then have ok': "mb_ok mb'" using mb_write_ok [of mb a val] by (simp add: w)
  have rom: "romData mb' = romData mb" using mb_write_rom(2) [of a val mb] by (simp add: w)
  have same: "\<not> romBankChanged r \<Longrightarrow> effectiveRomBank mb' = effectiveRomBank mb"
    "\<not> fixedRomBankChanged r \<Longrightarrow> currentFixedRomBank mb' = currentFixedRomBank mb"
    using mb_write_flags [OF w] by simp_all
  have windows: "mb_copyRomBankWindow mb' (effectiveRomBank mb') 0x4000 = rom_window (romData mb) (effectiveRomBank mb') 0x4000"
    "mb_copyRomBankWindow mb' (currentFixedRomBank mb') 0x4000 = rom_window (romData mb) (currentFixedRomBank mb') 0x4000"
    using ok' fixed_bank_less [OF ok'] by (simp_all add: mb_copyRomBankWindow_eq mb_ok_def rom)
  show "windows_ok (snd (mapper_control mb a val m))"
    using assms ok' same by (simp add: mapper_control_def w Let_def windows windows_ok_def rom)
  show "map_option romData (mapperOf (snd (mapper_control mb a val m))) = Some (romData mb)"
    by (simp add: mapper_control_def w Let_def rom)
qed

lemma windows_cong:
  "mapperOf k = mapperOf m \<Longrightarrow> window0 k = window0 m \<Longrightarrow> window4 k = window4 m \<Longrightarrow> windows_ok k = windows_ok m"
  by (cases "mapperOf m") (simp_all add: windows_ok_def)

definition mapped_rom :: "gb_map \<Rightarrow> u8 list" where "mapped_rom m = (case mapperOf m of None \<Rightarrow> [] | Some mb \<Rightarrow> romData mb)"

lemma ram_write_map:
  "windows_ok m \<Longrightarrow> cartOf m \<noteq> None \<Longrightarrow> windows_ok (snd (handleCartridgeRamWrite a val m)) \<and>
    mapped_rom (snd (handleCartridgeRamWrite a val m)) = mapped_rom m \<and> cartOf (snd (handleCartridgeRamWrite a val m)) \<noteq> None"
  by (cases "cartOf m"; cases "mapperOf m") (simp_all add: handleCartridgeRamWrite_def windows_ok_def mapped_rom_def)

lemma store_windows:
  assumes "windows_ok m" and "cartOf m \<noteq> None"
  shows "windows_ok (store a val m) \<and> mapped_rom (store a val m) = mapped_rom m \<and> cartOf (store a val m) \<noteq> None"
proof -
  obtain mb where mb: "mapperOf m = Some mb" using assms by (auto simp: windows_ok_def split: option.splits)
  have c: "cartOf (snd (mapper_control mb a val m)) = cartOf m" by (simp add: mapper_control_def Let_def split: prod.split)
  have raw: "windows_ok (writeRaw a val k) \<and> mapped_rom (writeRaw a val k) = mapped_rom m \<and> cartOf (writeRaw a val k) \<noteq> None"
    if "windows_ok k" "mapped_rom k = mapped_rom m" "cartOf k \<noteq> None" for k
    using that by (auto simp: windows_ok_def mapped_rom_def writeRaw_windows split: option.splits)
  have "windows_ok (snd (handleSpecialWrite a val m)) \<and> mapped_rom (snd (handleSpecialWrite a val m)) = mapped_rom m \<and>
    cartOf (snd (handleSpecialWrite a val m)) \<noteq> None"
    using mapper_control_windows [OF assms(1) mb, of a val] ram_write_map [OF assms] assms c
    by (auto simp: handleSpecialWrite_def mb mapped_rom_def windows_ok_def setIoRegisterRaw_def split: option.splits)
  then show ?thesis using raw by (cases "handleSpecialWrite a val m") (auto simp: store_def)
qed

section \<open>ROM banks on the bus\<close>

lemma observer_windows:
  "windows_ok (cartridge_observer a val m) = windows_ok m" "mapped_rom (cartridge_observer a val m) = mapped_rom m"
  "(cartOf (cartridge_observer a val m) = None) = (cartOf m = None)"
  by (simp_all add: cartridge_observer_def mapped_rom_def windows_cong [of "m\<lparr>cartOf := x\<rparr>" m for x])

lemma bus_writes_windows:
  assumes "windows_ok m" and "cartOf m \<noteq> None"
  shows "windows_ok (fold (\<lambda>(a, v). bus_write cartridge_observer a v) ws m) \<and>
    mapped_rom (fold (\<lambda>(a, v). bus_write cartridge_observer a v) ws m) = mapped_rom m"
  using assms
proof (induction ws arbitrary: m)
  case (Cons w ws)
  obtain a v where w: "w = (a, v)" by fastforce
  let ?k = "bus_write cartridge_observer a v m"
  have k: "windows_ok ?k" "mapped_rom ?k = mapped_rom m" "cartOf ?k \<noteq> None"
    using store_windows [OF Cons.prems, of "resolveEchoAddress a" v] by (simp_all add: bus_write_def Let_def observer_windows del: not_None_eq)
  show ?case using Cons.IH [OF k(1,3)] k(2) by (simp add: w)
qed simp

lemma read_windows:
  assumes "windows_ok m" and "\<not> bootRomActive m" and "mapperOf m = Some mb" and "addr < 0x8000"
  shows "bus_read m addr =
    (let i = (if addr < 0x4000 then currentFixedRomBank mb * 0x4000 + unat addr else effectiveRomBank mb * 0x4000 + (unat addr - 0x4000))
     in if i < length (romData mb) then romData mb ! i else 0xFF)"
proof -
  have a: "resolveEchoAddress addr = addr" "unat addr < 0x8000"
    using assms(4) by (simp_all add: resolveEchoAddress_def word_less_nat_alt word_le_nat_alt)
  have w: "window0 m = \<lparr>slotData = rom_window (romData mb) (currentFixedRomBank mb) 0x4000, slotActive = True\<rparr>"
    "window4 m = \<lparr>slotData = rom_window (romData mb) (effectiveRomBank mb) 0x4000, slotActive = True\<rparr>"
    using assms(1,3) by (simp_all add: windows_ok_def)
  show ?thesis
  proof (cases "addr < 0x4000")
    case True
    then have "unat addr < 0x4000" by (simp add: word_less_nat_alt)
    then show ?thesis using True assms(2) by (simp add: bus_read_def peek_def a(1) readRaw_def w nth_rom_window Let_def)
  next
    case False
    then have n: "(addr < 0x4000) = False" "0x4000 \<le> addr" "unat addr - 0x4000 < 0x4000"
      using a(2) by (simp_all add: word_less_nat_alt word_le_nat_alt)
    then show ?thesis
      using assms(2,4) by (simp add: bus_read_def peek_def a(1) readRaw_def w nth_rom_window Let_def)
  qed
qed

text \<open>C29: The bus always shows the banks the mapper has selected. After any writes to any addresses, by way of the
  echo or not, and whatever the mapper type, a read below 0x4000 gives the byte of the ROM in the mapper's fixed
  bank and a read from 0x4000 on the byte in its switchable bank (0xFF past the end of the ROM), both banks
  lie inside the bank count, and the ROM itself never changes.\<close>

theorem gb_rom_windows:
  assumes "windows_ok m" and "cartOf m \<noteq> None" and "addr < 0x8000"
    and "k = fold (\<lambda>(a, v). bus_write cartridge_observer a v) ws m" and "\<not> bootRomActive k"
  shows "\<exists>mb. mapperOf k = Some mb \<and> romData mb = mapped_rom m \<and>
    effectiveRomBank mb < mbRomBankCount mb \<and> currentFixedRomBank mb < mbRomBankCount mb \<and>
    bus_read k addr =
      (let i = (if addr < 0x4000 then currentFixedRomBank mb * 0x4000 + unat addr
                else effectiveRomBank mb * 0x4000 + (unat addr - 0x4000))
       in if i < length (mapped_rom m) then mapped_rom m ! i else 0xFF)"
proof -
  have k: "windows_ok k" "mapped_rom k = mapped_rom m"
    using bus_writes_windows [OF assms(1,2), of ws] by (simp_all add: assms(4))
  then obtain mb where mb: "mapperOf k = Some mb" "mb_ok mb" by (auto simp: windows_ok_def split: option.splits)
  have "romData mb = mapped_rom m" using k(2) by (simp add: mapped_rom_def mb(1))
  then show ?thesis
    using read_windows [OF k(1) assms(5) mb(1) assms(3)] mb fixed_bank_less [OF mb(2)]
    by (intro exI [of _ mb]) (simp add: mb_ok_def Let_def)
qed

text \<open>A machine after loading a ROM: both windows installed from the mapper.\<close>

definition loaded_map :: "u8 list \<Rightarrow> gb_map" where
  "loaded_map bytes =
     (let mb = mb_load bytes new_mapper;
          m = (map_reset new_map)\<lparr>mapperOf := Some mb, cartOf := (case gb_load bytes new_gb_cart of Inr c \<Rightarrow> Some c | Inl _ \<Rightarrow> None)\<rparr>
      in installRomWindow 0x4000 (mb_copyRomBankWindow mb (effectiveRomBank mb) 0x4000)
           (installRomWindow 0x0000 (mb_copyRomBankWindow mb (currentFixedRomBank mb) 0x4000) m))"

lemma loaded_map_ok:
  assumes "bytes \<noteq> []"
  shows "windows_ok (loaded_map bytes)" and "cartOf (loaded_map bytes) \<noteq> None" and "mapped_rom (loaded_map bytes) = bytes"
    and "\<not> bootRomActive (loaded_map bytes)" and "map_sizes (loaded_map bytes)"
proof -
  define mb where "mb = mb_load bytes new_mapper"
  have ok: "mb_ok mb" by (simp add: mb_def mb_load_ok)
  have rom: "romData mb = bytes" by (simp add: mb_def mb_load_def mb_reset_def Let_def)
  have w: "mb_copyRomBankWindow mb (effectiveRomBank mb) 0x4000 = rom_window bytes (effectiveRomBank mb) 0x4000"
    "mb_copyRomBankWindow mb (currentFixedRomBank mb) 0x4000 = rom_window bytes (currentFixedRomBank mb) 0x4000"
    using ok fixed_bank_less [OF ok] by (simp_all add: mb_copyRomBankWindow_eq mb_ok_def rom)
  show "windows_ok (loaded_map bytes)" by (simp add: loaded_map_def Let_def mb_def [symmetric] windows_ok_def ok rom w)
  show "cartOf (loaded_map bytes) \<noteq> None" using assms by (simp add: loaded_map_def Let_def gb_load_def)
  show "mapped_rom (loaded_map bytes) = bytes" by (simp add: loaded_map_def Let_def mb_def [symmetric] mapped_rom_def rom)
  show "\<not> bootRomActive (loaded_map bytes)"
    by (simp add: loaded_map_def Let_def map_reset_def clearRomWindow_def clearBootRom_def)
  show "map_sizes (loaded_map bytes)"
    by (simp add: loaded_map_def Let_def map_sizes_def map_reset_def clearRomWindow_def clearBootRom_def)
qed

theorem gb_rom_windows_witness:
  "\<exists>mb. mapperOf (fold (\<lambda>(a, v). bus_write cartridge_observer a v) [(0x2000, 3), (0xC000, 1)] (loaded_map [7, 8])) = Some mb \<and>
     bus_read (fold (\<lambda>(a, v). bus_write cartridge_observer a v) [(0x2000, 3), (0xC000, 1)] (loaded_map [7, 8])) 1 =
       (if currentFixedRomBank mb * 0x4000 + 1 < 2 then [7, 8] ! (currentFixedRomBank mb * 0x4000 + 1) else 0xFF)"
proof -
  let ?k = "fold (\<lambda>(a, v). bus_write cartridge_observer a v) [(0x2000, 3), (0xC000, 1)] (loaded_map [7, 8])"
  have l: "windows_ok (loaded_map [7, 8])" "cartOf (loaded_map [7, 8]) \<noteq> None" "mapped_rom (loaded_map [7, 8]) = [7, 8]"
    "\<not> bootRomActive (loaded_map [7, 8])"
    using loaded_map_ok [of "[7, 8]"] by simp_all
  have "bootRomActive (store 0x2000 3 m) = bootRomActive m \<and> bootRomActive (store 0xC000 1 m) = bootRomActive m" for m
    by (auto simp: store_def handleSpecialWrite_def mapper_control_def Let_def writeRaw_windows split: prod.split)
  then have "\<not> bootRomActive ?k"
    using l(4) by (simp add: bus_write_def Let_def resolveEchoAddress_def cartridge_observer_def)
  from gb_rom_windows [OF l(1,2) _ refl this, of 1] show ?thesis
    unfolding l(3) by (auto simp: Let_def)
qed

section \<open>RAM on the bus\<close>

text \<open>The contract of a memory whose cells, named by \<open>key\<close>, keep what was written last.\<close>

locale cell_memory =
  fixes rd :: "'s \<Rightarrow> 'a \<Rightarrow> 'v" and wr :: "'a \<Rightarrow> 'v \<Rightarrow> 's \<Rightarrow> 's" and key :: "'a \<Rightarrow> 'k"
    and good :: "'s \<Rightarrow> bool" and writable :: "'a \<Rightarrow> bool"
  assumes good_wr: "good s \<Longrightarrow> writable a \<Longrightarrow> good (wr a v s)"
    and rd_wr: "good s \<Longrightarrow> writable a \<Longrightarrow> rd (wr a v s) b = (if key b = key a then v else rd s b)"
begin

lemma last_write_wins:
  assumes "good s" and "\<forall>(a, v) \<in> set ws. writable a"
  shows "rd (fold (\<lambda>(a, v). wr a v) ws s) b =
    (case map_of (rev (map (\<lambda>(a, v). (key a, v)) ws)) (key b) of Some v \<Rightarrow> v | None \<Rightarrow> rd s b)"
  using assms
proof (induction ws arbitrary: s)
  case (Cons w ws)
  obtain a v where w: "w = (a, v)" by fastforce
  have "good (wr a v s)" using Cons.prems by (simp add: w good_wr)
  then show ?case
    using Cons.IH [of "wr a v s"] Cons.prems by (auto simp: w rd_wr map_add_def split: option.split)
qed simp

end

definition plain_ram :: "u16 \<Rightarrow> bool" where
  "plain_ram a \<longleftrightarrow> (let r = resolveEchoAddress a in
     (0x8000 \<le> r \<and> r < 0xA000) \<or> (0xC000 \<le> r \<and> r < 0xE000) \<or> (0xFF80 \<le> r \<and> r < 0xFFFF))"

lemma unat_offset: "b \<le> r \<Longrightarrow> unat (r - b :: u16) = unat r - unat b"
  by (rule unat_sub)

lemma resolved_not_echo: "\<not> (0xE000 \<le> resolveEchoAddress a \<and> resolveEchoAddress a \<le> 0xFDFF)"
proof -
  have "unat (a - 0x2000) < 0xE000" if "0xE000 \<le> a" "a \<le> 0xFDFF"
    using that unat_offset [of "0x2000" a] by (simp add: word_le_nat_alt)
  then show ?thesis by (auto simp: resolveEchoAddress_def word_le_nat_alt)
qed

lemma store_plain:
  assumes "0x8000 \<le> r" and "r < 0xA000 \<or> 0xC000 \<le> r" and "r < 0xFF00 \<or> 0xFF80 \<le> r"
  shows "store r v m = writeRaw r v m"
proof -
  have r: "\<not> r < 0x8000" "r \<noteq> 0xFF50" "\<not> (0xA000 \<le> r \<and> r < 0xC000)"
    using assms by (auto simp: word_le_nat_alt word_less_nat_alt)
  show ?thesis using r by (auto simp: store_def handleSpecialWrite_def)
qed

lemma ram_read_frame:
  "handleCartridgeRamRead (m\<lparr>vramGb := x\<rparr>) q = handleCartridgeRamRead m q"
  "handleCartridgeRamRead (m\<lparr>wram := x\<rparr>) q = handleCartridgeRamRead m q"
  "handleCartridgeRamRead (m\<lparr>hram := x\<rparr>) q = handleCartridgeRamRead m q"
  by (simp_all add: handleCartridgeRamRead_def)

lemma readRaw_nat:
  "readRaw m q =
     (let a = unat q in
      if bootRomActive m \<and> a < length (bootRom m) then bootRom m ! a
      else if a < 0x4000 \<and> slotActive (window0 m) then (if a < length (slotData (window0 m)) then slotData (window0 m) ! a else 0xFF)
      else if 0x4000 \<le> a \<and> a < 0x8000 \<and> slotActive (window4 m) then
        (if a - 0x4000 < length (slotData (window4 m)) then slotData (window4 m) ! (a - 0x4000) else 0xFF)
      else if 0x8000 \<le> a \<and> a < 0xA000 then vramGb m ! (a - 0x8000)
      else if 0xA000 \<le> a \<and> a < 0xC000 then
        (case cartOf m of
           Some c \<Rightarrow> gb_read c q
         | None \<Rightarrow> (case handleCartridgeRamRead m q of Some b \<Rightarrow> b | None \<Rightarrow> 0xFF))
      else if 0xC000 \<le> a \<and> a < 0xE000 then wram m ! (a - 0xC000)
      else if 0xE000 \<le> a \<and> a \<le> 0xFDFF then wram m ! (a - 0xE000)
      else if 0xFE00 \<le> a \<and> a < 0xFEA0 then oamGb m ! (a - 0xFE00)
      else if 0xFEA0 \<le> a \<and> a < 0xFF00 then 0xFF
      else if 0xFF00 \<le> a \<and> a < 0xFF80 then ioRegs m ! (a - 0xFF00)
      else if 0xFF80 \<le> a \<and> a < 0xFFFF then hram m ! (a - 0xFF80)
      else if a = 0xFFFF then hram m ! 0x7F
      else 0xFF)"
proof -
  have e: "q = 0xFFFF \<longleftrightarrow> unat q = 0xFFFF" by (simp add: word_unat_eq_iff)
  show ?thesis unfolding readRaw_def Let_def e word_le_nat_alt word_less_nat_alt by simp
qed

lemma resolve_stays: "\<not> (0xE000 \<le> unat a \<and> unat a \<le> 0xFDFF) \<Longrightarrow> resolveEchoAddress a = a"
  by (auto simp: resolveEchoAddress_def word_le_nat_alt)

lemma read_write_region:
  assumes "map_sizes m" and "\<not> (0xE000 \<le> r \<and> r \<le> 0xFDFF)" and "\<not> (0xE000 \<le> q \<and> q \<le> 0xFDFF)"
    and "(0x8000 \<le> r \<and> r < 0xA000) \<or> (0xC000 \<le> r \<and> r < 0xE000) \<or> (0xFF80 \<le> r \<and> r < 0xFFFF)"
  shows "readRaw (writeRaw r v m) q = (if q = r then v else readRaw m q)"
proof -
  have b: "\<not> unat q < length (bootRom m)" if "0x8000 \<le> unat q"
    using that assms(1) by (simp add: map_sizes_def)
  have eq: "q = r \<longleftrightarrow> unat q = unat r" by (simp add: word_unat_eq_iff)
  consider (vram) "0x8000 \<le> r" "r < 0xA000" | (wram) "0xC000 \<le> r" "r < 0xE000" | (hram) "0xFF80 \<le> r" "r < 0xFFFF"
    using assms(4) by blast
  then show ?thesis
  proof cases
    case vram
    then have w: "writeRaw r v m = m\<lparr>vramGb := (vramGb m)[unat r - 0x8000 := v]\<rparr>"
      by (auto simp: writeRaw_def unat_offset word_le_nat_alt word_less_nat_alt)
    have n: "0x8000 \<le> unat r" "unat r < 0xA000" using vram by (simp_all add: word_le_nat_alt word_less_nat_alt)
    show ?thesis
      unfolding w readRaw_nat Let_def eq using n b assms(1)
      by (auto simp: map_sizes_def nth_list_update ram_read_frame split: option.split)
  next
    case wram
    then have w: "writeRaw r v m = m\<lparr>wram := (wram m)[unat r - 0xC000 := v]\<rparr>"
      by (auto simp: writeRaw_def unat_offset word_le_nat_alt word_less_nat_alt)
    have n: "0xC000 \<le> unat r" "unat r < 0xE000" using wram by (simp_all add: word_le_nat_alt word_less_nat_alt)
    show ?thesis
      unfolding w readRaw_nat Let_def eq using n b assms(1,3)
      by (auto simp: word_le_nat_alt map_sizes_def nth_list_update ram_read_frame split: option.split)
  next
    case hram
    then have w: "writeRaw r v m = m\<lparr>hram := (hram m)[unat r - 0xFF80 := v]\<rparr>"
      by (auto simp: writeRaw_def unat_offset word_le_nat_alt word_less_nat_alt)
    have n: "0xFF80 \<le> unat r" "unat r < 0xFFFF" using hram by (simp_all add: word_le_nat_alt word_less_nat_alt)
    have l: "unat r - 0xFF80 < length (hram m)" using n assms(1) by (simp add: map_sizes_def)
    have other: "(hram m)[unat r - 0xFF80 := v] ! 0x7F = hram m ! 0x7F" using n by simp
    have off: "(hram m)[unat r - 0xFF80 := v] ! (unat q - 0xFF80) = hram m ! (unat q - 0xFF80)" if "0xFF80 \<le> unat q" "q \<noteq> r"
      using that n by (intro nth_list_update_neq) (simp add: word_unat_eq_iff)
    show ?thesis
    proof (cases "q = r")
      case True
      then show ?thesis unfolding w readRaw_nat Let_def using n b l by (simp add: word_le_nat_alt)
    next
      case False
      then show ?thesis unfolding w readRaw_nat Let_def
        by (simp add: ram_read_frame other off cong: if_cong option.case_cong)
    qed
  qed
qed


lemma plain_write:
  assumes "map_sizes m" and "plain_ram a"
  shows "map_sizes (bus_write cartridge_observer a v m)"
    and "bus_read (bus_write cartridge_observer a v m) b = (if resolveEchoAddress b = resolveEchoAddress a then v else bus_read m b)"
proof -
  let ?r = "resolveEchoAddress a"
  have region: "(0x8000 \<le> ?r \<and> ?r < 0xA000) \<or> (0xC000 \<le> ?r \<and> ?r < 0xE000) \<or> (0xFF80 \<le> ?r \<and> ?r < 0xFFFF)"
    using assms(2) by (simp add: plain_ram_def Let_def)
  have st: "store ?r v m = writeRaw ?r v m"
    using region by (intro store_plain) (auto simp: word_le_nat_alt word_less_nat_alt)
  have ob: "cartridge_observer ?r v k = k" for k
    using region by (auto simp: cartridge_observer_def word_le_nat_alt word_less_nat_alt)
  have w: "bus_write cartridge_observer a v m = writeRaw ?r v m" by (simp add: bus_write_def Let_def st ob)
  show "map_sizes (bus_write cartridge_observer a v m)" by (simp add: w writeRaw_sizes assms(1))
  show "bus_read (bus_write cartridge_observer a v m) b = (if resolveEchoAddress b = ?r then v else bus_read m b)"
    using read_write_region [OF assms(1) resolved_not_echo resolved_not_echo region]
    by (simp add: w bus_read_def peek_def)
qed

interpretation gb_ram: cell_memory bus_read "bus_write cartridge_observer" resolveEchoAddress map_sizes plain_ram
  by unfold_locales (rule plain_write; assumption)+

text \<open>C30: Work RAM, its echo, video RAM and high RAM behave as memory on the Game Boy bus: after any writes to them,
  a read anywhere gives the byte written last to the same cell, an address and its echo being one cell, and
  everything else, ROM, registers and cartridge included, reads as before.\<close>

theorem gb_ram_last_write_wins:
  assumes "map_sizes m" and "\<forall>(a, v) \<in> set ws. plain_ram a"
  shows "bus_read (fold (\<lambda>(a, v). bus_write cartridge_observer a v) ws m) b =
    (case map_of (rev (map (\<lambda>(a, v). (resolveEchoAddress a, v)) ws)) (resolveEchoAddress b) of
       Some v \<Rightarrow> v | None \<Rightarrow> bus_read m b)"
  by (rule gb_ram.last_write_wins [OF assms])

theorem gb_ram_last_write_wins_witness:
  "bus_read (fold (\<lambda>(a, v). bus_write cartridge_observer a v) [(0xC010, 5), (0x9000, 6), (0xE010, 7)] (loaded_map [1])) 0xC010 = 7"
proof -
  have "map_sizes (loaded_map [1])" by (rule loaded_map_ok) simp
  from gb_ram_last_write_wins [OF this, of "[(0xC010, 5), (0x9000, 6), (0xE010, 7)]" "0xC010"] show ?thesis
    by (simp add: plain_ram_def resolveEchoAddress_def)
qed

section \<open>Code views\<close>

lemma view_nth:
  assumes "n \<le> length xs - k" and "i < n" shows "take n (drop k xs) ! i = xs ! (k + i)"
  using assms by simp

lemma code_view_nat:
  "gb_checkedCodeView m address sz =
     (let a = unat address; stop = a + sz in
      if sz = 0 \<or> sz > 0x10000 - a then []
      else if bootRomActive m \<and> a < length (bootRom m) then
        (if stop > length (bootRom m) \<or> stop > 0x4000 then [] else take sz (drop a (bootRom m)))
      else if a < 0x4000 then
        (if stop > 0x4000 \<or> \<not> slotActive (window0 m) \<or> a > length (slotData (window0 m)) \<or> sz > length (slotData (window0 m)) - a
         then [] else take sz (drop a (slotData (window0 m))))
      else if a < 0x8000 then
        (if stop > 0x8000 \<or> \<not> slotActive (window4 m) \<or> a - 0x4000 > length (slotData (window4 m)) \<or>
            sz > length (slotData (window4 m)) - (a - 0x4000)
         then [] else take sz (drop (a - 0x4000) (slotData (window4 m))))
      else if a \<ge> 0xC000 \<and> stop \<le> 0xE000 then take sz (drop (a - 0xC000) (wram m))
      else if a \<ge> 0xFF80 \<and> stop \<le> 0xFFFF then take sz (drop (a - 0xFF80) (hram m))
      else [])"
  by (simp add: gb_checkedCodeView_def Let_def word_le_nat_alt word_less_nat_alt)

lemma code_view_cases:
  assumes "gb_checkedCodeView m addr n \<noteq> []"
  obtains (boot) "bootRomActive m" "unat addr + n \<le> length (bootRom m)" "unat addr + n \<le> 0x4000"
      "gb_checkedCodeView m addr n = take n (drop (unat addr) (bootRom m))"
  | (low) "\<not> (bootRomActive m \<and> unat addr < length (bootRom m))" "unat addr + n \<le> 0x4000" "slotActive (window0 m)"
      "unat addr + n \<le> length (slotData (window0 m))" "gb_checkedCodeView m addr n = take n (drop (unat addr) (slotData (window0 m)))"
  | (high) "0x4000 \<le> unat addr" "unat addr + n \<le> 0x8000" "\<not> (bootRomActive m \<and> unat addr < length (bootRom m))" "slotActive (window4 m)"
      "unat addr - 0x4000 + n \<le> length (slotData (window4 m))"
      "gb_checkedCodeView m addr n = take n (drop (unat addr - 0x4000) (slotData (window4 m)))"
  | (work) "0xC000 \<le> unat addr" "unat addr + n \<le> 0xE000" "\<not> (bootRomActive m \<and> unat addr < length (bootRom m))"
      "gb_checkedCodeView m addr n = take n (drop (unat addr - 0xC000) (wram m))"
  | (fast) "0xFF80 \<le> unat addr" "unat addr + n \<le> 0xFFFF" "\<not> (bootRomActive m \<and> unat addr < length (bootRom m))"
      "gb_checkedCodeView m addr n = take n (drop (unat addr - 0xFF80) (hram m))"
proof -
  let ?a = "unat addr"
  have "\<not> (n = 0 \<or> n > 0x10000 - ?a)"
  proof
    assume "n = 0 \<or> n > 0x10000 - ?a"
    then have "gb_checkedCodeView m addr n = []" by (simp add: gb_checkedCodeView_def)
    then show False using assms by simp
  qed
  then have n: "n \<noteq> 0" "\<not> n > 0x10000 - ?a" by auto
  show thesis
  proof (cases "bootRomActive m \<and> ?a < length (bootRom m)")
    case True
    then show thesis using assms boot n by (simp add: code_view_nat Let_def split: if_split_asm)
  next
    case nb: False
    consider "?a < 0x4000" | "0x4000 \<le> ?a" "?a < 0x8000" | "0x8000 \<le> ?a" by linarith
    then show thesis
    proof cases
      case 1
      then show thesis using assms low nb n by (fastforce simp: code_view_nat Let_def split: if_split_asm)
    next
      case 2
      then show thesis using assms high nb n by (fastforce simp: code_view_nat Let_def split: if_split_asm)
    next
      case 3
      then show thesis using assms work fast nb n by (fastforce simp: code_view_nat Let_def split: if_split_asm)
    qed
  qed
qed

lemma code_view_byte:
  assumes "map_sizes m" and "gb_checkedCodeView m addr n \<noteq> []" and "i < n" and "x = addr + of_nat i" and "unat x = unat addr + i"
  shows "gb_checkedCodeView m addr n ! i = bus_read m x \<and> length (gb_checkedCodeView m addr n) = n"
  using assms(2)
proof (cases rule: code_view_cases)
  case boot
  then have "resolveEchoAddress x = x" using assms(3,5) by (intro resolve_stays) simp
  then show ?thesis using boot assms(3,5) by (simp add: bus_read_def peek_def readRaw_nat)
next
  case low
  then have r: "resolveEchoAddress x = x" using assms(3,5) by (intro resolve_stays) simp
  show ?thesis using low assms(1,3,5) unfolding bus_read_def peek_def r readRaw_nat Let_def map_sizes_def by auto
next
  case high
  then have r: "resolveEchoAddress x = x" using assms(3,5) by (intro resolve_stays) simp
  have k: "unat addr - 0x4000 + i = unat x - 0x4000" using high(1) assms(5) by simp
  show ?thesis using high assms(1,3,5) k unfolding bus_read_def peek_def r readRaw_nat Let_def map_sizes_def by auto
next
  case work
  then have r: "resolveEchoAddress x = x" using assms(3,5) by (intro resolve_stays) simp
  have k: "unat addr - 0xC000 + i = unat x - 0xC000" using work(1) assms(5) by simp
  show ?thesis using work assms(1,3,5) k unfolding bus_read_def peek_def r readRaw_nat Let_def map_sizes_def by simp
next
  case fast
  then have r: "resolveEchoAddress x = x" using assms(3,5) by (intro resolve_stays) simp
  have k: "unat addr - 0xFF80 + i = unat x - 0xFF80" using fast(1) assms(5) by simp
  show ?thesis using fast assms(1,3,5) k unfolding bus_read_def peek_def r readRaw_nat Let_def map_sizes_def by simp
qed

text \<open>C31: A code view of the Game Boy bus shows what the bus shows: when it is not empty it has the size asked for and
  holds, byte by byte, what reading the addresses gives, under the boot ROM, in both ROM windows, in work RAM and in
  high RAM; and the byte peeked for translation is the byte read.\<close>

theorem gb_code_view_sound:
  assumes "map_sizes m" and "gb_checkedCodeView m addr n \<noteq> []"
  shows "gb_checkedCodeView m addr n = bus_read_span m n addr \<and> (\<forall>b. peekExecutableByte m addr = Some b \<longrightarrow> bus_read m addr = b)"
proof -
  have size: "unat addr + n \<le> 0x10000" "0 < n" using assms(2)
    by (cases rule: code_view_cases; use assms(2) in \<open>auto simp: gb_checkedCodeView_def\<close>)+
  have at: "unat (addr + of_nat i) = unat addr + i" if "i < n" for i
    using that size by (simp add: unat_word_ariths unat_of_nat_u16)
  note byte = code_view_byte [OF assms _ refl at]
  have len: "length (gb_checkedCodeView m addr n) = n" using byte [of 0] size(2) by simp
  have "gb_checkedCodeView m addr n = bus_read_span m n addr"
    using len byte by (intro nth_equalityI) (simp_all add: bus_read_span_def)
  moreover have "bus_read m addr = b" if "peekExecutableByte m addr = Some b" for b
  proof -
    have "resolveEchoAddress addr = addr"
      using that by (auto simp: peekExecutableByte_def resolveEchoAddress_def word_le_nat_alt word_less_nat_alt split: if_splits)
    then show ?thesis using that by (auto simp: peekExecutableByte_def bus_read_def peek_def split: if_splits)
  qed
  ultimately show ?thesis by blast
qed

theorem gb_code_view_sound_witness:
  "gb_checkedCodeView (loaded_map (replicate 8 7)) 2 4 \<noteq> [] \<and>
   gb_checkedCodeView (loaded_map (replicate 8 7)) 2 4 = bus_read_span (loaded_map (replicate 8 7)) 4 2"
proof -
  let ?m = "loaded_map (replicate 8 7)"
  have s: "map_sizes ?m" by (rule loaded_map_ok) simp
  have "windows_ok ?m" "\<not> bootRomActive ?m" by (rule loaded_map_ok, simp)+
  then obtain d where d: "window0 ?m = \<lparr>slotData = d, slotActive = True\<rparr>" "length d = 0x4000"
    by (auto simp: windows_ok_def length_rom_window split: option.splits)
  then have n: "gb_checkedCodeView ?m 2 4 \<noteq> []"
    using \<open>\<not> bootRomActive ?m\<close> by (simp add: code_view_nat)
  from n gb_code_view_sound [OF s n] show ?thesis by simp
qed

end
