(* ===== verification/GB_Cpu.thy ===== *)
theory GB_Cpu
  imports Machine_Cpu
begin

text \<open>
  The LR35902 of \<open>src/cores/gameboy/gameboy.cpp\<close>: registers, the canonical table of instruction steps with
  fetch lengths and cycles, \<open>execute\<close>, and the fast path \<open>tryFastExecuteBytes\<close>. What the CPU is wired to is a
  parameter: a memory acting on a world. Timers and interrupts are in \<open>GB_CpuTiming\<close>.
\<close>

section \<open>State\<close>

record 'w gb_memory =
  rd8 :: "'w \<Rightarrow> u16 \<Rightarrow> u8"
  wr8 :: "u16 \<Rightarrow> u8 \<Rightarrow> 'w \<Rightarrow> 'w"

record 'w lr =
  rAF :: u16
  rBC :: u16
  rDE :: u16
  rHL :: u16
  rSP :: u16
  rPC :: u16
  feedback :: CpuFeedback
  ime :: bool
  imeEnablePending :: bool
  imeEnableDelay :: u8
  stopFlag :: bool
  haltFlag :: bool
  illegalOpcodeLockup :: bool
  haltBugActive :: bool
  haltBugPcAdjustPending :: bool
  dividerCounter :: u16
  dmaActive :: bool
  dmaSourceBase :: u16
  dmaCycleProgress :: u16
  pendingCycleCharge :: nat
  serialTransferActive :: bool
  serialCycleProgress :: u16
  joypSelect :: u8
  joypadPressedMask :: u8
  ppuDotCounter :: u32
  lcdEnabledLastTick :: bool
  statInterruptLatched :: bool
  lr_world :: 'w

abbreviation "kFlagZ \<equiv> (0x80 :: u8)"
abbreviation "kFlagN \<equiv> (0x40 :: u8)"
abbreviation "kFlagH \<equiv> (0x20 :: u8)"
abbreviation "kFlagC \<equiv> (0x10 :: u8)"

definition kUnprefixedOpcodeCycles :: "(nat \<times> nat) list" where
  "kUnprefixedOpcodeCycles =
    [
     (4,4), (12,12), (8,8), (8,8), (4,4), (4,4), (8,8), (4,4),
     (20,20), (8,8), (8,8), (8,8), (4,4), (4,4), (8,8), (4,4),
     (4,4), (12,12), (8,8), (8,8), (4,4), (4,4), (8,8), (4,4),
     (12,12), (8,8), (8,8), (8,8), (4,4), (4,4), (8,8), (4,4),
     (8,12), (12,12), (8,8), (8,8), (4,4), (4,4), (8,8), (4,4),
     (8,12), (8,8), (8,8), (8,8), (4,4), (4,4), (8,8), (4,4),
     (8,12), (12,12), (8,8), (8,8), (12,12), (12,12), (12,12), (4,4),
     (8,12), (8,8), (8,8), (8,8), (4,4), (4,4), (8,8), (4,4),
     (4,4), (4,4), (4,4), (4,4), (4,4), (4,4), (8,8), (4,4),
     (4,4), (4,4), (4,4), (4,4), (4,4), (4,4), (8,8), (4,4),
     (4,4), (4,4), (4,4), (4,4), (4,4), (4,4), (8,8), (4,4),
     (4,4), (4,4), (4,4), (4,4), (4,4), (4,4), (8,8), (4,4),
     (4,4), (4,4), (4,4), (4,4), (4,4), (4,4), (8,8), (4,4),
     (4,4), (4,4), (4,4), (4,4), (4,4), (4,4), (8,8), (4,4),
     (8,8), (8,8), (8,8), (8,8), (8,8), (8,8), (4,4), (8,8),
     (4,4), (4,4), (4,4), (4,4), (4,4), (4,4), (8,8), (4,4),
     (4,4), (4,4), (4,4), (4,4), (4,4), (4,4), (8,8), (4,4),
     (4,4), (4,4), (4,4), (4,4), (4,4), (4,4), (8,8), (4,4),
     (4,4), (4,4), (4,4), (4,4), (4,4), (4,4), (8,8), (4,4),
     (4,4), (4,4), (4,4), (4,4), (4,4), (4,4), (8,8), (4,4),
     (4,4), (4,4), (4,4), (4,4), (4,4), (4,4), (8,8), (4,4),
     (4,4), (4,4), (4,4), (4,4), (4,4), (4,4), (8,8), (4,4),
     (4,4), (4,4), (4,4), (4,4), (4,4), (4,4), (8,8), (4,4),
     (4,4), (4,4), (4,4), (4,4), (4,4), (4,4), (8,8), (4,4),
     (8,20), (12,12), (12,16), (16,16), (12,24), (16,16), (8,8), (16,16),
     (8,20), (16,16), (12,16), (4,4), (12,24), (24,24), (8,8), (16,16),
     (8,20), (12,12), (12,16), (4,4), (12,24), (16,16), (8,8), (16,16),
     (8,20), (16,16), (12,16), (4,4), (12,24), (4,4), (8,8), (16,16),
     (12,12), (12,12), (8,8), (4,4), (4,4), (16,16), (8,8), (16,16),
     (16,16), (4,4), (16,16), (4,4), (4,4), (4,4), (8,8), (16,16),
     (12,12), (12,12), (8,8), (4,4), (4,4), (16,16), (8,8), (16,16),
     (12,12), (8,8), (16,16), (4,4), (4,4), (4,4), (8,8), (16,16)]"

definition kCbPrefixedOpcodeCycles :: "(nat \<times> nat) list" where
  "kCbPrefixedOpcodeCycles =
    [
     (8,8), (8,8), (8,8), (8,8), (8,8), (8,8), (16,16), (8,8),
     (8,8), (8,8), (8,8), (8,8), (8,8), (8,8), (16,16), (8,8),
     (8,8), (8,8), (8,8), (8,8), (8,8), (8,8), (16,16), (8,8),
     (8,8), (8,8), (8,8), (8,8), (8,8), (8,8), (16,16), (8,8),
     (8,8), (8,8), (8,8), (8,8), (8,8), (8,8), (16,16), (8,8),
     (8,8), (8,8), (8,8), (8,8), (8,8), (8,8), (16,16), (8,8),
     (8,8), (8,8), (8,8), (8,8), (8,8), (8,8), (16,16), (8,8),
     (8,8), (8,8), (8,8), (8,8), (8,8), (8,8), (16,16), (8,8),
     (8,8), (8,8), (8,8), (8,8), (8,8), (8,8), (12,12), (8,8),
     (8,8), (8,8), (8,8), (8,8), (8,8), (8,8), (12,12), (8,8),
     (8,8), (8,8), (8,8), (8,8), (8,8), (8,8), (12,12), (8,8),
     (8,8), (8,8), (8,8), (8,8), (8,8), (8,8), (12,12), (8,8),
     (8,8), (8,8), (8,8), (8,8), (8,8), (8,8), (12,12), (8,8),
     (8,8), (8,8), (8,8), (8,8), (8,8), (8,8), (12,12), (8,8),
     (8,8), (8,8), (8,8), (8,8), (8,8), (8,8), (12,12), (8,8),
     (8,8), (8,8), (8,8), (8,8), (8,8), (8,8), (12,12), (8,8),
     (8,8), (8,8), (8,8), (8,8), (8,8), (8,8), (16,16), (8,8),
     (8,8), (8,8), (8,8), (8,8), (8,8), (8,8), (16,16), (8,8),
     (8,8), (8,8), (8,8), (8,8), (8,8), (8,8), (16,16), (8,8),
     (8,8), (8,8), (8,8), (8,8), (8,8), (8,8), (16,16), (8,8),
     (8,8), (8,8), (8,8), (8,8), (8,8), (8,8), (16,16), (8,8),
     (8,8), (8,8), (8,8), (8,8), (8,8), (8,8), (16,16), (8,8),
     (8,8), (8,8), (8,8), (8,8), (8,8), (8,8), (16,16), (8,8),
     (8,8), (8,8), (8,8), (8,8), (8,8), (8,8), (16,16), (8,8),
     (8,8), (8,8), (8,8), (8,8), (8,8), (8,8), (16,16), (8,8),
     (8,8), (8,8), (8,8), (8,8), (8,8), (8,8), (16,16), (8,8),
     (8,8), (8,8), (8,8), (8,8), (8,8), (8,8), (16,16), (8,8),
     (8,8), (8,8), (8,8), (8,8), (8,8), (8,8), (16,16), (8,8),
     (8,8), (8,8), (8,8), (8,8), (8,8), (8,8), (16,16), (8,8),
     (8,8), (8,8), (8,8), (8,8), (8,8), (8,8), (16,16), (8,8),
     (8,8), (8,8), (8,8), (8,8), (8,8), (8,8), (16,16), (8,8),
     (8,8), (8,8), (8,8), (8,8), (8,8), (8,8), (16,16), (8,8)]"

definition opcodeCyclesFor :: "u8 \<Rightarrow> nat \<times> nat" where "opcodeCyclesFor opcode = kUnprefixedOpcodeCycles ! unat opcode"
definition cbOpcodeCyclesFor :: "u8 \<Rightarrow> nat \<times> nat" where "cbOpcodeCyclesFor opcode = kCbPrefixedOpcodeCycles ! unat opcode"

section \<open>Operands\<close>

datatype R8 = R8_B | R8_C | R8_D | R8_E | R8_H | R8_L | R8_HLIndirect | R8_A
datatype R16 = R16_BC | R16_DE | R16_HL | R16_SP
datatype R16Stack = Stack_BC | Stack_DE | Stack_HL | Stack_AF
datatype Condition = Cond_NZ | Cond_Z | Cond_NC | Cond_C

definition decodeR8 :: "u8 \<Rightarrow> R8" where
  "decodeR8 regCode =
     (let r = regCode AND 0x07 in
      if r = 0 then R8_B else if r = 1 then R8_C else if r = 2 then R8_D else if r = 3 then R8_E
      else if r = 4 then R8_H else if r = 5 then R8_L else if r = 6 then R8_HLIndirect else R8_A)"

definition decodeR8Dest :: "u8 \<Rightarrow> R8" where "decodeR8Dest opcode = decodeR8 (drop_bit 3 opcode AND 0x07)"
definition decodeR8Src :: "u8 \<Rightarrow> R8" where "decodeR8Src opcode = decodeR8 opcode"

definition decodeR16 :: "u8 \<Rightarrow> R16" where
  "decodeR16 opcode =
     (let r = drop_bit 4 opcode AND 0x03 in
      if r = 0 then R16_BC else if r = 1 then R16_DE else if r = 2 then R16_HL else R16_SP)"

definition decodeR16Stack :: "u8 \<Rightarrow> R16Stack" where
  "decodeR16Stack opcode =
     (let r = drop_bit 4 opcode AND 0x03 in
      if r = 0 then Stack_BC else if r = 1 then Stack_DE else if r = 2 then Stack_HL else Stack_AF)"

definition decodeCondition :: "u8 \<Rightarrow> Condition" where
  "decodeCondition opcode =
     (let r = drop_bit 3 opcode AND 0x03 in
      if r = 0 then Cond_NZ else if r = 1 then Cond_Z else if r = 2 then Cond_NC else Cond_C)"

definition lr_read8 :: "'w gb_memory \<Rightarrow> u16 \<Rightarrow> 'w lr \<Rightarrow> u8" where
  "lr_read8 env address c = rd8 env (lr_world c) address"

definition lr_read16 :: "'w gb_memory \<Rightarrow> u16 \<Rightarrow> 'w lr \<Rightarrow> u16" where
  "lr_read16 env address c = mk16 (rd8 env (lr_world c) address) (rd8 env (lr_world c) (address + 1))"

definition lr_write8 :: "'w gb_memory \<Rightarrow> u16 \<Rightarrow> u8 \<Rightarrow> 'w lr \<Rightarrow> 'w lr" where
  "lr_write8 env address val c = c\<lparr>lr_world := wr8 env address val (lr_world c)\<rparr>"

definition lr_write16 :: "'w gb_memory \<Rightarrow> u16 \<Rightarrow> u16 \<Rightarrow> 'w lr \<Rightarrow> 'w lr" where
  "lr_write16 env address val c = lr_write8 env (address + 1) (hi val) (lr_write8 env address (lo val) c)"

abbreviation lr_flags :: "'w lr \<Rightarrow> u8" where "lr_flags c \<equiv> lo (rAF c)"
abbreviation accumulator :: "'w lr \<Rightarrow> u8" where "accumulator c \<equiv> hi (rAF c)"
abbreviation put_flags :: "u8 \<Rightarrow> 'w lr \<Rightarrow> 'w lr" where "put_flags v c \<equiv> c\<lparr>rAF := mk16 v (hi (rAF c))\<rparr>"
abbreviation put_accumulator :: "u8 \<Rightarrow> 'w lr \<Rightarrow> 'w lr" where "put_accumulator v c \<equiv> c\<lparr>rAF := mk16 (lo (rAF c)) v\<rparr>"

fun accessR16 :: "R16 \<Rightarrow> 'w lr \<Rightarrow> u16" where
  "accessR16 R16_BC c = rBC c"
| "accessR16 R16_DE c = rDE c"
| "accessR16 R16_HL c = rHL c"
| "accessR16 R16_SP c = rSP c"

fun put_R16 :: "R16 \<Rightarrow> u16 \<Rightarrow> 'w lr \<Rightarrow> 'w lr" where
  "put_R16 R16_BC v c = c\<lparr>rBC := v\<rparr>"
| "put_R16 R16_DE v c = c\<lparr>rDE := v\<rparr>"
| "put_R16 R16_HL v c = c\<lparr>rHL := v\<rparr>"
| "put_R16 R16_SP v c = c\<lparr>rSP := v\<rparr>"

fun accessStackR16 :: "R16Stack \<Rightarrow> 'w lr \<Rightarrow> u16" where
  "accessStackR16 Stack_BC c = rBC c"
| "accessStackR16 Stack_DE c = rDE c"
| "accessStackR16 Stack_HL c = rHL c"
| "accessStackR16 Stack_AF c = rAF c"

fun put_StackR16 :: "R16Stack \<Rightarrow> u16 \<Rightarrow> 'w lr \<Rightarrow> 'w lr" where
  "put_StackR16 Stack_BC v c = c\<lparr>rBC := v\<rparr>"
| "put_StackR16 Stack_DE v c = c\<lparr>rDE := v\<rparr>"
| "put_StackR16 Stack_HL v c = c\<lparr>rHL := v\<rparr>"
| "put_StackR16 Stack_AF v c = c\<lparr>rAF := v\<rparr>"

fun readR8 :: "'w gb_memory \<Rightarrow> R8 \<Rightarrow> 'w lr \<Rightarrow> u8" where
  "readR8 env R8_B c = hi (rBC c)"
| "readR8 env R8_C c = lo (rBC c)"
| "readR8 env R8_D c = hi (rDE c)"
| "readR8 env R8_E c = lo (rDE c)"
| "readR8 env R8_H c = hi (rHL c)"
| "readR8 env R8_L c = lo (rHL c)"
| "readR8 env R8_HLIndirect c = lr_read8 env (rHL c) c"
| "readR8 env R8_A c = hi (rAF c)"

fun writeR8 :: "'w gb_memory \<Rightarrow> R8 \<Rightarrow> u8 \<Rightarrow> 'w lr \<Rightarrow> 'w lr" where
  "writeR8 env R8_B v c = c\<lparr>rBC := mk16 (lo (rBC c)) v\<rparr>"
| "writeR8 env R8_C v c = c\<lparr>rBC := mk16 v (hi (rBC c))\<rparr>"
| "writeR8 env R8_D v c = c\<lparr>rDE := mk16 (lo (rDE c)) v\<rparr>"
| "writeR8 env R8_E v c = c\<lparr>rDE := mk16 v (hi (rDE c))\<rparr>"
| "writeR8 env R8_H v c = c\<lparr>rHL := mk16 (lo (rHL c)) v\<rparr>"
| "writeR8 env R8_L v c = c\<lparr>rHL := mk16 v (hi (rHL c))\<rparr>"
| "writeR8 env R8_HLIndirect v c = lr_write8 env (rHL c) v c"
| "writeR8 env R8_A v c = c\<lparr>rAF := mk16 (lo (rAF c)) v\<rparr>"

fun conditionHolds :: "Condition \<Rightarrow> 'w lr \<Rightarrow> bool" where
  "conditionHolds Cond_NZ c \<longleftrightarrow> lr_flags c AND kFlagZ = 0"
| "conditionHolds Cond_Z c \<longleftrightarrow> lr_flags c AND kFlagZ \<noteq> 0"
| "conditionHolds Cond_NC c \<longleftrightarrow> lr_flags c AND kFlagC = 0"
| "conditionHolds Cond_C c \<longleftrightarrow> lr_flags c AND kFlagC \<noteq> 0"

definition flag_byte :: "bool \<Rightarrow> bool \<Rightarrow> bool \<Rightarrow> bool \<Rightarrow> u8" where
  "flag_byte z n h f =
     (if z then kFlagZ else 0) OR (if n then kFlagN else 0) OR (if h then kFlagH else 0) OR (if f then kFlagC else 0)"

definition lr_setFlags :: "bool \<Rightarrow> bool \<Rightarrow> bool \<Rightarrow> bool \<Rightarrow> 'w lr \<Rightarrow> 'w lr" where
  "lr_setFlags z n h f c = put_flags (flag_byte z n h f) c"

definition updateControlFlowPc :: "u16 \<Rightarrow> u16 \<Rightarrow> 'w lr \<Rightarrow> 'w lr" where
  "updateControlFlowPc target instructionLength c = c\<lparr>rPC := target - instructionLength\<rparr>"

definition gb_pop16 :: "'w gb_memory \<Rightarrow> 'w lr \<Rightarrow> u16 \<times> 'w lr" where
  "gb_pop16 env c = (lr_read16 env (rSP c) c, c\<lparr>rSP := rSP c + 2\<rparr>)"

definition gb_push16 :: "'w gb_memory \<Rightarrow> u16 \<Rightarrow> 'w lr \<Rightarrow> 'w lr" where
  "gb_push16 env val c = (let c = c\<lparr>rSP := rSP c - 2\<rparr> in lr_write16 env (rSP c) val c)"

section \<open>Classes of opcodes\<close>

definition isControlFlowOpcode :: "u8 \<Rightarrow> bool" where
  "isControlFlowOpcode opcode \<longleftrightarrow>
     opcode \<in> {0x18, 0x20, 0x28, 0x30, 0x38, 0xC0, 0xC2, 0xC3, 0xC4, 0xC7, 0xC8, 0xC9, 0xCA, 0xCC, 0xCD, 0xCF,
               0xD0, 0xD2, 0xD4, 0xD7, 0xD8, 0xD9, 0xDA, 0xDC, 0xDF, 0xE7, 0xE9, 0xEF, 0xF7, 0xFF}"

definition isUndefinedOpcode :: "u8 \<Rightarrow> bool" where
  "isUndefinedOpcode opcode \<longleftrightarrow> opcode \<in> {0xD3, 0xDB, 0xDD, 0xE3, 0xE4, 0xEB, 0xEC, 0xED, 0xF4, 0xFC, 0xFD}"

definition supportsFastOpcode :: "u8 \<Rightarrow> bool" where
  "supportsFastOpcode opcode \<longleftrightarrow>
     (opcode \<ge> 0x40 \<and> opcode \<le> 0x7F) \<or> (opcode \<ge> 0x80 \<and> opcode \<le> 0xBF) \<or>
     opcode AND 0xC7 = 0x04 \<or> opcode AND 0xC7 = 0x05 \<or> opcode AND 0xC7 = 0x06 \<or>
     opcode \<in> {0x00, 0x01, 0x02, 0x03, 0x07, 0x08, 0x09, 0x0A, 0x0B, 0x0F, 0x10, 0x11, 0x12, 0x13, 0x17, 0x18, 0x19, 0x1A,
               0x1B, 0x1F, 0x20, 0x21, 0x22, 0x23, 0x27, 0x28, 0x29, 0x2A, 0x2B, 0x2F, 0x30, 0x31, 0x32, 0x33, 0x37, 0x38,
               0x39, 0x3A, 0x3B, 0x3F, 0xC0, 0xC1, 0xC2, 0xC3, 0xC4, 0xC5, 0xC6, 0xC7, 0xC8, 0xC9, 0xCA, 0xCC, 0xCD, 0xCE,
               0xCF, 0xD0, 0xD1, 0xD2, 0xD4, 0xD5, 0xD6, 0xD7, 0xD8, 0xD9, 0xDA, 0xDC, 0xDE, 0xDF, 0xE0, 0xE1, 0xE2, 0xE5,
               0xE6, 0xE7, 0xE8, 0xE9, 0xEA, 0xEE, 0xEF, 0xF0, 0xF1, 0xF2, 0xF3, 0xF5, 0xF6, 0xF7, 0xF8, 0xF9, 0xFA, 0xFB,
               0xFE, 0xFF}"

section \<open>CPU flags outside the registers\<close>

definition setIme :: "bool \<Rightarrow> 'w lr \<Rightarrow> 'w lr" where
  "setIme enabled c = c\<lparr>ime := enabled, imeEnablePending := False, imeEnableDelay := 0\<rparr>"

definition scheduleImeEnable :: "'w lr \<Rightarrow> 'w lr" where
  "scheduleImeEnable c = c\<lparr>imeEnablePending := True, imeEnableDelay := 1\<rparr>"

definition setStopFlag :: "bool \<Rightarrow> 'w lr \<Rightarrow> 'w lr" where
  "setStopFlag f c = (let c = c\<lparr>stopFlag := f\<rparr> in if f then c else c\<lparr>illegalOpcodeLockup := False\<rparr>)"

definition setHaltFlag :: "bool \<Rightarrow> 'w lr \<Rightarrow> 'w lr" where "setHaltFlag f c = c\<lparr>haltFlag := f\<rparr>"
definition lockUpOnInvalidOpcode :: "'w lr \<Rightarrow> 'w lr" where "lockUpOnInvalidOpcode c = c\<lparr>illegalOpcodeLockup := True\<rparr>"

section \<open>The canonical steps\<close>

definition gb_executeCbOpcode :: "'w gb_memory \<Rightarrow> u8 \<Rightarrow> 'w lr \<Rightarrow> 'w lr" where
  "gb_executeCbOpcode env opcode c =
     (let reg = decodeR8 opcode; old = readR8 env reg c; carryIn = (lr_flags c AND kFlagC \<noteq> 0);
          k = unat (drop_bit 3 opcode AND 0x07); group' = drop_bit 6 opcode
      in if group' = 0 then
           (let (v, f) =
              (if k = 0 then (push_bit 1 old OR drop_bit 7 old, old AND 0x80 \<noteq> 0)
               else if k = 1 then (drop_bit 1 old OR push_bit 7 old, old AND 0x01 \<noteq> 0)
               else if k = 2 then (push_bit 1 old OR (if carryIn then 1 else 0), old AND 0x80 \<noteq> 0)
               else if k = 3 then (drop_bit 1 old OR (if carryIn then 0x80 else 0), old AND 0x01 \<noteq> 0)
               else if k = 4 then (push_bit 1 old, old AND 0x80 \<noteq> 0)
               else if k = 5 then (drop_bit 1 old OR (old AND 0x80), old AND 0x01 \<noteq> 0)
               else if k = 6 then (drop_bit 4 old OR push_bit 4 old, False)
               else (drop_bit 1 old, old AND 0x01 \<noteq> 0))
            in writeR8 env reg v (lr_setFlags (v = 0) False False f c))
         else if group' = 1 then lr_setFlags (old AND push_bit k 1 = 0) False True (lr_flags c AND kFlagC \<noteq> 0) c
         else if group' = 2 then writeR8 env reg (old AND NOT (push_bit k 1)) c
         else writeR8 env reg (old OR push_bit k 1) c)"

definition math_step :: "u8 \<Rightarrow> u8 \<Rightarrow> 'w lr \<Rightarrow> 'w lr" where
  "math_step code rhs c =
     (let lhs = accumulator c; carryIn = (if lr_flags c AND kFlagC \<noteq> 0 then 1 else 0 :: nat);
          k = drop_bit 3 code AND 0x07;
          finish = (\<lambda>result n h f. lr_setFlags (result = 0) n h f (put_accumulator result c))
      in if k = 0 then
           finish (lhs + rhs) False (unat (lhs AND 0x0F) + unat (rhs AND 0x0F) > 0x0F) (unat lhs + unat rhs > 0xFF)
         else if k = 1 then
           finish (of_nat (unat lhs + unat rhs + carryIn)) False (unat (lhs AND 0x0F) + unat (rhs AND 0x0F) + carryIn > 0x0F)
             (unat lhs + unat rhs + carryIn > 0xFF)
         else if k = 2 then finish (lhs - rhs) True (lhs AND 0x0F < rhs AND 0x0F) (lhs < rhs)
         else if k = 3 then
           finish (lhs - of_nat (unat rhs + carryIn)) True (unat (lhs AND 0x0F) < unat (rhs AND 0x0F) + carryIn)
             (unat lhs < unat rhs + carryIn)
         else if k = 4 then finish (lhs AND rhs) False True False
         else if k = 5 then finish (lhs XOR rhs) False False False
         else if k = 6 then finish (lhs OR rhs) False False False
         else lr_setFlags (lhs = rhs) True (lhs AND 0x0F < rhs AND 0x0F) (lhs < rhs) c)"

definition rotate_accumulator :: "u8 \<Rightarrow> 'w lr \<Rightarrow> 'w lr" where
  "rotate_accumulator code c =
     (let a = accumulator c; carryIn = (lr_flags c AND kFlagC \<noteq> 0); k = drop_bit 3 code AND 0x03 in
      if k = 0 then lr_setFlags False False False (a AND 0x80 \<noteq> 0) (put_accumulator (push_bit 1 a OR drop_bit 7 a) c)
      else if k = 1 then lr_setFlags False False False (a AND 0x01 \<noteq> 0) (put_accumulator (drop_bit 1 a OR push_bit 7 a) c)
      else if k = 2 then
        lr_setFlags False False False (a AND 0x80 \<noteq> 0) (put_accumulator (push_bit 1 a OR (if carryIn then 1 else 0)) c)
      else lr_setFlags False False False (a AND 0x01 \<noteq> 0) (put_accumulator (drop_bit 1 a OR (if carryIn then 0x80 else 0)) c))"

definition lr_daa :: "'w lr \<Rightarrow> 'w lr" where
  "lr_daa c =
     (let a = accumulator c; f = lr_flags c; n = (f AND kFlagN \<noteq> 0); h = (f AND kFlagH \<noteq> 0); carry = (f AND kFlagC \<noteq> 0);
          low = (if n then h else h \<or> a AND 0x0F > 0x09); high = (if n then carry else carry \<or> a > 0x99);
          adjust = (if low then 0x06 else 0) OR (if high then 0x60 else 0);
          a = (if n then a - adjust else a + adjust)
      in put_flags ((if a = 0 then kFlagZ else 0) OR (if n then kFlagN else 0) OR
                    (if (if n then carry else high) then kFlagC else 0)) (put_accumulator a c))"

definition gb_add_hl :: "u16 \<Rightarrow> 'w lr \<Rightarrow> 'w lr" where
  "gb_add_hl rhs c =
     (let lhs = rHL c; z = (lr_flags c AND kFlagZ \<noteq> 0)
      in (lr_setFlags z False (unat (lhs AND 0x0FFF) + unat (rhs AND 0x0FFF) > 0x0FFF) (unat lhs + unat rhs > 0xFFFF) c)
         \<lparr>rHL := lhs + rhs\<rparr>)"

text \<open>The flags of \<open>ADD SP,e\<close> and \<open>LD HL,SP+e\<close>.\<close>

definition offset_flags :: "u8 \<Rightarrow> 'w lr \<Rightarrow> 'w lr" where
  "offset_flags imm c =
     (let low = lo (rSP c)
      in lr_setFlags False False (unat (low AND 0x0F) + unat (imm AND 0x0F) > 0x0F) (unat low + unat imm > 0xFF) c)"

definition jump_relative :: "u8 \<Rightarrow> 'w lr \<Rightarrow> 'w lr" where
  "jump_relative offset c = updateControlFlowPc (rPC c + 2 + scast offset) 2 c"

text \<open>\<open>LD (BC),A\<close> to \<open>LD A,(HL-)\<close>.\<close>

definition indirect_step :: "'w gb_memory \<Rightarrow> u8 \<Rightarrow> 'w lr \<Rightarrow> 'w lr" where
  "indirect_step env code c =
     (let address = (if code = 0x02 \<or> code = 0x0A then rBC c else if code = 0x12 \<or> code = 0x1A then rDE c else rHL c);
          c = (if code AND 0x08 = 0 then lr_write8 env address (accumulator c) c
               else put_accumulator (lr_read8 env address c) c)
      in if code = 0x22 \<or> code = 0x2A then c\<lparr>rHL := rHL c + 1\<rparr>
         else if code = 0x32 \<or> code = 0x3A then c\<lparr>rHL := rHL c - 1\<rparr>
         else c)"

definition inc_step :: "'w gb_memory \<Rightarrow> R8 \<Rightarrow> 'w lr \<Rightarrow> 'w lr" where
  "inc_step env reg c =
     (let old = readR8 env reg c; c = writeR8 env reg (old + 1) c
      in lr_setFlags (old + 1 = 0) False (unat (old AND 0x0F) + 1 > 0x0F) (lr_flags c AND kFlagC \<noteq> 0) c)"

definition dec_step :: "'w gb_memory \<Rightarrow> R8 \<Rightarrow> 'w lr \<Rightarrow> 'w lr" where
  "dec_step env reg c =
     (let old = readR8 env reg c; c = writeR8 env reg (old - 1) c
      in lr_setFlags (old - 1 = 0) True (old AND 0x0F = 0) (lr_flags c AND kFlagC \<noteq> 0) c)"

text \<open>The table of instructions: what the step of an entry does, given the bytes of the instruction.\<close>

definition high_memory_step :: "'w gb_memory \<Rightarrow> u8 list \<Rightarrow> 'w lr \<Rightarrow> 'w lr" where
  "high_memory_step env code c =
     (let opcode = code ! 0 in
      if opcode = 0xE0 then lr_write8 env (0xFF00 + ucast (code ! 1)) (accumulator c) c
      else if opcode = 0xF0 then put_accumulator (lr_read8 env (0xFF00 + ucast (code ! 1)) c) c
      else if opcode = 0xE2 then lr_write8 env (0xFF00 + ucast (lo (rBC c))) (accumulator c) c
      else if opcode = 0xF2 then put_accumulator (lr_read8 env (0xFF00 + ucast (lo (rBC c))) c) c
      else if opcode = 0xE8 then (let result = rSP c + scast (code ! 1) in (offset_flags (code ! 1) c)\<lparr>rSP := result\<rparr>)
      else if opcode = 0xF8 then (let result = rSP c + scast (code ! 1) in (offset_flags (code ! 1) c)\<lparr>rHL := result\<rparr>)
      else if opcode = 0xF9 then c\<lparr>rSP := rHL c\<rparr>
      else if opcode = 0xEA then lr_write8 env (mk16 (code ! 1) (code ! 2)) (accumulator c) c
      else if opcode = 0xFA then put_accumulator (lr_read8 env (mk16 (code ! 1) (code ! 2)) c) c
      else if opcode = 0xF3 then setIme False c
      else if opcode = 0xFB then scheduleImeEnable c
      else lockUpOnInvalidOpcode c)"

definition flow_step :: "'w gb_memory \<Rightarrow> u8 list \<Rightarrow> 'w lr \<Rightarrow> 'w lr" where
  "flow_step env code c =
     (let opcode = code ! 0 in
      if opcode \<in> {0xC6, 0xCE, 0xD6, 0xDE, 0xE6, 0xEE, 0xF6, 0xFE} then math_step opcode (code ! 1) c
      else if opcode \<in> {0xC0, 0xC8, 0xD0, 0xD8} then
        (if conditionHolds (decodeCondition opcode) c
         then (let (target, c) = gb_pop16 env c in updateControlFlowPc target 1 c) else c)
      else if opcode = 0xC9 then (let (target, c) = gb_pop16 env c in updateControlFlowPc target 1 c)
      else if opcode = 0xD9 then (let (target, c) = gb_pop16 env c in setIme True (updateControlFlowPc target 1 c))
      else if opcode \<in> {0xC1, 0xD1, 0xE1, 0xF1} then
        (let target = decodeR16Stack opcode; (val, c) = gb_pop16 env c
         in put_StackR16 target (if target = Stack_AF then val AND 0xFFF0 else val) c)
      else if opcode \<in> {0xC5, 0xD5, 0xE5, 0xF5} then gb_push16 env (accessStackR16 (decodeR16Stack opcode) c) c
      else if opcode \<in> {0xC2, 0xCA, 0xD2, 0xDA} then
        (if conditionHolds (decodeCondition opcode) c then updateControlFlowPc (mk16 (code ! 1) (code ! 2)) 3 c else c)
      else if opcode = 0xC3 then updateControlFlowPc (mk16 (code ! 1) (code ! 2)) 3 c
      else if opcode = 0xE9 then updateControlFlowPc (rHL c) 1 c
      else if opcode \<in> {0xC4, 0xCC, 0xD4, 0xDC} then
        (if conditionHolds (decodeCondition opcode) c
         then updateControlFlowPc (mk16 (code ! 1) (code ! 2)) 3 (gb_push16 env (rPC c + 3) c) else c)
      else if opcode = 0xCD then updateControlFlowPc (mk16 (code ! 1) (code ! 2)) 3 (gb_push16 env (rPC c + 3) c)
      else if opcode \<in> {0xC7, 0xCF, 0xD7, 0xDF, 0xE7, 0xEF, 0xF7, 0xFF} then
        updateControlFlowPc (ucast (opcode AND 0x38)) 1 (gb_push16 env (rPC c + 1) c)
      else if opcode = 0xCB then gb_executeCbOpcode env (code ! 1) c
      else high_memory_step env code c)"

definition opcode_step :: "'w gb_memory \<Rightarrow> u8 list \<Rightarrow> 'w lr \<Rightarrow> 'w lr" where
  "opcode_step env code c =
     (let opcode = code ! 0 in
      if opcode = 0x00 then c
      else if opcode = 0x10 then setStopFlag True c
      else if opcode = 0x76 then setHaltFlag True c
      else if opcode \<in> {0x01, 0x11, 0x21, 0x31} then put_R16 (decodeR16 opcode) (mk16 (code ! 1) (code ! 2)) c
      else if opcode \<in> {0x03, 0x13, 0x23, 0x33} then put_R16 (decodeR16 opcode) (accessR16 (decodeR16 opcode) c + 1) c
      else if opcode \<in> {0x0B, 0x1B, 0x2B, 0x3B} then put_R16 (decodeR16 opcode) (accessR16 (decodeR16 opcode) c - 1) c
      else if opcode = 0x08 then lr_write16 env (mk16 (code ! 1) (code ! 2)) (rSP c) c
      else if opcode \<in> {0x09, 0x19, 0x29, 0x39} then gb_add_hl (accessR16 (decodeR16 opcode) c) c
      else if opcode \<in> {0x04, 0x0C, 0x14, 0x1C, 0x24, 0x2C, 0x34, 0x3C} then inc_step env (decodeR8Dest opcode) c
      else if opcode \<in> {0x05, 0x0D, 0x15, 0x1D, 0x25, 0x2D, 0x35, 0x3D} then dec_step env (decodeR8Dest opcode) c
      else if opcode \<in> {0x06, 0x0E, 0x16, 0x1E, 0x26, 0x2E, 0x36, 0x3E} then writeR8 env (decodeR8Dest opcode) (code ! 1) c
      else if opcode \<in> {0x07, 0x0F, 0x17, 0x1F} then rotate_accumulator opcode c
      else if opcode = 0x27 then lr_daa c
      else if opcode = 0x2F then
        (let c = put_accumulator (NOT (accumulator c)) c
         in put_flags ((lr_flags c AND (kFlagZ OR kFlagC)) OR kFlagN OR kFlagH) c)
      else if opcode = 0x37 then put_flags ((lr_flags c AND kFlagZ) OR kFlagC) c
      else if opcode = 0x3F then
        put_flags ((lr_flags c AND kFlagZ) OR (if lr_flags c AND kFlagC = 0 then kFlagC else 0)) c
      else if opcode = 0x18 then jump_relative (code ! 1) c
      else if opcode \<in> {0x20, 0x28, 0x30, 0x38} then
        (if conditionHolds (decodeCondition opcode) c then jump_relative (code ! 1) c else c)
      else if opcode \<ge> 0x40 \<and> opcode \<le> 0x7F then
        writeR8 env (decodeR8Dest opcode) (readR8 env (decodeR8Src opcode) c) c
      else if opcode \<in> {0x02, 0x12, 0x22, 0x32, 0x0A, 0x1A, 0x2A, 0x3A} then indirect_step env opcode c
      else if opcode \<ge> 0x80 \<and> opcode \<le> 0xBF then math_step opcode (readR8 env (decodeR8Src opcode) c) c
      else flow_step env code c)"

definition opcode_length :: "u8 \<Rightarrow> nat" where
  "opcode_length opcode =
     (if opcode \<in> {0x01, 0x11, 0x21, 0x31, 0x08, 0xC2, 0xCA, 0xD2, 0xDA, 0xC3, 0xC4, 0xCC, 0xD4, 0xDC, 0xCD, 0xEA, 0xFA} then 3
      else if opcode \<in> {0x10, 0x06, 0x0E, 0x16, 0x1E, 0x26, 0x2E, 0x36, 0x3E, 0x18, 0x20, 0x28, 0x30, 0x38,
                        0xC6, 0xCE, 0xD6, 0xDE, 0xE6, 0xEE, 0xF6, 0xFE, 0xCB, 0xE0, 0xF0, 0xE8, 0xF8} then 2
      else 1)"

text \<open>Cycles not taken and taken; prefixed instructions have their own table.\<close>

definition gb_opcode_cycles :: "u8 list \<Rightarrow> nat \<times> nat" where
  "gb_opcode_cycles code = (if code ! 0 = 0xCB then cbOpcodeCyclesFor (code ! 1) else opcodeCyclesFor (code ! 0))"

section \<open>Execution\<close>

text \<open>Decoding the bytes of one fetch and running the steps. The fetch gives the bytes of one instruction or
  none. The cycles retired are left in the feedback.\<close>

definition execute_steps :: "'w gb_memory \<Rightarrow> u8 list \<Rightarrow> 'w lr \<Rightarrow> 'w lr" where
  "execute_steps env code c =
     (let before = rPC c; n = length code;
          flow = (code \<noteq> [] \<and> isControlFlowOpcode (code ! 0));
          cycles = (if code = [] then (0, 0) else gb_opcode_cycles code);
          c = (if code = [] then c else opcode_step env code c);
          advance = (if haltBugPcAdjustPending c \<and> n > 0 then n - 1 else n);
          c = c\<lparr>haltBugPcAdjustPending := False, rPC := rPC c + of_nat advance\<rparr>;
          charged = pendingCycleCharge c;
          retired = (if charged \<noteq> 0 then charged
                     else if n = 0 \<and> (haltFlag c \<or> stopFlag c \<or> illegalOpcodeLockup c \<or> dmaActive c) then 4
                     else if rPC c \<noteq> before + of_nat n then snd cycles else fst cycles)
      in c\<lparr>pendingCycleCharge := 0,
           feedback := \<lparr>segmentBoundaryHint = flow, isControlFlow = flow, pcBefore = ucast before, pcAfter = ucast (rPC c),
                        retiredCycles = of_nat retired, executionPath = CanonicalFetchDecodeExecute\<rparr>\<rparr>)"

section \<open>The fast path\<close>

definition cachedReadR8 :: "'w gb_memory \<Rightarrow> u8 \<Rightarrow> 'w lr \<Rightarrow> u8" where
  "cachedReadR8 env regCode c =
     (let r = regCode AND 0x07 in
      if r = 0 then hi (rBC c) else if r = 1 then lo (rBC c) else if r = 2 then hi (rDE c) else if r = 3 then lo (rDE c)
      else if r = 4 then hi (rHL c) else if r = 5 then lo (rHL c) else if r = 6 then lr_read8 env (rHL c) c
      else hi (rAF c))"

definition cachedWriteR8 :: "'w gb_memory \<Rightarrow> u8 \<Rightarrow> u8 \<Rightarrow> 'w lr \<Rightarrow> 'w lr" where
  "cachedWriteR8 env regCode v c =
     (let r = regCode AND 0x07 in
      if r = 0 then c\<lparr>rBC := mk16 (lo (rBC c)) v\<rparr> else if r = 1 then c\<lparr>rBC := mk16 v (hi (rBC c))\<rparr>
      else if r = 2 then c\<lparr>rDE := mk16 (lo (rDE c)) v\<rparr> else if r = 3 then c\<lparr>rDE := mk16 v (hi (rDE c))\<rparr>
      else if r = 4 then c\<lparr>rHL := mk16 (lo (rHL c)) v\<rparr> else if r = 5 then c\<lparr>rHL := mk16 v (hi (rHL c))\<rparr>
      else if r = 6 then lr_write8 env (rHL c) v c
      else put_accumulator v c)"

definition cachedR16 :: "u8 \<Rightarrow> 'w lr \<Rightarrow> u16" where
  "cachedR16 regCode c =
     (let r = regCode AND 0x03 in if r = 0 then rBC c else if r = 1 then rDE c else if r = 2 then rHL c else rSP c)"

definition put_cachedR16 :: "u8 \<Rightarrow> u16 \<Rightarrow> 'w lr \<Rightarrow> 'w lr" where
  "put_cachedR16 regCode v c =
     (let r = regCode AND 0x03 in
      if r = 0 then c\<lparr>rBC := v\<rparr> else if r = 1 then c\<lparr>rDE := v\<rparr> else if r = 2 then c\<lparr>rHL := v\<rparr> else c\<lparr>rSP := v\<rparr>)"

definition cachedStackR16 :: "u8 \<Rightarrow> 'w lr \<Rightarrow> u16" where
  "cachedStackR16 regCode c =
     (let r = regCode AND 0x03 in if r = 0 then rBC c else if r = 1 then rDE c else if r = 2 then rHL c else rAF c)"

definition put_cachedStackR16 :: "u8 \<Rightarrow> u16 \<Rightarrow> 'w lr \<Rightarrow> 'w lr" where
  "put_cachedStackR16 regCode v c =
     (let r = regCode AND 0x03 in
      if r = 0 then c\<lparr>rBC := v\<rparr> else if r = 1 then c\<lparr>rDE := v\<rparr> else if r = 2 then c\<lparr>rHL := v\<rparr> else c\<lparr>rAF := v\<rparr>)"

definition cachedConditionHolds :: "u8 \<Rightarrow> 'w lr \<Rightarrow> bool" where
  "cachedConditionHolds conditionCode c =
     (let k = conditionCode AND 0x03; f = lr_flags c in
      if k = 0 then f AND kFlagZ = 0 else if k = 1 then f AND kFlagZ \<noteq> 0
      else if k = 2 then f AND kFlagC = 0 else f AND kFlagC \<noteq> 0)"

definition cachedPush16 :: "'w gb_memory \<Rightarrow> u16 \<Rightarrow> 'w lr \<Rightarrow> 'w lr" where
  "cachedPush16 env val c =
     (let c = c\<lparr>rSP := rSP c - 2\<rparr>; c' = lr_write8 env (rSP c) (lo val) c in lr_write8 env (rSP c + 1) (hi val) c')"

definition cachedPop16 :: "'w gb_memory \<Rightarrow> 'w lr \<Rightarrow> u16 \<times> 'w lr" where
  "cachedPop16 env c = (let v = lr_read16 env (rSP c) c in (v, c\<lparr>rSP := rSP c + 2\<rparr>))"

definition executeMathOp :: "u8 \<Rightarrow> u8 \<Rightarrow> 'w lr \<Rightarrow> 'w lr" where
  "executeMathOp code rhs c =
     (let lhs = accumulator c; carryIn = (lr_flags c AND kFlagC \<noteq> 0); k = drop_bit 3 code AND 0x07; one = (if carryIn then 1 else 0)
      in if k = 7 then lr_setFlags (lhs = rhs) True (lhs AND 0x0F < rhs AND 0x0F) (lhs < rhs) c
         else
           (let (result, n, h, f) =
              (if k = 0 then (lhs + rhs, False, unat (lhs AND 0x0F) + unat (rhs AND 0x0F) > 0x0F, unat lhs + unat rhs > 0xFF)
               else if k = 1 then
                 (of_nat (unat lhs + unat rhs + one), False, unat (lhs AND 0x0F) + unat (rhs AND 0x0F) + one > 0x0F,
                  unat lhs + unat rhs + one > 0xFF)
               else if k = 2 then (lhs - rhs, True, lhs AND 0x0F < rhs AND 0x0F, lhs < rhs)
               else if k = 3 then
                 (let subtrahend = unat rhs + one
                  in (lhs - of_nat subtrahend, True, unat (lhs AND 0x0F) < unat (rhs AND 0x0F) + one, unat lhs < subtrahend))
               else if k = 4 then (lhs AND rhs, False, True, False)
               else if k = 5 then (lhs XOR rhs, False, False, False)
               else (lhs OR rhs, False, False, False))
            in lr_setFlags (result = 0) n h f (put_accumulator result c)))"

text \<open>The instruction itself with the byte count given to \<open>finalizeFast\<close>; \<open>None\<close> when the fast path declines.\<close>

definition fast_rest :: "'w gb_memory \<Rightarrow> u8 list \<Rightarrow> 'w lr \<Rightarrow> (nat \<times> 'w lr) option" where
  "fast_rest env code c =
     (let opcode = code ! 0; before = rPC c; r4 = drop_bit 4 opcode AND 0x03; r3 = drop_bit 3 opcode AND 0x07;
          cond = drop_bit 3 opcode AND 0x03
      in if opcode \<in> {0x07, 0x0F, 0x17, 0x1F} then
           Some (1, let a = accumulator c; carryIn = (lr_flags c AND kFlagC \<noteq> 0) in
                    if cond = 0 then lr_setFlags False False False (a AND 0x80 \<noteq> 0) (put_accumulator (push_bit 1 a OR drop_bit 7 a) c)
                    else if cond = 1 then
                      lr_setFlags False False False (a AND 0x01 \<noteq> 0) (put_accumulator (drop_bit 1 a OR push_bit 7 a) c)
                    else if cond = 2 then
                      lr_setFlags False False False (a AND 0x80 \<noteq> 0)
                        (put_accumulator (push_bit 1 a OR (if carryIn then 1 else 0)) c)
                    else lr_setFlags False False False (a AND 0x01 \<noteq> 0)
                           (put_accumulator (drop_bit 1 a OR (if carryIn then 0x80 else 0)) c))
         else if opcode = 0x27 then
           Some (1, let a = accumulator c; f = lr_flags c; n = (f AND kFlagN \<noteq> 0); h = (f AND kFlagH \<noteq> 0);
                        carry = (f AND kFlagC \<noteq> 0);
                        (a, carry) =
                          (if \<not> n then
                             (let six = (if h \<or> a AND 0x0F > 0x09 then 0x06 else 0); (sixty, carry) = (if carry \<or> a > 0x99 then (0x60, True) else (0, carry))
                              in (a + (six OR sixty), carry))
                           else (a - ((if h then 0x06 else 0) OR (if carry then 0x60 else 0)), carry))
                    in put_flags ((if a = 0 then kFlagZ else 0) OR (if n then kFlagN else 0) OR (if carry then kFlagC else 0))
                         (put_accumulator a c))
         else if opcode = 0x2F then
           Some (1, let c = put_accumulator (NOT (accumulator c)) c
                    in put_flags ((lr_flags c AND (kFlagZ OR kFlagC)) OR kFlagN OR kFlagH) c)
         else if opcode = 0x37 then Some (1, put_flags ((lr_flags c AND kFlagZ) OR kFlagC) c)
         else if opcode = 0x3F then
           Some (1, let carry = (lr_flags c AND kFlagC = 0); c = put_flags (lr_flags c AND kFlagZ) c
                    in if carry then put_flags (lr_flags c OR kFlagC) c else c)
         else if opcode \<in> {0xC6, 0xCE, 0xD6, 0xDE, 0xE6, 0xEE, 0xF6, 0xFE} then Some (2, executeMathOp opcode (code ! 1) c)
         else if opcode \<in> {0xC7, 0xCF, 0xD7, 0xDF, 0xE7, 0xEF, 0xF7, 0xFF} then
           Some (1, (cachedPush16 env (before + 1) c)\<lparr>rPC := ucast (opcode AND 0x38) - 1\<rparr>)
         else if opcode AND 0xC7 = 0x04 then
           Some (1, let old = cachedReadR8 env r3 c; c = cachedWriteR8 env r3 (old + 1) c
                    in lr_setFlags (old + 1 = 0) False (unat (old AND 0x0F) + 1 > 0x0F) (lr_flags c AND kFlagC \<noteq> 0) c)
         else if opcode AND 0xC7 = 0x05 then
           Some (1, let old = cachedReadR8 env r3 c; c = cachedWriteR8 env r3 (old - 1) c
                    in lr_setFlags (old - 1 = 0) True (old AND 0x0F = 0) (lr_flags c AND kFlagC \<noteq> 0) c)
         else if opcode AND 0xC7 = 0x06 then Some (2, cachedWriteR8 env r3 (code ! 1) c)
         else if opcode \<in> {0x02, 0x12, 0x22, 0x32, 0x0A, 0x1A, 0x2A, 0x3A} then
           Some (1, let address = (if opcode = 0x02 \<or> opcode = 0x0A then rBC c else if opcode = 0x12 \<or> opcode = 0x1A then rDE c else rHL c);
                        c = (if opcode AND 0x08 = 0 then lr_write8 env address (accumulator c) c
                             else put_accumulator (lr_read8 env address c) c)
                    in if opcode = 0x22 \<or> opcode = 0x2A then c\<lparr>rHL := rHL c + 1\<rparr>
                       else if opcode = 0x32 \<or> opcode = 0x3A then c\<lparr>rHL := rHL c - 1\<rparr>
                       else c)
         else None)"

definition fast_high :: "'w gb_memory \<Rightarrow> u8 list \<Rightarrow> 'w lr \<Rightarrow> (nat \<times> 'w lr) option" where
  "fast_high env code c =
     (let opcode = code ! 0; before = rPC c; r4 = drop_bit 4 opcode AND 0x03; r3 = drop_bit 3 opcode AND 0x07;
          cond = drop_bit 3 opcode AND 0x03
      in if opcode = 0xE0 then Some (2, lr_write8 env (0xFF00 + ucast (code ! 1)) (accumulator c) c)
         else if opcode = 0xF0 then Some (2, put_accumulator (lr_read8 env (0xFF00 + ucast (code ! 1)) c) c)
         else if opcode = 0xE2 then Some (1, lr_write8 env (0xFF00 + ucast (lo (rBC c))) (accumulator c) c)
         else if opcode = 0xF2 then Some (1, put_accumulator (lr_read8 env (0xFF00 + ucast (lo (rBC c))) c) c)
         else if opcode = 0xE8 then
           Some (2, let original = rSP c; low = lo original; imm = code ! 1; c = c\<lparr>rSP := original + scast imm\<rparr>
                    in lr_setFlags False False (unat (low AND 0x0F) + unat (imm AND 0x0F) > 0x0F) (unat low + unat imm > 0xFF) c)
         else if opcode = 0xF8 then
           Some (2, let low = lo (rSP c); imm = code ! 1; c = c\<lparr>rHL := rSP c + scast imm\<rparr>
                    in lr_setFlags False False (unat (low AND 0x0F) + unat (imm AND 0x0F) > 0x0F) (unat low + unat imm > 0xFF) c)
         else if opcode = 0xF9 then Some (1, c\<lparr>rSP := rHL c\<rparr>)
         else if opcode = 0xEA then Some (3, lr_write8 env (mk16 (code ! 1) (code ! 2)) (accumulator c) c)
         else if opcode = 0xFA then Some (3, put_accumulator (lr_read8 env (mk16 (code ! 1) (code ! 2)) c) c)
         else if opcode = 0xF3 then Some (1, setIme False c)
         else if opcode = 0xFB then Some (1, scheduleImeEnable c)
         else fast_rest env code c)"

definition fast_flow :: "'w gb_memory \<Rightarrow> u8 list \<Rightarrow> 'w lr \<Rightarrow> (nat \<times> 'w lr) option" where
  "fast_flow env code c =
     (let opcode = code ! 0; before = rPC c; r4 = drop_bit 4 opcode AND 0x03; r3 = drop_bit 3 opcode AND 0x07;
          cond = drop_bit 3 opcode AND 0x03
      in if opcode = 0x18 then Some (2, c\<lparr>rPC := before + 2 + scast (code ! 1) - 2\<rparr>)
         else if opcode \<in> {0x20, 0x28, 0x30, 0x38} then
           Some (2, if cachedConditionHolds cond c then c\<lparr>rPC := before + 2 + scast (code ! 1) - 2\<rparr> else c)
         else if opcode = 0xC3 then Some (3, c\<lparr>rPC := mk16 (code ! 1) (code ! 2) - 3\<rparr>)
         else if opcode \<in> {0xC2, 0xCA, 0xD2, 0xDA} then
           Some (3, if cachedConditionHolds cond c then c\<lparr>rPC := mk16 (code ! 1) (code ! 2) - 3\<rparr> else c)
         else if opcode = 0xC9 then Some (1, let (v, c) = cachedPop16 env c in c\<lparr>rPC := v - 1\<rparr>)
         else if opcode = 0xD9 then Some (1, let (v, c) = cachedPop16 env c in setIme True (c\<lparr>rPC := v - 1\<rparr>))
         else if opcode \<in> {0xC0, 0xC8, 0xD0, 0xD8} then
           Some (1, if cachedConditionHolds cond c then (let (v, c) = cachedPop16 env c in c\<lparr>rPC := v - 1\<rparr>) else c)
         else if opcode = 0xCD then Some (3, (cachedPush16 env (before + 3) c)\<lparr>rPC := mk16 (code ! 1) (code ! 2) - 3\<rparr>)
         else if opcode \<in> {0xC4, 0xCC, 0xD4, 0xDC} then
           Some (3, if cachedConditionHolds cond c
                    then (cachedPush16 env (before + 3) c)\<lparr>rPC := mk16 (code ! 1) (code ! 2) - 3\<rparr> else c)
         else if opcode \<in> {0xC1, 0xD1, 0xE1, 0xF1} then
           Some (1, let (v, c) = cachedPop16 env c in put_cachedStackR16 r4 (if r4 = 3 then v AND 0xFFF0 else v) c)
         else if opcode \<in> {0xC5, 0xD5, 0xE5, 0xF5} then Some (1, cachedPush16 env (cachedStackR16 r4 c) c)
         else if opcode = 0xE9 then Some (1, c\<lparr>rPC := rHL c - 1\<rparr>)
         else fast_high env code c)"

definition fast_body :: "'w gb_memory \<Rightarrow> u8 list \<Rightarrow> 'w lr \<Rightarrow> (nat \<times> 'w lr) option" where
  "fast_body env code c =
     (let opcode = code ! 0; before = rPC c; r4 = drop_bit 4 opcode AND 0x03; r3 = drop_bit 3 opcode AND 0x07;
          cond = drop_bit 3 opcode AND 0x03
      in if opcode \<ge> 0x40 \<and> opcode \<le> 0x7F \<and> opcode \<noteq> 0x76 then
           Some (1, cachedWriteR8 env r3 (cachedReadR8 env (opcode AND 0x07) c) c)
         else if opcode \<ge> 0x80 \<and> opcode \<le> 0xBF then Some (1, executeMathOp opcode (cachedReadR8 env (opcode AND 0x07) c) c)
         else if opcode = 0x00 then Some (1, c)
         else if opcode = 0x10 then Some (2, setStopFlag True c)
         else if opcode = 0x76 then Some (1, setHaltFlag True c)
         else if opcode \<in> {0x01, 0x11, 0x21, 0x31} then Some (3, put_cachedR16 r4 (mk16 (code ! 1) (code ! 2)) c)
         else if opcode \<in> {0x03, 0x13, 0x23, 0x33} then Some (1, put_cachedR16 r4 (cachedR16 r4 c + 1) c)
         else if opcode \<in> {0x0B, 0x1B, 0x2B, 0x3B} then Some (1, put_cachedR16 r4 (cachedR16 r4 c - 1) c)
         else if opcode = 0x08 then Some (3, lr_write16 env (mk16 (code ! 1) (code ! 2)) (rSP c) c)
         else if opcode \<in> {0x09, 0x19, 0x29, 0x39} then
           Some (1, let lhs = rHL c; rhs = cachedR16 r4 c; c = c\<lparr>rHL := lhs + rhs\<rparr>
                    in lr_setFlags (lr_flags c AND kFlagZ \<noteq> 0) False (unat (lhs AND 0x0FFF) + unat (rhs AND 0x0FFF) > 0x0FFF)
                         (unat lhs + unat rhs > 0xFFFF) c)
         else fast_flow env code c)"

definition finalizeFast :: "u8 \<Rightarrow> u16 \<Rightarrow> nat \<Rightarrow> 'w lr \<Rightarrow> 'w lr" where
  "finalizeFast opcode before n c =
     (let advance = (if haltBugPcAdjustPending c \<and> n > 0 then n - 1 else n);
          c = c\<lparr>haltBugPcAdjustPending := False, rPC := rPC c + of_nat advance\<rparr>;
          cycles = opcodeCyclesFor opcode;
          retired = (if pendingCycleCharge c \<noteq> 0 then pendingCycleCharge c
                     else if rPC c \<noteq> before + of_nat n then snd cycles else fst cycles)
      in c\<lparr>pendingCycleCharge := 0,
           feedback := \<lparr>segmentBoundaryHint = isControlFlowOpcode opcode, isControlFlow = isControlFlowOpcode opcode,
                        pcBefore = ucast before, pcAfter = ucast (rPC c), retiredCycles = of_nat retired,
                        executionPath = CpuOptimizedFastPath\<rparr>\<rparr>)"

definition tryFastExecuteBytes :: "'w gb_memory \<Rightarrow> u8 list \<Rightarrow> 'w lr \<Rightarrow> 'w lr option" where
  "tryFastExecuteBytes env code c =
     (if code = [] \<or> \<not> supportsFastOpcode (code ! 0) then None
      else (case fast_body env code c of None \<Rightarrow> None | Some (n, c') \<Rightarrow> Some (finalizeFast (code ! 0) (rPC c) n c')))"

end
