(* ===== verification/GB_CpuLaws.thy ===== *)
theory GB_CpuLaws
  imports GB_Cpu
begin

text \<open>
  The fast path computes what the canonical table computes, for every opcode it accepts; and the low half of the
  flag register stays zero.
\<close>

section \<open>The fast path agrees with the table\<close>

lemma cached_registers:
  "cachedReadR8 env k c = readR8 env (decodeR8 k) c" "cachedWriteR8 env k v c = writeR8 env (decodeR8 k) v c"
  by (simp_all add: cachedReadR8_def cachedWriteR8_def decodeR8_def Let_def)

lemma decode_masked [simp]: "decodeR8 (k AND 7) = decodeR8 k"
  by (simp add: decodeR8_def Let_def and.assoc)

lemma cached_pairs:
  "cachedR16 (drop_bit 4 k AND 3) c = accessR16 (decodeR16 k) c" "put_cachedR16 (drop_bit 4 k AND 3) v c = put_R16 (decodeR16 k) v c"
  "cachedStackR16 (drop_bit 4 k AND 3) c = accessStackR16 (decodeR16Stack k) c"
  "put_cachedStackR16 (drop_bit 4 k AND 3) v c = put_StackR16 (decodeR16Stack k) v c"
  "cachedConditionHolds (drop_bit 3 k AND 3) c = conditionHolds (decodeCondition k) c"
  by (simp_all add: cachedR16_def put_cachedR16_def decodeR16_def cachedStackR16_def put_cachedStackR16_def decodeR16Stack_def
      cachedConditionHolds_def decodeCondition_def Let_def and.assoc)

lemma cached_stack:
  "cachedPush16 env v c = gb_push16 env v c" "cachedPop16 env c = gb_pop16 env c"
  by (simp_all add: cachedPush16_def gb_push16_def lr_write16_def cachedPop16_def gb_pop16_def Let_def)

lemma executeMathOp_eq: "executeMathOp code rhs c = math_step code rhs c"
proof -
  have "drop_bit 3 code AND 7 \<in> {0, 1, 2, 3, 4, 5, 6, 7}"
  proof -
    have "unat (drop_bit 3 code AND 7) < 8" by (simp add: and_7 unat_take_bit)
    then have "unat (drop_bit 3 code AND 7) \<in> set [0..<8]" by simp
    then have "of_nat (unat (drop_bit 3 code AND 7)) \<in> (of_nat ` set [0..<8] :: u8 set)" by blast
    then show ?thesis by (simp add: upt_rec)
  qed
  then show ?thesis
    by (elim insertE emptyE) (simp_all add: executeMathOp_def math_step_def Let_def)
qed

lemmas fast_simps = fast_body_def fast_flow_def fast_high_def fast_rest_def opcode_step_def flow_step_def high_memory_step_def opcode_length_def Let_def cached_registers cached_stack
  cachedR16_def put_cachedR16_def decodeR16_def cachedStackR16_def put_cachedStackR16_def decodeR16Stack_def
  cachedConditionHolds_def decodeCondition_def executeMathOp_eq decodeR8Dest_def

lemma between_cases:
  fixes w :: u8
  assumes "a \<le> w" and "w < b"
  shows "w \<in> of_nat ` set [unat a..<unat b]"
proof -
  have "unat w \<in> set [unat a..<unat b]" using assms by (simp add: word_le_nat_alt word_less_nat_alt)
  then have "(of_nat (unat w) :: u8) \<in> of_nat ` set [unat a..<unat b]" by blast
  then show ?thesis by simp
qed

lemma above_one: "\<not> (0x40 :: u8) \<le> 1" "\<not> (0x80 :: u8) \<le> 1"
  by (simp_all add: word_le_nat_alt)

abbreviation agrees :: "'w gb_memory \<Rightarrow> u8 list \<Rightarrow> 'w lr \<Rightarrow> bool" where
  "agrees env code c \<equiv>
     supportsFastOpcode (code ! 0) \<longrightarrow> fast_body env code c = Some (opcode_length (code ! 0), opcode_step env code c)"

lemmas step_simps = updateControlFlowPc_def lr_setFlags_def gb_add_hl_def lr_daa_def inc_step_def dec_step_def jump_relative_def
  offset_flags_def indirect_step_def rotate_accumulator_def gb_pop16_def above_one

lemma agrees_00: "0x00 \<le> code ! 0 \<Longrightarrow> code ! 0 < 0x08 \<Longrightarrow> agrees env code c"
  by (drule (1) between_cases) (simp add: upt_rec, elim disjE; simp add: supportsFastOpcode_def fast_simps step_simps)

lemma agrees_08: "0x08 \<le> code ! 0 \<Longrightarrow> code ! 0 < 0x10 \<Longrightarrow> agrees env code c"
  by (drule (1) between_cases) (simp add: upt_rec, elim disjE; simp add: supportsFastOpcode_def fast_simps step_simps)

lemma agrees_10: "0x10 \<le> code ! 0 \<Longrightarrow> code ! 0 < 0x18 \<Longrightarrow> agrees env code c"
  by (drule (1) between_cases) (simp add: upt_rec, elim disjE; simp add: supportsFastOpcode_def fast_simps step_simps)

lemma agrees_18: "0x18 \<le> code ! 0 \<Longrightarrow> code ! 0 < 0x20 \<Longrightarrow> agrees env code c"
  by (drule (1) between_cases) (simp add: upt_rec, elim disjE; simp add: supportsFastOpcode_def fast_simps step_simps)

lemma agrees_20: "0x20 \<le> code ! 0 \<Longrightarrow> code ! 0 < 0x28 \<Longrightarrow> agrees env code c"
  by (drule (1) between_cases) (simp add: upt_rec, elim disjE; simp add: supportsFastOpcode_def fast_simps step_simps)

lemma agrees_28: "0x28 \<le> code ! 0 \<Longrightarrow> code ! 0 < 0x30 \<Longrightarrow> agrees env code c"
  by (drule (1) between_cases) (simp add: upt_rec, elim disjE; simp add: supportsFastOpcode_def fast_simps step_simps)

lemma agrees_30: "0x30 \<le> code ! 0 \<Longrightarrow> code ! 0 < 0x38 \<Longrightarrow> agrees env code c"
  by (drule (1) between_cases) (simp add: upt_rec, elim disjE; simp add: supportsFastOpcode_def fast_simps step_simps)

lemma agrees_38: "0x38 \<le> code ! 0 \<Longrightarrow> code ! 0 < 0x40 \<Longrightarrow> agrees env code c"
  by (drule (1) between_cases) (simp add: upt_rec, elim disjE; simp add: supportsFastOpcode_def fast_simps step_simps)

lemma agrees_C0: "0xC0 \<le> code ! 0 \<Longrightarrow> code ! 0 < 0xC8 \<Longrightarrow> agrees env code c"
  by (drule (1) between_cases) (simp add: upt_rec, elim disjE; simp add: supportsFastOpcode_def fast_simps step_simps)

lemma agrees_C8: "0xC8 \<le> code ! 0 \<Longrightarrow> code ! 0 < 0xD0 \<Longrightarrow> agrees env code c"
  by (drule (1) between_cases) (simp add: upt_rec, elim disjE; simp add: supportsFastOpcode_def fast_simps step_simps)

lemma agrees_D0: "0xD0 \<le> code ! 0 \<Longrightarrow> code ! 0 < 0xD8 \<Longrightarrow> agrees env code c"
  by (drule (1) between_cases) (simp add: upt_rec, elim disjE; simp add: supportsFastOpcode_def fast_simps step_simps)

lemma agrees_D8: "0xD8 \<le> code ! 0 \<Longrightarrow> code ! 0 < 0xE0 \<Longrightarrow> agrees env code c"
  by (drule (1) between_cases) (simp add: upt_rec, elim disjE; simp add: supportsFastOpcode_def fast_simps step_simps)

lemma agrees_E0: "0xE0 \<le> code ! 0 \<Longrightarrow> code ! 0 < 0xE8 \<Longrightarrow> agrees env code c"
  by (drule (1) between_cases) (simp add: upt_rec, elim disjE; simp add: supportsFastOpcode_def fast_simps step_simps)

lemma agrees_E8: "0xE8 \<le> code ! 0 \<Longrightarrow> code ! 0 < 0xF0 \<Longrightarrow> agrees env code c"
  by (drule (1) between_cases) (simp add: upt_rec, elim disjE; simp add: supportsFastOpcode_def fast_simps step_simps)

lemma agrees_F8: "0xF8 \<le> code ! 0 \<Longrightarrow> agrees env code c"
proof -
  assume "0xF8 \<le> code ! 0"
  then have "unat (code ! 0) \<in> set [0xF8..<0x100]" using unat_u8_less [of "code ! 0"]
    by (simp only: set_upt atLeastLessThan_iff) (simp add: word_le_nat_alt)
  then have "(of_nat (unat (code ! 0)) :: u8) \<in> of_nat ` set [0xF8..<0x100]" by blast
  then show ?thesis by (simp add: upt_rec, elim disjE; simp add: supportsFastOpcode_def fast_simps step_simps)
qed

lemma agrees_F0: "0xF0 \<le> code ! 0 \<Longrightarrow> code ! 0 < 0xF8 \<Longrightarrow> agrees env code c"
  by (drule (1) between_cases) (simp add: upt_rec, elim disjE; simp add: supportsFastOpcode_def fast_simps step_simps)

lemma agrees_40:
  assumes "0x40 \<le> code ! 0" and "code ! 0 < 0xC0"
  shows "agrees env code c"
proof -
  have ne: "(code ! 0 = k) = False" if "k < 0x40 \<or> 0xC0 \<le> k" for k
    using that assms by (auto simp: word_le_nat_alt word_less_nat_alt)
  have halves: "code ! 0 \<le> 0x7F \<longleftrightarrow> code ! 0 < 0x80" "code ! 0 \<le> 0xBF \<longleftrightarrow> True"
    using assms(2) by (auto simp: word_le_nat_alt word_less_nat_alt)
  show ?thesis
  proof (cases "code ! 0 = 0x76")
    case True
    then show ?thesis by (simp add: fast_simps)
  next
    case False
    show ?thesis
    proof (cases "code ! 0 < 0x80")
      case True
      then show ?thesis using assms(1) False
        by (simp add: fast_body_def opcode_step_def opcode_length_def Let_def ne halves cached_registers decodeR8Dest_def decodeR8Src_def)
    next
      case hi: False
      then show ?thesis using assms(1) False
        by (simp add: fast_body_def opcode_step_def opcode_length_def Let_def ne halves cached_registers decodeR8Src_def
            executeMathOp_eq not_less)
    qed
  qed
qed

lemma fast_body_agrees: "agrees env code c"
proof -
  have first: "0x00 \<le> code ! 0" by simp
  have "agrees env code c" if "code ! 0 < 0x40"
    using that first agrees_00 [of code env c] agrees_08 [of code env c] agrees_10 [of code env c] agrees_18 [of code env c]
      agrees_20 [of code env c] agrees_28 [of code env c] agrees_30 [of code env c] agrees_38 [of code env c]
    by (metis not_le)
  moreover have "agrees env code c" if "0xC0 \<le> code ! 0"
    using that agrees_C0 [of code env c] agrees_C8 [of code env c] agrees_D0 [of code env c] agrees_D8 [of code env c]
      agrees_E0 [of code env c] agrees_E8 [of code env c] agrees_F0 [of code env c] agrees_F8 [of code env c]
    by (metis not_le)
  ultimately show ?thesis using agrees_40 [of code env c] by (metis not_le)
qed

lemma fast_path_eq:
  assumes "code \<noteq> []" and "length code = opcode_length (code ! 0)"
  shows "tryFastExecuteBytes env code c =
    (if supportsFastOpcode (code ! 0)
     then (let e = execute_steps env code c in Some (e\<lparr>feedback := (feedback e)\<lparr>executionPath := CpuOptimizedFastPath\<rparr>\<rparr>))
     else None)"
proof (cases "supportsFastOpcode (code ! 0)")
  case True
  then have "code ! 0 \<noteq> 0xCB" by (auto simp: supportsFastOpcode_def)
  then have cycles: "gb_opcode_cycles code = opcodeCyclesFor (code ! 0)" by (simp add: gb_opcode_cycles_def)
  have body: "fast_body env code c = Some (length code, opcode_step env code c)" using fast_body_agrees [of code env c] True assms(2) by metis
  show ?thesis
    using assms(1) True by (simp add: tryFastExecuteBytes_def body finalizeFast_def execute_steps_def cycles Let_def)
next
  case False
  then show ?thesis by (simp add: tryFastExecuteBytes_def)
qed

text \<open>C32: The fast path is the canonical interpreter. For the bytes of one instruction, whatever the memory, the CPU
  state, pending cycles and the halt bug, it accepts exactly the supported opcodes, and then leaves the CPU, the
  memory and the feedback as decoding through the table and executing the steps does, but for the path it reports.\<close>

theorem fast_path_canonical:
  assumes "code \<noteq> []" and "length code = opcode_length (code ! 0)"
  shows "tryFastExecuteBytes env code c =
    (if supportsFastOpcode (code ! 0)
     then (let e = execute_steps env code c in Some (e\<lparr>feedback := (feedback e)\<lparr>executionPath := CpuOptimizedFastPath\<rparr>\<rparr>))
     else None)"
  by (rule fast_path_eq [OF assms])

definition byte_memory :: "(u16 \<Rightarrow> u8) gb_memory" where
  "byte_memory = \<lparr>rd8 = (\<lambda>w a. w a), wr8 = (\<lambda>a v w. w(a := v))\<rparr>"

definition new_lr :: "'w \<Rightarrow> 'w lr" where
  "new_lr w =
     \<lparr>rAF = 0, rBC = 0, rDE = 0, rHL = 0, rSP = 0, rPC = 0, feedback = new_feedback, ime = False, imeEnablePending = False,
      imeEnableDelay = 0, stopFlag = False, haltFlag = False, illegalOpcodeLockup = False, haltBugActive = False,
      haltBugPcAdjustPending = False, dividerCounter = 0, dmaActive = False, dmaSourceBase = 0, dmaCycleProgress = 0,
      pendingCycleCharge = 0, serialTransferActive = False, serialCycleProgress = 0, joypSelect = 0x30, joypadPressedMask = 0,
      ppuDotCounter = 0, lcdEnabledLastTick = False, statInterruptLatched = False, lr_world = w\<rparr>"

theorem fast_path_canonical_witness:
  "tryFastExecuteBytes byte_memory [0xC6, 5] (new_lr (\<lambda>_. 0)) \<noteq> None"
  using fast_path_canonical [of "[0xC6, 5]" byte_memory "new_lr (\<lambda>_. 0)"]
  by (simp add: opcode_length_def supportsFastOpcode_def Let_def)

section \<open>The unused half of the flag register\<close>

definition clean_flags :: "'w lr \<Rightarrow> bool" where "clean_flags c \<longleftrightarrow> lo (rAF c) AND 0x0F = 0"

lemma flag_byte_clean [simp]: "flag_byte z n h f AND 0x0F = 0"
  by (cases z; cases n; cases h; cases f) (simp_all add: flag_byte_def)

lemma clean_put_flags [simp]: "clean_flags (c\<lparr>rAF := mk16 v w\<rparr>) \<longleftrightarrow> v AND 0x0F = 0"
  by (simp add: clean_flags_def)

lemma clean_setFlags [simp]: "clean_flags (lr_setFlags z n h f c)"
  by (simp add: lr_setFlags_def clean_flags_def)

lemma clean_updates [simp]:
  "clean_flags (c\<lparr>rBC := w\<rparr>) = clean_flags c"
  "clean_flags (c\<lparr>rDE := w\<rparr>) = clean_flags c" "clean_flags (c\<lparr>rHL := w\<rparr>) = clean_flags c"
  "clean_flags (c\<lparr>rSP := w\<rparr>) = clean_flags c" "clean_flags (c\<lparr>rPC := w\<rparr>) = clean_flags c"
  "clean_flags (lr_write8 env a v c) = clean_flags c" "clean_flags (lr_write16 env a w c) = clean_flags c"
  "clean_flags (gb_push16 env w c) = clean_flags c" "clean_flags (updateControlFlowPc w y c) = clean_flags c"
  "clean_flags (setStopFlag s c) = clean_flags c" "clean_flags (setHaltFlag s c) = clean_flags c"
  "clean_flags (setIme s c) = clean_flags c" "clean_flags (scheduleImeEnable c) = clean_flags c"
  "clean_flags (lockUpOnInvalidOpcode c) = clean_flags c" "clean_flags (jump_relative v c) = clean_flags c"
  by (simp_all add: clean_flags_def lr_write8_def lr_write16_def gb_push16_def updateControlFlowPc_def setStopFlag_def setHaltFlag_def
      setIme_def scheduleImeEnable_def lockUpOnInvalidOpcode_def jump_relative_def Let_def)

lemma clean_flags_fold [simp]: "lr_flags c AND 0x0F = 0 \<longleftrightarrow> clean_flags c"
  by (simp add: clean_flags_def)

lemma clean_writeR8 [simp]: "clean_flags (writeR8 env r v c) = clean_flags c"
  by (cases r) simp_all

lemma clean_put_R16 [simp]: "clean_flags (put_R16 r v c) = clean_flags c"
  by (cases r) simp_all

lemma clean_pop: "clean_flags (snd (gb_pop16 env c)) = clean_flags c"
  by (simp add: gb_pop16_def)

lemma clean_arithmetic [simp]:
  "clean_flags c \<Longrightarrow> clean_flags (gb_executeCbOpcode env v c)" "clean_flags (math_step v w c)" "clean_flags (rotate_accumulator v c)"
  "clean_flags (gb_add_hl x c)" "clean_flags (offset_flags v c)" "clean_flags (inc_step env r c)" "clean_flags (dec_step env r c)"
  "clean_flags (lr_daa c)"
  subgoal by (simp add: gb_executeCbOpcode_def Let_def split: prod.split)
  by (simp_all add: math_step_def rotate_accumulator_def gb_add_hl_def offset_flags_def inc_step_def dec_step_def lr_daa_def Let_def)

lemma clean_indirect [simp]: "clean_flags (indirect_step env v c) = clean_flags c"
  by (simp add: indirect_step_def Let_def)

lemma clean_pair: "lo (w AND 0xFFF0) AND 0x0F = 0"
  by (simp add: lo_eq_ucast unsigned_and_eq and.assoc)

lemma clean_AF: "clean_flags (c\<lparr>rAF := w\<rparr>) \<longleftrightarrow> lo w AND 0x0F = 0"
  by (simp add: clean_flags_def)

lemma clean_if: "clean_flags a \<Longrightarrow> clean_flags b \<Longrightarrow> clean_flags (if p then a else b)"
  by simp

lemma clean_stack: "clean_flags c \<Longrightarrow> clean_flags (put_StackR16 r (if r = Stack_AF then w AND 0xFFF0 else w) c)"
  by (cases r) (simp_all add: clean_AF clean_pair)

lemma clean_high_memory: "clean_flags c \<Longrightarrow> clean_flags (high_memory_step env code c)"
  unfolding high_memory_step_def Let_def by (intro clean_if; simp)

lemma clean_after_pop:
  assumes "clean_flags c"
  shows "clean_flags (let (target, c) = gb_pop16 env c in updateControlFlowPc target y c)"
    and "clean_flags (let (target, c) = gb_pop16 env c in setIme s (updateControlFlowPc target y c))"
    and "clean_flags (let (v, c) = gb_pop16 env c in put_StackR16 r (if r = Stack_AF then v AND 0xFFF0 else v) c)"
  using assms by (simp_all add: gb_pop16_def clean_stack del: put_StackR16.simps split del: if_split)

lemma clean_flow: "clean_flags c \<Longrightarrow> clean_flags (flow_step env code c)"
  unfolding flow_step_def Let_def
  by (intro clean_if; simp add: clean_after_pop [unfolded Let_def] clean_high_memory)

lemma masked_or: "(v OR x) AND 0x0F = (v AND 0x0F) OR (x AND 0x0F)" for v x :: u8
  by (simp add: bit.conj_disj_distrib2)

lemma masked_flags: "((v AND m) OR x) AND 0x0F = x AND 0x0F" if "m AND 0x0F = 0" for v m x :: u8
  using that by (simp add: bit.conj_disj_distrib2 and.assoc)

lemma clean_carry_ops:
  "clean_flags (put_flags ((v AND (kFlagZ OR kFlagC)) OR kFlagN OR kFlagH) (put_accumulator w c))"
  "clean_flags (put_flags ((v AND kFlagZ) OR kFlagC) c)"
  "clean_flags (put_flags ((v AND kFlagZ) OR (if p then kFlagC else 0)) c)"
  unfolding clean_flags_def by (simp_all add: or.assoc masked_flags)

lemma clean_step: "clean_flags c \<Longrightarrow> clean_flags (opcode_step env code c)"
  unfolding opcode_step_def Let_def
  by (intro clean_if)
    (simp_all only: clean_updates clean_writeR8 clean_put_R16 clean_arithmetic clean_indirect clean_flow clean_carry_ops)

text \<open>No instruction ever sets one of the four unused bits of the flag register.\<close>

theorem flag_register_low_nibble:
  assumes "lo (rAF c) AND 0x0F = 0"
  shows "lo (rAF (execute_steps env code c)) AND 0x0F = 0"
  using clean_step [of c env code] assms by (simp add: execute_steps_def Let_def clean_flags_def del: clean_flags_fold)

theorem flag_register_low_nibble_witness:
  "lo (rAF (execute_steps byte_memory [0xF1] (new_lr (\<lambda>_. 0xFF)))) AND 0x0F = 0"
  by (rule flag_register_low_nibble) (simp add: new_lr_def lo_eq_ucast)

end
