(* ===== verification/GB_APU.thy ===== *)
theory GB_APU
  imports Machine_Audio
begin

text \<open>
  The Game Boy sound generator of \<open>src/cores/gameboy/GameBoyAPU.{hpp,cpp}\<close>: two pulse channels, a wave and a noise
  channel advanced cycle by cycle, the frame sequencer with length counters, sweep and envelopes, the mixer, the
  registers, the ring of recent samples and the event trace. A 16-bit sample is a word read by \<open>sint\<close>.
\<close>

section \<open>State\<close>

record PulseChannel =
  p_enabled :: bool
  p_dacEnabled :: bool
  p_lengthEnabled :: bool
  p_duty :: u8
  p_dutyStep :: u8
  p_lengthCounter :: u16
  p_initialVolume :: u8
  p_volume :: u8
  p_envelopeIncrease :: bool
  p_envelopePeriod :: u8
  p_envelopeTimer :: u8
  p_frequency :: u16
  p_timer :: u16
  p_hasSweep :: bool
  p_sweepPeriod :: u8
  p_sweepTimer :: u8
  p_sweepNegate :: bool
  p_sweepShift :: u8
  p_shadowFrequency :: u16
  p_sweepEnabled :: bool

record WaveChannel =
  w_enabled :: bool
  w_dacEnabled :: bool
  w_lengthEnabled :: bool
  w_lengthCounter :: u16
  w_frequency :: u16
  w_timer :: u16
  w_sampleIndex :: u8
  w_outputLevel :: u8

record NoiseChannel =
  n_enabled :: bool
  n_dacEnabled :: bool
  n_lengthEnabled :: bool
  n_lengthCounter :: u16
  n_initialVolume :: u8
  n_volume :: u8
  n_envelopeIncrease :: bool
  n_envelopePeriod :: u8
  n_envelopeTimer :: u8
  n_clockShift :: u8
  n_divisorCode :: u8
  n_widthMode7 :: bool
  n_timer :: u16
  n_lfsr :: u16

definition new_pulse :: PulseChannel where
  "new_pulse =
     \<lparr>p_enabled = False, p_dacEnabled = False, p_lengthEnabled = False, p_duty = 0, p_dutyStep = 0, p_lengthCounter = 0,
      p_initialVolume = 0, p_volume = 0, p_envelopeIncrease = False, p_envelopePeriod = 0, p_envelopeTimer = 0,
      p_frequency = 0, p_timer = 0, p_hasSweep = False, p_sweepPeriod = 0, p_sweepTimer = 0, p_sweepNegate = False,
      p_sweepShift = 0, p_shadowFrequency = 0, p_sweepEnabled = False\<rparr>"

definition new_wave :: WaveChannel where
  "new_wave =
     \<lparr>w_enabled = False, w_dacEnabled = False, w_lengthEnabled = False, w_lengthCounter = 0, w_frequency = 0, w_timer = 0,
      w_sampleIndex = 0, w_outputLevel = 0\<rparr>"

definition new_noise :: NoiseChannel where
  "new_noise =
     \<lparr>n_enabled = False, n_dacEnabled = False, n_lengthEnabled = False, n_lengthCounter = 0, n_initialVolume = 0,
      n_volume = 0, n_envelopeIncrease = False, n_envelopePeriod = 0, n_envelopeTimer = 0, n_clockShift = 0,
      n_divisorCode = 0, n_widthMode7 = False, n_timer = 0, n_lfsr = 0x7FFF\<rparr>"

definition kHistorySamples :: nat where "kHistorySamples = 4096"
definition kFrameChunkSamples :: u64 where "kFrameChunkSamples = 256"
definition kMasterClockHz :: u32 where "kMasterClockHz = 4194304"
definition kApuSampleRate :: u32 where "kApuSampleRate = 48000"
definition kCyclesPerFrameStep :: u32 where "kCyclesPerFrameStep = 8192"

text \<open>\<open>GameBoyAPUState\<close>, what a saved state holds.\<close>

record apu_state =
  masterEnabled :: bool
  frameSequencerCounter :: u32
  frameSequencerStep :: u8
  sampleAccumulator :: u32
  sampleCounter :: u64
  apuFrameCounter :: u64
  apuSamples :: "u16 list"
  recentWriteCursor :: nat
  recentSampleCount :: nat
  pendingReadCursor :: nat
  pendingSampleCount :: nat
  apuWaveRam :: "u8 list"
  nr50 :: u8
  nr51 :: u8
  nr52 :: u8
  pulse1 :: PulseChannel
  pulse2 :: PulseChannel
  wave :: WaveChannel
  noise :: NoiseChannel

definition new_apu_state :: apu_state where
  "new_apu_state =
     \<lparr>masterEnabled = True, frameSequencerCounter = 0, frameSequencerStep = 0, sampleAccumulator = 0, sampleCounter = 0,
      apuFrameCounter = 0, apuSamples = replicate kHistorySamples 0, recentWriteCursor = 0, recentSampleCount = 0,
      pendingReadCursor = 0, pendingSampleCount = 0, apuWaveRam = replicate 0x10 0, nr50 = 0, nr51 = 0, nr52 = 0,
      pulse1 = new_pulse, pulse2 = new_pulse, wave = new_wave, noise = new_noise\<rparr>"

text \<open>The generator: the saved part and the traces.\<close>

record gb_apu =
  apu :: apu_state
  apuVoiceStems :: "u16 list list"
  pendingEvents :: "(PsgAudioEvent \<times> u64) list"
  pendingEventDropCount :: u64
  apuEventSequence :: u64
  apuGateStates :: "bool list"

definition new_gb_apu :: gb_apu where
  "new_gb_apu =
     \<lparr>apu = new_apu_state, apuVoiceStems = replicate 4 (replicate kHistorySamples 0), pendingEvents = [],
      pendingEventDropCount = 0, apuEventSequence = 0, apuGateStates = replicate 4 False\<rparr>"

section \<open>Periods\<close>

definition pulseTimerPeriod :: "u16 \<Rightarrow> u16" where
  "pulseTimerPeriod frequency = max 4 ((2048 - (frequency AND 0x07FF)) * 4)"

definition waveTimerPeriod :: "u16 \<Rightarrow> u16" where
  "waveTimerPeriod frequency = max 2 ((2048 - (frequency AND 0x07FF)) * 2)"

definition kDivisors :: "u32 list" where "kDivisors = [8, 16, 32, 48, 64, 80, 96, 112]"

definition noiseTimerPeriod :: "NoiseChannel \<Rightarrow> u16" where
  "noiseTimerPeriod n =
     (let period = push_bit (unat (n_clockShift n)) (kDivisors ! unat (n_divisorCode n AND 0x07))
      in ucast (min (max period 8) 0xFFFF))"

section \<open>Events\<close>

definition apu_gates :: "apu_state \<Rightarrow> bool list" where
  "apu_gates s = [p_enabled (pulse1 s), p_enabled (pulse2 s), w_enabled (wave s), n_enabled (noise s)]"

definition voiceRoutingMask :: "nat \<Rightarrow> apu_state \<Rightarrow> u8" where
  "voiceRoutingMask voice s =
     (if nr51 s AND push_bit voice 0x10 \<noteq> 0 then 1 else 0) OR (if nr51 s AND push_bit voice 0x01 \<noteq> 0 then 2 else 0)"

definition effectiveVoiceLevelQ15 :: "nat \<Rightarrow> apu_state \<Rightarrow> u16" where
  "effectiveVoiceLevelQ15 voice s =
     (let level = (if voice = 0 then unat (p_volume (pulse1 s)) * 32767 div 15
                   else if voice = 1 then unat (p_volume (pulse2 s)) * 32767 div 15
                   else if voice = 2 then
                     (if w_outputLevel (wave s) = 1 then 32767 else if w_outputLevel (wave s) = 2 then 16384
                      else if w_outputLevel (wave s) = 3 then 8192 else 0)
                   else unat (n_volume (noise s)) * 32767 div 15);
          routing = voiceRoutingMask voice s
      in if routing = 0 \<or> level = 0 then 0
         else
           (let leftGain = unat (drop_bit 4 (nr50 s) AND 0x07) + 1; rightGain = unat (nr50 s AND 0x07) + 1;
                gainSum = (if routing AND 1 \<noteq> 0 then leftGain else 0) + (if routing AND 2 \<noteq> 0 then rightGain else 0);
                routed = (if routing AND 1 \<noteq> 0 then 1 else 0) + (if routing AND 2 \<noteq> 0 then 1 else 0 :: nat);
                masterLevel = (gainSum * 32767 + 4 * routed) div (8 * routed)
            in of_nat (unat (of_nat (level * masterLevel + 16383) :: u32) div 32767)))"

definition recordVoiceEvent :: "nat \<Rightarrow> PsgEventKind \<Rightarrow> u16 \<Rightarrow> u8 \<Rightarrow> bool \<Rightarrow> gb_apu \<Rightarrow> gb_apu" where
  "recordVoiceEvent voice kind address val raw a =
     (let s = apu a;
          frequency = (if voice = 0 then p_frequency (pulse1 s) else if voice = 1 then p_frequency (pulse2 s)
                       else if voice = 2 then w_frequency (wave s) else 0);
          denominator = max (2048 - unat (frequency AND 0x07FF)) 1;
          ev = \<lparr>sampleFrameOffset = 0, event_sequence = apuEventSequence a + 1, voiceId = of_nat voice,
                voiceKind = (if voice < 2 then VPulse else if voice = 2 then VWave else VNoise), event_kind = kind,
                frequencyMilliHz = (if voice < 3 then of_nat ((if voice = 2 then 65536000 else 131072000) div denominator) else 0),
                levelQ15 = effectiveVoiceLevelQ15 voice s, routingMask = voiceRoutingMask voice s,
                timbre = (if voice = 0 then p_duty (pulse1 s) else if voice = 1 then p_duty (pulse2 s)
                          else if voice = 2 then w_outputLevel (wave s)
                          else push_bit 4 (n_clockShift (noise s)) OR n_divisorCode (noise s)),
                rawAddress = address, rawValue = val, gate = apu_gates s ! voice, hasRawWrite = raw\<rparr>;
          full = (length (pendingEvents a) = kHistorySamples)
      in a\<lparr>apuEventSequence := apuEventSequence a + 1,
           pendingEventDropCount := pendingEventDropCount a + (if full then 1 else 0),
           pendingEvents := (if full then tl (pendingEvents a) else pendingEvents a) @ [(ev, sampleCounter s)]\<rparr>)"

definition apu_snapshots :: "gb_apu \<Rightarrow> gb_apu" where
  "apu_snapshots a = fold (\<lambda>voice. recordVoiceEvent voice StateSnapshot 0 0 False) [0..<4] a"

definition apu_reset :: "gb_apu \<Rightarrow> gb_apu" where
  "apu_reset a = apu_snapshots (new_gb_apu\<lparr>apu := new_apu_state\<lparr>masterEnabled := True\<rparr>\<rparr>)"

definition recordWriteEvent :: "u16 \<Rightarrow> u8 \<Rightarrow> gb_apu \<Rightarrow> gb_apu" where
  "recordWriteEvent address val a =
     (if address = 0xFF24 then
        recordVoiceEvent 0 RawWrite address val True (fold (\<lambda>v. recordVoiceEvent v LevelChange address val True) [0..<4] a)
      else if address = 0xFF25 then
        recordVoiceEvent 0 RawWrite address val True (fold (\<lambda>v. recordVoiceEvent v RoutingChange address val True) [0..<4] a)
      else
        (let voice = (if address \<ge> 0xFF16 \<and> address \<le> 0xFF19 then 1
                      else if (address \<ge> 0xFF1A \<and> address \<le> 0xFF1E) \<or> (address \<ge> 0xFF30 \<and> address \<le> 0xFF3F) then 2
                      else if address \<ge> 0xFF20 \<and> address \<le> 0xFF23 then 3 else 0);
             trigger = (address \<in> {0xFF14, 0xFF19, 0xFF1E, 0xFF23} \<and> val AND 0x80 \<noteq> 0);
             kind = (if address \<in> {0xFF13, 0xFF18, 0xFF1D, 0xFF14, 0xFF19, 0xFF1E, 0xFF22} then
                       (if trigger then Retrigger else PitchChange)
                     else if address \<in> {0xFF12, 0xFF17, 0xFF1C, 0xFF21} then LevelChange
                     else if trigger then Retrigger else TimbreChange);
             g = apu_gates (apu a) ! voice;
             kind = (if \<not> trigger \<and> g \<noteq> apuGateStates a ! voice then (if g then GateOn else GateOff) else kind);
             a = a\<lparr>apuGateStates := (apuGateStates a)[voice := g]\<rparr>
         in recordVoiceEvent voice RawWrite address val True (recordVoiceEvent voice kind address val True a)))"

section \<open>Samples\<close>

definition kApuDutyPatterns :: "u8 list list" where
  "kApuDutyPatterns = [[0x00, 0x00, 0x00, 0x00, 0x00, 0x00, 0x00, 0xFF], [0x00, 0x00, 0x00, 0x00, 0x00, 0x00, 0xFF, 0xFF],
     [0x00, 0x00, 0x00, 0x00, 0xFF, 0xFF, 0xFF, 0xFF], [0xFF, 0xFF, 0xFF, 0xFF, 0xFF, 0xFF, 0x00, 0x00]]"

definition currentPulseSample :: "bool \<Rightarrow> PulseChannel \<Rightarrow> int" where
  "currentPulseSample master c =
     (if \<not> master \<or> \<not> p_enabled c \<or> \<not> p_dacEnabled c \<or> p_volume c = 0 then 0
      else (if kApuDutyPatterns ! unat (p_duty c AND 0x03) ! unat (p_dutyStep c AND 0x07) \<noteq> 0 then 1 else - 1) * uint (p_volume c))"

definition currentWaveSample :: "apu_state \<Rightarrow> int" where
  "currentWaveSample s =
     (let w = wave s; outputLevel = w_outputLevel w AND 0x03; i = w_sampleIndex w AND 0x1F in
      if \<not> masterEnabled s \<or> \<not> w_enabled w \<or> \<not> w_dacEnabled w \<or> outputLevel = 0 then 0
      else
        (let packed = apuWaveRam s ! (unat i div 2);
             sample = (if i AND 0x01 = 0 then drop_bit 4 packed AND 0x0F else packed AND 0x0F);
             sample = (if outputLevel = 2 then drop_bit 1 sample else if outputLevel = 3 then drop_bit 2 sample else sample)
         in (uint sample - 8) * 2))"

definition currentNoiseSample :: "apu_state \<Rightarrow> int" where
  "currentNoiseSample s =
     (let n = noise s in
      if \<not> masterEnabled s \<or> \<not> n_enabled n \<or> \<not> n_dacEnabled n \<or> n_volume n = 0 then 0
      else (if n_lfsr n AND 0x01 = 0 then 1 else - 1) * uint (n_volume n))"

definition clamp16 :: "int \<Rightarrow> int" where "clamp16 v = max (-32768) (min 32767 v)"

definition voice_samples :: "apu_state \<Rightarrow> int list" where
  "voice_samples s =
     [currentPulseSample (masterEnabled s) (pulse1 s), currentPulseSample (masterEnabled s) (pulse2 s), currentWaveSample s,
      currentNoiseSample s]"

definition currentVoiceContributions :: "apu_state \<Rightarrow> int list" where
  "currentVoiceContributions s =
     (let leftVolume = uint (drop_bit 4 (nr50 s) AND 0x07) + 1; rightVolume = uint (nr50 s AND 0x07) + 1
      in map (\<lambda>voice. let raw = voice_samples s ! voice;
                         left = (if nr51 s AND push_bit voice 0x10 \<noteq> 0 then raw else 0);
                         right = (if nr51 s AND push_bit voice 0x01 \<noteq> 0 then raw else 0)
                     in clamp16 ((left * leftVolume + right * rightVolume) * 32)) [0..<4])"

definition pushSample :: "int \<Rightarrow> int list \<Rightarrow> gb_apu \<Rightarrow> gb_apu" where
  "pushSample sample stems a =
     (let s = apu a; cursor = recentWriteCursor s; count = sampleCounter s + 1;
          s = s\<lparr>apuSamples := (apuSamples s)[cursor := word_of_int sample],
                recentWriteCursor := (cursor + 1) mod kHistorySamples,
                recentSampleCount := (if recentSampleCount s < kHistorySamples then recentSampleCount s + 1 else recentSampleCount s),
                sampleCounter := count,
                apuFrameCounter := (if count mod kFrameChunkSamples = 0 then apuFrameCounter s + 1 else apuFrameCounter s)\<rparr>;
          s = (if pendingSampleCount s < kHistorySamples then s\<lparr>pendingSampleCount := pendingSampleCount s + 1\<rparr>
               else s\<lparr>pendingReadCursor := (pendingReadCursor s + 1) mod kHistorySamples\<rparr>)
      in a\<lparr>apu := s,
           apuVoiceStems := map (\<lambda>voice. (apuVoiceStems a ! voice)[cursor := word_of_int (stems ! voice)]) [0..<4]\<rparr>)"

section \<open>Frame sequencer\<close>

definition tick_length :: "bool \<Rightarrow> u16 \<Rightarrow> bool \<Rightarrow> u16 \<times> bool" where
  "tick_length lengthEnabled counter on =
     (if lengthEnabled \<and> counter > 0 then (counter - 1, if counter - 1 = 0 then False else on) else (counter, on))"

definition pulse_length :: "PulseChannel \<Rightarrow> PulseChannel" where
  "pulse_length c = (case tick_length (p_lengthEnabled c) (p_lengthCounter c) (p_enabled c) of
     (n, on) \<Rightarrow> c\<lparr>p_lengthCounter := n, p_enabled := on\<rparr>)"

definition tickLengthCounters :: "apu_state \<Rightarrow> apu_state" where
  "tickLengthCounters s =
     s\<lparr>pulse1 := pulse_length (pulse1 s), pulse2 := pulse_length (pulse2 s),
       wave := (case tick_length (w_lengthEnabled (wave s)) (w_lengthCounter (wave s)) (w_enabled (wave s)) of
                  (n, on) \<Rightarrow> (wave s)\<lparr>w_lengthCounter := n, w_enabled := on\<rparr>),
       noise := (case tick_length (n_lengthEnabled (noise s)) (n_lengthCounter (noise s)) (n_enabled (noise s)) of
                  (n, on) \<Rightarrow> (noise s)\<lparr>n_lengthCounter := n, n_enabled := on\<rparr>)\<rparr>"

definition tickSweep :: "PulseChannel \<Rightarrow> PulseChannel" where
  "tickSweep c =
     (if \<not> p_sweepEnabled c \<or> p_sweepPeriod c = 0 \<or> p_sweepShift c = 0 then c
      else
        (let c = c\<lparr>p_sweepTimer := p_sweepTimer c - 1\<rparr> in
         if p_sweepTimer c > 0 then c
         else
           (let c = c\<lparr>p_sweepTimer := p_sweepPeriod c\<rparr>;
                delta = drop_bit (unat (p_sweepShift c)) (p_shadowFrequency c);
                newFreq = (if p_sweepNegate c then p_shadowFrequency c - delta else p_shadowFrequency c + delta)
            in if newFreq > 0x07FF then c\<lparr>p_enabled := False\<rparr>
               else c\<lparr>p_shadowFrequency := newFreq, p_frequency := newFreq\<rparr>)))"

text \<open>The timer and volume of an envelope, and whether the volume changed.\<close>

definition tick_envelope :: "u8 \<Rightarrow> u8 \<Rightarrow> bool \<Rightarrow> u8 \<Rightarrow> (u8 \<times> u8) \<times> bool" where
  "tick_envelope period timer increase volume =
     (if period = 0 then ((timer, volume), False)
      else if timer - 1 > 0 then ((timer - 1, volume), False)
      else
        (let v = (if increase then (if volume < 15 then volume + 1 else volume) else if volume > 0 then volume - 1 else volume)
         in ((period, v), v \<noteq> volume)))"

definition tickPulseEnvelope :: "nat \<Rightarrow> gb_apu \<Rightarrow> gb_apu" where
  "tickPulseEnvelope voice a =
     (let s = apu a; c = (if voice = 0 then pulse1 s else pulse2 s);
          ((t, v), changed) = tick_envelope (p_envelopePeriod c) (p_envelopeTimer c) (p_envelopeIncrease c) (p_volume c);
          c = c\<lparr>p_envelopeTimer := t, p_volume := v\<rparr>;
          a = a\<lparr>apu := (if voice = 0 then s\<lparr>pulse1 := c\<rparr> else s\<lparr>pulse2 := c\<rparr>)\<rparr>
      in if changed then recordVoiceEvent voice LevelChange 0 0 False a else a)"

definition tickNoiseEnvelope :: "gb_apu \<Rightarrow> gb_apu" where
  "tickNoiseEnvelope a =
     (let s = apu a; c = noise s;
          ((t, v), changed) = tick_envelope (n_envelopePeriod c) (n_envelopeTimer c) (n_envelopeIncrease c) (n_volume c);
          a = a\<lparr>apu := s\<lparr>noise := c\<lparr>n_envelopeTimer := t, n_volume := v\<rparr>\<rparr>\<rparr>
      in if changed then recordVoiceEvent 3 LevelChange 0 0 False a else a)"

definition stepFrameSequencer :: "gb_apu \<Rightarrow> gb_apu" where
  "stepFrameSequencer a =
     (let k = frameSequencerStep (apu a);
          a = (if k = 0 \<or> k = 2 \<or> k = 4 \<or> k = 6 then
                 (let s = tickLengthCounters (apu a)
                  in a\<lparr>apu := (if k = 2 \<or> k = 6 then s\<lparr>pulse1 := tickSweep (pulse1 s)\<rparr> else s)\<rparr>)
               else if k = 7 then tickNoiseEnvelope (tickPulseEnvelope 1 (tickPulseEnvelope 0 a))
               else a)
      in a\<lparr>apu := (apu a)\<lparr>frameSequencerStep := (k + 1) AND 0x07\<rparr>\<rparr>)"

section \<open>Cycles\<close>

definition tickPulseTimer :: "PulseChannel \<Rightarrow> PulseChannel" where
  "tickPulseTimer c =
     (let c = (if p_timer c > 0 then c\<lparr>p_timer := p_timer c - 1\<rparr> else c)
      in if p_timer c = 0 then c\<lparr>p_timer := pulseTimerPeriod (p_frequency c), p_dutyStep := (p_dutyStep c + 1) AND 0x07\<rparr> else c)"

definition tickWaveTimer :: "WaveChannel \<Rightarrow> WaveChannel" where
  "tickWaveTimer c =
     (let c = (if w_timer c > 0 then c\<lparr>w_timer := w_timer c - 1\<rparr> else c)
      in if w_timer c = 0 then c\<lparr>w_timer := waveTimerPeriod (w_frequency c), w_sampleIndex := (w_sampleIndex c + 1) AND 0x1F\<rparr> else c)"

definition noise_shift :: "bool \<Rightarrow> u16 \<Rightarrow> u16" where
  "noise_shift narrow lfsr =
     (let fb = (lfsr XOR drop_bit 1 lfsr) AND 0x01;
          l = drop_bit 1 lfsr OR push_bit 14 fb;
          l = (if narrow then (l AND NOT 0x0040) OR push_bit 6 fb else l)
      in l AND 0x7FFF)"

definition tickNoiseTimer :: "NoiseChannel \<Rightarrow> NoiseChannel" where
  "tickNoiseTimer c =
     (let c = (if n_timer c > 0 then c\<lparr>n_timer := n_timer c - 1\<rparr> else c)
      in if n_timer c = 0 then c\<lparr>n_timer := noiseTimerPeriod c, n_lfsr := noise_shift (n_widthMode7 c) (n_lfsr c)\<rparr> else c)"

definition tickTimers :: "apu_state \<Rightarrow> apu_state" where
  "tickTimers s =
     s\<lparr>pulse1 := tickPulseTimer (pulse1 s), pulse2 := tickPulseTimer (pulse2 s), wave := tickWaveTimer (wave s),
       noise := tickNoiseTimer (noise s)\<rparr>"

definition emit_sample :: "gb_apu \<Rightarrow> gb_apu" where
  "emit_sample a =
     (let s = apu a; stems = currentVoiceContributions s
      in pushSample (clamp16 (sum_list stems)) stems (a\<lparr>apu := s\<lparr>sampleAccumulator := sampleAccumulator s - kMasterClockHz\<rparr>\<rparr>))"

lemma emit_sample_accumulator [simp]: "sampleAccumulator (apu (emit_sample a)) = sampleAccumulator (apu a) - kMasterClockHz"
  by (simp add: emit_sample_def pushSample_def Let_def)

function drain_samples :: "gb_apu \<Rightarrow> gb_apu" where
  "drain_samples a = (if sampleAccumulator (apu a) \<ge> kMasterClockHz then drain_samples (emit_sample a) else a)"
  by auto

termination
  by (relation "measure (\<lambda>a. unat (sampleAccumulator (apu a)))")
    (simp_all add: word_le_nat_alt unat_sub kMasterClockHz_def)

declare drain_samples.simps [simp del]

definition apu_cycle :: "gb_apu \<Rightarrow> gb_apu" where
  "apu_cycle a =
     (let a = (if masterEnabled (apu a) then
                 (let s = (apu a)\<lparr>frameSequencerCounter := frameSequencerCounter (apu a) + 1\<rparr>;
                      a = (if frameSequencerCounter s \<ge> kCyclesPerFrameStep
                           then stepFrameSequencer (a\<lparr>apu := s\<lparr>frameSequencerCounter := 0\<rparr>\<rparr>) else a\<lparr>apu := s\<rparr>)
                  in a\<lparr>apu := tickTimers (apu a)\<rparr>)
               else a)
      in drain_samples (a\<lparr>apu := (apu a)\<lparr>sampleAccumulator := sampleAccumulator (apu a) + kApuSampleRate\<rparr>\<rparr>))"

definition apu_step :: "u32 \<Rightarrow> gb_apu \<Rightarrow> gb_apu" where
  "apu_step cpuCycles a = (apu_cycle ^^ unat cpuCycles) a"

definition apu_cyclesUntilNextEvent :: "apu_state \<Rightarrow> u32" where
  "apu_cyclesUntilNextEvent s =
     (if sampleAccumulator s \<ge> kMasterClockHz \<or> masterEnabled s \<and> frameSequencerCounter s \<ge> kCyclesPerFrameStep then 0
      else
        (let sample = (kMasterClockHz - sampleAccumulator s + kApuSampleRate - 1) div kApuSampleRate
         in if masterEnabled s then min sample (kCyclesPerFrameStep - frameSequencerCounter s) else sample))"

section \<open>Registers\<close>

definition on_pulse1 :: "(PulseChannel \<Rightarrow> PulseChannel) \<Rightarrow> apu_state \<Rightarrow> apu_state" where
  "on_pulse1 f s = s\<lparr>pulse1 := f (pulse1 s)\<rparr>"
definition on_pulse2 :: "(PulseChannel \<Rightarrow> PulseChannel) \<Rightarrow> apu_state \<Rightarrow> apu_state" where
  "on_pulse2 f s = s\<lparr>pulse2 := f (pulse2 s)\<rparr>"
definition on_wave :: "(WaveChannel \<Rightarrow> WaveChannel) \<Rightarrow> apu_state \<Rightarrow> apu_state" where
  "on_wave f s = s\<lparr>wave := f (wave s)\<rparr>"
definition on_noise :: "(NoiseChannel \<Rightarrow> NoiseChannel) \<Rightarrow> apu_state \<Rightarrow> apu_state" where
  "on_noise f s = s\<lparr>noise := f (noise s)\<rparr>"

definition write_duty :: "u8 \<Rightarrow> PulseChannel \<Rightarrow> PulseChannel" where
  "write_duty val c = c\<lparr>p_duty := drop_bit 6 val AND 0x03, p_lengthCounter := 64 - ucast (val AND 0x3F)\<rparr>"

definition write_envelope :: "u8 \<Rightarrow> PulseChannel \<Rightarrow> PulseChannel" where
  "write_envelope val c =
     c\<lparr>p_dacEnabled := (val AND 0xF8 \<noteq> 0), p_enabled := (if val AND 0xF8 \<noteq> 0 then p_enabled c else False),
       p_envelopeIncrease := (val AND 0x08 \<noteq> 0), p_envelopePeriod := val AND 0x07, p_initialVolume := drop_bit 4 val AND 0x0F,
       p_volume := drop_bit 4 val AND 0x0F, p_envelopeTimer := val AND 0x07\<rparr>"

definition write_frequency_low :: "u8 \<Rightarrow> u16 \<Rightarrow> u16" where
  "write_frequency_low val f = (f AND 0x0700) OR ucast val"

definition write_frequency_high :: "u8 \<Rightarrow> u16 \<Rightarrow> u16" where
  "write_frequency_high val f = push_bit 8 (ucast (val AND 0x07)) OR (f AND 0x00FF)"

definition write_pulse_control :: "u8 \<Rightarrow> PulseChannel \<Rightarrow> PulseChannel" where
  "write_pulse_control val c =
     (let c = c\<lparr>p_frequency := write_frequency_high val (p_frequency c), p_lengthEnabled := (val AND 0x40 \<noteq> 0)\<rparr> in
      if val AND 0x80 \<noteq> 0
      then c\<lparr>p_lengthCounter := (if p_lengthCounter c = 0 then 64 else p_lengthCounter c), p_volume := p_initialVolume c,
             p_envelopeTimer := p_envelopePeriod c, p_dutyStep := 0, p_timer := pulseTimerPeriod (p_frequency c),
             p_enabled := p_dacEnabled c\<rparr>
      else c)"

definition write_sweep :: "u8 \<Rightarrow> PulseChannel \<Rightarrow> PulseChannel" where
  "write_sweep val c =
     c\<lparr>p_sweepPeriod := drop_bit 4 val AND 0x07, p_sweepNegate := (val AND 0x08 \<noteq> 0), p_sweepShift := val AND 0x07,
       p_sweepEnabled := (drop_bit 4 val AND 0x07 \<noteq> 0 \<or> val AND 0x07 \<noteq> 0)\<rparr>"

definition restart_sweep :: "PulseChannel \<Rightarrow> PulseChannel" where
  "restart_sweep c =
     c\<lparr>p_hasSweep := (p_sweepPeriod c \<noteq> 0 \<or> p_sweepShift c \<noteq> 0), p_sweepEnabled := (p_sweepPeriod c \<noteq> 0 \<or> p_sweepShift c \<noteq> 0),
       p_shadowFrequency := p_frequency c, p_sweepTimer := p_sweepPeriod c\<rparr>"

definition write_wave_control :: "u8 \<Rightarrow> WaveChannel \<Rightarrow> WaveChannel" where
  "write_wave_control val c =
     (let c = c\<lparr>w_frequency := write_frequency_high val (w_frequency c), w_lengthEnabled := (val AND 0x40 \<noteq> 0)\<rparr>;
          c = (if val AND 0x80 \<noteq> 0 \<and> w_lengthCounter c = 0 then c\<lparr>w_lengthCounter := 256\<rparr> else c)
      in if val AND 0x80 \<noteq> 0
         then c\<lparr>w_enabled := w_dacEnabled c, w_timer := waveTimerPeriod (w_frequency c), w_sampleIndex := 0\<rparr> else c)"

definition write_noise_envelope :: "u8 \<Rightarrow> NoiseChannel \<Rightarrow> NoiseChannel" where
  "write_noise_envelope val c =
     c\<lparr>n_dacEnabled := (val AND 0xF8 \<noteq> 0), n_enabled := (if val AND 0xF8 \<noteq> 0 then n_enabled c else False),
       n_envelopeIncrease := (val AND 0x08 \<noteq> 0), n_envelopePeriod := val AND 0x07, n_initialVolume := drop_bit 4 val AND 0x0F,
       n_volume := drop_bit 4 val AND 0x0F, n_envelopeTimer := val AND 0x07\<rparr>"

definition write_noise_control :: "u8 \<Rightarrow> NoiseChannel \<Rightarrow> NoiseChannel" where
  "write_noise_control val c =
     (let c = c\<lparr>n_lengthEnabled := (val AND 0x40 \<noteq> 0)\<rparr> in
      if val AND 0x80 \<noteq> 0
      then c\<lparr>n_lengthCounter := (if n_lengthCounter c = 0 then 64 else n_lengthCounter c), n_enabled := n_dacEnabled c,
             n_volume := n_initialVolume c, n_envelopeTimer := n_envelopePeriod c, n_lfsr := 0x7FFF,
             n_timer := noiseTimerPeriod c\<rparr>
      else c)"

text \<open>What a register write does while the generator is powered; NR52 and the wave RAM work always.\<close>

definition powered_write :: "u16 \<Rightarrow> u8 \<Rightarrow> apu_state \<Rightarrow> apu_state" where
  "powered_write address val s =
     (if address = 0xFF10 then on_pulse1 (write_sweep val) s
      else if address = 0xFF11 then on_pulse1 (write_duty val) s
      else if address = 0xFF12 then on_pulse1 (write_envelope val) s
      else if address = 0xFF13 then on_pulse1 (\<lambda>c. c\<lparr>p_frequency := write_frequency_low val (p_frequency c)\<rparr>) s
      else if address = 0xFF14 then on_pulse1 (restart_sweep \<circ> write_pulse_control val) s
      else if address = 0xFF16 then on_pulse2 (write_duty val) s
      else if address = 0xFF17 then on_pulse2 (write_envelope val) s
      else if address = 0xFF18 then on_pulse2 (\<lambda>c. c\<lparr>p_frequency := write_frequency_low val (p_frequency c)\<rparr>) s
      else if address = 0xFF19 then on_pulse2 (write_pulse_control val) s
      else if address = 0xFF1A then
        on_wave (\<lambda>c. c\<lparr>w_dacEnabled := (val AND 0x80 \<noteq> 0), w_enabled := (if val AND 0x80 \<noteq> 0 then w_enabled c else False)\<rparr>) s
      else if address = 0xFF1B then on_wave (\<lambda>c. c\<lparr>w_lengthCounter := 256 - ucast val\<rparr>) s
      else if address = 0xFF1C then on_wave (\<lambda>c. c\<lparr>w_outputLevel := drop_bit 5 val AND 0x03\<rparr>) s
      else if address = 0xFF1D then on_wave (\<lambda>c. c\<lparr>w_frequency := write_frequency_low val (w_frequency c)\<rparr>) s
      else if address = 0xFF1E then on_wave (write_wave_control val) s
      else if address = 0xFF20 then on_noise (\<lambda>c. c\<lparr>n_lengthCounter := 64 - ucast (val AND 0x3F)\<rparr>) s
      else if address = 0xFF21 then on_noise (write_noise_envelope val) s
      else if address = 0xFF22 then
        on_noise (\<lambda>c. c\<lparr>n_clockShift := drop_bit 4 val, n_divisorCode := val AND 0x07, n_widthMode7 := (val AND 0x08 \<noteq> 0)\<rparr>) s
      else if address = 0xFF23 then on_noise (write_noise_control val) s
      else if address = 0xFF24 then s\<lparr>nr50 := val\<rparr>
      else if address = 0xFF25 then s\<lparr>nr51 := val\<rparr>
      else s)"

definition apu_writeRegister :: "u16 \<Rightarrow> u8 \<Rightarrow> gb_apu \<Rightarrow> gb_apu" where
  "apu_writeRegister address val a =
     (let s = apu a;
          s = (if address = 0xFF26 then
                 (let s = s\<lparr>masterEnabled := (val AND 0x80 \<noteq> 0), nr52 := val\<rparr>
                  in if masterEnabled s then s
                     else s\<lparr>pulse1 := new_pulse, pulse2 := new_pulse, wave := new_wave, noise := new_noise, nr50 := 0, nr51 := 0\<rparr>)
               else if address \<ge> 0xFF30 \<and> address \<le> 0xFF3F then s\<lparr>apuWaveRam := (apuWaveRam s)[unat (address - 0xFF30) := val]\<rparr>
               else if masterEnabled s then powered_write address val s
               else s)
      in recordWriteEvent address val (a\<lparr>apu := s\<rparr>))"

definition apu_readRegister :: "u16 \<Rightarrow> apu_state \<Rightarrow> u8" where
  "apu_readRegister address s =
     (if address = 0xFF24 then nr50 s
      else if address = 0xFF25 then nr51 s
      else if address = 0xFF26 then
        (0x70 OR (if masterEnabled s then 0x80 else 0)) OR
        (((if p_enabled (pulse1 s) then 0x01 else 0) OR (if p_enabled (pulse2 s) then 0x02 else 0) OR
          (if w_enabled (wave s) then 0x04 else 0) OR (if n_enabled (noise s) then 0x08 else 0)) AND 0x0F)
      else if address \<ge> 0xFF30 \<and> address \<le> 0xFF3F then apuWaveRam s ! unat (address - 0xFF30)
      else 0xFF)"

section \<open>Output and state\<close>

definition copyRecentSamples :: "apu_state \<Rightarrow> u16 list" where
  "copyRecentSamples s =
     (let start = (recentWriteCursor s + kHistorySamples - recentSampleCount s) mod kHistorySamples
      in map (\<lambda>i. apuSamples s ! ((start + i) mod kHistorySamples)) [0..<recentSampleCount s])"

definition takePendingSamples :: "gb_apu \<Rightarrow> u16 list \<times> gb_apu" where
  "takePendingSamples a =
     (let s = apu a; n = pendingSampleCount s in
      if n = 0 then ([], a)
      else (map (\<lambda>i. apuSamples s ! ((pendingReadCursor s + i) mod kHistorySamples)) [0..<n],
            a\<lparr>apu := s\<lparr>pendingReadCursor := (pendingReadCursor s + n) mod kHistorySamples, pendingSampleCount := 0\<rparr>\<rparr>))"

definition copyPendingVoiceStems :: "gb_apu \<Rightarrow> u16 list" where
  "copyPendingVoiceStems a =
     concat (map (\<lambda>voice. map (\<lambda>i. apuVoiceStems a ! voice ! ((pendingReadCursor (apu a) + i) mod kHistorySamples))
       [0..<pendingSampleCount (apu a)]) [0..<4])"

definition takePendingEvents :: "u64 \<Rightarrow> gb_apu \<Rightarrow> PsgAudioEvent list \<times> gb_apu" where
  "takePendingEvents firstSampleFrame a =
     (map (\<lambda>(ev, at). ev\<lparr>sampleFrameOffset := ucast (if at > firstSampleFrame then at - firstSampleFrame else 0)\<rparr>) (pendingEvents a),
      a\<lparr>pendingEvents := []\<rparr>)"

definition takePendingEventDropCount :: "gb_apu \<Rightarrow> u64 \<times> gb_apu" where
  "takePendingEventDropCount a = (pendingEventDropCount a, a\<lparr>pendingEventDropCount := 0\<rparr>)"

definition apu_exportState :: "gb_apu \<Rightarrow> apu_state" where "apu_exportState a = apu a"

definition apu_importState :: "apu_state \<Rightarrow> gb_apu \<Rightarrow> gb_apu result" where
  "apu_importState s a =
     (if frameSequencerStep s > 7 \<or> recentWriteCursor s \<ge> kHistorySamples \<or> recentSampleCount s > kHistorySamples \<or>
         pendingReadCursor s \<ge> kHistorySamples \<or> pendingSampleCount s > kHistorySamples \<or>
         p_sweepShift (pulse1 s) > 7 \<or> n_clockShift (noise s) > 15
      then Inl (Invalid_argument ''APU state contains invalid fields'')
      else Inr (apu_snapshots (a\<lparr>apu := s, apuVoiceStems := replicate 4 (replicate kHistorySamples 0), pendingEvents := [],
                                 pendingEventDropCount := 0, apuGateStates := apu_gates s\<rparr>)))"

end
