(* ===== verification/GB_APULaws.thy ===== *)
theory GB_APULaws
  imports GB_APU
begin

text \<open>
  Laws of the Game Boy sound generator: events do not touch the sound, the sample clock is exact, the deadline of the
  next event is exact, and the mix of four channels never clips.
\<close>

section \<open>Fields no part of a cycle changes\<close>

lemma apu_recordVoiceEvent [simp]: "apu (recordVoiceEvent v k ad b r a) = apu a"
  by (simp add: recordVoiceEvent_def Let_def)

lemma apu_fold_events [simp]: "apu (fold (\<lambda>v. recordVoiceEvent v k ad b r) vs a) = apu a"
  by (induction vs arbitrary: a) simp_all

lemma apu_recordWriteEvent [simp]: "apu (recordWriteEvent ad b a) = apu a"
  by (simp add: recordWriteEvent_def Let_def)

abbreviation clock_of :: "apu_state \<Rightarrow> bool \<times> u32 \<times> u64" where
  "clock_of s \<equiv> (masterEnabled s, sampleAccumulator s, sampleCounter s)"

lemma clock_envelope:
  "clock_of (apu (tickPulseEnvelope v a)) = clock_of (apu a)" "clock_of (apu (tickNoiseEnvelope a)) = clock_of (apu a)"
  by (simp_all add: tickPulseEnvelope_def tickNoiseEnvelope_def Let_def split: prod.split)

lemma clock_sequencer: "clock_of (apu (stepFrameSequencer a)) = clock_of (apu a)"
  using clock_envelope by (simp add: stepFrameSequencer_def tickLengthCounters_def Let_def)

lemma sequencer_counter_envelope:
  "frameSequencerCounter (apu (tickPulseEnvelope v a)) = frameSequencerCounter (apu a)"
  "frameSequencerCounter (apu (tickNoiseEnvelope a)) = frameSequencerCounter (apu a)"
  by (simp_all add: tickPulseEnvelope_def tickNoiseEnvelope_def Let_def split: prod.split)

lemma sequencer_fields:
  "frameSequencerCounter (apu (stepFrameSequencer a)) = frameSequencerCounter (apu a)"
  "frameSequencerStep (apu (stepFrameSequencer a)) = (frameSequencerStep (apu a) + 1) AND 7"
  by (simp_all add: stepFrameSequencer_def tickLengthCounters_def sequencer_counter_envelope Let_def)

lemma clock_timers [simp]:
  "masterEnabled (tickTimers s) = masterEnabled s" "sampleAccumulator (tickTimers s) = sampleAccumulator s"
  "sampleCounter (tickTimers s) = sampleCounter s" "frameSequencerCounter (tickTimers s) = frameSequencerCounter s"
  "frameSequencerStep (tickTimers s) = frameSequencerStep s"
  by (simp_all add: tickTimers_def)

text \<open>What the powered part of a cycle does before the sample clock.\<close>

definition powered_cycle :: "gb_apu \<Rightarrow> gb_apu" where
  "powered_cycle a =
     (if masterEnabled (apu a) then
        (let s = (apu a)\<lparr>frameSequencerCounter := frameSequencerCounter (apu a) + 1\<rparr>;
             a = (if frameSequencerCounter s \<ge> kCyclesPerFrameStep
                  then stepFrameSequencer (a\<lparr>apu := s\<lparr>frameSequencerCounter := 0\<rparr>\<rparr>) else a\<lparr>apu := s\<rparr>)
         in a\<lparr>apu := tickTimers (apu a)\<rparr>)
      else a)"

definition add_time :: "gb_apu \<Rightarrow> gb_apu" where
  "add_time a = a\<lparr>apu := (apu a)\<lparr>sampleAccumulator := sampleAccumulator (apu a) + kApuSampleRate\<rparr>\<rparr>"

lemma apu_cycle_parts: "apu_cycle a = drain_samples (add_time (powered_cycle a))"
  by (simp add: apu_cycle_def powered_cycle_def add_time_def Let_def)

lemma clock_powered: "clock_of (apu (powered_cycle a)) = clock_of (apu a)"
  using clock_sequencer [of "a\<lparr>apu := (apu a)\<lparr>frameSequencerCounter := 0\<rparr>\<rparr>"]
  by (simp add: powered_cycle_def Let_def)

section \<open>The sample clock\<close>

lemma clock_emit:
  "sampleCounter (apu (emit_sample a)) = sampleCounter (apu a) + 1" "masterEnabled (apu (emit_sample a)) = masterEnabled (apu a)"
  "frameSequencerCounter (apu (emit_sample a)) = frameSequencerCounter (apu a)"
  "frameSequencerStep (apu (emit_sample a)) = frameSequencerStep (apu a)"
  by (simp_all add: emit_sample_def pushSample_def Let_def)

text \<open>The clock as numbers: what is left of the current sample, and the samples made.\<close>

lemma cycle_clock:
  assumes "sampleAccumulator (apu a) < kMasterClockHz"
  defines "t \<equiv> unat (sampleAccumulator (apu a)) + 48000"
  shows "unat (sampleAccumulator (apu (apu_cycle a))) = t mod 4194304"
    and "sampleCounter (apu (apu_cycle a)) = sampleCounter (apu a) + of_nat (t div 4194304)"
    and "masterEnabled (apu (apu_cycle a)) = masterEnabled (apu a)"
    and "frameSequencerCounter (apu (apu_cycle a)) = frameSequencerCounter (apu (powered_cycle a))"
    and "frameSequencerStep (apu (apu_cycle a)) = frameSequencerStep (apu (powered_cycle a))"
proof -
  let ?b = "add_time (powered_cycle a)"
  have less: "unat (sampleAccumulator (apu a)) < 4194304" using assms(1) by (simp add: kMasterClockHz_def word_less_nat_alt)
  have acc: "unat (sampleAccumulator (apu ?b)) = t"
    using clock_powered [of a] less
    by (simp add: add_time_def t_def kApuSampleRate_def unat_word_ariths)
  have b: "sampleCounter (apu ?b) = sampleCounter (apu a)" "masterEnabled (apu ?b) = masterEnabled (apu a)"
    "frameSequencerCounter (apu ?b) = frameSequencerCounter (apu (powered_cycle a))"
    "frameSequencerStep (apu ?b) = frameSequencerStep (apu (powered_cycle a))"
    using clock_powered [of a] by (simp_all add: add_time_def)
  have *: "unat (sampleAccumulator (apu (drain_samples ?b))) = t mod 4194304 \<and>
    sampleCounter (apu (drain_samples ?b)) = sampleCounter (apu a) + of_nat (t div 4194304) \<and>
    masterEnabled (apu (drain_samples ?b)) = masterEnabled (apu a) \<and>
    frameSequencerCounter (apu (drain_samples ?b)) = frameSequencerCounter (apu (powered_cycle a)) \<and>
    frameSequencerStep (apu (drain_samples ?b)) = frameSequencerStep (apu (powered_cycle a))"
  proof (cases "t < 4194304")
    case True
    then have "drain_samples ?b = ?b" using acc by (subst drain_samples.simps) (simp add: kMasterClockHz_def word_le_nat_alt)
    then show ?thesis using True acc b by simp
  next
    case False
    then have ge: "sampleAccumulator (apu ?b) \<ge> kMasterClockHz" using acc by (simp add: kMasterClockHz_def word_le_nat_alt)
    have e: "unat (sampleAccumulator (apu (emit_sample ?b))) = t - 4194304"
      using ge acc by (simp add: unat_sub) (simp add: kMasterClockHz_def)
    have "t - 4194304 < 4194304" using less by (simp add: t_def)
    then have "drain_samples (emit_sample ?b) = emit_sample ?b"
      using e by (subst drain_samples.simps) (simp add: kMasterClockHz_def word_le_nat_alt)
    then have "drain_samples ?b = emit_sample ?b" using ge by (subst drain_samples.simps) simp
    moreover have "t mod 4194304 = t - 4194304" "t div 4194304 = 1"
      using False less by (auto simp: t_def mod_if div_if)
    ultimately show ?thesis using e b by (simp add: clock_emit)
  qed
  show "unat (sampleAccumulator (apu (apu_cycle a))) = t mod 4194304"
    and "sampleCounter (apu (apu_cycle a)) = sampleCounter (apu a) + of_nat (t div 4194304)"
    and "masterEnabled (apu (apu_cycle a)) = masterEnabled (apu a)"
    and "frameSequencerCounter (apu (apu_cycle a)) = frameSequencerCounter (apu (powered_cycle a))"
    and "frameSequencerStep (apu (apu_cycle a)) = frameSequencerStep (apu (powered_cycle a))"
    using * by (simp_all add: apu_cycle_parts)
qed

lemma carry_div: "x div m + (x mod m + y) div m = (x + y) div m" if "m > 0" for x y m :: nat
proof -
  have "x + y = (x mod m + y) + (x div m) * m" by simp
  then have "(x + y) div m = ((x mod m + y) + (x div m) * m) div m" by (rule arg_cong)
  also have "\<dots> = x div m + (x mod m + y) div m" using that by (intro div_mult_self1) simp
  finally show ?thesis by (rule sym)
qed

lemma cycles_clock:
  assumes "sampleAccumulator (apu a) < kMasterClockHz"
  defines "t \<equiv> (\<lambda>n. unat (sampleAccumulator (apu a)) + n * 48000)"
  shows "unat (sampleAccumulator (apu ((apu_cycle ^^ n) a))) = t n mod 4194304 \<and>
    sampleCounter (apu ((apu_cycle ^^ n) a)) = sampleCounter (apu a) + of_nat (t n div 4194304) \<and>
    masterEnabled (apu ((apu_cycle ^^ n) a)) = masterEnabled (apu a)"
proof (induction n)
  case 0
  have "unat (sampleAccumulator (apu a)) < 4194304" using assms(1) by (simp add: kMasterClockHz_def word_less_nat_alt)
  then show ?case by (simp add: t_def)
next
  case (Suc n)
  let ?m = "(apu_cycle ^^ n) a"
  have less: "sampleAccumulator (apu ?m) < kMasterClockHz" using Suc.IH by (simp add: kMasterClockHz_def word_less_nat_alt)
  have next_time: "t (Suc n) = t n + 48000" by (simp add: t_def)
  then have d: "(t n mod 4194304 + 48000) mod 4194304 = t (Suc n) mod 4194304"
    "t n div 4194304 + (t n mod 4194304 + 48000) div 4194304 = t (Suc n) div 4194304"
    by (simp_all add: mod_add_left_eq carry_div)
  have "sampleCounter (apu (apu_cycle ?m)) =
      sampleCounter (apu a) + of_nat (t n div 4194304 + (t n mod 4194304 + 48000) div 4194304)"
    using cycle_clock(2) [OF less] Suc.IH by (simp add: add.assoc)
  then show ?case using cycle_clock(1,3) [OF less] Suc.IH d by simp
qed

text \<open>C35: The sample clock is exact. In any number of CPU cycles, with the generator powered or not, the number of
  samples produced is the whole part of elapsed cycles times 48000 over 4194304, carried over from call to call by
  the accumulator: no sample is ever lost, doubled or drifts.\<close>

theorem apu_sample_clock:
  fixes cycles :: u32
  assumes "sampleAccumulator (apu a) < kMasterClockHz"
  defines "t \<equiv> unat (sampleAccumulator (apu a)) + unat cycles * 48000"
  shows "sampleCounter (apu (apu_step cycles a)) = sampleCounter (apu a) + of_nat (t div 4194304) \<and>
    unat (sampleAccumulator (apu (apu_step cycles a))) = t mod 4194304"
  using cycles_clock [OF assms(1), of "unat cycles"] by (simp add: apu_step_def t_def)

section \<open>The deadline\<close>

lemma powered_quiet:
  assumes "masterEnabled (apu a) \<longrightarrow> frameSequencerCounter (apu a) + 1 < kCyclesPerFrameStep"
  shows "frameSequencerStep (apu (powered_cycle a)) = frameSequencerStep (apu a)"
    and "masterEnabled (apu a) \<Longrightarrow> frameSequencerCounter (apu (powered_cycle a)) = frameSequencerCounter (apu a) + 1"
  using assms by (auto simp: powered_cycle_def Let_def)

lemma powered_event:
  assumes "masterEnabled (apu a)" and "frameSequencerCounter (apu a) + 1 \<ge> kCyclesPerFrameStep"
  shows "frameSequencerStep (apu (powered_cycle a)) = (frameSequencerStep (apu a) + 1) AND 7"
  using assms by (simp add: powered_cycle_def sequencer_fields Let_def)

lemma next_step_differs: "(k + 1) AND 7 \<noteq> k" for k :: u8
proof
  assume h: "(k + 1) AND 7 = k"
  then have "unat k = unat ((k + 1) AND 7)" by simp
  also have "\<dots> = unat (k + 1) mod 8" by (simp add: and_7 unat_take_bit)
  also have "\<dots> = (unat k + 1) mod 8" by (simp add: unat_word_ariths mod_mod_cancel)
  finally show False by presburger
qed

lemma quiet_cycles:
  assumes "sampleAccumulator (apu a) < kMasterClockHz"
    and "masterEnabled (apu a) \<longrightarrow> unat (frameSequencerCounter (apu a)) + n < 8192"
  shows "frameSequencerStep (apu ((apu_cycle ^^ n) a)) = frameSequencerStep (apu a) \<and>
    (masterEnabled (apu a) \<longrightarrow> unat (frameSequencerCounter (apu ((apu_cycle ^^ n) a))) = unat (frameSequencerCounter (apu a)) + n)"
  using assms(2)
proof (induction n)
  case (Suc n)
  let ?m = "(apu_cycle ^^ n) a"
  have clock: "sampleAccumulator (apu ?m) < kMasterClockHz" "masterEnabled (apu ?m) = masterEnabled (apu a)"
    using cycles_clock [OF assms(1), of n] by (simp_all add: kMasterClockHz_def word_less_nat_alt)
  have room: "masterEnabled (apu ?m) \<longrightarrow> unat (frameSequencerCounter (apu ?m) + 1) = unat (frameSequencerCounter (apu a)) + Suc n"
    using Suc clock(2) by (auto simp: unat_word_ariths)
  then have "masterEnabled (apu ?m) \<longrightarrow> frameSequencerCounter (apu ?m) + 1 < kCyclesPerFrameStep"
    using Suc.prems clock(2) by (simp add: kCyclesPerFrameStep_def word_less_nat_alt)
  note q = powered_quiet [OF this]
  have ih: "frameSequencerStep (apu ?m) = frameSequencerStep (apu a)" using Suc.IH Suc.prems by auto
  show ?case using q cycle_clock(4,5) [OF clock(1)] ih room clock(2) by simp
qed simp

lemma deadline_nat:
  assumes "sampleAccumulator s < kMasterClockHz" and "frameSequencerCounter s < kCyclesPerFrameStep"
  defines "due \<equiv> (4194304 - unat (sampleAccumulator s) + 47999) div 48000"
  shows "unat (apu_cyclesUntilNextEvent s) = (if masterEnabled s then min due (8192 - unat (frameSequencerCounter s)) else due)"
proof -
  have less: "unat (sampleAccumulator s) < 4194304" "unat (frameSequencerCounter s) < 8192"
    using assms by (simp_all add: kMasterClockHz_def kCyclesPerFrameStep_def word_less_nat_alt)
  have sub: "unat (kMasterClockHz - sampleAccumulator s) = 4194304 - unat (sampleAccumulator s)"
    "unat (kCyclesPerFrameStep - frameSequencerCounter s) = 8192 - unat (frameSequencerCounter s)"
    using assms(1,2) by (simp_all add: unat_sub kMasterClockHz_def kCyclesPerFrameStep_def)
  have d: "unat ((kMasterClockHz - sampleAccumulator s + kApuSampleRate - 1) div kApuSampleRate) = due"
  proof -
    have 1: "kMasterClockHz - sampleAccumulator s + kApuSampleRate - 1 = kMasterClockHz - sampleAccumulator s + 47999"
      by (simp add: kApuSampleRate_def)
    have 2: "unat (kMasterClockHz - sampleAccumulator s + 47999) = 4194304 - unat (sampleAccumulator s) + 47999"
      by (simp only: unat_word_ariths sub) simp
    have 3: "unat kApuSampleRate = 48000" by (simp add: kApuSampleRate_def)
    show ?thesis by (simp only: unat_div due_def 1 2 3)
  qed
  have n: "\<not> kMasterClockHz \<le> sampleAccumulator s" "\<not> kCyclesPerFrameStep \<le> frameSequencerCounter s" using assms by simp_all
  show ?thesis
  proof (cases "masterEnabled s")
    case True
    then show ?thesis using n d sub by (simp add: apu_cyclesUntilNextEvent_def Let_def min_def word_le_nat_alt)
  next
    case False
    then show ?thesis using n d by (simp add: apu_cyclesUntilNextEvent_def Let_def)
  qed
qed

lemma no_sample_before: "acc < 4194304 \<Longrightarrow> (acc + n * 48000) div 4194304 = 0 \<longleftrightarrow> n < (4194304 - acc + 47999) div 48000" for acc n :: nat
  by (simp add: div_eq_0_iff) linarith

text \<open>C33: The deadline reported to the scheduler is exact. With the two counters within their bounds, nothing
  audible happens in any shorter run (no sample is produced and the frame sequencer does not move), and after that
  many cycles a sample has been produced or the frame sequencer has moved.\<close>

theorem apu_deadline_exact:
  fixes n :: nat
  assumes "sampleAccumulator (apu a) < kMasterClockHz" and "frameSequencerCounter (apu a) < kCyclesPerFrameStep"
    and "n \<le> unat (apu_cyclesUntilNextEvent (apu a))"
  defines "s \<equiv> apu ((apu_cycle ^^ n) a)"
  shows "(sampleCounter s = sampleCounter (apu a) \<and> frameSequencerStep s = frameSequencerStep (apu a)) \<longleftrightarrow>
    n < unat (apu_cyclesUntilNextEvent (apu a))"
proof -
  let ?acc = "unat (sampleAccumulator (apu a))" and ?f = "unat (frameSequencerCounter (apu a))"
  let ?due = "(4194304 - ?acc + 47999) div 48000"
  have less: "?acc < 4194304" "?f < 8192"
    using assms(1,2) by (simp_all add: kMasterClockHz_def kCyclesPerFrameStep_def word_less_nat_alt)
  note deadline = deadline_nat [OF assms(1,2)]
  have due: "?due \<le> 88" using less by linarith
  have n: "n \<le> ?due" using assms(3) deadline by (simp split: if_splits)
  have counter: "sampleCounter s = sampleCounter (apu a) + of_nat ((?acc + n * 48000) div 4194304)"
    using cycles_clock [OF assms(1), of n] by (simp add: s_def)
  have small: "(?acc + n * 48000) div 4194304 \<le> 2" using less n due by linarith
  have sample: "sampleCounter s = sampleCounter (apu a) \<longleftrightarrow> n < ?due"
  proof -
    have "of_nat ((?acc + n * 48000) div 4194304) = (0 :: u64) \<longleftrightarrow> (?acc + n * 48000) div 4194304 = 0"
      using small by (auto simp: word_unat_eq_iff take_bit_nat_eq_self unat_of_nat)
    then show ?thesis using counter no_sample_before [OF less(1), of n] by simp
  qed
  show ?thesis
  proof (cases "masterEnabled (apu a)")
    case False
    then have "frameSequencerStep s = frameSequencerStep (apu a)" using quiet_cycles [OF assms(1), of n] by (simp add: s_def)
    then show ?thesis using sample deadline False by simp
  next
    case True
    have le: "n \<le> 8192 - ?f" using assms(3) deadline True by simp
    have step: "frameSequencerStep s = frameSequencerStep (apu a) \<longleftrightarrow> n < 8192 - ?f"
    proof (cases "n < 8192 - ?f")
      case lt: True
      then have "?f + n < 8192" by simp
      then show ?thesis using quiet_cycles [OF assms(1), of n] lt by (simp add: s_def)
    next
      case False
      then have k: "n = Suc (n - 1)" "?f + (n - 1) = 8191" using le less(2) by auto
      define k where "k = n - 1"
      note k = k [folded k_def]
      let ?m = "(apu_cycle ^^ k) a"
      have clock: "sampleAccumulator (apu ?m) < kMasterClockHz" "masterEnabled (apu ?m)"
        using cycles_clock [OF assms(1), of k] True by (simp_all add: kMasterClockHz_def word_less_nat_alt)
      have q: "frameSequencerStep (apu ?m) = frameSequencerStep (apu a)" "unat (frameSequencerCounter (apu ?m)) = 8191"
        using quiet_cycles [OF assms(1), of k] True k(2) by simp_all
      then have "frameSequencerCounter (apu ?m) + 1 \<ge> kCyclesPerFrameStep"
        by (simp add: kCyclesPerFrameStep_def word_le_nat_alt unat_word_ariths)
      then have "frameSequencerStep s = (frameSequencerStep (apu a) + 1) AND 7"
        using powered_event [of ?m] clock q cycle_clock(5) [of ?m] by (simp add: s_def k(1))
      then show ?thesis using False next_step_differs by simp
    qed
    then show ?thesis using sample deadline True by auto
  qed
qed

lemma reset_bounds:
  "sampleAccumulator (apu (apu_reset a)) < kMasterClockHz" "frameSequencerCounter (apu (apu_reset a)) < kCyclesPerFrameStep"
  by (simp_all add: apu_reset_def apu_snapshots_def new_apu_state_def kMasterClockHz_def kCyclesPerFrameStep_def)

theorem apu_sample_clock_witness:
  "sampleCounter (apu (apu_step 175 (apu_reset new_gb_apu))) = 2"
  using apu_sample_clock [OF reset_bounds(1), of 175 new_gb_apu]
  by (simp add: apu_reset_def apu_snapshots_def new_apu_state_def)

theorem apu_deadline_exact_witness:
  "sampleCounter (apu ((apu_cycle ^^ 87) (apu_reset new_gb_apu))) = sampleCounter (apu (apu_reset new_gb_apu))"
  using apu_deadline_exact [OF reset_bounds, of 87 new_gb_apu]
  by (simp add: deadline_nat [OF reset_bounds]) (simp add: apu_reset_def apu_snapshots_def new_apu_state_def)

section \<open>The mix\<close>

text \<open>The volumes a register write, a trigger and an envelope can give.\<close>

definition loud :: "apu_state \<Rightarrow> bool" where
  "loud s \<longleftrightarrow> p_volume (pulse1 s) \<le> 15 \<and> p_initialVolume (pulse1 s) \<le> 15 \<and> p_volume (pulse2 s) \<le> 15 \<and>
     p_initialVolume (pulse2 s) \<le> 15 \<and> n_volume (noise s) \<le> 15 \<and> n_initialVolume (noise s) \<le> 15"

inductive apu_reachable :: "gb_apu \<Rightarrow> bool" where
  reset: "apu_reachable (apu_reset a)"
| advance: "apu_reachable a \<Longrightarrow> apu_reachable (apu_step n a)"
| register: "apu_reachable a \<Longrightarrow> apu_reachable (apu_writeRegister address v a)"
| samples: "apu_reachable a \<Longrightarrow> apu_reachable (snd (takePendingSamples a))"
| events: "apu_reachable a \<Longrightarrow> apu_reachable (snd (takePendingEvents f a))"

lemma nibble_15: "drop_bit 4 v AND 0x0F \<le> (15 :: u8)"
  by (simp add: word_and_le1)

lemma envelope_15: "volume \<le> 15 \<Longrightarrow> snd (fst (tick_envelope p t i volume)) \<le> 15" for volume :: u8
proof -
  assume h: "volume \<le> 15"
  have "volume < 15 \<Longrightarrow> volume + 1 \<le> 15" by (simp add: inc_le)
  moreover have "volume - 1 \<le> 15" if "0 < volume"
    using h that unat_minus_one [of volume] by (auto simp: word_le_nat_alt)
  ultimately show ?thesis using h by (simp add: tick_envelope_def Let_def)
qed

lemma loud_ticks:
  "loud s \<Longrightarrow> loud (tickTimers s)" "loud s \<Longrightarrow> loud (tickLengthCounters s)"
  "loud s \<Longrightarrow> loud (s\<lparr>pulse1 := tickSweep (pulse1 s)\<rparr>)"
  by (simp_all add: loud_def tickTimers_def tickPulseTimer_def tickWaveTimer_def tickNoiseTimer_def tickLengthCounters_def
      pulse_length_def tick_length_def tickSweep_def Let_def)

lemma loud_envelopes:
  "loud (apu a) \<Longrightarrow> loud (apu (tickPulseEnvelope v a))" "loud (apu a) \<Longrightarrow> loud (apu (tickNoiseEnvelope a))"
  using envelope_15 by (auto simp: loud_def tickPulseEnvelope_def tickNoiseEnvelope_def Let_def split: prod.split) (metis fst_conv snd_conv)+

lemma loud_fields [simp]:
  "loud (s\<lparr>frameSequencerCounter := x\<rparr>) = loud s" "loud (s\<lparr>frameSequencerStep := y\<rparr>) = loud s"
  "loud (s\<lparr>sampleAccumulator := x\<rparr>) = loud s"
  by (simp_all add: loud_def)

lemma loud_sequencer: "loud (apu a) \<Longrightarrow> loud (apu (stepFrameSequencer a))"
  by (simp add: stepFrameSequencer_def loud_ticks loud_envelopes Let_def)

lemma loud_emit: "loud (apu a) \<Longrightarrow> loud (apu (emit_sample a))"
  by (simp add: emit_sample_def pushSample_def loud_def Let_def)

lemma loud_drain: "loud (apu a) \<Longrightarrow> loud (apu (drain_samples a))"
  by (induction a rule: drain_samples.induct) (subst drain_samples.simps, simp add: loud_emit)

lemma loud_cycle: "loud (apu a) \<Longrightarrow> loud (apu (apu_cycle a))"
  by (simp add: apu_cycle_def Let_def loud_drain loud_ticks loud_sequencer)

lemma loud_step: "loud (apu a) \<Longrightarrow> loud (apu (apu_step n a))"
proof -
  have "loud (apu a) \<Longrightarrow> loud (apu ((apu_cycle ^^ k) a))" for k by (induction k) (simp_all add: loud_cycle)
  then show "loud (apu a) \<Longrightarrow> loud (apu (apu_step n a))" by (simp add: apu_step_def)
qed

lemma loud_if: "loud a \<Longrightarrow> loud b \<Longrightarrow> loud (if p then a else b)"
  by simp

lemma loud_powered: "loud s \<Longrightarrow> loud (powered_write address v s)"
  unfolding powered_write_def
  by (intro loud_if; simp add: loud_def on_pulse1_def on_pulse2_def on_wave_def on_noise_def write_duty_def write_envelope_def
      write_pulse_control_def write_sweep_def restart_sweep_def write_wave_control_def write_noise_envelope_def
      write_noise_control_def Let_def nibble_15)

lemma loud_write: "loud (apu a) \<Longrightarrow> loud (apu (apu_writeRegister address v a))"
  by (simp add: apu_writeRegister_def Let_def loud_powered) (simp add: loud_def new_pulse_def new_noise_def)

lemma reachable_loud: "apu_reachable a \<Longrightarrow> loud (apu a)"
proof (induction rule: apu_reachable.induct)
  case (reset a)
  then show ?case by (simp add: apu_reset_def apu_snapshots_def new_apu_state_def loud_def new_pulse_def new_noise_def)
next
  case (samples a)
  then show ?case by (simp add: takePendingSamples_def loud_def Let_def)
qed (simp_all add: loud_step loud_write takePendingEvents_def)

lemma voice_bounds:
  assumes "loud s" and "k < 4"
  shows "(if k = 2 then - 16 else - 15) \<le> voice_samples s ! k \<and> voice_samples s ! k \<le> 15"
proof -
  have le: "uint v \<le> 15" if "v \<le> 15" for v :: u8 using that by (simp add: word_le_def)
  have pulse: "- 15 \<le> currentPulseSample m c \<and> currentPulseSample m c \<le> 15" if "p_volume c \<le> 15" for m c
    using le [OF that] by (simp add: currentPulseSample_def) (smt (verit) uint_nonnegative)
  have noise: "- 15 \<le> currentNoiseSample s \<and> currentNoiseSample s \<le> 15"
    using le [of "n_volume (noise s)"] assms(1) by (simp add: currentNoiseSample_def loud_def Let_def) (smt (verit) uint_nonnegative)
  have wave: "- 16 \<le> currentWaveSample s \<and> currentWaveSample s \<le> 15"
  proof -
    have all: "uint (x AND m) * 2 \<le> 31" if "uint m \<le> 15" for x m :: u8
      using word_and_le1 [of x m] that by (simp add: word_le_def)
    show ?thesis using all [of 15] all [of 7] all [of 3] uint_nonnegative by (simp add: currentWaveSample_def Let_def left_diff_distrib)
  qed
  show ?thesis using pulse [of "pulse1 s"] pulse [of "pulse2 s"] noise wave assms
    by (auto simp: voice_samples_def loud_def less_Suc_eq numeral_eq_Suc)
qed

lemma gain_8: "uint (v AND 0x07) + 1 \<le> 8" for v :: u8
  using word_and_le1 [of v 7] by (simp add: word_le_def)

lemma contribution_bound:
  fixes raw l r :: int
  assumes "(- q) \<le> raw" and "raw \<le> 15" and "15 \<le> q" and "0 \<le> l" and "l \<le> 8" and "0 \<le> r" and "r \<le> 8"
  shows "- 512 * q \<le> ((if p then raw else 0) * l + (if p' then raw else 0) * r) * 32 \<and>
    ((if p then raw else 0) * l + (if p' then raw else 0) * r) * 32 \<le> 7680"
proof -
  have one: "- 8 * q \<le> (if b then raw else 0) * k \<and> (if b then raw else 0) * k \<le> 120" if "0 \<le> k" "k \<le> 8" for b and k :: int
  proof (cases b)
    case True
    have "k * raw \<le> k * 15" using that assms(2) by (intro mult_left_mono) auto
    moreover have "k * (- q) \<le> k * raw" using that assms(1) by (intro mult_left_mono) auto
    moreover have "k * q \<le> 8 * q" using that assms(3) by (intro mult_right_mono) auto
    ultimately show ?thesis using that True by (simp add: mult.commute)
  next
    case False
    then show ?thesis using assms(3) by simp
  qed
  show ?thesis using one [OF assms(4,5), of p] one [OF assms(6,7), of p'] unfolding distrib_right by (safe; linarith)
qed

text \<open>The contribution of a voice before it is brought into range.\<close>

definition routed_voice :: "apu_state \<Rightarrow> nat \<Rightarrow> int" where
  "routed_voice s voice =
     ((if nr51 s AND push_bit voice 0x10 \<noteq> 0 then voice_samples s ! voice else 0) * (uint (drop_bit 4 (nr50 s) AND 0x07) + 1) +
      (if nr51 s AND push_bit voice 0x01 \<noteq> 0 then voice_samples s ! voice else 0) * (uint (nr50 s AND 0x07) + 1)) * 32"

lemma routed_bounds:
  assumes "loud s" and "k < 4"
  shows "(if k = 2 then - 8192 else - 7680) \<le> routed_voice s k" and "routed_voice s k \<le> 7680"
proof -
  have g: "0 \<le> uint (drop_bit 4 (nr50 s) AND 0x07) + 1" "0 \<le> uint (nr50 s AND 0x07) + 1"
    by (smt (verit) uint_nonnegative)+
  note b = contribution_bound [where q = "if k = 2 then 16 else 15", OF _ _ _ g(1) gain_8 g(2) gain_8,
      of "voice_samples s ! k" "nr51 s AND push_bit k 0x10 \<noteq> 0" "nr51 s AND push_bit k 0x01 \<noteq> 0"]
  have "(if k = 2 then - 8192 else - 7680) \<le> routed_voice s k \<and> routed_voice s k \<le> 7680"
    using b voice_bounds [OF assms] by (simp add: routed_voice_def split: if_splits)
  then show "(if k = 2 then - 8192 else - 7680) \<le> routed_voice s k" and "routed_voice s k \<le> 7680" by simp_all
qed

text \<open>C34: The mixer never clips. Whatever registers are written and for however long the generator runs after a reset,
  every voice's contribution is its exact routed and scaled sample (the saturation to 16 bits changes none), and
  so is the sum of the four, so the mixed sample is the sum of the voice stems.\<close>

theorem apu_mix_never_clips:
  assumes "apu_reachable a"
  shows "currentVoiceContributions (apu a) = map (routed_voice (apu a)) [0, 1, 2, 3] \<and>
    clamp16 (sum_list (currentVoiceContributions (apu a))) = (\<Sum>voice<4. routed_voice (apu a) voice)"
proof -
  note b = routed_bounds [OF reachable_loud [OF assms]]
  have fits: "clamp16 (routed_voice (apu a) k) = routed_voice (apu a) k" if "k < 4" for k
    using b [OF that] by (simp add: clamp16_def split: if_splits)
  have stems: "currentVoiceContributions (apu a) = map (\<lambda>k. clamp16 (routed_voice (apu a) k)) [0..<4]"
    by (simp add: currentVoiceContributions_def routed_voice_def Let_def)
  then have exact: "currentVoiceContributions (apu a) = map (routed_voice (apu a)) [0, 1, 2, 3]"
    using fits by (simp add: upt_rec numeral_2_eq_2 numeral_3_eq_3)
  have "clamp16 (sum_list (currentVoiceContributions (apu a))) = sum_list (currentVoiceContributions (apu a))"
    using b [of 0] b [of 1] b [of 2] b [of 3] by (simp add: exact clamp16_def)
  then show ?thesis by (simp add: exact lessThan_nat_numeral lessThan_Suc)
qed

theorem apu_mix_never_clips_witness:
  "clamp16 (sum_list (currentVoiceContributions (apu (apu_writeRegister 0xFF24 0x77 (apu_reset new_gb_apu))))) =
   (\<Sum>voice<4. routed_voice (apu (apu_writeRegister 0xFF24 0x77 (apu_reset new_gb_apu))) voice)"
  by (rule apu_mix_never_clips [THEN conjunct2]) (intro apu_reachable.intros)

end
