(* ===== verification/GB_Input.thy ===== *)
theory GB_Input
  imports Prelude
begin

text \<open>
  The Game Boy joypad of \<open>src/cores/gameboy/GameBoyInput.cpp\<close>: the pressed buttons, the select bits of the JOYP
  register, what a read gives, and the two bytes of state.
\<close>

record gb_input =
  logicalButtons :: u8
  joypRegister :: u8

definition new_gb_input :: gb_input where "new_gb_input = \<lparr>logicalButtons = 0x00, joypRegister = 0xCF\<rparr>"

definition pad_reset :: "gb_input \<Rightarrow> gb_input" where "pad_reset i = i\<lparr>logicalButtons := 0x00, joypRegister := 0xCF\<rparr>"

definition pad_setLogicalButtons :: "u8 \<Rightarrow> gb_input \<Rightarrow> gb_input" where
  "pad_setLogicalButtons m i = i\<lparr>logicalButtons := m\<rparr>"

definition getPhysicalState :: "gb_input \<Rightarrow> u8" where "getPhysicalState i = joypRegister i"

text \<open>The four tests of one group: a pressed button of mask \<open>m\<close> clears the line of mask \<open>l\<close>.\<close>

definition clear_lines :: "(u8 \<times> u8) list \<Rightarrow> u8 \<Rightarrow> u8 \<Rightarrow> u8" where
  "clear_lines pairs buttons = fold (\<lambda>(m, l) r. if buttons AND m \<noteq> 0 then r AND NOT l else r) pairs"

definition pad_readRegister :: "gb_input \<Rightarrow> u8" where
  "pad_readRegister i =
     (let result = (0xC0 OR (joypRegister i AND 0x30)) OR 0x0F;
          dirSelected = (joypRegister i AND 0x10 = 0); btnSelected = (joypRegister i AND 0x20 = 0);
          result = (if dirSelected
                    then clear_lines [(0x01, 0x01), (0x02, 0x02), (0x04, 0x04), (0x08, 0x08)] (logicalButtons i) result
                    else result)
      in if btnSelected
         then clear_lines [(0x10, 0x01), (0x20, 0x02), (0x40, 0x04), (0x80, 0x08)] (logicalButtons i) result
         else result)"

definition pad_writeRegister :: "u8 \<Rightarrow> gb_input \<Rightarrow> gb_input" where
  "pad_writeRegister val i = i\<lparr>joypRegister := (joypRegister i AND 0xCF) OR (val AND 0x30)\<rparr>"

definition pad_exportState :: "gb_input \<Rightarrow> u8 list" where "pad_exportState i = [logicalButtons i, joypRegister i]"

definition pad_importState :: "u8 list \<Rightarrow> gb_input \<Rightarrow> gb_input result" where
  "pad_importState state i =
     (if length state \<noteq> 2 then Inl (Invalid_argument ''Input state must be exactly 2 bytes'')
      else Inr (i\<lparr>logicalButtons := state ! 0, joypRegister := (0xC0 OR (state ! 1 AND 0x30)) OR 0x0F\<rparr>))"

section \<open>Laws\<close>

definition pad_ok :: "gb_input \<Rightarrow> bool" where "pad_ok i \<longleftrightarrow> joypRegister i AND 0xCF = 0xCF"

lemma pad_ok_ops:
  "pad_ok (pad_reset i)" "pad_ok i \<Longrightarrow> pad_ok (pad_setLogicalButtons m i)" "pad_ok i \<Longrightarrow> pad_ok (pad_writeRegister v i)"
  "pad_importState s i = Inr j \<Longrightarrow> pad_ok j"
  by (auto simp: pad_ok_def pad_reset_def pad_setLogicalButtons_def pad_writeRegister_def pad_importState_def
      bit.conj_disj_distrib2 and.assoc split: if_splits)

lemma pad_restores: "pad_ok i \<Longrightarrow> pad_importState (pad_exportState i) j = Inr i" for i j :: gb_input
proof -
  have eq: "(0xC0 OR (w AND 0x30)) OR 0x0F = w" if "w AND 0xCF = 0xCF" for w :: u8
  proof -
    have "w = w AND (0x30 OR 0xCF)" by (simp add: and_255 take_bit_word_eq_self)
    also have "\<dots> = (w AND 0x30) OR (w AND 0xCF)" by (rule bit.conj_disj_distrib)
    finally have "w = (w AND 0x30) OR 0xCF" using that by simp
    moreover have "(0xC0 OR x) OR 0x0F = x OR 0xCF" for x :: u8 by (simp add: or.commute [of "0xC0" x] or.assoc)
    ultimately show ?thesis by simp
  qed
  show "pad_ok i \<Longrightarrow> pad_importState (pad_exportState i) j = Inr i"
    by (cases i; cases j) (simp add: pad_importState_def pad_exportState_def pad_ok_def eq)
qed

lemma bit_masks:
  "w AND 0x01 = 0 \<longleftrightarrow> \<not> bit w 0" "w AND 0x02 = 0 \<longleftrightarrow> \<not> bit w 1" "w AND 0x04 = 0 \<longleftrightarrow> \<not> bit w 2"
  "w AND 0x08 = 0 \<longleftrightarrow> \<not> bit w 3" "w AND 0x10 = 0 \<longleftrightarrow> \<not> bit w 4" "w AND 0x20 = 0 \<longleftrightarrow> \<not> bit w 5"
  "w AND 0x40 = 0 \<longleftrightarrow> \<not> bit w 6" "w AND 0x80 = 0 \<longleftrightarrow> \<not> bit w 7" for w :: u8
  using and_exp_eq_0_iff_not_bit [of w 0] and_exp_eq_0_iff_not_bit [of w 1] and_exp_eq_0_iff_not_bit [of w 2]
    and_exp_eq_0_iff_not_bit [of w 3] and_exp_eq_0_iff_not_bit [of w 4] and_exp_eq_0_iff_not_bit [of w 5]
    and_exp_eq_0_iff_not_bit [of w 6] and_exp_eq_0_iff_not_bit [of w 7]
  by simp_all

definition pad_line :: "gb_input \<Rightarrow> nat \<Rightarrow> bool" where
  "pad_line i n \<longleftrightarrow>
     \<not> (\<not> bit (joypRegister i) 4 \<and> bit (logicalButtons i) n \<or> \<not> bit (joypRegister i) 5 \<and> bit (logicalButtons i) (n + 4))"

lemma pad_line_bits:
  "bit (pad_readRegister i) 0 = pad_line i 0" "bit (pad_readRegister i) 1 = pad_line i 1"
  "bit (pad_readRegister i) 2 = pad_line i 2" "bit (pad_readRegister i) 3 = pad_line i 3"
  by (simp_all add: pad_readRegister_def pad_line_def clear_lines_def bit_masks Let_def bit_simps)

lemma pad_lines: "n < 4 \<Longrightarrow> bit (pad_readRegister i) n = pad_line i n"
proof -
  assume "n < 4"
  then have "n = 0 \<or> n = 1 \<or> n = 2 \<or> n = 3" by auto
  then show ?thesis using pad_line_bits [of i] by blast
qed

end
