(* ===== verification/GB_CpuTiming.thy ===== *)
theory GB_CpuTiming
  imports GB_Cpu GB_MemoryMap GB_APU GB_Input
begin

text \<open>
  The LR35902 in its machine: the bus with the write observer of \<open>src/cores/gameboy/GameBoyMachine.cpp\<close>, the
  CPU's cached hardware registers, interrupts, fetching and the per-cycle work of \<open>retireInstruction\<close> in
  \<open>src/cores/gameboy/gameboy.cpp\<close>. The machine attaches its memory map as the CPU's store, so the interceptors of
  the CPU's own store are never called: no transfer is ever started by a write, and no divider reset is ever queued.
  The bytes an OAM DMA of an imported state would move lie in the base storage no read reaches, and the CPU's own
  copy of the sound generator is not audible; both are left out.
\<close>

section \<open>The bus of the machine\<close>

datatype HwReg =
    HW_JOYP | HW_SB | HW_SC | HW_DIV | HW_TIMA | HW_TMA | HW_TAC | HW_IF | HW_LCDC | HW_STAT | HW_LY | HW_LYC | HW_DMA | HW_IE

fun hw_address :: "HwReg \<Rightarrow> u16" where
  "hw_address HW_JOYP = 0xFF00" | "hw_address HW_SB = 0xFF01" | "hw_address HW_SC = 0xFF02"
| "hw_address HW_DIV = 0xFF04" | "hw_address HW_TIMA = 0xFF05" | "hw_address HW_TMA = 0xFF06"
| "hw_address HW_TAC = 0xFF07" | "hw_address HW_IF = 0xFF0F" | "hw_address HW_LCDC = 0xFF40"
| "hw_address HW_STAT = 0xFF41" | "hw_address HW_LY = 0xFF44" | "hw_address HW_LYC = 0xFF45"
| "hw_address HW_DMA = 0xFF46" | "hw_address HW_IE = 0xFFFF"

definition cachedIoRegisterForAddress :: "u16 \<Rightarrow> HwReg option" where
  "cachedIoRegisterForAddress address =
     (if address = 0xFF01 then Some HW_SB else if address = 0xFF02 then Some HW_SC else if address = 0xFF04 then Some HW_DIV
      else if address = 0xFF05 then Some HW_TIMA else if address = 0xFF06 then Some HW_TMA
      else if address = 0xFF07 then Some HW_TAC else if address = 0xFF0F then Some HW_IF
      else if address = 0xFF40 then Some HW_LCDC else if address = 0xFF41 then Some HW_STAT
      else if address = 0xFF44 then Some HW_LY else if address = 0xFF45 then Some HW_LYC
      else if address = 0xFF46 then Some HW_DMA else if address = 0xFFFF then Some HW_IE else None)"

record gb_world =
  busMap :: gb_map
  hwRegs :: "HwReg \<Rightarrow> u8"
  padOf :: gb_input
  soundOf :: gb_apu
  bootEntryPending :: bool

definition on_map :: "(gb_map \<Rightarrow> gb_map) \<Rightarrow> gb_world \<Rightarrow> gb_world" where "on_map f w = w\<lparr>busMap := f (busMap w)\<rparr>"

definition writeCachedRegister :: "HwReg \<Rightarrow> u8 \<Rightarrow> gb_world \<Rightarrow> gb_world" where
  "writeCachedRegister r v w =
     (if hwRegs w r = v then w else on_map (setIoRegisterRaw (hw_address r) v) (w\<lparr>hwRegs := (hwRegs w)(r := v)\<rparr>))"

definition syncCachedIoRegisterWrite :: "u16 \<Rightarrow> u8 \<Rightarrow> gb_world \<Rightarrow> gb_world" where
  "syncCachedIoRegisterWrite address v w =
     (case cachedIoRegisterForAddress (resolveEchoAddress address) of Some r \<Rightarrow> writeCachedRegister r v w | None \<Rightarrow> w)"

text \<open>The write observer the machine installs, without plugin events and the block cache.\<close>

definition machine_observer :: "u16 \<Rightarrow> u8 \<Rightarrow> gb_world \<Rightarrow> gb_world" where
  "machine_observer address v w =
     (let observedValue = (if address \<ge> 0xFF00 \<and> address < 0xFF80 \<or> address = 0xFFFF then peek (busMap w) address else v);
          w = syncCachedIoRegisterWrite address observedValue w;
          w = (if address = 0xFF00 then
                 (let w = w\<lparr>padOf := pad_writeRegister v (padOf w)\<rparr>; r = pad_readRegister (padOf w)
                  in syncCachedIoRegisterWrite 0xFF00 r (on_map (setIoRegisterRaw 0xFF00 r) w))
               else w);
          w = (if address \<ge> 0xFF10 \<and> address \<le> 0xFF26 \<or> address \<ge> 0xFF30 \<and> address \<le> 0xFF3F then
                 (let w = w\<lparr>soundOf := apu_writeRegister address v (soundOf w)\<rparr>
                  in on_map (setIoRegisterRaw 0xFF26 (apu_readRegister 0xFF26 (apu (soundOf w)))) w)
               else w);
          w = (if address = 0xFF50 \<and> v \<noteq> 0 then w\<lparr>bootEntryPending := True\<rparr> else w)
      in on_map (cartridge_observer address v) w)"

definition world_write :: "u16 \<Rightarrow> u8 \<Rightarrow> gb_world \<Rightarrow> gb_world" where
  "world_write addr v w =
     (let resolved = resolveEchoAddress addr in machine_observer resolved v (on_map (store resolved v) w))"

definition gb_env :: "gb_world gb_memory" where
  "gb_env = \<lparr>rd8 = (\<lambda>w a. bus_read (busMap w) a), wr8 = world_write\<rparr>"

type_synonym gb_core = "gb_world lr"

abbreviation hw :: "gb_core \<Rightarrow> HwReg \<Rightarrow> u8" where "hw c r \<equiv> hwRegs (lr_world c) r"

definition put_hw :: "HwReg \<Rightarrow> u8 \<Rightarrow> gb_core \<Rightarrow> gb_core" where
  "put_hw r v c = c\<lparr>lr_world := writeCachedRegister r v (lr_world c)\<rparr>"

section \<open>Interrupts\<close>

definition kInterruptVBlank :: u8 where "kInterruptVBlank = 0x01"
definition kInterruptLcdStat :: u8 where "kInterruptLcdStat = 0x02"
definition kInterruptTimer :: u8 where "kInterruptTimer = 0x04"
definition kInterruptSerial :: u8 where "kInterruptSerial = 0x08"
definition kInterruptJoypad :: u8 where "kInterruptJoypad = 0x10"
definition kInterruptMask :: u8 where "kInterruptMask = 0x1F"

definition timerBitMaskForTac :: "u8 \<Rightarrow> u16" where
  "timerBitMaskForTac tac =
     (let k = tac AND 0x03 in
      if k = 0 then push_bit 9 1 else if k = 1 then push_bit 3 1 else if k = 2 then push_bit 5 1 else push_bit 7 1)"

definition isHramAddress :: "u16 \<Rightarrow> bool" where "isHramAddress address \<longleftrightarrow> address \<ge> 0xFF80 \<and> address \<le> 0xFFFE"

definition requestInterrupt :: "u8 \<Rightarrow> gb_core \<Rightarrow> gb_core" where
  "requestInterrupt m c = put_hw HW_IF ((hw c HW_IF OR m) AND kInterruptMask) c"

definition pending_interrupts :: "gb_core \<Rightarrow> u8" where
  "pending_interrupts c = (hw c HW_IE AND hw c HW_IF) AND kInterruptMask"

definition interrupt_choice :: "u8 \<Rightarrow> u8 \<times> u16" where
  "interrupt_choice pending =
     (if pending AND kInterruptVBlank \<noteq> 0 then (kInterruptVBlank, 0x0040)
      else if pending AND kInterruptLcdStat \<noteq> 0 then (kInterruptLcdStat, 0x0048)
      else if pending AND kInterruptTimer \<noteq> 0 then (kInterruptTimer, 0x0050)
      else if pending AND kInterruptSerial \<noteq> 0 then (kInterruptSerial, 0x0058)
      else (kInterruptJoypad, 0x0060))"

definition serviceInterruptIfPending :: "gb_core \<Rightarrow> bool \<times> gb_core" where
  "serviceInterruptIfPending c =
     (let pending = pending_interrupts c; requested = hw c HW_IF in
      if pending = 0 then (False, c)
      else
        (let c = c\<lparr>haltFlag := False\<rparr> in
         if \<not> ime c then (False, c)
         else
           (let (servicedMask, vector) = interrupt_choice pending;
                c = put_hw HW_IF (requested AND NOT servicedMask) c;
                c = c\<lparr>ime := False, imeEnablePending := False, imeEnableDelay := 0\<rparr>;
                currentPc = rPC c; c = c\<lparr>rSP := rSP c - 2\<rparr>;
                c = lr_write16 gb_env (rSP c) currentPc c
            in (True, c\<lparr>rPC := vector, pendingCycleCharge := 20\<rparr>))))"

section \<open>Fetching\<close>

text \<open>The bytes of the next instruction, or none when the CPU is stopped, locked up, halted, blocked by a DMA or
  has just entered an interrupt.\<close>

definition fetch_blocked :: "gb_core \<Rightarrow> bool" where
  "fetch_blocked c \<longleftrightarrow>
     stopFlag c \<or> illegalOpcodeLockup c \<or> dmaActive c \<and> \<not> isHramAddress (rPC c) \<or> haltFlag c \<and> pending_interrupts c = 0"

definition trigger_halt_bug :: "gb_core \<Rightarrow> gb_core" where
  "trigger_halt_bug c =
     (if haltFlag c \<and> pending_interrupts c \<noteq> 0 \<and> \<not> ime c then c\<lparr>haltFlag := False, haltBugActive := True\<rparr> else c)"

definition fetch_bytes :: "u16 \<Rightarrow> gb_core \<Rightarrow> u8 list" where
  "fetch_bytes pc c =
     (let opcode = rd8 gb_env (lr_world c) pc
      in opcode # map (\<lambda>i. rd8 gb_env (lr_world c) (if haltBugActive c then pc + of_nat i - 1 else pc + of_nat i))
           [1..<opcode_length opcode])"

definition fetchInto :: "gb_core \<Rightarrow> u8 list \<times> gb_core" where
  "fetchInto c =
     (if fetch_blocked c then ([], c)
      else
        (let pc = rPC c; (serviced, c) = serviceInterruptIfPending (trigger_halt_bug c)
         in if serviced then ([], c)
            else (fetch_bytes pc c, c\<lparr>haltBugActive := False, haltBugPcAdjustPending := haltBugActive c\<rparr>)))"

section \<open>Retiring an instruction\<close>

text \<open>The local variables of the loop of \<open>retireInstruction\<close> beside the CPU.\<close>

record retiring =
  tickCpu :: gb_core
  t_if :: u8
  t_sb :: u8
  t_sc :: u8
  t_tima :: u8
  t_stat :: u8
  t_ly :: u8
  serialDirty :: bool
  timerDirty :: bool
  interruptDirty :: bool
  statDirty :: bool
  lyDirty :: bool

definition raise_if :: "u8 \<Rightarrow> retiring \<Rightarrow> retiring" where
  "raise_if m t = t\<lparr>t_if := (t_if t OR m) AND kInterruptMask, interruptDirty := True\<rparr>"

definition raise_when :: "bool \<Rightarrow> u8 \<Rightarrow> retiring \<Rightarrow> retiring" where
  "raise_when p m t = (if p then raise_if m t else t)"

definition tick_dma :: "retiring \<Rightarrow> retiring" where
  "tick_dma t =
     (let c = tickCpu t in
      if \<not> dmaActive c then t
      else
        (let p = dmaCycleProgress c + 1
         in t\<lparr>tickCpu := (if p \<ge> 0xA0 * 4 then c\<lparr>dmaActive := False, dmaCycleProgress := 0\<rparr> else c\<lparr>dmaCycleProgress := p\<rparr>)\<rparr>))"

definition tick_serial :: "retiring \<Rightarrow> retiring" where
  "tick_serial t =
     (let c = tickCpu t in
      if \<not> serialTransferActive c then t
      else
        (let p = serialCycleProgress c + 1 in
         if p \<ge> 4096 then
           raise_if kInterruptSerial
             (t\<lparr>tickCpu := c\<lparr>serialTransferActive := False, serialCycleProgress := 0\<rparr>, t_sb := 0xFF, t_sc := t_sc t AND 0x7F,
                serialDirty := True\<rparr>)
         else t\<lparr>tickCpu := c\<lparr>serialCycleProgress := p\<rparr>\<rparr>))"

text \<open>A falling edge of the timer signal: the counter reloads and requests an interrupt when it is full.\<close>

definition count_tima :: "u8 \<Rightarrow> retiring \<Rightarrow> retiring" where
  "count_tima tma t =
     (let full = (t_tima t = 0xFF)
      in (raise_when full kInterruptTimer (t\<lparr>t_tima := (if full then tma else t_tima t + 1)\<rparr>))\<lparr>timerDirty := True\<rparr>)"

definition tick_timer :: "u8 \<Rightarrow> u8 \<Rightarrow> retiring \<Rightarrow> retiring" where
  "tick_timer tac tma t =
     (let timerEnabled = (tac AND 0x04 \<noteq> 0); m = timerBitMaskForTac tac; d = dividerCounter (tickCpu t);
          oldSignal = (timerEnabled \<and> d AND m \<noteq> 0); newSignal = (timerEnabled \<and> (d + 1) AND m \<noteq> 0);
          t = t\<lparr>tickCpu := (tickCpu t)\<lparr>dividerCounter := d + 1\<rparr>\<rparr>
      in if oldSignal \<and> \<not> newSignal then count_tima tma t else t)"

definition with_coincidence :: "bool \<Rightarrow> u8 \<Rightarrow> u8" where
  "with_coincidence k stat = (if k then stat OR 0x04 else stat AND NOT 0x04)"

definition mode_at :: "u8 \<Rightarrow> nat \<Rightarrow> u8" where
  "mode_at ly lineDot = (if ly \<ge> 144 then 1 else if lineDot < 80 then 2 else if lineDot < 252 then 3 else 0)"

definition stat_requested :: "bool \<Rightarrow> u8 \<Rightarrow> u8 \<Rightarrow> bool" where
  "stat_requested coincidence mode stat \<longleftrightarrow>
     coincidence \<and> stat AND 0x40 \<noteq> 0 \<or> mode = 0 \<and> stat AND 0x08 \<noteq> 0 \<or> mode = 1 \<and> stat AND 0x10 \<noteq> 0 \<or>
     mode = 2 \<and> stat AND 0x20 \<noteq> 0"

text \<open>The first cycle with the display on restarts the frame.\<close>

definition lcd_restart :: "'w lr \<Rightarrow> 'w lr" where
  "lcd_restart c =
     (if lcdEnabledLastTick c then c else c\<lparr>ppuDotCounter := 0, lcdEnabledLastTick := True, statInterruptLatched := False\<rparr>)"

definition tick_lcd :: "u8 \<Rightarrow> u8 \<Rightarrow> retiring \<Rightarrow> retiring" where
  "tick_lcd lcdc lyc t =
     (if lcdc AND 0x80 = 0 then
        t\<lparr>tickCpu := (tickCpu t)\<lparr>ppuDotCounter := 0, lcdEnabledLastTick := False, statInterruptLatched := False\<rparr>, t_ly := 0,
          lyDirty := True, t_stat := with_coincidence (lyc = 0) (t_stat t AND 0xF8), statDirty := True\<rparr>
      else
        (let c = lcd_restart (tickCpu t); previousLy = ucast (ppuDotCounter c div 456) :: u8;
             dot = (ppuDotCounter c + 1) mod (154 * 456); ly = ucast (dot div 456); lineDot = unat (dot mod 456);
             mode = mode_at ly lineDot; coincidence = (ly = lyc);
             stat = with_coincidence coincidence ((t_stat t AND 0xF8) OR mode);
             requested = stat_requested coincidence mode stat
         in raise_when (previousLy \<noteq> 144 \<and> ly = 144) kInterruptVBlank
              (raise_when (requested \<and> \<not> statInterruptLatched c) kInterruptLcdStat
                (t\<lparr>tickCpu := c\<lparr>ppuDotCounter := dot, statInterruptLatched := requested\<rparr>, t_ly := ly, lyDirty := True,
                   t_stat := stat, statDirty := True\<rparr>))))"

definition tick_cycle :: "u8 \<Rightarrow> u8 \<Rightarrow> u8 \<Rightarrow> u8 \<Rightarrow> retiring \<Rightarrow> retiring" where
  "tick_cycle tac tma lcdc lyc t = tick_lcd lcdc lyc (tick_timer tac tma (tick_serial (tick_dma t)))"

definition begin_retiring :: "gb_core \<Rightarrow> retiring" where
  "begin_retiring c =
     \<lparr>tickCpu = c, t_if = hw c HW_IF, t_sb = hw c HW_SB, t_sc = hw c HW_SC, t_tima = hw c HW_TIMA, t_stat = hw c HW_STAT,
      t_ly = hw c HW_LY, serialDirty = False, timerDirty = False, interruptDirty = False, statDirty = False, lyDirty = False\<rparr>"

text \<open>The registers written back, in the order of the source.\<close>

definition write_back :: "retiring \<Rightarrow> gb_core" where
  "write_back t =
     (let c = tickCpu t; c = put_hw HW_DIV (hi (dividerCounter c)) c;
          c = (if serialDirty t then put_hw HW_SC (t_sc t) (put_hw HW_SB (t_sb t) c) else c);
          c = (if timerDirty t then put_hw HW_TIMA (t_tima t) c else c);
          c = (if lyDirty t then put_hw HW_LY (t_ly t) c else c);
          c = (if statDirty t then put_hw HW_STAT (t_stat t) c else c)
      in if interruptDirty t then put_hw HW_IF (t_if t) c else c)"

definition count_ime_delay :: "'w lr \<Rightarrow> 'w lr" where
  "count_ime_delay c =
     (if imeEnablePending c then
        (if imeEnableDelay c > 0 then c\<lparr>imeEnableDelay := imeEnableDelay c - 1\<rparr>
         else c\<lparr>ime := True, imeEnablePending := False\<rparr>)
      else c)"

definition retireInstruction :: "u32 \<Rightarrow> gb_core \<Rightarrow> gb_core" where
  "retireInstruction cycles c =
     (if cycles = 0 then c
      else
        (let tick = tick_cycle (hw c HW_TAC) (hw c HW_TMA) (hw c HW_LCDC) (hw c HW_LYC);
             t = (tick ^^ unat cycles) (begin_retiring c)
         in count_ime_delay (write_back t)))"

section \<open>One step\<close>

definition cpu_execute :: "u8 list \<Rightarrow> gb_core \<Rightarrow> gb_core" where
  "cpu_execute code c = (let c = execute_steps gb_env code c in retireInstruction (retiredCycles (feedback c)) c)"

definition cpu_fast :: "u8 list \<Rightarrow> gb_core \<Rightarrow> gb_core option" where
  "cpu_fast code c =
     map_option (\<lambda>c. retireInstruction (retiredCycles (feedback c)) c) (tryFastExecuteBytes gb_env code c)"

definition gb_cpu_step :: "bool \<Rightarrow> gb_core \<Rightarrow> gb_core" where
  "gb_cpu_step fastExecutionAllowed c =
     (case fetchInto c of
        (code, c) \<Rightarrow>
          (case (if fastExecutionAllowed then cpu_fast code c else None) of Some c' \<Rightarrow> c' | None \<Rightarrow> cpu_execute code c))"

section \<open>Divider, joypad\<close>

definition resetDivider :: "gb_core \<Rightarrow> gb_core" where
  "resetDivider c =
     (let tac = hw c HW_TAC; oldTimerSignal = (tac AND 0x04 \<noteq> 0 \<and> dividerCounter c AND timerBitMaskForTac tac \<noteq> 0);
          c = c\<lparr>dividerCounter := 0\<rparr>;
          c = (if \<not> oldTimerSignal then c
               else if hw c HW_TIMA = 0xFF then requestInterrupt kInterruptTimer (put_hw HW_TIMA (hw c HW_TMA) c)
               else put_hw HW_TIMA (hw c HW_TIMA + 1) c)
      in put_hw HW_DIV 0 c)"

definition joypadLowNibble :: "'w lr \<Rightarrow> u8" where
  "joypadLowNibble c =
     (let low = 0x0F; low = (if joypSelect c AND 0x10 = 0 then low AND NOT (joypadPressedMask c AND 0x0F) else low);
          low = (if joypSelect c AND 0x20 = 0 then low AND NOT (drop_bit 4 (joypadPressedMask c) AND 0x0F) else low)
      in low AND 0x0F)"

definition setJoypadState :: "u8 \<Rightarrow> gb_core \<Rightarrow> gb_core" where
  "setJoypadState pressedMask c =
     (let oldLow = joypadLowNibble c; oldPressedMask = joypadPressedMask c; c = c\<lparr>joypadPressedMask := pressedMask\<rparr>;
          newLow = joypadLowNibble c; c = put_hw HW_JOYP ((0xC0 OR joypSelect c) OR newLow) c;
          c = (if pressedMask AND NOT oldPressedMask \<noteq> 0 then c\<lparr>stopFlag := False\<rparr> else c)
      in if oldLow AND NOT newLow \<noteq> 0 then requestInterrupt kInterruptJoypad c else c)"

end
