(* ===== verification/GB_FastLaws.thy ===== *)
theory GB_FastLaws
  imports GB_CpuTiming GB_CpuLaws
begin

text \<open>
  The CPU of the Game Boy machine runs the same with and without the fast path: nothing it does depends on the
  feedback of the last instruction, and the fast path differs from the canonical steps only there.
\<close>

section \<open>Nothing depends on the feedback\<close>

abbreviation fb :: "CpuFeedback \<Rightarrow> 'w lr \<Rightarrow> 'w lr" where "fb x c \<equiv> c\<lparr>feedback := x\<rparr>"

lemma fb_if: "a' = fb x a \<Longrightarrow> b' = fb x b \<Longrightarrow> p' = p \<Longrightarrow> (if p' then a' else b') = fb x (if p then a else b)"
  by simp

lemma fb_readR8 [simp]: "readR8 env r (fb x c) = readR8 env r c"
  by (cases r) (simp_all add: lr_read8_def)

lemma fb_writeR8: "writeR8 env r v (fb x c) = fb x (writeR8 env r v c)"
  by (cases r) (simp_all add: lr_write8_def)

lemma fb_registers:
  "accessR16 q (fb x c) = accessR16 q c" "put_R16 q w (fb x c) = fb x (put_R16 q w c)"
  by (cases q; simp)+

lemma fb_stack:
  "accessStackR16 s (fb x c) = accessStackR16 s c" "put_StackR16 s w (fb x c) = fb x (put_StackR16 s w c)"
  by (cases s; simp)+

lemma fb_condition: "conditionHolds k (fb x c) = conditionHolds k c"
  by (cases k) simp_all

lemma fb_small:
  "lr_read8 env a (fb x c) = lr_read8 env a c" "lr_write8 env a v (fb x c) = fb x (lr_write8 env a v c)"
  "lr_write16 env a w (fb x c) = fb x (lr_write16 env a w c)" "lr_setFlags z n h f (fb x c) = fb x (lr_setFlags z n h f c)"
  "updateControlFlowPc w y (fb x c) = fb x (updateControlFlowPc w y c)" "gb_push16 env w (fb x c) = fb x (gb_push16 env w c)"
  "gb_pop16 env (fb x c) = (fst (gb_pop16 env c), fb x (snd (gb_pop16 env c)))"
  "setStopFlag b (fb x c) = fb x (setStopFlag b c)" "setHaltFlag b (fb x c) = fb x (setHaltFlag b c)"
  "setIme b (fb x c) = fb x (setIme b c)" "scheduleImeEnable (fb x c) = fb x (scheduleImeEnable c)"
  "lockUpOnInvalidOpcode (fb x c) = fb x (lockUpOnInvalidOpcode c)" "jump_relative v (fb x c) = fb x (jump_relative v c)"
  "gb_add_hl w (fb x c) = fb x (gb_add_hl w c)" "offset_flags v (fb x c) = fb x (offset_flags v c)"
  by (simp_all add: lr_read8_def lr_read16_def lr_write8_def lr_write16_def lr_setFlags_def updateControlFlowPc_def gb_push16_def gb_pop16_def
      setStopFlag_def setHaltFlag_def setIme_def scheduleImeEnable_def lockUpOnInvalidOpcode_def jump_relative_def gb_add_hl_def
      offset_flags_def Let_def)

lemma fb_daa: "lr_daa (fb x c) = fb x (lr_daa c)"
  by (simp add: lr_daa_def Let_def)

lemma fb_arithmetic:
  "math_step v w (fb x c) = fb x (math_step v w c)" "rotate_accumulator v (fb x c) = fb x (rotate_accumulator v c)"
  unfolding math_step_def rotate_accumulator_def Let_def lr_setFlags_def by simp_all

lemma fb_counts:
  "inc_step env r (fb x c) = fb x (inc_step env r c)" "dec_step env r (fb x c) = fb x (dec_step env r c)"
  unfolding inc_step_def dec_step_def Let_def fb_readR8 fb_writeR8 by (simp_all add: fb_small)

lemma fb_indirect: "indirect_step env v (fb x c) = fb x (indirect_step env v c)"
  unfolding indirect_step_def Let_def by (simp add: fb_small)

lemma fb_cb: "gb_executeCbOpcode env v (fb x c) = fb x (gb_executeCbOpcode env v c)"
  unfolding gb_executeCbOpcode_def Let_def
  by (intro fb_if) (simp_all add: fb_small fb_writeR8 split: prod.split)

lemmas fb_ops = fb_small fb_registers fb_stack fb_condition fb_writeR8 fb_daa fb_arithmetic fb_counts fb_indirect fb_cb

lemma fb_high_memory: "high_memory_step env code (fb x c) = fb x (high_memory_step env code c)"
  unfolding high_memory_step_def Let_def by (intro fb_if) (simp_all add: fb_ops)

lemma fb_flow: "flow_step env code (fb x c) = fb x (flow_step env code c)"
  unfolding flow_step_def Let_def
  by (intro fb_if) (simp_all add: fb_ops fb_high_memory split_def)

lemma fb_opcode: "opcode_step env code (fb x c) = fb x (opcode_step env code c)"
  unfolding opcode_step_def Let_def by (intro fb_if; (rule refl | simp add: fb_ops fb_flow))

text \<open>What \<open>execute\<close> does after the steps.\<close>

definition execute_tail :: "u8 list \<Rightarrow> u16 \<Rightarrow> 'w lr \<Rightarrow> 'w lr" where
  "execute_tail code before c =
     (let n = length code; flow = (code \<noteq> [] \<and> isControlFlowOpcode (code ! 0));
          cycles = (if code = [] then (0, 0) else gb_opcode_cycles code);
          advance = (if haltBugPcAdjustPending c \<and> n > 0 then n - 1 else n);
          c = c\<lparr>haltBugPcAdjustPending := False, rPC := rPC c + of_nat advance\<rparr>;
          charged = pendingCycleCharge c;
          retired = (if charged \<noteq> 0 then charged
                     else if n = 0 \<and> (haltFlag c \<or> stopFlag c \<or> illegalOpcodeLockup c \<or> dmaActive c) then 4
                     else if rPC c \<noteq> before + of_nat n then snd cycles else fst cycles)
      in c\<lparr>pendingCycleCharge := 0,
           feedback := \<lparr>segmentBoundaryHint = flow, isControlFlow = flow, pcBefore = ucast before, pcAfter = ucast (rPC c),
                        retiredCycles = of_nat retired, executionPath = CanonicalFetchDecodeExecute\<rparr>\<rparr>)"

lemma execute_steps_tail:
  "execute_steps env code c = execute_tail code (rPC c) (if code = [] then c else opcode_step env code c)"
  unfolding execute_steps_def execute_tail_def Let_def by (rule refl)

lemma fb_tail: "execute_tail code before (fb x c) = execute_tail code before c"
  unfolding execute_tail_def Let_def by simp

lemma fb_execute: "execute_steps env code (fb x c) = execute_steps env code c"
proof -
  have "(if code = [] then fb x c else opcode_step env code (fb x c)) = fb x (if code = [] then c else opcode_step env code c)"
    by (simp add: fb_opcode)
  then show ?thesis by (simp only: execute_steps_tail fb_tail) simp
qed

section \<open>The machine's CPU\<close>

lemma fb_put_hw: "put_hw r v (fb x c) = fb x (put_hw r v c)"
  by (simp add: put_hw_def)

lemma fb_service: "serviceInterruptIfPending (fb x c) = (fst (serviceInterruptIfPending c), fb x (snd (serviceInterruptIfPending c)))"
  by (simp add: serviceInterruptIfPending_def pending_interrupts_def Let_def put_hw_def lr_write16_def lr_write8_def split: prod.split)

lemma fb_halt: "trigger_halt_bug (fb x c) = fb x (trigger_halt_bug c)"
  by (simp add: trigger_halt_bug_def pending_interrupts_def)

lemma fb_bytes: "fetch_bytes pc (fb x c) = fetch_bytes pc c" "fetch_blocked (fb x c) = fetch_blocked c"
  by (simp_all add: fetch_bytes_def fetch_blocked_def pending_interrupts_def)

lemma fb_fetch: "fetchInto (fb x c) = (fst (fetchInto c), fb x (snd (fetchInto c)))"
  by (simp add: fetchInto_def fb_bytes fb_halt fb_service Let_def split_def)

abbreviation fbt :: "CpuFeedback \<Rightarrow> retiring \<Rightarrow> retiring" where "fbt x t \<equiv> t\<lparr>tickCpu := fb x (tickCpu t)\<rparr>"

lemma fb_raise: "u = fbt x t \<Longrightarrow> raise_if m u = fbt x (raise_if m t)"
  by (simp add: raise_if_def)

lemma fb_raise_when: "u = fbt x t \<Longrightarrow> p' = p \<Longrightarrow> raise_when p' m u = fbt x (raise_when p m t)"
  by (simp add: raise_when_def raise_if_def)

lemma fb_tima: "count_tima tma (fbt x t) = fbt x (count_tima tma t)"
  unfolding count_tima_def Let_def raise_when_def raise_if_def by simp

lemma fb_dma: "tick_dma (fbt x t) = fbt x (tick_dma t)"
  unfolding tick_dma_def Let_def by simp

lemma fb_serial: "tick_serial (fbt x t) = fbt x (tick_serial t)"
  unfolding tick_serial_def Let_def raise_if_def by simp

lemma fb_divider: "fbt x t\<lparr>tickCpu := fb x c\<lparr>dividerCounter := d\<rparr>\<rparr> = fbt x (t\<lparr>tickCpu := c\<lparr>dividerCounter := d\<rparr>\<rparr>)"
  by simp

lemma fb_timer: "tick_timer a b (fbt x t) = fbt x (tick_timer a b t)"
proof -
  have "(fbt x t)\<lparr>tickCpu := (tickCpu (fbt x t))\<lparr>dividerCounter := d\<rparr>\<rparr> = fbt x (t\<lparr>tickCpu := (tickCpu t)\<lparr>dividerCounter := d\<rparr>\<rparr>)" for d
    by simp
  then show ?thesis unfolding tick_timer_def Let_def by (simp only: fb_tima if_distrib [where f = "fbt x"]) auto
qed

lemma fb_restart: "lcd_restart (fb x c) = fb x (lcd_restart c)"
  by (simp add: lcd_restart_def)

lemma fb_lcd: "tick_lcd a b (fbt x t) = fbt x (tick_lcd a b t)"
  unfolding tick_lcd_def Let_def
  by (cases "a AND 0x80 = 0") (simp_all add: fb_restart fb_raise_when)

lemma fb_ticks: "(tick_cycle a b l y ^^ n) (fbt x t) = fbt x ((tick_cycle a b l y ^^ n) t)"
proof (induction n)
  case (Suc n)
  have "tick_cycle a b l y (fbt x t) = fbt x (tick_cycle a b l y t)" for t
    by (simp only: tick_cycle_def fb_dma fb_serial fb_timer fb_lcd)
  then show ?case using Suc by simp
qed simp

lemma fb_write_back: "write_back (fbt x t) = fb x (write_back t)"
  by (simp add: write_back_def fb_put_hw Let_def)

lemma fb_ime: "count_ime_delay (fb x c) = fb x (count_ime_delay c)"
  by (simp add: count_ime_delay_def)

lemma fb_retire: "retireInstruction n (fb x c) = fb x (retireInstruction n c)"
proof -
  have b: "begin_retiring (fb x c) = fbt x (begin_retiring c)" by (simp add: begin_retiring_def)
  show ?thesis by (simp add: retireInstruction_def Let_def b fb_ticks fb_write_back fb_ime)
qed

section \<open>Execution with and without the fast path\<close>

text \<open>The CPU but for the path reported for the last instruction.\<close>

definition path_free :: "'w lr \<Rightarrow> 'w lr" where
  "path_free c = c\<lparr>feedback := (feedback c)\<lparr>executionPath := Unknown\<rparr>\<rparr>"

lemma path_free_eq: "path_free c = path_free d \<Longrightarrow> fb x c = fb x d"
proof -
  assume "path_free c = path_free d"
  then have "fb x (path_free c) = fb x (path_free d)" by (rule arg_cong)
  then show ?thesis by (simp add: path_free_def)
qed

lemma fb_canonical: "cpu_execute code (fb x c) = cpu_execute code c"
  by (simp add: cpu_execute_def fb_execute)

lemma fetched_length: "fst (fetchInto c) \<noteq> [] \<Longrightarrow> length (fst (fetchInto c)) = opcode_length (fst (fetchInto c) ! 0)"
proof -
  have "0 < opcode_length o'" for o' by (simp add: opcode_length_def)
  then show "fst (fetchInto c) \<noteq> [] \<Longrightarrow> length (fst (fetchInto c)) = opcode_length (fst (fetchInto c) ! 0)"
    by (auto simp: fetchInto_def fetch_bytes_def Let_def split_def Suc_leI split: if_splits)
qed

lemma retire_feedback: "feedback (retireInstruction n c) = feedback c"
proof -
  have "feedback (retireInstruction n (fb (feedback c) c)) = feedback c" unfolding fb_retire by simp
  then show ?thesis by simp
qed

lemma fast_canonical:
  assumes "code \<noteq> [] \<Longrightarrow> length code = opcode_length (code ! 0)" and "cpu_fast code c = Some d"
  shows "path_free d = path_free (cpu_execute code c)"
proof -
  let ?e = "execute_steps gb_env code c"
  obtain e where e: "tryFastExecuteBytes gb_env code c = Some e" and d: "d = retireInstruction (retiredCycles (feedback e)) e"
    using assms(2) by (auto simp: cpu_fast_def)
  have ne: "code \<noteq> []" using e by (auto simp: tryFastExecuteBytes_def)
  have "e = fb ((feedback ?e)\<lparr>executionPath := CpuOptimizedFastPath\<rparr>) ?e"
    using fast_path_eq [OF ne assms(1) [OF ne], of gb_env c] e by (simp add: Let_def split: if_splits)
  then show ?thesis by (simp add: d cpu_execute_def Let_def fb_retire path_free_def retire_feedback)
qed

lemma step_paths: "path_free (gb_cpu_step f c) = path_free (gb_cpu_step False c)"
  using fast_canonical [OF fetched_length, of c] by (auto simp: gb_cpu_step_def split_def split: option.split)

lemma step_respects: "path_free c = path_free d \<Longrightarrow> gb_cpu_step False c = gb_cpu_step False d"
proof -
  assume "path_free c = path_free d"
  then have eq: "fb new_feedback c = fb new_feedback d" by (rule path_free_eq)
  have drop: "gb_cpu_step False (fb new_feedback a) = gb_cpu_step False a" for a
    by (simp add: gb_cpu_step_def fb_fetch fb_canonical split_def)
  have "gb_cpu_step False c = gb_cpu_step False (fb new_feedback c)" by (simp only: drop)
  also have "\<dots> = gb_cpu_step False (fb new_feedback d)" by (simp only: eq)
  finally show ?thesis by (simp only: drop)
qed

lemma fast_run_eq:
  "path_free (fold gb_cpu_step allowed c) = path_free ((gb_cpu_step False ^^ length allowed) c)"
proof (induction allowed rule: rev_induct)
  case (snoc f fs)
  have "path_free (fold gb_cpu_step (fs @ [f]) c) = path_free (gb_cpu_step False (fold gb_cpu_step fs c))"
    by (simp add: step_paths [of f])
  then show ?case using step_respects [OF snoc.IH] by simp
qed simp


end
