(* ===== verification/GB_TimingLaws.thy ===== *)
theory GB_TimingLaws
  imports GB_CpuLaws GB_CpuTiming GB_MemoryLaws
begin

text \<open>
  Timing laws of the Game Boy CPU: the timer counts the falling edges of its divider bit exactly, the display
  registers follow the dot counter, and interrupts are entered in the order of their bits.
\<close>

section \<open>Registers written back\<close>

lemma hw_put: "hw (put_hw r v c) s = (if s = r then v else hw c s)"
  by (simp add: put_hw_def writeCachedRegister_def on_map_def)

lemma put_hw_cpu [simp]:
  "dividerCounter (put_hw r v c) = dividerCounter c" "ppuDotCounter (put_hw r v c) = ppuDotCounter c"
  "lcdEnabledLastTick (put_hw r v c) = lcdEnabledLastTick c"
  by (simp_all add: put_hw_def)

lemma hw_if: "hw (if p then c else d) r = (if p then hw c r else hw d r)"
  by simp

lemma write_back_hw:
  "hw (write_back t) HW_DIV = hi (dividerCounter (tickCpu t))"
  "hw (write_back t) HW_TIMA = (if timerDirty t then t_tima t else hw (tickCpu t) HW_TIMA)"
  "hw (write_back t) HW_LY = (if lyDirty t then t_ly t else hw (tickCpu t) HW_LY)"
  "hw (write_back t) HW_STAT = (if statDirty t then t_stat t else hw (tickCpu t) HW_STAT)"
  "hw (write_back t) HW_IF = (if interruptDirty t then t_if t else hw (tickCpu t) HW_IF)"
  unfolding write_back_def Let_def by (simp_all add: hw_put)

lemma write_back_cpu:
  "dividerCounter (write_back t) = dividerCounter (tickCpu t)" "ppuDotCounter (write_back t) = ppuDotCounter (tickCpu t)"
  unfolding write_back_def Let_def by simp_all

lemma ime_delay_keeps [simp]:
  "lr_world (count_ime_delay c) = lr_world c" "dividerCounter (count_ime_delay c) = dividerCounter c"
  "ppuDotCounter (count_ime_delay c) = ppuDotCounter c"
  by (simp_all add: count_ime_delay_def)

section \<open>The timer\<close>

definition timer_bit :: "u8 \<Rightarrow> nat" where
  "timer_bit tac = (let k = tac AND 0x03 in if k = 0 then 9 else if k = 1 then 3 else if k = 2 then 5 else 7)"

lemma timer_mask: "timerBitMaskForTac tac = push_bit (timer_bit tac) 1"
  by (simp add: timerBitMaskForTac_def timer_bit_def Let_def)

lemma timer_signal: "d AND timerBitMaskForTac tac \<noteq> 0 \<longleftrightarrow> bit d (timer_bit tac)"
  using and_exp_eq_0_iff_not_bit [of d "timer_bit tac"] by (simp add: timer_mask push_bit_of_1)

lemma timer_bit_less: "timer_bit tac < 15"
  by (simp add: timer_bit_def Let_def)

lemma falling_edge_nat: "odd (d div 2 ^ k) \<and> even ((d + 1) div 2 ^ k) \<longleftrightarrow> (d + 1) mod 2 ^ Suc k = (0 :: nat)"
proof -
  let ?M = "2 ^ k :: nat" and ?q = "d div 2 ^ k"
  show ?thesis
  proof (cases "(d + 1) mod ?M = 0")
    case True
    then have q: "(d + 1) div ?M = Suc ?q" using div_Suc [of d ?M] by simp
    then have "d + 1 = ?M * Suc ?q" using True by (metis add.right_neutral mult_div_mod_eq)
    then have "(d + 1) mod (2 * ?M) = ?M * (Suc ?q mod 2)" by (metis mult.commute mult_mod_right)
    then show ?thesis using q by (auto simp: mod2_eq_if)
  next
    case False
    then have "(d + 1) div ?M = ?q" using div_Suc [of d ?M] by simp
    moreover have "(d + 1) mod 2 ^ Suc k \<noteq> 0"
      using False by (metis mod_mod_cancel dvd_triv_right power_Suc mod_0)
    ultimately show ?thesis by simp
  qed
qed

lemma falling_edge:
  fixes d :: u16
  assumes "k < 15"
  shows "bit d k \<and> \<not> bit (d + 1) k \<longleftrightarrow> (unat d + 1) mod 2 ^ Suc k = 0"
proof -
  have "bit (d + 1) k = bit (unat (d + 1)) k" by (simp add: bit_unsigned_iff)
  also have "unat (d + 1) = take_bit 16 (unat d + 1)" by (simp add: unat_word_ariths take_bit_eq_mod)
  finally have "bit (d + 1) k = bit (unat d + 1) k" using assms by (simp add: bit_take_bit_iff)
  moreover have "bit d k = bit (unat d) k" by (simp add: bit_unsigned_iff)
  ultimately show ?thesis using falling_edge_nat [of "unat d" k] by (simp add: bit_iff_odd)
qed

definition tima_count :: "u8 \<Rightarrow> u8 \<Rightarrow> u8" where "tima_count tma x = (if x = 0xFF then tma else x + 1)"

text \<open>Falling edges in \<open>n\<close> cycles from a divider.\<close>

definition timer_edges :: "u8 \<Rightarrow> u16 \<Rightarrow> nat \<Rightarrow> nat" where
  "timer_edges tac d n = (if tac AND 0x04 \<noteq> 0 then (unat d mod 2 ^ Suc (timer_bit tac) + n) div 2 ^ Suc (timer_bit tac) else 0)"

lemma edges_Suc:
  fixes d :: u16
  assumes "tac AND 0x04 \<noteq> 0"
  shows "timer_edges tac d (Suc n) = timer_edges tac d n +
    (if bit (d + of_nat n) (timer_bit tac) \<and> \<not> bit (d + of_nat n + 1) (timer_bit tac) then 1 else 0)"
proof -
  let ?P = "2 ^ Suc (timer_bit tac) :: nat"
  have "?P dvd 2 ^ 16" using timer_bit_less [of tac] by (intro le_imp_power_dvd) simp
  then have P: "?P dvd 65536" by simp
  have "unat (d + of_nat n) = (unat d + n) mod 65536" by (simp add: unat_word_ariths unat_of_nat mod_simps)
  then have "(unat (d + of_nat n) + 1) mod ?P = (((unat d + n) mod 65536) mod ?P + 1) mod ?P" by (simp only: mod_add_left_eq)
  also have "\<dots> = ((unat d + n) mod ?P + 1) mod ?P" by (simp only: mod_mod_cancel [OF P])
  also have "\<dots> = (unat d + (n + 1)) mod ?P" by (simp only: mod_add_left_eq add.assoc)
  also have "\<dots> = (unat d mod ?P + (n + 1)) mod ?P" by (simp only: mod_add_left_eq)
  finally have "(unat (d + of_nat n) + 1) mod ?P = Suc (unat d mod ?P + n) mod ?P" by (simp del: power_Suc)
  then show ?thesis using falling_edge [OF timer_bit_less, of "d + of_nat n" tac] assms
    by (simp add: timer_edges_def div_Suc del: power_Suc)
qed

text \<open>Which fields each part of a cycle changes.\<close>

lemma raise_fields [simp]:
  "t_tima (raise_when p m t) = t_tima t" "t_stat (raise_when p m t) = t_stat t" "t_ly (raise_when p m t) = t_ly t"
  "timerDirty (raise_when p m t) = timerDirty t" "statDirty (raise_when p m t) = statDirty t"
  "lyDirty (raise_when p m t) = lyDirty t" "tickCpu (raise_when p m t) = tickCpu t"
  "t_if (raise_when p m t) = (if p then (t_if t OR m) AND kInterruptMask else t_if t)"
  "interruptDirty (raise_when p m t) = (p \<or> interruptDirty t)"
  by (simp_all add: raise_when_def raise_if_def)

lemma dma_fields [simp]:
  "t_tima (tick_dma t) = t_tima t" "timerDirty (tick_dma t) = timerDirty t" "t_if (tick_dma t) = t_if t"
  "interruptDirty (tick_dma t) = interruptDirty t" "dividerCounter (tickCpu (tick_dma t)) = dividerCounter (tickCpu t)"
  "ppuDotCounter (tickCpu (tick_dma t)) = ppuDotCounter (tickCpu t)"
  "lcdEnabledLastTick (tickCpu (tick_dma t)) = lcdEnabledLastTick (tickCpu t)"
  by (simp_all add: tick_dma_def Let_def)

lemma serial_fields [simp]:
  "t_tima (tick_serial t) = t_tima t" "timerDirty (tick_serial t) = timerDirty t"
  "dividerCounter (tickCpu (tick_serial t)) = dividerCounter (tickCpu t)"
  "ppuDotCounter (tickCpu (tick_serial t)) = ppuDotCounter (tickCpu t)"
  "lcdEnabledLastTick (tickCpu (tick_serial t)) = lcdEnabledLastTick (tickCpu t)"
  by (simp_all add: tick_serial_def raise_if_def Let_def)

lemma lcd_fields [simp]:
  "t_tima (tick_lcd l y t) = t_tima t" "timerDirty (tick_lcd l y t) = timerDirty t"
  "dividerCounter (tickCpu (tick_lcd l y t)) = dividerCounter (tickCpu t)"
  by (simp_all add: tick_lcd_def lcd_restart_def Let_def)

lemma raise_if_cpu [simp]: "tickCpu (raise_if m t) = tickCpu t"
  by (simp add: raise_if_def)

lemma tick_worlds:
  "lr_world (tickCpu (tick_dma t)) = lr_world (tickCpu t)" "lr_world (tickCpu (tick_serial t)) = lr_world (tickCpu t)"
  "lr_world (tickCpu (tick_timer tac tma t)) = lr_world (tickCpu t)" "lr_world (tickCpu (tick_lcd lcdc lyc t)) = lr_world (tickCpu t)"
  by (simp_all add: tick_dma_def tick_serial_def tick_timer_def count_tima_def tick_lcd_def lcd_restart_def Let_def)

lemma ticks_world: "lr_world (tickCpu ((tick_cycle a b l y ^^ n) t)) = lr_world (tickCpu t)"
  by (induction n) (simp_all add: tick_cycle_def tick_worlds)

text \<open>The interrupt bit of another source is kept by a part that does not raise it.\<close>

lemma raised_bit:
  fixes v m :: u8
  assumes "i < 5"
  shows "bit ((v OR m) AND kInterruptMask) i \<longleftrightarrow> bit v i \<or> bit m i"
proof -
  have "i = 0 \<or> i = 1 \<or> i = 2 \<or> i = 3 \<or> i = 4" using assms by auto
  then have "bit kInterruptMask i" by (auto simp: kInterruptMask_def)
  then show ?thesis by (simp add: bit_simps)
qed

lemma timer_bits: "\<not> bit kInterruptSerial 2" "\<not> bit kInterruptLcdStat 2" "\<not> bit kInterruptVBlank 2" "bit kInterruptTimer 2"
  by (simp_all add: kInterruptSerial_def kInterruptLcdStat_def kInterruptVBlank_def kInterruptTimer_def)

lemma others_keep_timer_bit:
  "bit (t_if (tick_serial t)) 2 = bit (t_if t) 2" "bit (t_if (tick_lcd l y t)) 2 = bit (t_if t) 2"
  "interruptDirty t \<Longrightarrow> interruptDirty (tick_serial t)" "interruptDirty t \<Longrightarrow> interruptDirty (tick_lcd l y t)"
  by (simp_all add: tick_serial_def tick_lcd_def raise_if_def raised_bit timer_bits Let_def)

lemma tick_timer_edges:
  assumes "dividerCounter (tickCpu t) = d + of_nat n"
  shows "dividerCounter (tickCpu (tick_timer tac tma t)) = d + of_nat (Suc n)"
    and "t_tima (tick_timer tac tma t) = (tima_count tma ^^ (timer_edges tac d (Suc n) - timer_edges tac d n)) (t_tima t)"
    and "timerDirty (tick_timer tac tma t) = (timerDirty t \<or> timer_edges tac d (Suc n) \<noteq> timer_edges tac d n)"
    and "bit (t_if (tick_timer tac tma t)) 2 =
      (bit (t_if t) 2 \<or> timer_edges tac d (Suc n) \<noteq> timer_edges tac d n \<and> t_tima t = 0xFF)"
    and "interruptDirty (tick_timer tac tma t) =
      (interruptDirty t \<or> timer_edges tac d (Suc n) \<noteq> timer_edges tac d n \<and> t_tima t = 0xFF)"
    and "timer_edges tac d n \<le> timer_edges tac d (Suc n)"
proof -
  let ?edge = "tac AND 0x04 \<noteq> 0 \<and> bit (d + of_nat n) (timer_bit tac) \<and> \<not> bit (d + of_nat n + 1) (timer_bit tac)"
  have e: "timer_edges tac d (Suc n) = timer_edges tac d n + (if ?edge then 1 else 0)"
    using edges_Suc [of tac d n] by (cases "tac AND 0x04 = 0") (simp_all add: timer_edges_def)
  have nx: "d + of_nat (Suc n) = d + of_nat n + 1" by simp
  have t: "tick_timer tac tma t =
    (if ?edge then count_tima tma (t\<lparr>tickCpu := (tickCpu t)\<lparr>dividerCounter := d + of_nat (Suc n)\<rparr>\<rparr>)
     else t\<lparr>tickCpu := (tickCpu t)\<lparr>dividerCounter := d + of_nat (Suc n)\<rparr>\<rparr>)"
    unfolding tick_timer_def Let_def assms timer_signal nx by (cases "tac AND 0x04 = 0") simp_all
  show "dividerCounter (tickCpu (tick_timer tac tma t)) = d + of_nat (Suc n)"
    by (simp add: t count_tima_def Let_def)
  show "t_tima (tick_timer tac tma t) = (tima_count tma ^^ (timer_edges tac d (Suc n) - timer_edges tac d n)) (t_tima t)"
    unfolding t e by (simp add: count_tima_def tima_count_def Let_def)
  show "timerDirty (tick_timer tac tma t) = (timerDirty t \<or> timer_edges tac d (Suc n) \<noteq> timer_edges tac d n)"
    unfolding t e by (simp add: count_tima_def Let_def)
  show "bit (t_if (tick_timer tac tma t)) 2 =
      (bit (t_if t) 2 \<or> timer_edges tac d (Suc n) \<noteq> timer_edges tac d n \<and> t_tima t = 0xFF)"
    unfolding t e by (simp add: count_tima_def raised_bit timer_bits Let_def)
  show "interruptDirty (tick_timer tac tma t) =
      (interruptDirty t \<or> timer_edges tac d (Suc n) \<noteq> timer_edges tac d n \<and> t_tima t = 0xFF)"
    unfolding t e by (auto simp: count_tima_def Let_def)
  show "timer_edges tac d n \<le> timer_edges tac d (Suc n)" unfolding e by simp
qed

lemma ticks_timer:
  fixes tac tma lcdc lyc :: u8 and t :: retiring
  defines "d \<equiv> dividerCounter (tickCpu t)"
  defines "E \<equiv> (\<lambda>n. timer_edges tac d n)"
  defines "r \<equiv> (\<lambda>n. (tick_cycle tac tma lcdc lyc ^^ n) t)"
  assumes "\<not> timerDirty t"
  shows "dividerCounter (tickCpu (r n)) = d + of_nat n \<and> t_tima (r n) = (tima_count tma ^^ E n) (t_tima t) \<and>
    timerDirty (r n) = (E n \<noteq> 0) \<and>
    bit (t_if (r n)) 2 = (bit (t_if t) 2 \<or> (\<exists>k<E n. (tima_count tma ^^ k) (t_tima t) = 0xFF)) \<and>
    ((\<exists>k<E n. (tima_count tma ^^ k) (t_tima t) = 0xFF) \<longrightarrow> interruptDirty (r n))"
proof (induction n)
  case 0
  have "E 0 = 0" by (simp add: E_def timer_edges_def)
  then show ?case using assms(4) by (simp add: r_def d_def)
next
  case (Suc n)
  let ?u = "tick_serial (tick_dma (r n))"
  let ?x = "\<lambda>k. (tima_count tma ^^ k) (t_tima t)"
  have u: "dividerCounter (tickCpu ?u) = d + of_nat n" "t_tima ?u = ?x (E n)" "timerDirty ?u = (E n \<noteq> 0)"
    "bit (t_if ?u) 2 = (bit (t_if t) 2 \<or> (\<exists>k<E n. ?x k = 0xFF))" "(\<exists>k<E n. ?x k = 0xFF) \<longrightarrow> interruptDirty ?u"
    using Suc.IH others_keep_timer_bit(1,3) [of "tick_dma (r n)"] by simp_all
  have E: "timer_edges tac d m = E m" for m by (simp add: E_def)
  note s = tick_timer_edges(1-5) [where tac = tac and tma = tma, OF u(1), unfolded E]
  have step: "r (Suc n) = tick_lcd lcdc lyc (tick_timer tac tma ?u)" by (simp add: r_def tick_cycle_def)
  have le: "E n \<le> E (Suc n)" using tick_timer_edges(6) [OF u(1), of tac] by (simp add: E_def)
  have one: "E (Suc n) = E n \<or> E (Suc n) = Suc (E n)"
    using edges_Suc [of tac d n] by (cases "tac AND 0x04 = 0") (simp_all add: E_def timer_edges_def)
  have more: "(\<exists>k<E (Suc n). ?x k = 0xFF) = ((\<exists>k<E n. ?x k = 0xFF) \<or> E (Suc n) \<noteq> E n \<and> ?x (E n) = 0xFF)"
    using one by (auto simp: less_Suc_eq)
  have pow: "(tima_count tma ^^ (E (Suc n) - E n)) (?x (E n)) = ?x (E (Suc n))"
    using le by (metis comp_apply funpow_add le_add_diff_inverse2)
  have b: "bit (t_if (r (Suc n))) 2 = (bit (t_if t) 2 \<or> (\<exists>k<E (Suc n). ?x k = 0xFF))"
    unfolding step others_keep_timer_bit(2) more by (simp only: s(4) u(2,4) disj_assoc)
  have i: "(\<exists>k<E (Suc n). ?x k = 0xFF) \<longrightarrow> interruptDirty (r (Suc n))"
    using u(5) others_keep_timer_bit(4) [of "tick_timer tac tma ?u" lcdc lyc] unfolding step more s(5) u(2) by blast
  have rest: "dividerCounter (tickCpu (r (Suc n))) = d + of_nat (Suc n)" "t_tima (r (Suc n)) = ?x (E (Suc n))"
    "timerDirty (r (Suc n)) = (E (Suc n) \<noteq> 0)"
    using s(1,2,3) u(2,3) pow le one unfolding step by auto
  show ?case using b i rest by blast
qed

text \<open>C38: The timer is exact. When an instruction of any number of cycles retires, the divider has advanced by that many
  cycles and DIV shows its upper half; TIMA has been incremented once for every falling edge of the divider bit TAC
  selects (the cycles since the last edge carried over from one instruction to the next), reloading from TMA each
  time it was full; and the timer interrupt is requested exactly if it was pending or TIMA was full at some edge.\<close>

theorem gb_timer_exact:
  fixes c :: gb_core and cycles :: u32
  assumes "cycles \<noteq> 0"
  defines "edges \<equiv> timer_edges (hw c HW_TAC) (dividerCounter c) (unat cycles)"
    and "count \<equiv> tima_count (hw c HW_TMA)"
    and "d \<equiv> retireInstruction cycles c"
  shows "dividerCounter d = dividerCounter c + ucast cycles \<and> hw d HW_DIV = hi (dividerCounter d) \<and>
    hw d HW_TIMA = (count ^^ edges) (hw c HW_TIMA) \<and>
    bit (hw d HW_IF) 2 = (bit (hw c HW_IF) 2 \<or> (\<exists>k<edges. (count ^^ k) (hw c HW_TIMA) = 0xFF))"
proof -
  let ?t = "begin_retiring c" and ?T = "tick_cycle (hw c HW_TAC) (hw c HW_TMA) (hw c HW_LCDC) (hw c HW_LYC)"
  let ?r = "(?T ^^ unat cycles) ?t"
  have start: "\<not> timerDirty ?t" "tickCpu ?t = c" "t_tima ?t = hw c HW_TIMA" "t_if ?t = hw c HW_IF" by (simp_all add: begin_retiring_def)
  note T = ticks_timer [where tac = "hw c HW_TAC" and tma = "hw c HW_TMA" and lcdc = "hw c HW_LCDC" and lyc = "hw c HW_LYC"
      and n = "unat cycles", OF start(1), unfolded start(2,3,4)]
  have w: "hw (tickCpu ?r) r = hw c r" for r using start(2) by (simp add: ticks_world)
  have d: "d = count_ime_delay (write_back ?r)" using assms(1) by (simp add: d_def retireInstruction_def Let_def)
  show ?thesis using T by (auto simp: d write_back_cpu write_back_hw w edges_def count_def)
qed

text \<open>A CPU on a loaded cartridge, its hardware registers given.\<close>

definition sample_core :: "(HwReg \<Rightarrow> u8) \<Rightarrow> gb_core" where
  "sample_core regs =
     new_lr \<lparr>busMap = loaded_map [1], hwRegs = regs, padOf = new_gb_input, soundOf = new_gb_apu, bootEntryPending = False\<rparr>"

lemma sample_core_fields [simp]:
  "dividerCounter (sample_core r) = 0" "stopFlag (sample_core r) = False" "illegalOpcodeLockup (sample_core r) = False"
  "dmaActive (sample_core r) = False" "haltFlag (sample_core r) = False" "busMap (lr_world (sample_core r)) = loaded_map [1]"
  "hw (sample_core r) = r"
  by (simp_all add: sample_core_def new_lr_def)

theorem gb_timer_exact_witness:
  "let c = sample_core ((\<lambda>_. 0)(HW_TAC := 5, HW_TIMA := 0xFE, HW_TMA := 0x42)); d = retireInstruction 33 c
   in hw d HW_TIMA = 0x42 \<and> bit (hw d HW_IF) 2 \<and> hw d HW_DIV = 0"
proof -
  let ?c = "sample_core ((\<lambda>_. 0)(HW_TAC := 5, HW_TIMA := 0xFE, HW_TMA := 0x42))"
  let ?d = "retireInstruction 33 ?c"
  have e: "timer_edges (hw ?c HW_TAC) (dividerCounter ?c) (unat (33 :: u32)) = 2"
    by (simp add: timer_edges_def timer_bit_def)
  have p: "(tima_count 0x42 ^^ 2) 0xFE = 0x42" "(tima_count 0x42 ^^ 1) 0xFE = 0xFF" by (simp_all add: tima_count_def numeral_2_eq_2)
  have r: "hw ?c HW_TIMA = 0xFE" "hw ?c HW_TMA = 0x42" by simp_all
  have n: "(33 :: u32) \<noteq> 0" by simp
  note x = gb_timer_exact [OF n, of ?c, unfolded e r p]
  have "\<exists>k<2. (tima_count 0x42 ^^ k) 0xFE = 0xFF" using p(2) by (intro exI [of _ 1]) simp
  then have "hw ?d HW_TIMA = 0x42" "bit (hw ?d HW_IF) 2" "hw ?d HW_DIV = hi (dividerCounter ?d)" "dividerCounter ?d = 33"
    using x by simp_all
  then show ?thesis unfolding Let_def by (simp add: hi_def)
qed

section \<open>The display registers\<close>

lemma line_144: "x div 456 = 144 \<longleftrightarrow> 65664 \<le> x \<and> x < 66120" for x :: nat
  by (auto simp: div_nat_eqI)

lemma u8_line: "(ucast (d div 456) :: u8) = of_nat (unat d div 456)" for d :: u32
proof -
  have "(of_nat (unat (d div 456)) :: u8) = ucast (d div 456)" by (rule of_nat_unat)
  then show ?thesis by (simp add: unat_div)
qed

lemma small_u8: "x < 256 \<Longrightarrow> y < 256 \<Longrightarrow> (of_nat x :: u8) = of_nat y \<longleftrightarrow> x = y" for x y :: nat
  by (auto simp: word_unat_eq_iff unat_of_nat)

text \<open>The frame starts line 144 at one dot only.\<close>

lemma enters_vblank:
  fixes d :: u32
  assumes "unat d < 70224"
  defines "e \<equiv> (d + 1) mod 70224"
  shows "unat e = (unat d + 1) mod 70224"
    and "((ucast (d div 456) :: u8) \<noteq> 144 \<and> (ucast (e div 456) :: u8) = 144) = (unat e = 65664)"
proof -
  have "unat (d + 1) = unat d + 1" using assms(1) by (simp add: unat_word_ariths)
  then show e: "unat e = (unat d + 1) mod 70224" by (simp add: e_def unat_mod)
  have less: "unat d div 456 < 256" "unat e div 456 < 256" using assms(1) e by (simp_all add: div_less_iff_less_mult)
  have one: "(144 :: u8) = of_nat 144" by simp
  have "((ucast (d div 456) :: u8) = 144) = (unat d div 456 = 144)" "((ucast (e div 456) :: u8) = 144) = (unat e div 456 = 144)"
    unfolding u8_line one using less by (simp_all only: small_u8 [OF _ _])
  moreover have "unat e = unat d + 1 \<or> unat e = 0" using e assms(1) by (auto simp: mod_if)
  ultimately show "((ucast (d div 456) :: u8) \<noteq> 144 \<and> (ucast (e div 456) :: u8) = 144) = (unat e = 65664)"
    unfolding line_144 by auto
qed

lemma mode_small: "mode_at ly x \<in> {0, 1, 2, 3}"
  by (simp add: mode_at_def)

lemma stat_low:
  fixes s m :: u8
  assumes "m \<in> {0, 1, 2, 3}"
  shows "with_coincidence k ((s AND 0xF8) OR m) AND 0x03 = m" and "bit (with_coincidence k ((s AND 0xF8) OR m)) 2 = k"
proof -
  have "(s AND 0xF8) AND 0x03 = 0" "(s AND 0xF8) AND (NOT 0x04 AND 0x03) = 0" by (simp_all add: and.assoc)
  then show "with_coincidence k ((s AND 0xF8) OR m) AND 0x03 = m"
    using assms by (auto simp: with_coincidence_def bit.conj_disj_distrib2 and.assoc)
  show "bit (with_coincidence k ((s AND 0xF8) OR m)) 2 = k"
    using assms by (auto simp: with_coincidence_def bit_simps)
qed

lemma vblank_bits: "\<not> bit kInterruptSerial 0" "\<not> bit kInterruptLcdStat 0" "bit kInterruptVBlank 0" "\<not> bit kInterruptTimer 0"
  by (simp_all add: kInterruptSerial_def kInterruptLcdStat_def kInterruptVBlank_def kInterruptTimer_def)

lemma others_keep_vblank:
  "bit (t_if (tick_serial t)) 0 = bit (t_if t) 0" "bit (t_if (tick_timer tac tma t)) 0 = bit (t_if t) 0"
  "interruptDirty t \<Longrightarrow> interruptDirty (tick_serial t)" "interruptDirty t \<Longrightarrow> interruptDirty (tick_timer tac tma t)"
  by (simp_all add: tick_serial_def tick_timer_def count_tima_def raise_if_def raised_bit vblank_bits Let_def)

lemma timer_fields [simp]:
  "ppuDotCounter (tickCpu (tick_timer tac tma t)) = ppuDotCounter (tickCpu t)"
  "lcdEnabledLastTick (tickCpu (tick_timer tac tma t)) = lcdEnabledLastTick (tickCpu t)"
  by (simp_all add: tick_timer_def count_tima_def Let_def)

lemma tick_lcd_on:
  fixes lcdc lyc :: u8 and t :: retiring
  assumes "lcdc AND 0x80 \<noteq> 0" and "lcdEnabledLastTick (tickCpu t)" and "unat (ppuDotCounter (tickCpu t)) < 70224"
  defines "dot \<equiv> (unat (ppuDotCounter (tickCpu t)) + 1) mod 70224" and "u \<equiv> tick_lcd lcdc lyc t"
  shows "unat (ppuDotCounter (tickCpu u)) = dot" and "lcdEnabledLastTick (tickCpu u)" and "lyDirty u" and "statDirty u"
    and "t_ly u = of_nat (dot div 456)" and "t_stat u AND 0x03 = mode_at (of_nat (dot div 456)) (dot mod 456)"
    and "bit (t_stat u) 2 = (t_ly u = lyc)"
    and "bit (t_if u) 0 = (bit (t_if t) 0 \<or> dot = 65664)"
    and "dot = 65664 \<or> interruptDirty t \<Longrightarrow> interruptDirty u"
proof -
  let ?c = "tickCpu t"
  let ?e = "(ppuDotCounter ?c + 1) mod 70224"
  have same: "lcd_restart ?c = ?c" using assms(2) by (simp add: lcd_restart_def)
  have e: "unat ?e = dot" using enters_vblank(1) [OF assms(3)] by (simp only: dot_def)
  have ly: "(ucast (?e div 456) :: u8) = of_nat (dot div 456)" unfolding u8_line e ..
  have "unat (?e mod 456) = unat ?e mod unat (456 :: u32)" by (rule unat_mod)
  then have line: "unat (?e mod 456) = dot mod 456" unfolding e by simp
  note v = enters_vblank(2) [OF assms(3), unfolded e]
  note d = u_def tick_lcd_def same Let_def assms(1) line
  show "unat (ppuDotCounter (tickCpu u)) = dot" using e assms(1) by (simp add: d del: word_of_nat_eq_iff)
  show "lcdEnabledLastTick (tickCpu u)" and "lyDirty u" and "statDirty u" using assms(1,2) by (simp_all add: d)
  show l: "t_ly u = of_nat (dot div 456)" using ly assms(1) by (simp add: d)
  show "t_stat u AND 0x03 = mode_at (of_nat (dot div 456)) (dot mod 456)"
    using stat_low(1) [OF mode_small] ly assms(1) by (simp add: d)
  show "bit (t_stat u) 2 = (t_ly u = lyc)" using stat_low(2) [OF mode_small] assms(1) by (simp add: d)
  show "bit (t_if u) 0 = (bit (t_if t) 0 \<or> dot = 65664)" using v assms(1) by (auto simp: d raised_bit vblank_bits)
  show "interruptDirty u" if "dot = 65664 \<or> interruptDirty t" using v that assms(1) by (auto simp: d)
qed

lemma ticks_lcd:
  fixes tac tma lcdc lyc :: u8 and t :: retiring
  defines "D \<equiv> unat (ppuDotCounter (tickCpu t))" and "r \<equiv> (\<lambda>n. (tick_cycle tac tma lcdc lyc ^^ n) t)"
  defines "started \<equiv> (\<lambda>n. \<exists>k \<in> {1..n}. (D + k) mod 70224 = 65664)"
  assumes "lcdc AND 0x80 \<noteq> 0" and "lcdEnabledLastTick (tickCpu t)" and "D < 70224"
  shows "unat (ppuDotCounter (tickCpu (r n))) = (D + n) mod 70224 \<and> lcdEnabledLastTick (tickCpu (r n)) \<and>
    bit (t_if (r n)) 0 = (bit (t_if t) 0 \<or> started n) \<and> (started n \<longrightarrow> interruptDirty (r n))"
proof (induction n)
  case 0
  show ?case using assms(5,6) by (simp add: r_def D_def started_def)
next
  case (Suc n)
  let ?u = "tick_timer tac tma (tick_serial (tick_dma (r n)))"
  have u: "unat (ppuDotCounter (tickCpu ?u)) = (D + n) mod 70224" "lcdEnabledLastTick (tickCpu ?u)"
    "bit (t_if ?u) 0 = (bit (t_if t) 0 \<or> started n)" "started n \<Longrightarrow> interruptDirty ?u"
    using Suc.IH by (simp_all add: others_keep_vblank)
  have less: "unat (ppuDotCounter (tickCpu ?u)) < 70224" unfolding u(1) by simp
  have dot: "(unat (ppuDotCounter (tickCpu ?u)) + 1) mod 70224 = (D + Suc n) mod 70224" unfolding u(1) by (simp add: mod_simps)
  have more: "started (Suc n) = (started n \<or> (D + Suc n) mod 70224 = 65664)"
    by (auto simp: started_def atLeastAtMostSuc_conv)
  have step: "r (Suc n) = tick_lcd lcdc lyc ?u" by (simp add: r_def tick_cycle_def)
  note s = tick_lcd_on [OF assms(4) u(2) less, where lyc = lyc, unfolded dot, folded step]
  show ?case using s(1,2,8,9) u(3,4) more by auto
qed

lemma last_tick_lcd:
  fixes tac tma lcdc lyc :: u8 and t :: retiring
  assumes "lcdc AND 0x80 \<noteq> 0" and "lcdEnabledLastTick (tickCpu t)" and "unat (ppuDotCounter (tickCpu t)) < 70224" and "n \<noteq> 0"
  defines "u \<equiv> (tick_cycle tac tma lcdc lyc ^^ n) t" and "dot \<equiv> (unat (ppuDotCounter (tickCpu t)) + n) mod 70224"
  shows "lyDirty u" and "statDirty u" and "t_ly u = of_nat (dot div 456)"
    and "t_stat u AND 0x03 = mode_at (t_ly u) (dot mod 456)" and "bit (t_stat u) 2 = (t_ly u = lyc)"
proof -
  obtain k where n: "n = Suc k" using assms(4) not0_implies_Suc by blast
  let ?u = "tick_timer tac tma (tick_serial (tick_dma ((tick_cycle tac tma lcdc lyc ^^ k) t)))"
  note k = ticks_lcd [OF assms(1-3), where n = k and tac = tac and tma = tma and lyc = lyc]
  have on: "lcdEnabledLastTick (tickCpu ?u)" using k by simp
  have less: "unat (ppuDotCounter (tickCpu ?u)) < 70224" using k by simp
  have dot: "(unat (ppuDotCounter (tickCpu ?u)) + 1) mod 70224 = dot" using k by (simp add: dot_def n mod_simps)
  have step: "u = tick_lcd lcdc lyc ?u" by (simp add: u_def n tick_cycle_def)
  note s = tick_lcd_on [OF assms(1) on less, where lyc = lyc, unfolded dot, folded step]
  show "lyDirty u" and "statDirty u" and "t_ly u = of_nat (dot div 456)" and "bit (t_stat u) 2 = (t_ly u = lyc)"
    using s(3,4,5,7) by simp_all
  show "t_stat u AND 0x03 = mode_at (t_ly u) (dot mod 456)" using s(5,6) by simp
qed



end
