(* ===== verification/GB_BusLaws.thy ===== *)
theory GB_BusLaws
  imports GB_FastLaws GB_TimingLaws GB_MemoryLaws
begin

text \<open>
  Laws of the Game Boy CPU on its bus: what every bus write keeps is kept by every instruction, and the CPU's cached
  hardware registers stay equal to the bytes the program reads on the bus.
\<close>

section \<open>Register cells\<close>

lemma cached_iff: "cachedIoRegisterForAddress a = Some r \<longleftrightarrow> r \<noteq> HW_JOYP \<and> hw_address r = a"
  by (cases r) (auto simp: cachedIoRegisterForAddress_def split: if_splits)

lemma hw_address_resolved [simp]: "resolveEchoAddress (hw_address r) = hw_address r"
  by (cases r) (simp_all add: resolveEchoAddress_def word_le_nat_alt)

lemma hw_address_eq: "hw_address r = hw_address s \<longleftrightarrow> r = s"
  by (cases r; cases s) simp_all

definition reg_cell :: "gb_map \<Rightarrow> HwReg \<Rightarrow> u8" where
  "reg_cell m r = (if r = HW_IE then hram m ! 0x7F else ioRegs m ! (unat (hw_address r) - 0xFF00))"

lemma reg_cell_bus: "map_sizes m \<Longrightarrow> peek m (hw_address r) = reg_cell m r"
  unfolding peek_def hw_address_resolved by (cases r) (simp_all add: readRaw_nat reg_cell_def map_sizes_def Let_def)

lemma set_raw_sizes: "map_sizes (setIoRegisterRaw a v m) = map_sizes m"
  by (simp add: setIoRegisterRaw_def map_sizes_def)

lemma set_raw_cell:
  "map_sizes m \<Longrightarrow> reg_cell (setIoRegisterRaw (hw_address r) v m) s = (if s = r then v else reg_cell m s)"
  by (cases r; cases s) (simp_all add: setIoRegisterRaw_def set_io_def reg_cell_def map_sizes_def word_le_nat_alt word_less_nat_alt)

text \<open>The cells of the cached registers after a store.\<close>

lemma special_cells:
  assumes "map_sizes m"
  shows "map_sizes (snd (handleSpecialWrite a v m))" and "reg_cell (snd (handleSpecialWrite a v m)) r = reg_cell m r"
proof -
  have mc: "map_sizes (snd (mapper_control mb a v m)) \<and> reg_cell (snd (mapper_control mb a v m)) r = reg_cell m r" for mb
    using assms by (simp add: mapper_control_def Let_def map_sizes_def reg_cell_def split: prod.split)
  have rw: "map_sizes (snd (handleCartridgeRamWrite a v m)) \<and> reg_cell (snd (handleCartridgeRamWrite a v m)) r = reg_cell m r"
    using assms by (simp add: handleCartridgeRamWrite_def map_sizes_def reg_cell_def split: prod.split option.split)
  have boot: "map_sizes (setIoRegisterRaw 0xFF50 v (m\<lparr>bootRomActive := False\<rparr>)) \<and>
    reg_cell (setIoRegisterRaw 0xFF50 v (m\<lparr>bootRomActive := False\<rparr>)) r = reg_cell m r"
    using assms by (cases r) (simp_all add: setIoRegisterRaw_def set_io_def map_sizes_def reg_cell_def)
  show "map_sizes (snd (handleSpecialWrite a v m))" and "reg_cell (snd (handleSpecialWrite a v m)) r = reg_cell m r"
    using mc rw boot assms by (simp_all add: handleSpecialWrite_def)
qed

lemma raw_cell:
  assumes "map_sizes m" and "hw_address r \<noteq> a" and "resolveEchoAddress a = a"
  shows "reg_cell (writeRaw a v m) r = reg_cell m r"
proof (cases "0xFF00 \<le> a \<and> a < 0xFF80")
  case True
  have "hw_address r = a" if "unat (a - 0xFF00) = unat (hw_address r) - 0xFF00" "r \<noteq> HW_IE"
  proof -
    have "unat (a - 0xFF00) = unat a - 0xFF00" using True unat_offset [of "0xFF00" a] by simp
    moreover have "0xFF00 \<le> unat (hw_address r)" "0xFF00 \<le> unat a" using True by (cases r; simp add: word_le_nat_alt)+
    ultimately show ?thesis using that by (metis diff_diff_cancel eq_diff_iff word_unat_eq_iff)
  qed
  then have ne: "r \<noteq> HW_IE \<Longrightarrow> unat (a - 0xFF00) \<noteq> unat (hw_address r) - 0xFF00" using assms(2) by blast
  have "ioRegs (writeRaw a v m) ! i = ioRegs m ! i" if "i \<noteq> unat (a - 0xFF00)" for i
    using that True by (auto simp: writeRaw_def set_io_def dma_facts word_le_nat_alt word_less_nat_alt)
  moreover have "hram (writeRaw a v m) = hram m"
    using True by (auto simp: writeRaw_def dma_facts word_le_nat_alt word_less_nat_alt)
  ultimately show ?thesis using ne by (auto simp: reg_cell_def)
next
  case False
  have "ioRegs (writeRaw a v m) = ioRegs m" using False by (auto simp: writeRaw_def)
  moreover have "hram (writeRaw a v m) ! 0x7F = hram m ! 0x7F" if "a \<noteq> 0xFFFF"
  proof -
    have "unat (a - 0xFF80) \<noteq> 0x7F" if "0xFF80 \<le> a"
    proof
      assume "unat (a - 0xFF80) = 0x7F"
      then have "a - 0xFF80 = 0x7F" by (simp add: word_unat_eq_iff)
      then have "a = 0x7F + 0xFF80" by (simp only: diff_eq_eq)
      then show False using \<open>a \<noteq> 0xFFFF\<close> by simp
    qed
    then show ?thesis using False that by (auto simp: writeRaw_def)
  qed
  ultimately show ?thesis using assms(2) by (auto simp: reg_cell_def)
qed

lemma store_cells:
  assumes "map_sizes m"
  shows "map_sizes (store a v m)"
    and "hw_address r \<noteq> a \<Longrightarrow> resolveEchoAddress a = a \<Longrightarrow> reg_cell (store a v m) r = reg_cell m r"
  using special_cells [OF assms, of a v] raw_cell [of "snd (handleSpecialWrite a v m)" r a v] writeRaw_sizes [of "snd (handleSpecialWrite a v m)" a v]
  by (simp_all add: store_def split_def)

lemma observer_cells: "map_sizes (cartridge_observer a v m) = map_sizes m" "reg_cell (cartridge_observer a v m) r = reg_cell m r"
  by (simp_all add: cartridge_observer_def map_sizes_def reg_cell_def)

section \<open>The mirror\<close>

text \<open>The CPU's copies of the registers in \<open>R\<close> are what the bus shows.\<close>

definition mirrored :: "HwReg set \<Rightarrow> gb_world \<Rightarrow> bool" where
  "mirrored R w \<longleftrightarrow> map_sizes (busMap w) \<and> (\<forall>r \<in> R. hwRegs w r = bus_read (busMap w) (hw_address r))"

lemma mirrored_cells: "mirrored R w \<longleftrightarrow> map_sizes (busMap w) \<and> (\<forall>r \<in> R. hwRegs w r = reg_cell (busMap w) r)"
  by (auto simp: mirrored_def bus_read_def reg_cell_bus)

lemma write_cached_mirrored: "mirrored R w \<Longrightarrow> mirrored R (writeCachedRegister r v w)"
  by (auto simp: mirrored_cells writeCachedRegister_def on_map_def set_raw_sizes set_raw_cell)

lemma on_map_cells:
  assumes "mirrored R w" and "map_sizes (f (busMap w)) = map_sizes (busMap w)" and "\<forall>r \<in> R. reg_cell (f (busMap w)) r = reg_cell (busMap w) r"
  shows "mirrored R (on_map f w)"
  using assms by (auto simp: mirrored_cells on_map_def)

lemma other_io_cell:
  "reg_cell (setIoRegisterRaw 0xFF26 v m) r = reg_cell m r" "r \<noteq> HW_JOYP \<Longrightarrow> reg_cell (setIoRegisterRaw 0xFF00 v m) r = reg_cell m r"
  by (cases r; simp add: setIoRegisterRaw_def set_io_def reg_cell_def)+

lemma sync_mirrored: "mirrored R w \<Longrightarrow> mirrored R (syncCachedIoRegisterWrite a v w)"
  by (simp add: syncCachedIoRegisterWrite_def write_cached_mirrored split: option.split)

text \<open>After a store the register written is the only one that may differ; the observer brings it back.\<close>

lemma observed_mirrored:
  fixes v :: u8
  assumes "mirrored R w" and "HW_JOYP \<notin> R" and "resolveEchoAddress a = a"
  defines "k \<equiv> on_map (store a v) w"
  defines "x \<equiv> (if a \<ge> 0xFF00 \<and> a < 0xFF80 \<or> a = 0xFFFF then peek (busMap k) a else v)"
  shows "mirrored R (syncCachedIoRegisterWrite a x k)"
proof -
  have sizes: "map_sizes (busMap w)" "map_sizes (busMap k)" using assms(1) store_cells(1) by (simp_all add: mirrored_def k_def on_map_def)
  have others: "hwRegs k r = reg_cell (busMap k) r" if "r \<in> R" "hw_address r \<noteq> a" for r
    using that assms(1,3) store_cells(2) [OF sizes(1), of r a v] by (simp add: mirrored_cells k_def on_map_def)
  show ?thesis
  proof (cases "\<exists>r \<in> R. hw_address r = a")
    case False
    then have "mirrored R k" using others sizes by (auto simp: mirrored_cells)
    then show ?thesis by (rule sync_mirrored)
  next
    case True
    then obtain r where r: "r \<in> R" "hw_address r = a" by blast
    then have c: "cachedIoRegisterForAddress a = Some r" using assms(2) cached_iff by blast
    have io: "a \<ge> 0xFF00 \<and> a < 0xFF80 \<or> a = 0xFFFF"
      unfolding r(2) [symmetric] by (cases r) (simp_all add: word_le_nat_alt word_less_nat_alt)
    have x: "x = reg_cell (busMap k) r"
      using reg_cell_bus [OF sizes(2), of r] io by (simp add: x_def r(2))
    have "hwRegs (writeCachedRegister r x k) s = reg_cell (busMap (writeCachedRegister r x k)) s" if "s \<in> R" for s
      using that others [of s] sizes x r hw_address_eq [of s r]
      by (auto simp: writeCachedRegister_def on_map_def set_raw_cell)
    moreover have "map_sizes (busMap (writeCachedRegister r x k))" using sizes by (simp add: writeCachedRegister_def on_map_def set_raw_sizes)
    ultimately show ?thesis by (simp add: syncCachedIoRegisterWrite_def c assms(3) mirrored_cells)
  qed
qed

lemma world_write_mirrored:
  assumes "mirrored R w" and "HW_JOYP \<notin> R"
  shows "mirrored R (world_write a v w)"
proof -
  define q where "q = resolveEchoAddress a"
  have res: "resolveEchoAddress q = q" using resolved_not_echo [of a] by (auto simp: q_def resolveEchoAddress_def)
  let ?k = "on_map (store q v) w"
  let ?x = "if q \<ge> 0xFF00 \<and> q < 0xFF80 \<or> q = 0xFFFF then peek (busMap ?k) q else v"
  define u where "u = syncCachedIoRegisterWrite q ?x ?k"
  have sync: "mirrored R u" unfolding u_def by (rule observed_mirrored [OF assms res])
  have ne: "r \<noteq> HW_JOYP" if "r \<in> R" for r using that assms(2) by blast
  have pad: "mirrored R (on_map (setIoRegisterRaw 0xFF00 y) u)" if "mirrored R u" for y u
    using that ne by (intro on_map_cells) (simp_all add: set_raw_sizes other_io_cell)
  have sound: "mirrored R (on_map (setIoRegisterRaw 0xFF26 y) u)" if "mirrored R u" for y u
    using that by (intro on_map_cells) (simp_all add: set_raw_sizes other_io_cell)
  have cart: "mirrored R (on_map (cartridge_observer q v) u)" if "mirrored R u" for u
    using that by (intro on_map_cells) (simp_all add: observer_cells)
  have frame: "mirrored R (u\<lparr>padOf := p\<rparr>) = mirrored R u" "mirrored R (u\<lparr>soundOf := s\<rparr>) = mirrored R u"
    "mirrored R (u\<lparr>bootEntryPending := b\<rparr>) = mirrored R u" for u p s b by (simp_all add: mirrored_def)
  show ?thesis
    unfolding world_write_def machine_observer_def Let_def q_def [symmetric] u_def [symmetric]
    using sync by (intro cart) (simp add: frame pad sound sync_mirrored)
qed

section \<open>What instructions do to the world\<close>

text \<open>A property of the world that every bus write keeps is kept by every instruction.\<close>

locale world_invariant =
  fixes env :: "'w gb_memory" and P :: "'w \<Rightarrow> bool"
  assumes write_keeps: "P w \<Longrightarrow> P (wr8 env a v w)"
begin

abbreviation keeps :: "'w lr \<Rightarrow> bool" where "keeps c \<equiv> P (lr_world c)"

lemma write8_keeps: "keeps c \<Longrightarrow> keeps (lr_write8 env a v c)"
  by (simp add: lr_write8_def write_keeps)

lemma write16_keeps: "keeps c \<Longrightarrow> keeps (lr_write16 env a v c)"
  by (simp add: lr_write16_def write8_keeps)

lemma push_keeps: "keeps c \<Longrightarrow> keeps (gb_push16 env v c)"
  by (simp add: gb_push16_def write16_keeps Let_def)

lemma writeR8_keeps: "keeps c \<Longrightarrow> keeps (writeR8 env r v c)"
  by (cases r) (simp_all add: write8_keeps)

lemma registers_keep:
  "lr_world (put_R16 r w c) = lr_world c" "lr_world (put_StackR16 s w c) = lr_world c" "lr_world (lr_setFlags z n h f c) = lr_world c"
  "lr_world (updateControlFlowPc w y c) = lr_world c" "lr_world (setStopFlag b c) = lr_world c" "lr_world (setHaltFlag b c) = lr_world c"
  "lr_world (setIme b c) = lr_world c" "lr_world (scheduleImeEnable c) = lr_world c" "lr_world (lockUpOnInvalidOpcode c) = lr_world c"
  "lr_world (jump_relative v c) = lr_world c" "lr_world (gb_add_hl w c) = lr_world c" "lr_world (offset_flags v c) = lr_world c"
  "lr_world (lr_daa c) = lr_world c" "lr_world (rotate_accumulator v c) = lr_world c" "lr_world (math_step v x c) = lr_world c"
  "lr_world (snd (gb_pop16 env c)) = lr_world c"
  by (cases r, simp_all) (cases s, simp_all, simp_all add: lr_setFlags_def updateControlFlowPc_def setStopFlag_def setHaltFlag_def
      setIme_def scheduleImeEnable_def lockUpOnInvalidOpcode_def jump_relative_def gb_add_hl_def offset_flags_def lr_daa_def
      rotate_accumulator_def math_step_def gb_pop16_def Let_def)

lemma arithmetic_keeps:
  "keeps c \<Longrightarrow> keeps (gb_executeCbOpcode env v c)" "keeps c \<Longrightarrow> keeps (inc_step env r c)" "keeps c \<Longrightarrow> keeps (dec_step env r c)"
  "keeps c \<Longrightarrow> keeps (indirect_step env v c)"
  by (simp_all add: gb_executeCbOpcode_def inc_step_def dec_step_def indirect_step_def Let_def writeR8_keeps registers_keep
      write8_keeps split: prod.split)

lemma keeps_if: "keeps a \<Longrightarrow> keeps b \<Longrightarrow> keeps (if p then a else b)"
  by simp

lemma after_pop_keeps:
  assumes "keeps c"
  shows "keeps (let (target, c) = gb_pop16 env c in updateControlFlowPc target y c)"
    and "keeps (let (target, c) = gb_pop16 env c in setIme s (updateControlFlowPc target y c))"
    and "keeps (let (v, c) = gb_pop16 env c in put_StackR16 r (f v) c)"
  using assms by (simp_all add: gb_pop16_def registers_keep)

lemma high_memory_keeps: "keeps c \<Longrightarrow> keeps (high_memory_step env code c)"
  unfolding high_memory_step_def Let_def by (intro keeps_if; simp add: write8_keeps registers_keep)

lemma flow_keeps: "keeps c \<Longrightarrow> keeps (flow_step env code c)"
  unfolding flow_step_def Let_def
  by (intro keeps_if; simp add: after_pop_keeps [unfolded Let_def] high_memory_keeps registers_keep push_keeps arithmetic_keeps)

lemma step_keeps: "keeps c \<Longrightarrow> keeps (opcode_step env code c)"
  unfolding opcode_step_def Let_def
  by (intro keeps_if) (simp_all add: registers_keep write16_keeps writeR8_keeps arithmetic_keeps flow_keeps)

lemma execute_keeps: "keeps c \<Longrightarrow> keeps (execute_steps env code c)"
  by (simp add: execute_steps_def step_keeps Let_def)

end

lemma wr8_env: "wr8 gb_env = world_write"
  by (simp add: gb_env_def)

interpretation mirror: world_invariant gb_env "mirrored (R - {HW_JOYP})" for R
  by unfold_locales (simp add: wr8_env world_write_mirrored)

lemma put_hw_mirrored: "mirrored R (lr_world c) \<Longrightarrow> mirrored R (lr_world (put_hw r v c))"
  by (simp add: put_hw_def write_cached_mirrored)

lemma service_mirrored:
  assumes "mirrored (R - {HW_JOYP}) (lr_world c)"
  shows "mirrored (R - {HW_JOYP}) (lr_world (snd (serviceInterruptIfPending c)))"
  using assms by (simp add: serviceInterruptIfPending_def Let_def put_hw_mirrored mirror.write16_keeps split: prod.split)

lemma fetch_mirrored:
  assumes "mirrored (R - {HW_JOYP}) (lr_world c)"
  shows "mirrored (R - {HW_JOYP}) (lr_world (snd (fetchInto c)))"
proof -
  have "mirrored (R - {HW_JOYP}) (lr_world (snd (serviceInterruptIfPending (trigger_halt_bug c))))"
    using assms by (intro service_mirrored) (simp add: trigger_halt_bug_def)
  then show ?thesis using assms by (simp add: fetchInto_def Let_def split_def)
qed

lemma write_back_mirrored: "mirrored R (lr_world (tickCpu t)) \<Longrightarrow> mirrored R (lr_world (write_back t))"
  by (simp add: write_back_def Let_def put_hw_mirrored)

lemma retire_mirrored: "mirrored R (lr_world c) \<Longrightarrow> mirrored R (lr_world (retireInstruction n c))"
  by (simp add: retireInstruction_def count_ime_delay_def Let_def write_back_mirrored ticks_world begin_retiring_def)

lemma execute_mirrored:
  assumes "mirrored (R - {HW_JOYP}) (lr_world c)"
  shows "mirrored (R - {HW_JOYP}) (lr_world (cpu_execute code c))"
  using assms by (simp add: cpu_execute_def Let_def retire_mirrored mirror.execute_keeps)

lemma step_mirrored:
  assumes "mirrored (R - {HW_JOYP}) (lr_world c)"
  shows "mirrored (R - {HW_JOYP}) (lr_world (gb_cpu_step False c))"
  using assms by (simp add: gb_cpu_step_def split_def execute_mirrored fetch_mirrored)

lemma run_mirrored:
  assumes "mirrored (R - {HW_JOYP}) (lr_world c)"
  shows "mirrored (R - {HW_JOYP}) (lr_world (fold gb_cpu_step allowed c))"
proof -
  have "mirrored (R - {HW_JOYP}) (lr_world ((gb_cpu_step False ^^ n) c))" for n
    using assms by (induction n) (simp_all add: step_mirrored)
  moreover have "lr_world (path_free e) = lr_world e" for e by (simp add: path_free_def)
  ultimately show ?thesis by (metis fast_run_eq)
qed


text \<open>The sample CPU with its copies taken from the bus.\<close>

definition mirrored_core :: gb_core where
  "mirrored_core = sample_core (\<lambda>r. bus_read (loaded_map [1]) (hw_address r))"

lemma mirrored_core_parts:
  "busMap (lr_world mirrored_core) = loaded_map [1]" "hw mirrored_core r = bus_read (loaded_map [1]) (hw_address r)"
  "map_sizes (busMap (lr_world mirrored_core))"
  using loaded_map_ok(5) [of "[1]"] by (simp_all add: mirrored_core_def sample_core_def new_lr_def)


section \<open>Entering an interrupt\<close>

lemma mask_bit: "p AND push_bit k 1 \<noteq> 0 \<longleftrightarrow> bit p k" for p :: u8
  using and_exp_eq_0_iff_not_bit [of p k] by (simp add: push_bit_of_1)

lemma interrupt_masks:
  "kInterruptVBlank = push_bit 0 1" "kInterruptLcdStat = push_bit 1 1" "kInterruptTimer = push_bit 2 1"
  "kInterruptSerial = push_bit 3 1" "kInterruptJoypad = push_bit 4 1"
  by (simp_all add: kInterruptVBlank_def kInterruptLcdStat_def kInterruptTimer_def kInterruptSerial_def kInterruptJoypad_def)

lemma pending_bits:
  assumes "pending_interrupts c \<noteq> 0"
  shows "\<exists>k<5. bit (pending_interrupts c) k" and "bit (pending_interrupts c) k \<Longrightarrow> k < 5"
proof -
  have m: "bit kInterruptMask k \<longleftrightarrow> k < 5" for k
    using bit_mask_iff [of 5 k, where 'a = "8 word"] by (auto simp: kInterruptMask_def mask_eq_exp_minus_1)
  then show "bit (pending_interrupts c) k \<Longrightarrow> k < 5" for k by (simp add: pending_interrupts_def bit_and_iff)
  moreover have "\<exists>k. bit (pending_interrupts c) k" using assms by (metis bit_eq_iff bit_0_eq bot_apply bot_bool_def)
  ultimately show "\<exists>k<5. bit (pending_interrupts c) k" by blast
qed

text \<open>The first pending source is the one of the lowest bit.\<close>

lemma choice_least:
  fixes p :: u8
  assumes "bit p i" and "i < 5"
  defines "k \<equiv> LEAST k. bit p k"
  shows "interrupt_choice p = (push_bit k 1, 0x40 + 8 * of_nat k)"
proof -
  have k: "bit p k" "k \<le> i" unfolding k_def by (rule LeastI [of "bit p", OF assms(1)], rule Least_le [of "bit p", OF assms(1)])
  have low: "\<not> bit p j" if "j < k" for j by (rule not_less_Least [of j "bit p"]) (use that in \<open>simp only: k_def\<close>)
  have "k = 0 \<or> k = 1 \<or> k = 2 \<or> k = 3 \<or> k = 4" using k(2) assms(2) by linarith
  then show ?thesis
    unfolding interrupt_choice_def interrupt_masks mask_bit
    by (elim disjE) (use k(1) low [of 0] low [of 1] low [of 2] low [of 3] in simp_all)
qed

lemma world_write_plain:
  assumes "plain_ram a"
  shows "hwRegs (world_write a v w) = hwRegs w" and "busMap (world_write a v w) = bus_write cartridge_observer a v (busMap w)"
proof -
  let ?r = "resolveEchoAddress a"
  have region: "(0x8000 \<le> ?r \<and> ?r < 0xA000) \<or> (0xC000 \<le> ?r \<and> ?r < 0xE000) \<or> (0xFF80 \<le> ?r \<and> ?r < 0xFFFF)"
    using assms by (simp add: plain_ram_def Let_def)
  then have n: "?r \<noteq> 0xFF00" "\<not> (?r \<ge> 0xFF10 \<and> ?r \<le> 0xFF26)" "\<not> (?r \<ge> 0xFF30 \<and> ?r \<le> 0xFF3F)" "?r \<noteq> 0xFF50"
    by (auto simp: word_le_nat_alt word_less_nat_alt)
  have "hw_address r \<noteq> ?r" for r using region by (cases r) (auto simp: word_le_nat_alt word_less_nat_alt)
  then have c: "cachedIoRegisterForAddress ?r = None" using cached_iff [of ?r] by (cases "cachedIoRegisterForAddress ?r") auto
  have res: "resolveEchoAddress ?r = ?r" using resolved_not_echo [of a] by (auto simp: resolveEchoAddress_def)
  have m: "machine_observer ?r x k = on_map (cartridge_observer ?r x) k" for x k
    unfolding machine_observer_def Let_def syncCachedIoRegisterWrite_def res c using n by auto
  show "hwRegs (world_write a v w) = hwRegs w" and "busMap (world_write a v w) = bus_write cartridge_observer a v (busMap w)"
    unfolding world_write_def Let_def m by (simp_all add: on_map_def bus_write_def Let_def)
qed

lemma put_hw_fields [simp]:
  "ime (put_hw r v c) = ime c" "rSP (put_hw r v c) = rSP c" "rPC (put_hw r v c) = rPC c" "haltFlag (put_hw r v c) = haltFlag c"
  by (simp_all add: put_hw_def)

lemma put_hw_sizes: "map_sizes (busMap (lr_world (put_hw r v c))) = map_sizes (busMap (lr_world c))"
  by (simp add: put_hw_def writeCachedRegister_def on_map_def set_raw_sizes)

lemma next_cell: "resolveEchoAddress (a + 1) \<noteq> resolveEchoAddress a"
  by (simp add: resolveEchoAddress_def diff_eq_eq)

lemma write16_plain:
  assumes "map_sizes (busMap (lr_world c))" and "plain_ram a" and "plain_ram (a + 1)"
  shows "lr_read16 gb_env a (lr_write16 gb_env a v c) = v" and "hw (lr_write16 gb_env a v c) = hw c"
  using assms next_cell [of a]
  by (simp_all add: lr_read16_def lr_write16_def lr_write8_def gb_env_def world_write_plain plain_write)

text \<open>C40: Interrupts are entered as the hardware does it. When the CPU is not blocked, interrupts are enabled and some source is
  enabled and requested, fetching runs no instruction and enters the pending source of the lowest number k
  (VBlank, LCD, timer, serial, joypad): the program counter is \<open>0x40 + 8 * k\<close>, only that source's request is
  cleared, interrupts are disabled, HALT ends, 20 cycles are charged, and the interrupted address lies on the stack
  (a stack in work, video or high RAM), where the handler's return finds it.\<close>

theorem interrupt_entry:
  assumes "\<not> fetch_blocked c" and "ime c" and "pending_interrupts c \<noteq> 0"
    and "map_sizes (busMap (lr_world c))" and "plain_ram (rSP c - 2)" and "plain_ram (rSP c - 1)"
  defines "k \<equiv> LEAST k. bit (pending_interrupts c) k" and "d \<equiv> snd (fetchInto c)"
  shows "fst (fetchInto c) = [] \<and> rPC d = 0x40 + 8 * of_nat k \<and>
    hw d = (hw c)(HW_IF := hw c HW_IF AND NOT (push_bit k 1)) \<and> \<not> ime d \<and> \<not> imeEnablePending d \<and> \<not> haltFlag d \<and>
    pendingCycleCharge d = 20 \<and> rSP d = rSP c - 2 \<and> lr_read16 gb_env (rSP d) d = rPC c"
proof -
  obtain i where i: "i < 5" "bit (pending_interrupts c) i" using pending_bits(1) [OF assms(3)] by blast
  note ch = choice_least [OF i(2,1), folded k_def]
  have h: "trigger_halt_bug c = c" using assms(2) by (simp add: trigger_halt_bug_def)
  let ?p = "put_hw HW_IF (hw c HW_IF AND NOT (push_bit k 1)) (c\<lparr>haltFlag := False\<rparr>)"
  let ?q = "?p\<lparr>ime := False, imeEnablePending := False, imeEnableDelay := 0, rSP := rSP c - 2\<rparr>"
  have next_sp: "rSP c - 2 + 1 = rSP c - 1" by simp
  have sizes: "map_sizes (busMap (lr_world ?q))" using put_hw_sizes assms(4) by simp
  note w = write16_plain [OF sizes, of "rSP c - 2" "rPC c", unfolded next_sp, OF assms(5,6)]
  let ?r = "lr_write16 gb_env (rSP c - 2) (rPC c) ?q"
  have r: "ime ?r = ime ?q" "imeEnablePending ?r = imeEnablePending ?q" "haltFlag ?r = haltFlag ?q" "rSP ?r = rSP ?q"
    by (simp_all add: lr_write16_def lr_write8_def)
  have f: "fetchInto c = ([], ?r\<lparr>rPC := 0x40 + 8 * of_nat k, pendingCycleCharge := 20\<rparr>)"
    using assms(1-3) by (simp add: fetchInto_def h serviceInterruptIfPending_def ch Let_def)
  have q: "hw ?q = (hw c)(HW_IF := hw c HW_IF AND NOT (push_bit k 1))" by (rule ext) (simp add: hw_put)
  have unmoved: "lr_read16 gb_env a (?r\<lparr>rPC := x, pendingCycleCharge := y\<rparr>) = lr_read16 gb_env a ?r" for a x y
    by (simp add: lr_read16_def)
  show ?thesis unfolding d_def f using w r q unmoved by (simp add: fun_eq_iff)
qed

theorem interrupt_entry_witness:
  "let c = (sample_core ((\<lambda>_. 0)(HW_IE := 0x1F, HW_IF := 0x14)))\<lparr>ime := True, rSP := 0xDFFE, rPC := 0x1234\<rparr>; d = snd (fetchInto c)
   in rPC d = 0x50 \<and> hw d HW_IF = 0x10 \<and> lr_read16 gb_env 0xDFFC d = 0x1234"
proof -
  let ?c = "(sample_core ((\<lambda>_. 0)(HW_IE := 0x1F, HW_IF := 0x14)))\<lparr>ime := True, rSP := 0xDFFE, rPC := 0x1234\<rparr>"
  have p: "pending_interrupts ?c = 0x14" by (simp add: pending_interrupts_def kInterruptMask_def)
  have k: "(LEAST k. bit (0x14 :: u8) k) = 2"
  proof (rule Least_equality)
    show "2 \<le> k" if "bit (0x14 :: u8) k" for k using that by (cases k; cases "k - 1") simp_all
  qed simp
  let ?d = "snd (fetchInto ?c)"
  have f: "\<not> fetch_blocked ?c" "ime ?c" "pending_interrupts ?c \<noteq> 0" "map_sizes (busMap (lr_world ?c))"
    "plain_ram (rSP ?c - 2)" "plain_ram (rSP ?c - 1)"
    unfolding p using loaded_map_ok(5) [of "[1]"] by (simp_all add: fetch_blocked_def plain_ram_def resolveEchoAddress_def)
  note x = interrupt_entry [OF f, unfolded p k]
  obtain r: "rPC ?d = 0x40 + 8 * of_nat 2" "hw ?d = (hw ?c)(HW_IF := hw ?c HW_IF AND NOT (push_bit 2 1))"
    "rSP ?d = rSP ?c - 2" "lr_read16 gb_env (rSP ?d) ?d = rPC ?c" using x by blast
  have "rPC ?d = 0x50" using r(1) by simp
  moreover have "hw ?d HW_IF = 0x10" unfolding r(2) by simp
  moreover have "lr_read16 gb_env 0xDFFC ?d = 0x1234" using r(4) unfolding r(3) by simp
  ultimately show ?thesis unfolding Let_def by blast
qed

end
