(* ===== verification/Spec2Isabelle.thy ===== *)
theory Spec2Isabelle
  imports SpscQueue SaveState GG_Cartridge GG_Mappers GG_MapperFactory GG_Input GG_PSG Z80_Decimal Z80_State GG_VDP_RenderLaws GG_Idle GB_MemoryLaws GB_CpuLaws GB_APULaws GB_Input GB_BusLaws
begin

text \<open>
  Proto-Time, verified core.
\<close>

end
